(* ===== verification/C_Prelude.thy ===== *)
theory C_Prelude
  imports Complex_Main "HOL-Library.Word" "HOL-Library.Signed_Division"
begin

text \<open>
  Shared vocabulary of the development. The sources are C for a 32-bit ARM target
  (src/BoardConfig.mk: armv7-a), so \<open>int\<close>, \<open>unsigned long\<close>, \<open>size_t\<close> and pointers are
  32 bits wide. This theory fixes

  \<^item> the fixed-width integer types;
  \<^item> the faults a C expression can run into (undefined behaviour is a value of the model,
    never silently totalised away);
  \<^item> system and library calls: every call that leaves the repository's code is answered by an
    environment, a function of the whole history of earlier calls, and is recorded in a trace
    together with its answer;
  \<^item> the interfaces the components are used through: an invariant every step keeps, possibly
    under a condition on the caller; a simulation by an abstract step function; a history of
    environment calls that only grows.
\<close>

unbundle bit_operations_syntax

named_theorems trace_simps \<open>what one environment call does to a trace\<close>
named_theorems const_defs \<open>definitions of the constants of the sources\<close>

type_synonym u8 = "8 word"
type_synonym u16 = "16 word"
type_synonym u32 = "32 word"
type_synonym u64 = "64 word"
type_synonym s32 = "32 word" \<comment> \<open>a C \<open>int\<close>, read with \<open>sint\<close>\<close>
type_synonym ulong = "32 word" \<comment> \<open>\<open>unsigned long\<close> on 32-bit ARM\<close>

section \<open>Faults\<close>

datatype fault =
    Null_Deref        \<comment> \<open>access through a null object pointer\<close>
  | Null_Call         \<comment> \<open>call through a null function pointer\<close>
  | Uninit_Use        \<comment> \<open>use of an uninitialised pointer variable\<close>
  | Buffer_Overflow   \<comment> \<open>a write past the end of an array\<close>
  | Read_Past_End     \<comment> \<open>a read past the terminating NUL of a string\<close>
  | Type_Confusion    \<comment> \<open>a structure read through a pointer to a different structure\<close>
  | Dangling_Deref    \<comment> \<open>access through a pointer to no live object\<close>

type_synonym 'a result = "fault + 'a"

section \<open>Error numbers of the C library\<close>

definition EINVAL :: int where [const_defs]: "EINVAL = 22"
definition ENOBUFS :: int where [const_defs]: "ENOBUFS = 105"

section \<open>Environment calls and their trace\<close>

type_synonym ('c, 'r) trace = "('c \<times> 'r) list"
type_synonym ('c, 'r) env = "('c, 'r) trace \<Rightarrow> 'c \<Rightarrow> 'r"

definition ask :: "('c, 'r) env \<Rightarrow> 'c \<Rightarrow> ('c, 'r) trace \<Rightarrow> 'r \<times> ('c, 'r) trace" where
  "ask env c tr = (env tr c, tr @ [(c, env tr c)])"

section \<open>Runs\<close>

text \<open>A run performs a list of operations one after the other.\<close>

abbreviation run :: "('op \<Rightarrow> 's \<Rightarrow> 's) \<Rightarrow> 'op list \<Rightarrow> 's \<Rightarrow> 's" where
  "run step ops s \<equiv> fold step ops s"

section \<open>Interfaces\<close>

text \<open>
  A component whose operations keep an invariant as long as each meets a condition its caller
  has to respect.
\<close>

locale guarded_system =
  fixes step :: "'op \<Rightarrow> 's \<Rightarrow> 's"
    and inv :: "'s \<Rightarrow> bool"
    and ok :: "'op \<Rightarrow> bool"
  assumes guarded_step: "inv s \<Longrightarrow> ok op \<Longrightarrow> inv (step op s)"
begin

lemma guarded_run: "inv s \<Longrightarrow> list_all ok ops \<Longrightarrow> inv (run step ops s)"
  by (induction ops arbitrary: s) (simp_all add: guarded_step)

end

text \<open>A component whose operations keep an invariant, whatever the caller does.\<close>

locale invariant_system =
  fixes step :: "'op \<Rightarrow> 's \<Rightarrow> 's"
    and inv :: "'s \<Rightarrow> bool"
  assumes step_inv: "inv s \<Longrightarrow> inv (step op s)"
begin

lemma run_inv: "inv s \<Longrightarrow> inv (run step ops s)"
  by (induction ops arbitrary: s) (simp_all add: step_inv)

end

sublocale invariant_system \<subseteq> unguarded: guarded_system step inv "\<lambda>_. True"
  by unfold_locales (rule step_inv)

text \<open>
  A component that refines an abstract step function through an abstraction of its state.
\<close>

locale simulation = invariant_system step inv
  for step :: "'op \<Rightarrow> 's \<Rightarrow> 's" and inv :: "'s \<Rightarrow> bool" +
  fixes abst :: "'s \<Rightarrow> 'a"
    and astep :: "'op \<Rightarrow> 'a \<Rightarrow> 'a"
  assumes abst_step: "inv s \<Longrightarrow> abst (step op s) = astep op (abst s)"
begin

lemma abst_run: "inv s \<Longrightarrow> abst (run step ops s) = run astep ops (abst s)"
  by (induction ops arbitrary: s) (simp_all add: step_inv abst_step)

end

text \<open>
  A component that only ever extends the history of its environment calls: what happened
  before an operation is never rewritten by it.
\<close>

locale trace_recorder =
  fixes step :: "'op \<Rightarrow> 's \<Rightarrow> 's"
    and trace_of :: "'s \<Rightarrow> ('c, 'r) trace"
  assumes extends: "\<exists>ext. trace_of (step op s) = trace_of s @ ext"
begin

lemma run_extends: "\<exists>ext. trace_of (run step ops s) = trace_of s @ ext"
proof (induction ops arbitrary: s)
  case Nil
  show ?case by simp
next
  case (Cons op ops)
  obtain e1 where e1: "trace_of (step op s) = trace_of s @ e1"
    using extends by blast
  obtain e2 where e2: "trace_of (run step ops (step op s)) = trace_of (step op s) @ e2"
    using Cons.IH by blast
  show ?case by (simp add: e1 e2)
qed

lemma run_keeps_calls: "set (trace_of s) \<subseteq> set (trace_of (run step ops s))"
proof -
  obtain ext where "trace_of (run step ops s) = trace_of s @ ext"
    using run_extends by blast
  then show ?thesis by simp
qed

end

text \<open>
  A component whose steps are a relation, because other threads decide what happens next. As
  long as an invariant holds, every step makes a measure smaller and a state that cannot step is
  final: then no run is infinite and every run can be completed.
\<close>

locale step_system =
  fixes trans :: "'s \<Rightarrow> 's \<Rightarrow> bool"
    and inv :: "'s \<Rightarrow> bool"
  assumes trans_inv: "inv s \<Longrightarrow> trans s t \<Longrightarrow> inv t"
begin

lemma reach_inv: "trans\<^sup>*\<^sup>* s t \<Longrightarrow> inv s \<Longrightarrow> inv t"
  by (induction rule: rtranclp_induct) (auto intro: trans_inv)

end

locale ending_system = step_system trans inv
  for trans :: "'s \<Rightarrow> 's \<Rightarrow> bool" and inv :: "'s \<Rightarrow> bool" +
  fixes work :: "'s \<Rightarrow> nat"
    and final :: "'s \<Rightarrow> bool"
  assumes work_less: "inv s \<Longrightarrow> trans s t \<Longrightarrow> work t < work s"
    and progress: "inv s \<Longrightarrow> \<not> final s \<Longrightarrow> \<exists>t. trans s t"
begin

lemma run_work: "inv (f 0) \<Longrightarrow> (\<And>k. trans (f k) (f (Suc k))) \<Longrightarrow> inv (f k) \<and> work (f k) + k \<le> work (f 0)"
proof (induction k)
  case 0
  then show ?case by simp
next
  case (Suc k)
  then have "inv (f k)" and "work (f k) + k \<le> work (f 0)" by auto
  with work_less [OF \<open>inv (f k)\<close> Suc.prems(2)] trans_inv [OF \<open>inv (f k)\<close> Suc.prems(2)]
  show ?case by simp
qed

lemma no_infinite_run:
  assumes "inv s"
  shows "\<not> (\<exists>f. f 0 = s \<and> (\<forall>k. trans (f k) (f (Suc k))))"
proof
  assume "\<exists>f. f 0 = s \<and> (\<forall>k. trans (f k) (f (Suc k)))"
  then obtain f where "f 0 = s" and "\<And>k. trans (f k) (f (Suc k))" by blast
  with run_work [of f "Suc (work s)"] assms show False by auto
qed

lemma completes: "inv s \<Longrightarrow> \<exists>t. trans\<^sup>*\<^sup>* s t \<and> final t"
proof (induction "work s" arbitrary: s rule: less_induct)
  case less
  show ?case
  proof (cases "final s")
    case True
    then show ?thesis by blast
  next
    case False
    then obtain t where "trans s t" using progress less.prems by blast
    with less.hyps [OF work_less trans_inv] less.prems show ?thesis
      by (meson converse_rtranclp_into_rtranclp)
  qed
qed

end

section \<open>Generic lemmas\<close>

lemma fst_ask [trace_simps]: "fst (ask env c tr) = env tr c"
  by (simp add: ask_def)

lemma snd_ask [trace_simps]: "snd (ask env c tr) = tr @ [(c, env tr c)]"
  by (simp add: ask_def)

lemma word_and_mask_le:
  fixes x m :: "'a::len word"
  shows "uint (x AND m) \<le> uint m"
  using word_and_le1 [of x m] by (simp add: word_le_def)

lemma uint_sub_byte_le: "uint ((drop_bit n x) AND (255 :: u32)) \<le> 255"
  using word_and_mask_le [of "drop_bit n x" "255 :: u32"] by simp

end
