(* ===== verification/C_Text.thy ===== *)
theory C_Text
  imports C_Prelude
begin

text \<open>
  What the sources use of the C string library: the conversions of \<open>snprintf\<close> that occur in
  them (\<open>%d\<close>, \<open>%u\<close>, \<open>%llu\<close>, \<open>%02x\<close>, \<open>%02X\<close>, \<open>%08X\<close>, \<open>%.1f\<close>), the bounded write of \<open>snprintf\<close> into
  a buffer, \<open>strtol\<close> with base 0 and \<open>atoi\<close>, prefix comparison with and without case, and
  \<open>strchr\<close>. A C string is the list of its characters before the terminating NUL; a buffer is
  the list of all its bytes, NULs included. The lemmas show that printing a number and reading
  it back is the identity, how long a printed number can be, and what a chain of guarded
  \<open>snprintf\<close> calls leaves in its buffer.
\<close>

section \<open>Digits\<close>

fun to_base :: "nat \<Rightarrow> nat \<Rightarrow> nat list" where
  "to_base b n = (if b < 2 \<or> n < b then [n] else to_base b (n div b) @ [n mod b])"

declare to_base.simps [simp del]

definition of_base :: "nat \<Rightarrow> nat list \<Rightarrow> nat" where
  "of_base b ds = foldl (\<lambda>acc d. acc * b + d) 0 ds"

definition digit_lower :: "nat \<Rightarrow> char" where
  "digit_lower d = char_of (if d < 10 then 48 + d else 87 + d)"

definition digit_upper :: "nat \<Rightarrow> char" where
  "digit_upper d = char_of (if d < 10 then 48 + d else 55 + d)"

definition digit_val :: "char \<Rightarrow> nat option" where
  "digit_val c = (let n = (of_char c :: nat) in
     if 48 \<le> n \<and> n \<le> 57 then Some (n - 48)
     else if 97 \<le> n \<and> n \<le> 122 then Some (n - 87)
     else if 65 \<le> n \<and> n \<le> 90 then Some (n - 55)
     else None)"

section \<open>Printing\<close>

definition pad0 :: "nat \<Rightarrow> string \<Rightarrow> string" where
  "pad0 w s = replicate (w - length s) (CHR ''0'') @ s"

definition fmt_u :: "nat \<Rightarrow> string" where
  "fmt_u n = map digit_lower (to_base 10 n)"

definition fmt_d :: "int \<Rightarrow> string" where
  "fmt_d x = (if x < 0 then CHR ''-'' # fmt_u (nat (- x)) else fmt_u (nat x))"

definition fmt_02x :: "u8 \<Rightarrow> string" where
  "fmt_02x b = pad0 2 (map digit_lower (to_base 16 (unat b)))"

definition fmt_02X :: "u8 \<Rightarrow> string" where
  "fmt_02X b = pad0 2 (map digit_upper (to_base 16 (unat b)))"

definition fmt_08X :: "u32 \<Rightarrow> string" where
  "fmt_08X w = pad0 8 (map digit_upper (to_base 16 (unat w)))"

text \<open>
  What a double can hold: a rational, the negative zero, the two infinities, or no number; the flag
  of the last two is their sign. The rationals are more than those a double represents exactly.
\<close>

datatype double = Dbl rat | Neg_zero | Dbl_inf bool | Dbl_nan bool

text \<open>
  \<open>%.1f\<close>: of a number the value in tenths, rounded to nearest with ties to even, as
  the default rounding mode does; of the others the words of the C standard.
\<close>

definition round_half_even :: "rat \<Rightarrow> int" where
  "round_half_even x = (let n = \<lfloor>x\<rfloor>; r = x - of_int n in
     if r < 1/2 \<or> (r = 1/2 \<and> even n) then n else n + 1)"

fun fmt_1f :: "double \<Rightarrow> string" where
  "fmt_1f (Dbl x) = (let t = nat (round_half_even (10 * \<bar>x\<bar>)) in
     (if x < 0 then ''-'' else '''') @ fmt_u (t div 10) @ ''.'' @ fmt_u (t mod 10))"
| "fmt_1f Neg_zero = ''-0.0''"
| "fmt_1f (Dbl_inf neg) = (if neg then ''-inf'' else ''inf'')"
| "fmt_1f (Dbl_nan neg) = (if neg then ''-nan'' else ''nan'')"

text \<open>An array of \<open>ETH_ALEN\<close> bytes, the address of a station.\<close>

datatype macaddr = Mac u8 u8 u8 u8 u8 u8

fun mac_bytes :: "macaddr \<Rightarrow> u8 list" where
  "mac_bytes (Mac a b c d e f) = [a, b, c, d, e, f]"

text \<open>The macros \<open>MACSTR\<close> and \<open>MAC2STR\<close>: six bytes in hexadecimal, separated by colons.\<close>

fun mac_str :: "u8 list \<Rightarrow> string" where
  "mac_str [] = ''''"
| "mac_str [b] = fmt_02x b"
| "mac_str (b # bs) = fmt_02x b @ '':'' @ mac_str bs"

section \<open>Reading\<close>

definition is_space :: "char \<Rightarrow> bool" where
  "is_space c = (let n = (of_char c :: nat) in n = 32 \<or> (9 \<le> n \<and> n \<le> 13))"

definition digit_in :: "nat \<Rightarrow> char \<Rightarrow> bool" where
  "digit_in b c = (case digit_val c of None \<Rightarrow> False | Some d \<Rightarrow> d < b)"

definition LONG_MAX :: int where "LONG_MAX = 2147483647"
definition LONG_MIN :: int where "LONG_MIN = -2147483648"

definition clamp_long :: "int \<Rightarrow> int" where
  "clamp_long v = (if v > LONG_MAX then LONG_MAX else if v < LONG_MIN then LONG_MIN else v)"

text \<open>The digits of one base at the start of a string, and what follows them.\<close>

definition read_digits :: "nat \<Rightarrow> string \<Rightarrow> nat list \<times> string" where
  "read_digits b s = (map (the \<circ> digit_val) (takeWhile (digit_in b) s), dropWhile (digit_in b) s)"

text \<open>
  The base of a number with base argument 0 and the text after its prefix: \<open>0x\<close> counts as
  a prefix only when a hexadecimal digit follows.
\<close>

fun base0 :: "string \<Rightarrow> nat \<times> string" where
  "base0 (a # b # c # s) =
     (if a = CHR ''0'' \<and> (b = CHR ''x'' \<or> b = CHR ''X'') \<and> digit_in 16 c then (16, c # s)
      else if a = CHR ''0'' then (8, a # b # c # s) else (10, a # b # c # s))"
| "base0 (a # s) = (if a = CHR ''0'' then (8, a # s) else (10, a # s))"
| "base0 [] = (10, [])"

definition split_sign :: "string \<Rightarrow> bool \<times> string" where
  "split_sign s = (case s of [] \<Rightarrow> (False, [])
     | c # cs \<Rightarrow> if c = CHR ''-'' then (True, cs) else if c = CHR ''+'' then (False, cs) else (False, s))"

text \<open>
  \<open>strtol(s, &end, base)\<close>: the value and the text at \<open>end\<close>. Without any digit the value is 0
  and \<open>end\<close> is the start of the string.
\<close>

definition strtol_with :: "(string \<Rightarrow> nat \<times> string) \<Rightarrow> string \<Rightarrow> int \<times> string" where
  "strtol_with base_of s =
     (let (neg, t) = split_sign (dropWhile is_space s);
          (b, t') = base_of t;
          (ds, rest) = read_digits b t'
      in if ds = [] then (0, s)
         else (clamp_long ((if neg then - 1 else 1) * int (of_base b ds)), rest))"

definition strtol0 :: "string \<Rightarrow> int \<times> string" where
  "strtol0 s = strtol_with base0 s"

definition atoi :: "string \<Rightarrow> int" where
  "atoi s = fst (strtol_with (\<lambda>t. (10, t)) s)"

section \<open>Comparing and searching\<close>

definition lower :: "char \<Rightarrow> char" where
  "lower c = (let n = (of_char c :: nat) in if 65 \<le> n \<and> n \<le> 90 then char_of (n + 32) else c)"

text \<open>The comparisons return whether the C function returns 0.\<close>

definition strncmp_eq :: "string \<Rightarrow> string \<Rightarrow> nat \<Rightarrow> bool" where
  "strncmp_eq a b n = (take n a = take n b)"

definition strncasecmp_eq :: "string \<Rightarrow> string \<Rightarrow> nat \<Rightarrow> bool" where
  "strncasecmp_eq a b n = (map lower (take n a) = map lower (take n b))"

definition strcasecmp_eq :: "string \<Rightarrow> string \<Rightarrow> bool" where
  "strcasecmp_eq a b = (map lower a = map lower b)"

text \<open>
  \<open>strchr(s, c)\<close>: \<open>None\<close> for a null result, else the text in front of the first occurrence and
  the text after it.
\<close>

definition split_at :: "char \<Rightarrow> string \<Rightarrow> (string \<times> string) option" where
  "split_at c s = (if c \<in> set s then Some (takeWhile (\<lambda>x. x \<noteq> c) s, tl (dropWhile (\<lambda>x. x \<noteq> c) s))
     else None)"

section \<open>Bounded output\<close>

definition NUL :: char where "NUL = CHR 0x00"

definition write_at :: "nat \<Rightarrow> 'a list \<Rightarrow> 'a list \<Rightarrow> 'a list" where
  "write_at pos xs mem = take pos mem @ xs @ drop (pos + length xs) mem"

text \<open>
  \<open>snprintf(mem + pos, n, ...)\<close> of a text \<open>s\<close> writes at most \<open>n\<close> bytes, the last of them a NUL.
  \<open>put_text\<close> is its effect when these bytes lie in the buffer, \<open>snprintf_at\<close> the call itself: bytes
  behind the end of the buffer are a fault.
\<close>

definition put_text :: "nat \<Rightarrow> nat \<Rightarrow> string \<Rightarrow> char list \<Rightarrow> char list" where
  "put_text pos n s mem = (if n = 0 then mem else write_at pos (take (n - 1) s @ [NUL]) mem)"

definition snprintf_at :: "nat \<Rightarrow> nat \<Rightarrow> string \<Rightarrow> char list \<Rightarrow> char list result" where
  "snprintf_at pos n s mem =
     (if n \<noteq> 0 \<and> length mem < pos + min n (length s + 1) then Inl Buffer_Overflow
      else Inr (put_text pos n s mem))"

text \<open>
  A chain of blocks
  \<^verbatim>\<open>ret = os_snprintf(pos, end - pos, ...); if (ret < 0 || ret >= end - pos) return ...; pos += ret;\<close>
  over a buffer the caller says has \<open>n\<close> bytes: whether every block went through, where \<open>pos\<close>
  stands, and the buffer.
\<close>

fun snprintf_chain :: "nat \<Rightarrow> string list \<Rightarrow> nat \<Rightarrow> char list \<Rightarrow> (bool \<times> nat \<times> char list) result" where
  "snprintf_chain n [] pos mem = Inr (True, pos, mem)"
| "snprintf_chain n (s # ss) pos mem =
     (case snprintf_at pos (n - pos) s mem of Inl f \<Rightarrow> Inl f
      | Inr mem' \<Rightarrow>
        let ret = length s in
        if ret \<ge> n - pos then Inr (False, pos, mem') else snprintf_chain n ss (pos + ret) mem')"

text \<open>The same chain over a buffer that really has \<open>n\<close> bytes.\<close>

fun emit_all :: "nat \<Rightarrow> string list \<Rightarrow> nat \<Rightarrow> char list \<Rightarrow> bool \<times> nat \<times> char list" where
  "emit_all n [] pos mem = (True, pos, mem)"
| "emit_all n (s # ss) pos mem =
     (let mem' = put_text pos (n - pos) s mem; ret = length s in
      if ret \<ge> n - pos then (False, pos, mem') else emit_all n ss (pos + ret) mem')"

section \<open>Numbers survive printing and reading\<close>

lemma to_base_small: "n < b \<Longrightarrow> to_base b n = [n]"
  by (subst to_base.simps) simp

lemma to_base_step: "2 \<le> b \<Longrightarrow> b \<le> n \<Longrightarrow> to_base b n = to_base b (n div b) @ [n mod b]"
  by (subst to_base.simps) simp

lemma of_base_snoc [simp]: "of_base b (ds @ [d]) = of_base b ds * b + d"
  by (simp add: of_base_def)

lemma of_to_base: "2 \<le> b \<Longrightarrow> of_base b (to_base b n) = n"
proof (induction b n rule: to_base.induct)
  case (1 b n)
  show ?case
  proof (cases "n < b")
    case True
    then show ?thesis by (simp add: to_base_small of_base_def)
  next
    case False
    with 1 show ?thesis by (simp add: to_base_step)
  qed
qed

lemma to_base_digits: "2 \<le> b \<Longrightarrow> d \<in> set (to_base b n) \<Longrightarrow> d < b"
proof (induction b n rule: to_base.induct)
  case (1 b n)
  show ?case
  proof (cases "n < b")
    case True
    with 1 show ?thesis by (simp add: to_base_small)
  next
    case False
    with 1 show ?thesis by (auto simp: to_base_step)
  qed
qed

lemma to_base_not_Nil [simp]: "to_base b n \<noteq> []"
  by (subst to_base.simps) simp

lemma length_to_base: "2 \<le> b \<Longrightarrow> 0 < k \<Longrightarrow> n < b ^ k \<Longrightarrow> length (to_base b n) \<le> k"
proof (induction k arbitrary: n)
  case 0
  then show ?case by simp
next
  case (Suc k)
  show ?case
  proof (cases "n < b")
    case True
    then show ?thesis by (simp add: to_base_small)
  next
    case False
    with Suc.prems have k: "0 < k" by (cases k) auto
    from Suc.prems have "n div b < b ^ k"
      by (simp add: less_mult_imp_div_less mult.commute)
    with Suc.IH Suc.prems k have "length (to_base b (n div b)) \<le> k" by simp
    with False Suc.prems show ?thesis by (simp add: to_base_step)
  qed
qed

lemma digit_val_lower: "d < 36 \<Longrightarrow> digit_val (digit_lower d) = Some d"
  by (auto simp: digit_val_def digit_lower_def Let_def)

lemma digit_val_upper: "d < 36 \<Longrightarrow> digit_val (digit_upper d) = Some d"
  by (auto simp: digit_val_def digit_upper_def Let_def)

lemma digit_in_lower: "d < b \<Longrightarrow> b \<le> 36 \<Longrightarrow> digit_in b (digit_lower d)"
  by (simp add: digit_in_def digit_val_lower)

lemma fmt_u_digits: "c \<in> set (fmt_u n) \<Longrightarrow> digit_in 10 c"
  by (auto simp: fmt_u_def intro!: digit_in_lower dest: to_base_digits [rotated])

lemma fmt_u_not_Nil [simp]: "fmt_u n \<noteq> []"
  by (simp add: fmt_u_def)

lemma read_digits_fmt_u:
  assumes "\<And>c. rest \<noteq> [] \<Longrightarrow> c = hd rest \<Longrightarrow> \<not> digit_in 10 c"
  shows "read_digits 10 (fmt_u n @ rest) = (to_base 10 n, rest)"
proof -
  have all: "\<forall>c \<in> set (fmt_u n). digit_in 10 c"
    using fmt_u_digits by blast
  have "takeWhile (digit_in 10) rest = []" and "dropWhile (digit_in 10) rest = rest"
    using assms by (cases rest; simp)+
  moreover have "map (the \<circ> digit_val) (fmt_u n) = to_base 10 n"
    by (auto simp: fmt_u_def digit_val_lower intro!: map_idI dest!: to_base_digits [rotated])
  ultimately show ?thesis
    using all by (simp add: read_digits_def)
qed

lemma of_base_to_base10: "of_base 10 (to_base 10 n) = n"
  by (rule of_to_base) simp

lemma hd_fmt_u: "digit_in 10 (hd (fmt_u n @ rest))"
  using fmt_u_digits [of "hd (fmt_u n)" n] by (simp add: hd_append)

lemma fmt_u_Cons: obtains c cs where "fmt_u n = c # cs" "digit_in 10 c"
  using hd_fmt_u [of n "[]"] by (cases "fmt_u n") auto

lemma digit_not_special:
  "digit_in 10 c \<Longrightarrow> \<not> is_space c \<and> c \<noteq> CHR ''-'' \<and> c \<noteq> CHR ''+''"
  by (auto simp: digit_in_def digit_val_def is_space_def Let_def split: if_splits option.splits)

text \<open>What the kernel or a client parses out of a printed number is that number.\<close>

lemma atoi_fmt_d:
  assumes r: "\<And>c. rest \<noteq> [] \<Longrightarrow> c = hd rest \<Longrightarrow> \<not> digit_in 10 c"
    and v: "LONG_MIN \<le> v" "v \<le> LONG_MAX"
  shows "atoi (fmt_d v @ rest) = v"
proof (cases "v < 0")
  case True
  then show ?thesis
    using v r by (simp add: atoi_def strtol_with_def fmt_d_def split_sign_def is_space_def
        read_digits_fmt_u of_base_to_base10 clamp_long_def)
next
  case False
  obtain c cs where c: "fmt_u (nat v) = c # cs" and d: "digit_in 10 c"
    by (rule fmt_u_Cons)
  have "split_sign (dropWhile is_space (fmt_u (nat v) @ rest)) = (False, fmt_u (nat v) @ rest)"
    using c digit_not_special [OF d] by (simp add: split_sign_def)
  then show ?thesis
    using v r False by (simp add: atoi_def strtol_with_def fmt_d_def
        read_digits_fmt_u of_base_to_base10 clamp_long_def)
qed

text \<open>
  The same with base 0: a printed positive number has no leading zero, so it is read as decimal.
\<close>

lemma hd_to_base: "2 \<le> b \<Longrightarrow> 0 < n \<Longrightarrow> hd (to_base b n) \<noteq> 0"
proof (induction b n rule: to_base.induct)
  case (1 b n)
  show ?case
  proof (cases "n < b")
    case True
    with 1 show ?thesis by (simp add: to_base_small)
  next
    case False
    with 1 have "hd (to_base b (n div b)) \<noteq> 0" by (simp add: div_greater_zero_iff)
    with False 1 show ?thesis by (simp add: to_base_step)
  qed
qed

lemma base0_decimal: "c \<noteq> CHR ''0'' \<Longrightarrow> base0 (c # cs) = (10, c # cs)"
  by (cases "c # cs" rule: base0.cases) auto

lemma digit_lower_0: "digit_lower 0 = CHR ''0''"
  by code_simp

lemma digit_val_0: "digit_val (CHR ''0'') = Some 0"
  by code_simp

lemma digit_lower_zero: "d < 10 \<Longrightarrow> digit_lower d = CHR ''0'' \<longleftrightarrow> d = 0"
  using digit_val_lower [of d] digit_val_0 digit_lower_0 by auto

lemma hd_fmt_u_nonzero: "0 < n \<Longrightarrow> hd (fmt_u n) \<noteq> CHR ''0''"
proof -
  assume "0 < n"
  then have "hd (to_base 10 n) \<noteq> 0" by (intro hd_to_base) simp_all
  moreover have "hd (to_base 10 n) < 10"
    using to_base_digits [of 10 "hd (to_base 10 n)" n] by simp
  ultimately show ?thesis by (simp add: fmt_u_def hd_map digit_lower_zero)
qed

lemma strtol0_fmt_u:
  assumes "int n \<le> LONG_MAX"
  shows "strtol0 ('' '' @ fmt_u n) = (int n, [])"
proof (cases "n = 0")
  case True
  then show ?thesis
    by (simp add: fmt_u_def to_base_small digit_lower_0 strtol0_def strtol_with_def split_sign_def
        is_space_def read_digits_def digit_in_def digit_val_0 of_base_def clamp_long_def LONG_MAX_def LONG_MIN_def)
next
  case False
  obtain c cs where c: "fmt_u n = c # cs" and d: "digit_in 10 c"
    by (rule fmt_u_Cons)
  have "c \<noteq> CHR ''0''" using hd_fmt_u_nonzero [of n] False c by simp
  then have b: "base0 (fmt_u n) = (10, fmt_u n)" by (simp add: c base0_decimal)
  have "dropWhile is_space ('' '' @ fmt_u n) = fmt_u n"
    using c digit_not_special [OF d] by (simp add: is_space_def)
  moreover have "split_sign (fmt_u n) = (False, fmt_u n)"
    using c digit_not_special [OF d] by (simp add: split_sign_def)
  ultimately show ?thesis
    using assms b read_digits_fmt_u [of "[]" n]
    by (simp add: strtol0_def strtol_with_def of_base_to_base10 clamp_long_def LONG_MIN_def LONG_MAX_def)
qed

lemma length_fmt_u: "0 < k \<Longrightarrow> n < 10 ^ k \<Longrightarrow> length (fmt_u n) \<le> k"
  by (simp add: fmt_u_def length_to_base)

lemma length_fmt_d: "-2147483648 \<le> v \<Longrightarrow> v \<le> 4294967295 \<Longrightarrow> length (fmt_d v) \<le> 11"
proof -
  assume "-2147483648 \<le> v" and "v \<le> 4294967295"
  then have "nat v < 10 ^ 10" and "nat (- v) < 10 ^ 10" by simp_all
  then have "length (fmt_u (nat v)) \<le> 10" and "length (fmt_u (nat (- v))) \<le> 10"
    by (simp_all only: length_fmt_u zero_less_numeral)
  then show ?thesis by (simp add: fmt_d_def)
qed

lemma length_fmt_d_sint: "length (fmt_d (sint (w :: s32))) \<le> 11"
proof (rule length_fmt_d)
  show "-2147483648 \<le> sint w" and "sint w \<le> 4294967295"
    using sint_ge [of w] sint_lt [of w] by simp_all
qed

section \<open>Bounded output\<close>

lemma length_mac_bytes [simp]: "length (mac_bytes m) = 6"
  by (cases m) simp

lemma length_write_at: "pos + length xs \<le> length mem \<Longrightarrow> length (write_at pos xs mem) = length mem"
  by (simp add: write_at_def)

lemma write_at_tail:
  "pos + length xs \<le> length mem \<Longrightarrow> pos + length xs \<le> k \<Longrightarrow> drop k (write_at pos xs mem) = drop k mem"
  by (simp add: write_at_def)

lemma length_put_text: "pos + n \<le> length mem \<Longrightarrow> length (put_text pos n s mem) = length mem"
  by (auto simp: put_text_def intro!: length_write_at)

lemma put_text_fits: "length s < n \<Longrightarrow> put_text pos n s mem = write_at pos (s @ [NUL]) mem"
  by (simp add: put_text_def)

lemma put_text_tail:
  "pos + n \<le> length mem \<Longrightarrow> pos + n \<le> k \<Longrightarrow> drop k (put_text pos n s mem) = drop k mem"
  by (auto simp: put_text_def intro!: write_at_tail)

lemma put_text_head:
  "pos \<le> length mem \<Longrightarrow> k \<le> pos \<Longrightarrow> take k (put_text pos n s mem) = take k mem"
  by (simp add: put_text_def write_at_def)

lemma snprintf_at_inside: "pos + n \<le> length mem \<Longrightarrow> snprintf_at pos n s mem = Inr (put_text pos n s mem)"
  by (simp add: snprintf_at_def min_def)

lemma snprintf_chain_inside:
  "pos \<le> n \<Longrightarrow> n \<le> length mem \<Longrightarrow> snprintf_chain n ss pos mem = Inr (emit_all n ss pos mem)"
proof (induction n ss pos mem rule: emit_all.induct)
  case (2 n s ss pos mem)
  then have "snprintf_at pos (n - pos) s mem = Inr (put_text pos (n - pos) s mem)"
    and "length (put_text pos (n - pos) s mem) = length mem"
    by (simp_all add: snprintf_at_inside length_put_text)
  with 2 show ?case by (auto simp: Let_def)
qed simp

lemma emit_all_length:
  "pos \<le> n \<Longrightarrow> n \<le> length mem \<Longrightarrow> emit_all n ss pos mem = (ok, pos', mem') \<Longrightarrow>
     length mem' = length mem \<and> pos \<le> pos' \<and> pos' \<le> n"
proof (induction n ss pos mem rule: emit_all.induct)
  case (2 n s ss pos mem)
  have "length (put_text pos (n - pos) s mem) = length mem"
    using "2.prems" by (intro length_put_text) simp
  with 2 show ?case by (fastforce simp: Let_def split: if_splits)
qed simp

text \<open>Nothing outside the first \<open>n\<close> bytes is written, on success or on failure.\<close>

lemma emit_all_outside:
  "pos \<le> n \<Longrightarrow> n \<le> length mem \<Longrightarrow> emit_all n ss pos mem = (ok, pos', mem') \<Longrightarrow>
     drop n mem' = drop n mem"
proof (induction n ss pos mem rule: emit_all.induct)
  case (2 n s ss pos mem)
  have "length (put_text pos (n - pos) s mem) = length mem"
    and "drop n (put_text pos (n - pos) s mem) = drop n mem"
    using "2.prems" by (simp_all add: length_put_text put_text_tail)
  with 2 show ?case by (fastforce simp: Let_def split: if_splits)
qed simp

lemma emit_all_ok_iff:
  "ss \<noteq> [] \<Longrightarrow> fst (emit_all n ss pos mem) \<longleftrightarrow> pos + length (concat ss) < n"
proof (induction n ss pos mem rule: emit_all.induct)
  case (2 n s ss pos mem)
  then show ?case by (cases ss) (auto simp: Let_def)
qed simp

lemma emit_all_pos:
  "fst (emit_all n ss pos mem) \<Longrightarrow> fst (snd (emit_all n ss pos mem)) = pos + length (concat ss)"
  by (induction n ss pos mem rule: emit_all.induct) (auto simp: Let_def split: if_splits)

text \<open>
  On success the buffer starts with the concatenation of all texts, terminated by a NUL.
\<close>

lemma emit_all_text:
  "ss \<noteq> [] \<Longrightarrow> pos \<le> n \<Longrightarrow> n \<le> length mem \<Longrightarrow> fst (emit_all n ss pos mem) \<Longrightarrow>
     take (pos + length (concat ss) + 1) (snd (snd (emit_all n ss pos mem)))
       = take pos mem @ concat ss @ [NUL]"
proof (induction n ss pos mem rule: emit_all.induct)
  case (2 n s ss pos mem)
  define m where "m = put_text pos (n - pos) s mem"
  have fits: "length s < n - pos"
    using "2.prems" by (auto simp: Let_def split: if_splits)
  then have m: "m = write_at pos (s @ [NUL]) mem"
    by (simp add: m_def put_text_fits)
  have len: "length m = length mem"
    using "2.prems" fits by (simp add: m_def length_put_text)
  have hd: "take (pos + length s) m = take pos mem @ s"
    using "2.prems" by (simp add: m write_at_def)
  show ?case
  proof (cases "ss = []")
    case True
    with 2 fits show ?thesis by (simp add: Let_def m_def [symmetric]) (simp add: m write_at_def)
  next
    case False
    have "emit_all n (s # ss) pos mem = emit_all n ss (pos + length s) m"
      using fits by (simp add: Let_def m_def)
    moreover from this have "take (pos + length s + length (concat ss) + 1)
        (snd (snd (emit_all n ss (pos + length s) m))) = take (pos + length s) m @ concat ss @ [NUL]"
      using "2.IH" [of m "length s"] "2.prems" False fits len by (simp add: m_def)
    ultimately show ?thesis by (simp add: hd add.assoc)
  qed
qed simp

text \<open>
  Where a chain stops: the first \<open>k\<close> texts are in the buffer and fit with a NUL, the next one,
  if there is one, does not.
\<close>

lemma emit_all_prefix:
  assumes "pos \<le> n" and "n \<le> length mem" and "emit_all n ss pos mem = (ok, pos', mem')"
  shows "\<exists>k \<le> length ss. pos' = pos + length (concat (take k ss))
     \<and> take pos' mem' = take pos mem @ concat (take k ss)
     \<and> (ok \<longleftrightarrow> k = length ss) \<and> (k = 0 \<or> pos' < n)
     \<and> (k < length ss \<longrightarrow> n \<le> pos + length (concat (take (Suc k) ss)))"
  using assms
proof (induction n ss pos mem rule: emit_all.induct)
  case (1 n pos mem)
  then show ?case by auto
next
  case (2 n s ss pos mem)
  let ?m = "put_text pos (n - pos) s mem"
  have len: "length ?m = length mem"
    using "2.prems" by (intro length_put_text) simp
  show ?case
  proof (cases "length s \<ge> n - pos")
    case True
    then show ?thesis
      using "2.prems" by (intro exI [of _ 0]) (auto simp: Let_def put_text_head)
  next
    case False
    then have hd: "take (pos + length s) ?m = take pos mem @ s"
      using "2.prems" by (simp add: put_text_fits write_at_def)
    from False "2.prems" have "emit_all n ss (pos + length s) ?m = (ok, pos', mem')"
      by (simp add: Let_def)
    moreover have "pos + length s \<le> n" using False by linarith
    moreover have "n \<le> length ?m" using len "2.prems" by simp
    ultimately obtain k where "k \<le> length ss" "pos' = pos + length s + length (concat (take k ss))"
      "take pos' mem' = take (pos + length s) ?m @ concat (take k ss)"
      "ok \<longleftrightarrow> k = length ss" "k = 0 \<or> pos' < n"
      "k < length ss \<longrightarrow> n \<le> pos + length s + length (concat (take (Suc k) ss))"
      using "2.IH" [OF refl refl False] by blast
    with False hd "2.prems" show ?thesis
      by (intro exI [of _ "Suc k"]) auto
  qed
qed

section \<open>Prefixes\<close>

lemma strncmp_eq_append: "strncmp_eq (p @ rest) p (length p)"
  by (simp add: strncmp_eq_def)

lemma strncasecmp_eq_append: "strncasecmp_eq (p @ rest) p (length p)"
  by (simp add: strncasecmp_eq_def)

lemma lower_upper_case:
  "lower (CHR ''A'') = CHR ''a''"
  "lower (CHR ''B'') = CHR ''b''"
  "lower (CHR ''C'') = CHR ''c''"
  "lower (CHR ''D'') = CHR ''d''"
  "lower (CHR ''E'') = CHR ''e''"
  "lower (CHR ''F'') = CHR ''f''"
  "lower (CHR ''G'') = CHR ''g''"
  "lower (CHR ''H'') = CHR ''h''"
  "lower (CHR ''I'') = CHR ''i''"
  "lower (CHR ''J'') = CHR ''j''"
  "lower (CHR ''K'') = CHR ''k''"
  "lower (CHR ''L'') = CHR ''l''"
  "lower (CHR ''M'') = CHR ''m''"
  "lower (CHR ''N'') = CHR ''n''"
  "lower (CHR ''O'') = CHR ''o''"
  "lower (CHR ''P'') = CHR ''p''"
  "lower (CHR ''Q'') = CHR ''q''"
  "lower (CHR ''R'') = CHR ''r''"
  "lower (CHR ''S'') = CHR ''s''"
  "lower (CHR ''T'') = CHR ''t''"
  "lower (CHR ''U'') = CHR ''u''"
  "lower (CHR ''V'') = CHR ''v''"
  "lower (CHR ''W'') = CHR ''w''"
  "lower (CHR ''X'') = CHR ''x''"
  "lower (CHR ''Y'') = CHR ''y''"
  "lower (CHR ''Z'') = CHR ''z''"
  by code_simp+

lemma lower_lower_case:
  "lower (CHR ''a'') = CHR ''a''"
  "lower (CHR ''b'') = CHR ''b''"
  "lower (CHR ''c'') = CHR ''c''"
  "lower (CHR ''d'') = CHR ''d''"
  "lower (CHR ''e'') = CHR ''e''"
  "lower (CHR ''f'') = CHR ''f''"
  "lower (CHR ''g'') = CHR ''g''"
  "lower (CHR ''h'') = CHR ''h''"
  "lower (CHR ''i'') = CHR ''i''"
  "lower (CHR ''j'') = CHR ''j''"
  "lower (CHR ''k'') = CHR ''k''"
  "lower (CHR ''l'') = CHR ''l''"
  "lower (CHR ''m'') = CHR ''m''"
  "lower (CHR ''n'') = CHR ''n''"
  "lower (CHR ''o'') = CHR ''o''"
  "lower (CHR ''p'') = CHR ''p''"
  "lower (CHR ''q'') = CHR ''q''"
  "lower (CHR ''r'') = CHR ''r''"
  "lower (CHR ''s'') = CHR ''s''"
  "lower (CHR ''t'') = CHR ''t''"
  "lower (CHR ''u'') = CHR ''u''"
  "lower (CHR ''v'') = CHR ''v''"
  "lower (CHR ''w'') = CHR ''w''"
  "lower (CHR ''x'') = CHR ''x''"
  "lower (CHR ''y'') = CHR ''y''"
  "lower (CHR ''z'') = CHR ''z''"
  "lower (CHR '' '') = CHR '' ''"
  "lower (CHR ''-'') = CHR ''-''"
  "lower (CHR ''_'') = CHR ''_''"
  by (simp_all add: lower_def)

text \<open>What comparisons with a literal evaluate by.\<close>

lemmas cmd_compare = strncasecmp_eq_def strcasecmp_eq_def strncmp_eq_def lower_upper_case lower_lower_case

end
