(* ===== verification/Lights.thy ===== *)
theory Lights
  imports C_Text
begin

text \<open>
  The lights HAL, src/liblight/lights.c: five logical lights behind one \<open>set_light\<close> entry each.
  Battery, notification and attention lights share one physical RGB LED and are multiplexed on
  it by priority; backlight and buttons have a brightness file of their own. The state is the
  file's static variables; the calls into the kernel and the C library (open, write, close,
  malloc, free, the mutex) are environment calls recorded in a trace.

  The values of the platform header hardware/lights.h (light names and flash modes) are a
  parameter of type \<open>light_abi\<close>.
\<close>

section \<open>Data\<close>

record light_abi =
  LIGHT_ID_BACKLIGHT :: string
  LIGHT_ID_NOTIFICATIONS :: string
  LIGHT_ID_ATTENTION :: string
  LIGHT_ID_BATTERY :: string
  LIGHT_ID_BUTTONS :: string
  LIGHT_FLASH_NONE :: s32
  LIGHT_FLASH_TIMED :: s32
  LIGHT_FLASH_HARDWARE :: s32
  HARDWARE_DEVICE_TAG :: u32

text \<open>\<open>struct light_state_t\<close>, the fields this file reads.\<close>

record light_state =
  color :: u32
  flashMode :: s32
  flashOnMS :: s32
  flashOffMS :: s32

record led_config =
  colorRGB :: u32
  onMS :: s32
  offMS :: s32

datatype lcall =
    L_open string
  | L_write int string
  | L_close int
  | L_lock
  | L_unlock
  | L_mutex_init
  | L_malloc
  | L_free u32
  | L_alog string                 \<comment> \<open>\<open>ALOGE\<close>, which may change \<open>errno\<close>\<close>

text \<open>An answer: the return value and the value of \<open>errno\<close> after the call.\<close>

type_synonym lresp = "int \<times> int"
type_synonym lights_env = "(lcall, lresp) env"
type_synonym lights_trace = "(lcall, lresp) trace"

record lights =
  g_leds :: "led_config list"
  g_cur_led :: int
  g_init :: bool                  \<comment> \<open>\<open>pthread_once\<close> has run \<open>init_globals\<close>\<close>
  warned_int :: bool              \<comment> \<open>\<open>already_warned\<close> of \<open>write_int\<close>\<close>
  warned_on_off :: bool           \<comment> \<open>\<open>already_warned\<close> of \<open>write_on_off\<close>\<close>
  ltrace :: lights_trace

definition LCD_FILE :: string where
  [const_defs]: "LCD_FILE = ''/sys/class/leds/lcd-backlight/brightness''"
definition RED_LED_FILE :: string where
  [const_defs]: "RED_LED_FILE = ''/sys/class/leds/red/brightness''"
definition GREEN_LED_FILE :: string where
  [const_defs]: "GREEN_LED_FILE = ''/sys/class/leds/green/brightness''"
definition BLUE_LED_FILE :: string where
  [const_defs]: "BLUE_LED_FILE = ''/sys/class/leds/blue/brightness''"
definition RED_TIMEOUT_FILE :: string where
  [const_defs]: "RED_TIMEOUT_FILE = ''/sys/class/leds/red/on_off_ms''"
definition GREEN_TIMEOUT_FILE :: string where
  [const_defs]: "GREEN_TIMEOUT_FILE = ''/sys/class/leds/green/on_off_ms''"
definition BLUE_TIMEOUT_FILE :: string where
  [const_defs]: "BLUE_TIMEOUT_FILE = ''/sys/class/leds/blue/on_off_ms''"
definition RGB_LOCKED_FILE :: string where
  [const_defs]: "RGB_LOCKED_FILE = ''/sys/class/leds/red/rgb_start''"
definition LED_ENABLE_FILE :: string where
  [const_defs]: "LED_ENABLE_FILE = ''/sys/class/leds/button-backlight/brightness''"

definition led_off :: led_config where
  "led_off = \<lparr>colorRGB = 0, onMS = 0, offMS = 0\<rparr>"

definition init_lights :: lights where
  "init_lights = \<lparr>g_leds = replicate 3 led_off, g_cur_led = -1, g_init = False,
     warned_int = False, warned_on_off = False, ltrace = []\<rparr>"

section \<open>Device methods\<close>

definition lsys :: "lights_env \<Rightarrow> lcall \<Rightarrow> lights \<Rightarrow> lresp \<times> lights" where
  "lsys env c s = (let (r, tr) = ask env c (ltrace s) in (r, s\<lparr>ltrace := tr\<rparr>))"

definition init_globals :: "lights_env \<Rightarrow> lights \<Rightarrow> lights" where
  "init_globals env s = snd (lsys env L_mutex_init s)"

text \<open>
  The part \<open>write_int\<close> and \<open>write_on_off\<close> share once a descriptor is open: format into a
  32-byte buffer of zeros (at most 32 bytes, so inside it), write as many bytes as \<open>snprintf\<close> reported, close, and read
  \<open>errno\<close> after the close.
\<close>

definition buffered_write :: "lights_env \<Rightarrow> int \<Rightarrow> string \<Rightarrow> lights \<Rightarrow> int \<times> lights" where
  "buffered_write env fd txt s =
     (let buffer = put_text 0 32 txt (replicate 32 NUL);
          bytes = length txt;
          ((amt, _), s1) = lsys env (L_write fd (take bytes buffer)) s;
          ((_, errno), s2) = lsys env (L_close fd) s1
      in (if amt = -1 then - errno else 0, s2))"

text \<open>
  The failure to open: the first one is logged, and \<open>errno\<close> is read only after that, so what is
  returned is the error the log call left behind.
\<close>

definition open_failed_text :: "string \<Rightarrow> string" where
  "open_failed_text path = ''write_int failed to open '' @ path @ ''\<newline>''"

definition write_int :: "lights_env \<Rightarrow> string \<Rightarrow> int \<Rightarrow> lights \<Rightarrow> int \<times> lights" where
  "write_int env path value s =
     (let ((fd, errno), s1) = lsys env (L_open path) s in
      if fd \<ge> 0 then buffered_write env fd (fmt_d value @ ''\<newline>'') s1
      else if \<not> warned_int s1
      then let ((_, errno1), s2) = lsys env (L_alog (open_failed_text path)) s1
           in (- errno1, s2\<lparr>warned_int := True\<rparr>)
      else (- errno, s1))"

definition write_on_off :: "lights_env \<Rightarrow> string \<Rightarrow> int \<Rightarrow> int \<Rightarrow> lights \<Rightarrow> int \<times> lights" where
  "write_on_off env path on off s =
     (let ((fd, errno), s1) = lsys env (L_open path) s in
      if fd \<ge> 0 then buffered_write env fd (fmt_d on @ '' '' @ fmt_d off @ ''\<newline>'') s1
      else if \<not> warned_on_off s1
      then let ((_, errno1), s2) = lsys env (L_alog (open_failed_text path)) s1
           in (- errno1, s2\<lparr>warned_on_off := True\<rparr>)
      else (- errno, s1))"

definition rgb_to_brightness :: "light_state \<Rightarrow> int" where
  "rgb_to_brightness state =
     (let color = uint (color state AND 0x00ffffff) in
      drop_bit 8 (77 * (drop_bit 16 color AND 0x00ff)
                  + 150 * (drop_bit 8 color AND 0x00ff) + 29 * (color AND 0x00ff)))"

definition write_leds_locked :: "lights_env \<Rightarrow> led_config option \<Rightarrow> lights \<Rightarrow> int \<times> lights" where
  "write_leds_locked env ledp s =
     (let led = (case ledp of None \<Rightarrow> led_off | Some led \<Rightarrow> led);
          red = uint (drop_bit 16 (colorRGB led) AND 0xFF);
          green = uint (drop_bit 8 (colorRGB led) AND 0xFF);
          blue = uint (colorRGB led AND 0xFF);
          s = snd (write_int env RGB_LOCKED_FILE 0 s);
          s = snd (write_int env RED_LED_FILE red s);
          s = snd (write_int env GREEN_LED_FILE green s);
          s = snd (write_int env BLUE_LED_FILE blue s);
          s = snd (write_on_off env RED_TIMEOUT_FILE (sint (onMS led)) (sint (offMS led)) s);
          s = snd (write_on_off env GREEN_TIMEOUT_FILE (sint (onMS led)) (sint (offMS led)) s);
          s = snd (write_on_off env BLUE_TIMEOUT_FILE (sint (onMS led)) (sint (offMS led)) s);
          s = snd (write_int env RGB_LOCKED_FILE 1 s)
      in (0, s))"

text \<open>The loop \<open>for (i = type-1; i >= 0; i--)\<close>: the value of \<open>i\<close> when it is left.\<close>

fun find_lower :: "led_config list \<Rightarrow> nat \<Rightarrow> int" where
  "find_lower leds 0 = -1"
| "find_lower leds (Suc i) = (if colorRGB (leds ! i) > 0 then int i else find_lower leds i)"

text \<open>The configuration \<open>set_light_locked\<close> stores for a requested state.\<close>

definition led_of_state :: "light_abi \<Rightarrow> light_state \<Rightarrow> led_config" where
  "led_of_state abi state =
     (if flashMode state = LIGHT_FLASH_TIMED abi \<or> flashMode state = LIGHT_FLASH_HARDWARE abi
      then \<lparr>colorRGB = color state AND 0x00ffffff, onMS = flashOnMS state, offMS = flashOffMS state\<rparr>
      else \<lparr>colorRGB = color state AND 0x00ffffff, onMS = 0, offMS = 0\<rparr>)"

definition set_light_locked ::
    "light_abi \<Rightarrow> lights_env \<Rightarrow> light_state \<Rightarrow> int \<Rightarrow> lights \<Rightarrow> int \<times> lights" where
  "set_light_locked abi env state type s =
     (if type < 0 \<or> type \<ge> 3 then (- EINVAL, s)
      else
        let led = led_of_state abi state;
            s1 = s\<lparr>g_leds := (g_leds s)[nat type := led]\<rparr>
        in if colorRGB led > 0
           then (if type \<ge> g_cur_led s1
                 then let (err, s2) = write_leds_locked env (Some led) s1
                      in (err, s2\<lparr>g_cur_led := type\<rparr>)
                 else (0, s1))
           else (if type = g_cur_led s1
                 then let i = find_lower (g_leds s1) (nat type);
                          (err, s2) = write_leds_locked env
                             (if i \<ge> 0 then Some (g_leds s1 ! nat i) else None) s1
                      in (err, s2\<lparr>g_cur_led := i\<rparr>)
                 else (0, s1)))"

definition set_light_backlight :: "lights_env \<Rightarrow> light_state \<Rightarrow> lights \<Rightarrow> int \<times> lights" where
  "set_light_backlight env state s =
     (let brightness = rgb_to_brightness state;
          s1 = snd (lsys env L_lock s);
          (err, s2) = write_int env LCD_FILE brightness s1;
          s3 = snd (lsys env L_unlock s2)
      in (err, s3))"

definition set_light_buttons :: "lights_env \<Rightarrow> light_state \<Rightarrow> lights \<Rightarrow> int \<times> lights" where
  "set_light_buttons env state s =
     (let brightness = rgb_to_brightness state;
          s1 = snd (lsys env L_lock s);
          (err, s2) = write_int env LED_ENABLE_FILE brightness s1;
          s3 = snd (lsys env L_unlock s2)
      in (err, s3))"

definition set_light_battery ::
    "light_abi \<Rightarrow> lights_env \<Rightarrow> light_state \<Rightarrow> lights \<Rightarrow> int \<times> lights" where
  "set_light_battery abi env state s =
     (let s1 = snd (lsys env L_lock s);
          s2 = snd (set_light_locked abi env state 0 s1);
          s3 = snd (lsys env L_unlock s2)
      in (0, s3))"

definition set_light_notifications ::
    "light_abi \<Rightarrow> lights_env \<Rightarrow> light_state \<Rightarrow> lights \<Rightarrow> int \<times> lights" where
  "set_light_notifications abi env state s =
     (let s1 = snd (lsys env L_lock s);
          s2 = snd (set_light_locked abi env state 1 s1);
          s3 = snd (lsys env L_unlock s2)
      in (0, s3))"

text \<open>The switch on \<open>fixed.flashMode\<close> in \<open>set_light_attention\<close>.\<close>

definition fix_attention :: "light_abi \<Rightarrow> light_state \<Rightarrow> light_state" where
  "fix_attention abi state =
     (if flashMode state = LIGHT_FLASH_NONE abi then state\<lparr>color := 0\<rparr>
      else if flashMode state = LIGHT_FLASH_HARDWARE abi
      then (if sint (flashOnMS state) > 0 \<and> flashOffMS state = 0
            then state\<lparr>flashMode := LIGHT_FLASH_NONE abi\<rparr> else state)
      else state)"

definition set_light_attention ::
    "light_abi \<Rightarrow> lights_env \<Rightarrow> light_state \<Rightarrow> lights \<Rightarrow> int \<times> lights" where
  "set_light_attention abi env state s =
     (let s1 = snd (lsys env L_lock s);
          fixed = fix_attention abi state;
          s2 = snd (set_light_locked abi env fixed 2 s1);
          s3 = snd (lsys env L_unlock s2)
      in (0, s3))"

section \<open>Module methods\<close>

text \<open>The values the function pointer \<open>set_light\<close> takes.\<close>

datatype set_light_fn =
    Fn_backlight | Fn_notifications | Fn_attention | Fn_battery | Fn_buttons

record light_device =
  dev_addr :: u32
  dev_tag :: u32
  dev_version :: u32
  dev_module :: u32
  dev_set_light :: set_light_fn

definition close_lights :: "lights_env \<Rightarrow> u32 \<Rightarrow> lights \<Rightarrow> int \<times> lights" where
  "close_lights env dev s = (0, if dev \<noteq> 0 then snd (lsys env (L_free dev) s) else s)"

definition select_set_light :: "light_abi \<Rightarrow> string \<Rightarrow> set_light_fn option" where
  "select_set_light abi name =
     (if LIGHT_ID_BACKLIGHT abi = name then Some Fn_backlight
      else if LIGHT_ID_NOTIFICATIONS abi = name then Some Fn_notifications
      else if LIGHT_ID_ATTENTION abi = name then Some Fn_attention
      else if LIGHT_ID_BATTERY abi = name then Some Fn_battery
      else if LIGHT_ID_BUTTONS abi = name then Some Fn_buttons
      else None)"

text \<open>
  \<open>open_lights\<close>: the return value and the device stored through \<open>device\<close>. The memory
  \<open>malloc\<close> returns is cleared without a test for null.
\<close>

definition open_lights :: "light_abi \<Rightarrow> lights_env \<Rightarrow> u32 \<Rightarrow> string \<Rightarrow> lights
    \<Rightarrow> (int \<times> light_device option) result \<times> lights" where
  "open_lights abi env hwmod name s =
     (case select_set_light abi name of
        None \<Rightarrow> (Inr (- EINVAL, None), s)
      | Some fn \<Rightarrow>
          let s1 = (if g_init s then s else init_globals env (s\<lparr>g_init := True\<rparr>));
              ((p, _), s2) = lsys env L_malloc s1
          in if word_of_int p = (0 :: u32) then (Inl Null_Deref, s2)
             else (Inr (0, Some \<lparr>dev_addr = word_of_int p, dev_tag = HARDWARE_DEVICE_TAG abi,
                     dev_version = 0, dev_module = hwmod, dev_set_light = fn\<rparr>), s2))"

text \<open>The module the framework finds, and its method table with the one entry \<open>open\<close>.\<close>

datatype lights_method = Open_lights

record lights_hw_module =
  lm_tag :: u32
  lm_version_major :: u16
  lm_version_minor :: u16
  lm_id :: string
  lm_name :: string
  lm_author :: string
  lm_methods :: lights_method

definition lights_module_methods :: lights_method where
  "lights_module_methods = Open_lights"

definition lights_module :: "u32 \<Rightarrow> string \<Rightarrow> lights_hw_module" where
  "lights_module HARDWARE_MODULE_TAG LIGHTS_HARDWARE_MODULE_ID =
     \<lparr>lm_tag = HARDWARE_MODULE_TAG, lm_version_major = 1, lm_version_minor = 0,
      lm_id = LIGHTS_HARDWARE_MODULE_ID, lm_name = ''lights Module'', lm_author = ''Google, Inc.'',
      lm_methods = lights_module_methods\<rparr>"

text \<open>A call through \<open>dev->set_light\<close>.\<close>

fun call_set_light ::
    "light_abi \<Rightarrow> lights_env \<Rightarrow> set_light_fn \<Rightarrow> light_state \<Rightarrow> lights \<Rightarrow> int \<times> lights" where
  "call_set_light abi env Fn_backlight state s = set_light_backlight env state s"
| "call_set_light abi env Fn_notifications state s = set_light_notifications abi env state s"
| "call_set_light abi env Fn_attention state s = set_light_attention abi env state s"
| "call_set_light abi env Fn_battery state s = set_light_battery abi env state s"
| "call_set_light abi env Fn_buttons state s = set_light_buttons env state s"

text \<open>A request of the framework: which device, and the state asked for.\<close>

type_synonym light_req = "set_light_fn \<times> light_state"

definition light_step :: "light_abi \<Rightarrow> lights_env \<Rightarrow> light_req \<Rightarrow> lights \<Rightarrow> lights" where
  "light_step abi env req s = snd (call_set_light abi env (fst req) (snd req) s)"

end
