(* ===== verification/Lights_Spec.thy ===== *)
theory Lights_Spec
  imports Lights
begin

text \<open>
  What the lights HAL promises. The three lights that share the RGB LED are slots ordered by
  priority; the abstract state is the configuration last requested for each slot, and the LED
  has to show the lit slot of highest priority. The model of the code is shown to refine this
  specification, to program the hardware accordingly (read off the trace of its file writes), to
  touch the hardware only under its mutex, and to compute brightness within its range.
\<close>

section \<open>Specification\<close>

datatype led_slot = Battery | Notifications | Attention

fun slot_index :: "led_slot \<Rightarrow> nat" where
  "slot_index Battery = 0"
| "slot_index Notifications = 1"
| "slot_index Attention = 2"

lemma slot_index_inj: "slot_index a = slot_index b \<longleftrightarrow> a = b"
  by (cases a; cases b) simp_all

lemma slot_index_less: "slot_index a < 3"
  by (cases a) simp_all

instantiation led_slot :: linorder
begin

definition less_eq_led_slot :: "led_slot \<Rightarrow> led_slot \<Rightarrow> bool" where
  "a \<le> b \<longleftrightarrow> slot_index a \<le> slot_index b"

definition less_led_slot :: "led_slot \<Rightarrow> led_slot \<Rightarrow> bool" where
  "a < b \<longleftrightarrow> slot_index a < slot_index b"

instance
  by standard (auto simp: less_eq_led_slot_def less_led_slot_def slot_index_inj)

end

type_synonym light_spec = "led_slot \<Rightarrow> led_config"

definition lit :: "led_config \<Rightarrow> bool" where
  "lit led \<longleftrightarrow> colorRGB led > 0"

definition lit_slots :: "light_spec \<Rightarrow> led_slot list" where
  "lit_slots cfg = filter (\<lambda>x. lit (cfg x)) [Battery, Notifications, Attention]"

definition winner :: "light_spec \<Rightarrow> led_slot option" where
  "winner cfg = (if lit_slots cfg = [] then None else Some (Max (set (lit_slots cfg))))"

definition shown_config :: "light_spec \<Rightarrow> led_config" where
  "shown_config cfg = (case winner cfg of None \<Rightarrow> led_off | Some x \<Rightarrow> cfg x)"

definition light_spec_step :: "light_abi \<Rightarrow> light_req \<Rightarrow> light_spec \<Rightarrow> light_spec" where
  "light_spec_step abi req cfg = (case fst req of
     Fn_battery \<Rightarrow> cfg(Battery := led_of_state abi (snd req))
   | Fn_notifications \<Rightarrow> cfg(Notifications := led_of_state abi (snd req))
   | Fn_attention \<Rightarrow> cfg(Attention := led_of_state abi (fix_attention abi (snd req)))
   | Fn_backlight \<Rightarrow> cfg
   | Fn_buttons \<Rightarrow> cfg)"

definition light_abs :: "lights \<Rightarrow> light_spec" where
  "light_abs s = (\<lambda>x. g_leds s ! slot_index x)"

definition winner_index :: "light_spec \<Rightarrow> int" where
  "winner_index cfg = (case winner cfg of None \<Rightarrow> -1 | Some x \<Rightarrow> int (slot_index x))"

text \<open>
  The invariant of the static variables: three entries, colours of 24 bits, and \<open>g_cur_led\<close>
  names the lit entry of highest priority.
\<close>

definition lights_inv :: "lights \<Rightarrow> bool" where
  "lights_inv s \<longleftrightarrow> length (g_leds s) = 3
     \<and> (\<forall>led \<in> set (g_leds s). colorRGB led \<le> 0x00ffffff)
     \<and> g_cur_led s = winner_index (light_abs s)"

section \<open>The hardware, read off the trace\<close>

text \<open>
  Replaying a trace: which file each descriptor stands for, and the last complete write to each
  file.
\<close>

fun replay :: "lcall \<times> lresp \<Rightarrow> (int \<rightharpoonup> string) \<times> (string \<rightharpoonup> string)
    \<Rightarrow> (int \<rightharpoonup> string) \<times> (string \<rightharpoonup> string)" where
  "replay (L_open p, r) (fds, m) = (if fst r \<ge> 0 then fds(fst r \<mapsto> p) else fds, m)"
| "replay (L_write fd d, r) (fds, m) =
     (fds, case fds fd of None \<Rightarrow> m | Some p \<Rightarrow> if fst r = int (length d) then m(p \<mapsto> d) else m)"
| "replay (L_close fd, r) (fds, m) = (fds(fd := None), m)"
| "replay _ fm = fm"

definition sysfs :: "lights_trace \<Rightarrow> string \<rightharpoonup> string" where
  "sysfs tr = snd (fold replay tr (Map.empty, Map.empty))"

text \<open>Every light file can be opened, and writes to it are complete.\<close>

definition sysfs_ok :: "lights_env \<Rightarrow> bool" where
  "sysfs_ok env \<longleftrightarrow> (\<forall>tr p. 0 \<le> fst (env tr (L_open p)))
     \<and> (\<forall>tr fd d. fst (env tr (L_write fd d)) = int (length d))"

text \<open>What the LED's files hold when a configuration is programmed.\<close>

definition led_files :: "led_config \<Rightarrow> (string \<times> string) list" where
  "led_files led =
     [(RED_LED_FILE, fmt_d (uint (drop_bit 16 (colorRGB led) AND 0xFF)) @ ''\<newline>''),
      (GREEN_LED_FILE, fmt_d (uint (drop_bit 8 (colorRGB led) AND 0xFF)) @ ''\<newline>''),
      (BLUE_LED_FILE, fmt_d (uint (colorRGB led AND 0xFF)) @ ''\<newline>''),
      (RED_TIMEOUT_FILE, fmt_d (sint (onMS led)) @ '' '' @ fmt_d (sint (offMS led)) @ ''\<newline>''),
      (GREEN_TIMEOUT_FILE, fmt_d (sint (onMS led)) @ '' '' @ fmt_d (sint (offMS led)) @ ''\<newline>''),
      (BLUE_TIMEOUT_FILE, fmt_d (sint (onMS led)) @ '' '' @ fmt_d (sint (offMS led)) @ ''\<newline>''),
      (RGB_LOCKED_FILE, fmt_d 1 @ ''\<newline>'')]"

definition led_shows :: "(string \<rightharpoonup> string) \<Rightarrow> led_config \<Rightarrow> bool" where
  "led_shows m led \<longleftrightarrow> (\<forall>(p, v) \<in> set (led_files led). m p = Some v)"

definition led_untouched :: "(string \<rightharpoonup> string) \<Rightarrow> bool" where
  "led_untouched m \<longleftrightarrow> (\<forall>(p, v) \<in> set (led_files led_off). m p = None)"

definition hw_inv :: "lights \<Rightarrow> bool" where
  "hw_inv s \<longleftrightarrow> lights_inv s
     \<and> (led_shows (sysfs (ltrace s)) (shown_config (light_abs s))
        \<or> winner (light_abs s) = None \<and> led_untouched (sysfs (ltrace s)))"

section \<open>The mutex discipline\<close>

text \<open>
  The mutex as an automaton over the trace: \<open>Some held\<close> while the discipline is kept, \<open>None\<close>
  once a lock is taken twice, released unheld, or a file is touched without it.
\<close>

fun lock_auto :: "lcall \<Rightarrow> bool option \<Rightarrow> bool option" where
  "lock_auto L_lock (Some held) = (if held then None else Some True)"
| "lock_auto L_unlock (Some held) = (if held then Some False else None)"
| "lock_auto (L_open p) (Some held) = (if held then Some held else None)"
| "lock_auto (L_write fd d) (Some held) = (if held then Some held else None)"
| "lock_auto (L_close fd) (Some held) = (if held then Some held else None)"
| "lock_auto c st = st"

definition lock_state :: "lights_trace \<Rightarrow> bool option" where
  "lock_state tr = fold lock_auto (map fst tr) (Some False)"

text \<open>The files a trace opens, in order.\<close>

definition opens :: "lights_trace \<Rightarrow> string list" where
  "opens tr = concat (map (\<lambda>e. case fst e of L_open p \<Rightarrow> [p] | _ \<Rightarrow> []) tr)"

section \<open>Frame lemmas\<close>

lemma lsys_eq:
  "lsys env c s = (env (ltrace s) c, s\<lparr>ltrace := ltrace s @ [(c, env (ltrace s) c)]\<rparr>)"
  by (simp add: lsys_def ask_def)

lemmas write_defs = write_int_def write_on_off_def buffered_write_def lsys_eq Let_def case_prod_beta

definition same_leds :: "lights \<Rightarrow> lights \<Rightarrow> bool" where
  "same_leds s t \<longleftrightarrow> g_leds t = g_leds s \<and> g_cur_led t = g_cur_led s \<and> g_init t = g_init s"

lemma same_leds_refl [simp]: "same_leds s s"
  by (simp add: same_leds_def)

lemma same_leds_trans: "same_leds s t \<Longrightarrow> same_leds t u \<Longrightarrow> same_leds s u"
  by (simp add: same_leds_def)

lemma same_leds_lsys: "same_leds s (snd (lsys env c s))"
  by (simp add: same_leds_def lsys_eq)

lemma same_leds_write_int: "same_leds s (snd (write_int env p v s))"
  by (simp add: same_leds_def write_defs)

lemma same_leds_write_on_off: "same_leds s (snd (write_on_off env p a b s))"
  by (simp add: same_leds_def write_defs)

lemmas same_leds_writes =
  same_leds_write_int same_leds_write_on_off same_leds_lsys

lemma same_leds_write_leds: "same_leds s (snd (write_leds_locked env ledp s))"
  unfolding write_leds_locked_def Let_def snd_conv
  by (intro same_leds_trans [OF _ same_leds_write_int] same_leds_trans [OF _ same_leds_write_on_off]
      same_leds_refl)

lemma fst_write_leds [simp]: "fst (write_leds_locked env ledp s) = 0"
  by (simp add: write_leds_locked_def Let_def)

lemma write_leds_fields [simp]:
  "g_leds (snd (write_leds_locked env ledp s)) = g_leds s"
  "g_cur_led (snd (write_leds_locked env ledp s)) = g_cur_led s"
  using same_leds_write_leds by (simp_all add: same_leds_def)

lemma lsys_fields [simp]:
  "g_leds (snd (lsys env c s)) = g_leds s"
  "g_cur_led (snd (lsys env c s)) = g_cur_led s"
  by (simp_all add: lsys_eq)

section \<open>Multiplexing\<close>

lemma winner_cases:
  "winner cfg = (if lit (cfg Attention) then Some Attention
     else if lit (cfg Notifications) then Some Notifications
     else if lit (cfg Battery) then Some Battery else None)"
  by (simp add: winner_def lit_slots_def max_def less_eq_led_slot_def)

lemma winner_is_lit: "winner cfg = Some x \<Longrightarrow> lit (cfg x)"
  by (auto simp: winner_cases split: if_splits)

lemma winner_highest: "winner cfg = Some x \<Longrightarrow> lit (cfg y) \<Longrightarrow> y \<le> x"
  by (cases y) (auto simp: winner_cases less_eq_led_slot_def split: if_splits)

lemma winner_index_range: "-1 \<le> winner_index cfg" "winner_index cfg < 3"
  by (auto simp: winner_index_def winner_cases)

lemma led_of_state_color [simp]: "colorRGB (led_of_state abi st) = color st AND 0x00ffffff"
  by (simp add: led_of_state_def)

lemma and_24_le: "(x :: u32) AND 0x00ffffff \<le> 0x00ffffff"
  by (rule word_and_le1)

lemma length3: "length xs = 3 \<Longrightarrow> \<exists>a b c. xs = [a, b, c]"
  by (auto simp: numeral_3_eq_3 length_Suc_conv)

text \<open>
  One request for a slot: the entry is replaced, and \<open>g_cur_led\<close> names the winner again.
\<close>

lemma set_light_locked_leds:
  assumes "lights_inv s"
  shows "g_leds (snd (set_light_locked abi env st (int (slot_index x)) s))
           = (g_leds s)[slot_index x := led_of_state abi st]"
  using assms by (cases x) (auto simp: set_light_locked_def Let_def case_prod_beta)

lemma set_light_locked_cur:
  assumes "lights_inv s"
  shows "g_cur_led (snd (set_light_locked abi env st (int (slot_index x)) s))
           = winner_index ((light_abs s)(x := led_of_state abi st))"
proof -
  from assms obtain a b c where l: "g_leds s = [a, b, c]"
    unfolding lights_inv_def using length3 by blast
  from assms have cur: "g_cur_led s = winner_index (light_abs s)"
    by (simp add: lights_inv_def)
  show ?thesis
    by (cases x) (auto simp: set_light_locked_def Let_def l cur light_abs_def winner_index_def
        winner_cases lit_def numeral_2_eq_2 case_prod_beta)
qed

lemma set_light_locked_inv:
  assumes "lights_inv s"
  shows "lights_inv (snd (set_light_locked abi env st (int (slot_index x)) s))"
proof -
  let ?t = "snd (set_light_locked abi env st (int (slot_index x)) s)"
  have leds: "g_leds ?t = (g_leds s)[slot_index x := led_of_state abi st]"
    using assms by (rule set_light_locked_leds)
  have len: "length (g_leds s) = 3"
    using assms by (simp add: lights_inv_def)
  have "light_abs ?t = (light_abs s)(x := led_of_state abi st)"
    using len by (auto simp: light_abs_def leds nth_list_update slot_index_inj slot_index_less)
  moreover have "\<forall>led \<in> set (g_leds ?t). colorRGB led \<le> 0x00ffffff"
    using assms set_update_subset_insert [of "g_leds s" "slot_index x" "led_of_state abi st"]
    by (auto simp: leds lights_inv_def and_24_le)
  ultimately show ?thesis
    using set_light_locked_cur [OF assms] len by (simp add: lights_inv_def leds)
qed

lemma set_light_locked_abs:
  assumes "lights_inv s"
  shows "light_abs (snd (set_light_locked abi env st (int (slot_index x)) s))
           = (light_abs s)(x := led_of_state abi st)"
  using assms
  by (auto simp: light_abs_def set_light_locked_leds nth_list_update slot_index_inj slot_index_less
      lights_inv_def)

text \<open>Locking and unlocking, and writes to other files, leave the three slots alone.\<close>

lemma light_abs_same: "same_leds s t \<Longrightarrow> light_abs t = light_abs s"
  by (simp add: light_abs_def same_leds_def)

lemma lights_inv_same: "same_leds s t \<Longrightarrow> lights_inv t = lights_inv s"
  using light_abs_same [of s t] by (simp add: lights_inv_def same_leds_def)

lemmas lights_same_lsys [simp] =
  light_abs_same [OF same_leds_lsys] lights_inv_same [OF same_leds_lsys]

lemmas lights_same_write_int [simp] =
  light_abs_same [OF same_leds_write_int] lights_inv_same [OF same_leds_write_int]

lemma set_light_inv_at [simp]:
  assumes "lights_inv s"
  shows "lights_inv (snd (set_light_locked abi env st 0 s))"
    and "lights_inv (snd (set_light_locked abi env st 1 s))"
    and "lights_inv (snd (set_light_locked abi env st 2 s))"
  using set_light_locked_inv [OF assms, of abi env st Battery]
    set_light_locked_inv [OF assms, of abi env st Notifications]
    set_light_locked_inv [OF assms, of abi env st Attention] by simp_all

lemma set_light_abs_at [simp]:
  assumes "lights_inv s"
  shows "light_abs (snd (set_light_locked abi env st 0 s)) = (light_abs s)(Battery := led_of_state abi st)"
    and "light_abs (snd (set_light_locked abi env st 1 s)) = (light_abs s)(Notifications := led_of_state abi st)"
    and "light_abs (snd (set_light_locked abi env st 2 s)) = (light_abs s)(Attention := led_of_state abi st)"
  using set_light_locked_abs [OF assms, of abi env st Battery]
    set_light_locked_abs [OF assms, of abi env st Notifications]
    set_light_locked_abs [OF assms, of abi env st Attention] by simp_all

lemmas set_light_defs =
  light_step_def set_light_backlight_def set_light_buttons_def set_light_battery_def
  set_light_notifications_def set_light_attention_def Let_def case_prod_beta

lemma light_step_inv: "lights_inv s \<Longrightarrow> lights_inv (light_step abi env req s)"
  by (cases "fst req") (simp_all add: set_light_defs)

lemma light_step_abs:
  "lights_inv s \<Longrightarrow> light_abs (light_step abi env req s) = light_spec_step abi req (light_abs s)"
  by (cases "fst req") (simp_all add: set_light_defs light_spec_step_def)

interpretation lmux: simulation "light_step abi env" lights_inv light_abs "light_spec_step abi"
  for abi env
  by unfold_locales (simp_all add: light_step_inv light_step_abs)

lemma init_lights_inv: "lights_inv init_lights"
  by (auto simp: lights_inv_def init_lights_def light_abs_def winner_index_def winner_cases lit_def
      led_off_def numeral_3_eq_3 numeral_2_eq_2)

lemma init_lights_abs: "light_abs init_lights = (\<lambda>_. led_off)"
proof
  show "light_abs init_lights x = led_off" for x
    using slot_index_less [of x] by (simp add: light_abs_def init_lights_def)
qed

section \<open>What the writes do to the files\<close>

lemma payload: "length txt < 32 \<Longrightarrow> take (length txt) (put_text 0 32 txt (replicate 32 NUL)) = txt"
  by (simp add: put_text_fits write_at_def)

lemma trace_buffered_write:
  "length txt < 32 \<Longrightarrow> \<exists>r. ltrace (snd (buffered_write env fd txt s))
     = ltrace s @ [(L_write fd txt, env (ltrace s) (L_write fd txt)), (L_close fd, r)]"
  by (simp add: buffered_write_def lsys_eq Let_def case_prod_beta payload)

lemma sysfs_file_write:
  assumes "0 \<le> fst r1" and "fst r2 = int (length d)"
  shows "sysfs (tr @ [(L_open p, r1), (L_write (fst r1) d, r2), (L_close (fst r1), r3)])
           = (sysfs tr)(p \<mapsto> d)"
  using assms by (simp add: sysfs_def) (cases "fold replay tr (Map.empty, Map.empty)"; simp)

lemma sysfs_open_write:
  assumes ok: "sysfs_ok env" and len: "length txt < 32"
  shows "sysfs (ltrace (snd (buffered_write env (fst (env (ltrace s) (L_open p))) txt
            (snd (lsys env (L_open p) s))))) = (sysfs (ltrace s))(p \<mapsto> txt)"
proof -
  let ?r = "env (ltrace s) (L_open p)"
  let ?s = "snd (lsys env (L_open p) s)"
  obtain r where "ltrace (snd (buffered_write env (fst ?r) txt ?s))
      = ltrace ?s @ [(L_write (fst ?r) txt, env (ltrace ?s) (L_write (fst ?r) txt)), (L_close (fst ?r), r)]"
    using trace_buffered_write [OF len] by blast
  moreover have "ltrace ?s = ltrace s @ [(L_open p, ?r)]"
    by (simp add: lsys_eq)
  ultimately show ?thesis
    using ok by (simp add: sysfs_file_write sysfs_ok_def)
qed

lemma sysfs_write_int:
  assumes "sysfs_ok env" and "-2147483648 \<le> v" "v \<le> 4294967295"
  shows "sysfs (ltrace (snd (write_int env p v s))) = (sysfs (ltrace s))(p \<mapsto> fmt_d v @ ''\<newline>'')"
proof -
  have "length (fmt_d v @ ''\<newline>'') < 32"
    using length_fmt_d [OF assms(2,3)] by simp
  then show ?thesis
    using assms(1) sysfs_open_write [OF assms(1), of "fmt_d v @ ''\<newline>''" s p]
    by (simp add: write_int_def case_prod_beta Let_def lsys_eq sysfs_ok_def)
qed

lemma sysfs_write_on_off:
  assumes "sysfs_ok env"
  shows "sysfs (ltrace (snd (write_on_off env p (sint (a :: s32)) (sint (b :: s32)) s)))
           = (sysfs (ltrace s))(p \<mapsto> fmt_d (sint a) @ '' '' @ fmt_d (sint b) @ ''\<newline>'')"
proof -
  have "length (fmt_d (sint a) @ '' '' @ fmt_d (sint b) @ ''\<newline>'') < 32"
    using length_fmt_d_sint [of a] length_fmt_d_sint [of b] by simp
  then show ?thesis
    using assms sysfs_open_write [OF assms, of _ s p]
    by (simp add: write_on_off_def case_prod_beta Let_def lsys_eq sysfs_ok_def)
qed

lemma sub_byte_range:
  "-2147483648 \<le> uint (x AND (255 :: u32))" "uint (x AND (255 :: u32)) \<le> 4294967295"
  using word_and_mask_le [of x "255 :: u32"] order.trans [OF _ uint_ge_0, of "-2147483648"] by simp_all

lemma files_distinct:
  "distinct [RED_LED_FILE, GREEN_LED_FILE, BLUE_LED_FILE, RED_TIMEOUT_FILE, GREEN_TIMEOUT_FILE,
     BLUE_TIMEOUT_FILE, RGB_LOCKED_FILE, LCD_FILE, LED_ENABLE_FILE]"
  by (simp add: const_defs)

lemma sysfs_write_leds:
  assumes "sysfs_ok env"
  shows "led_shows (sysfs (ltrace (snd (write_leds_locked env ledp s))))
           (case ledp of None \<Rightarrow> led_off | Some led \<Rightarrow> led)"
  using files_distinct
  by (simp add: write_leds_locked_def Let_def led_shows_def led_files_def sysfs_write_int
      sysfs_write_on_off assms sub_byte_range eq_commute [of RGB_LOCKED_FILE])

lemma set_light_locked_hw:
  assumes ok: "sysfs_ok env" and inv: "lights_inv s"
    and t_def: "t = snd (set_light_locked abi env st (int (slot_index x)) s)"
  shows "led_shows (sysfs (ltrace t)) (shown_config (light_abs t))
    \<or> ltrace t = ltrace s \<and> shown_config (light_abs t) = shown_config (light_abs s)
       \<and> winner (light_abs t) = winner (light_abs s)"
proof -
  from inv obtain a b c where l: "g_leds s = [a, b, c]"
    unfolding lights_inv_def using length3 by blast
  from inv have cur: "g_cur_led s = winner_index (light_abs s)"
    by (simp add: lights_inv_def)
  have abs: "light_abs t = (light_abs s)(x := led_of_state abi st)"
    unfolding t_def using inv by (rule set_light_locked_abs)
  note W = sysfs_write_leds [OF ok, of None, simplified]
    sysfs_write_leds [OF ok, of "Some led" for led, simplified]
  show ?thesis
    unfolding abs
    by (cases x) (auto simp: t_def set_light_locked_def Let_def case_prod_beta l cur light_abs_def
        winner_index_def winner_cases lit_def numeral_2_eq_2 shown_config_def W)
qed

lemma sysfs_lock [simp]:
  "sysfs (tr @ [(L_lock, r)]) = sysfs tr" "sysfs (tr @ [(L_unlock, r)]) = sysfs tr"
  by (simp_all add: sysfs_def)

lemma hw_inv_lock [simp]:
  "hw_inv (snd (lsys env L_lock s)) = hw_inv s" "hw_inv (snd (lsys env L_unlock s)) = hw_inv s"
  by (simp_all add: hw_inv_def) (simp_all add: lsys_eq)

lemma led_shows_other:
  assumes "p = LCD_FILE \<or> p = LED_ENABLE_FILE"
  shows "led_shows (m(p \<mapsto> v)) led = led_shows m led"
    and "led_untouched (m(p \<mapsto> v)) = led_untouched m"
  using assms files_distinct
  by (elim disjE; simp add: led_shows_def led_untouched_def led_files_def)+

text \<open>The colour channels of a request, as numbers.\<close>

definition red_of :: "u32 \<Rightarrow> int" where "red_of c = uint c div 65536 mod 256"
definition green_of :: "u32 \<Rightarrow> int" where "green_of c = uint c div 256 mod 256"
definition blue_of :: "u32 \<Rightarrow> int" where "blue_of c = uint c mod 256"

lemma and_255: "(x :: int) AND 255 = take_bit 8 x"
  by (simp add: take_bit_eq_mask mask_eq_exp_minus_1)

lemma uint_and_24: "uint (c AND (0x00ffffff :: u32)) = take_bit 24 (uint c)"
proof -
  have "c AND (0x00ffffff :: u32) = take_bit 24 c"
    by (simp add: take_bit_eq_mask mask_eq_exp_minus_1)
  then show ?thesis by (simp only: unsigned_take_bit_eq)
qed

lemma brightness_formula:
  "rgb_to_brightness st = (77 * red_of (color st) + 150 * green_of (color st)
     + 29 * blue_of (color st)) div 256"
proof -
  define x where "x = uint (color st)"
  have "take_bit 8 (drop_bit 16 (take_bit 24 x)) = red_of (color st)"
    by (simp add: drop_bit_take_bit red_of_def x_def)
       (simp add: take_bit_eq_mod drop_bit_eq_div)
  moreover have "take_bit 8 (drop_bit 8 (take_bit 24 x)) = green_of (color st)"
    by (simp add: drop_bit_take_bit green_of_def x_def)
       (simp add: take_bit_eq_mod drop_bit_eq_div)
  moreover have "take_bit 8 (take_bit 24 x) = blue_of (color st)"
    by (simp add: blue_of_def x_def) (simp add: take_bit_eq_mod)
  ultimately show ?thesis
    by (simp add: rgb_to_brightness_def Let_def and_255 uint_and_24 x_def [symmetric])
       (simp add: drop_bit_eq_div)
qed

lemma channel_range:
  "0 \<le> red_of c" "red_of c \<le> 255" "0 \<le> green_of c" "green_of c \<le> 255"
  "0 \<le> blue_of c" "blue_of c \<le> 255"
proof -
  have "0 \<le> x mod 256 \<and> x mod 256 \<le> 255" for x :: int
    using pos_mod_sign [of 256 x] pos_mod_bound [of 256 x] by simp
  then show "0 \<le> red_of c" "red_of c \<le> 255" "0 \<le> green_of c" "green_of c \<le> 255"
    "0 \<le> blue_of c" "blue_of c \<le> 255"
    unfolding red_of_def green_of_def blue_of_def by blast+
qed

lemma brightness_range: "0 \<le> rgb_to_brightness st" "rgb_to_brightness st \<le> 255"
  using channel_range [of "color st"] by (simp_all add: brightness_formula)

lemma hw_inv_write_other:
  assumes "sysfs_ok env" and "hw_inv s" and "p = LCD_FILE \<or> p = LED_ENABLE_FILE"
  shows "hw_inv (snd (write_int env p (rgb_to_brightness st) s))"
proof -
  have "-2147483648 \<le> rgb_to_brightness st" "rgb_to_brightness st \<le> 4294967295"
    using brightness_range [of st] by simp_all
  with assms show ?thesis
    by (auto simp: hw_inv_def sysfs_write_int led_shows_other)
qed

lemma hw_inv_set_light:
  assumes "sysfs_ok env" and "hw_inv s"
  shows "hw_inv (snd (set_light_locked abi env st (int (slot_index x)) s))"
  using set_light_locked_hw [OF assms(1) _ refl, of s abi st x] assms(2)
  by (auto simp: hw_inv_def set_light_locked_inv)

lemma hw_inv_step:
  assumes ok: "sysfs_ok env" and inv: "hw_inv s"
  shows "hw_inv (light_step abi env req s)"
proof -
  note at = hw_inv_set_light [OF ok, of _ abi _ Battery, simplified]
    hw_inv_set_light [OF ok, of _ abi _ Notifications, simplified]
    hw_inv_set_light [OF ok, of _ abi _ Attention, simplified]
  show ?thesis
    using inv by (cases "fst req") (simp_all add: set_light_defs at hw_inv_write_other [OF ok])
qed

lemma hw_invariant_system: "sysfs_ok env \<Longrightarrow> invariant_system (light_step abi env) hw_inv"
  by unfold_locales (rule hw_inv_step)

lemma init_lights_trace [simp]: "ltrace init_lights = []"
  by (simp add: init_lights_def)

lemma init_lights_hw: "hw_inv init_lights"
proof -
  have "led_untouched (sysfs [])"
    by (auto simp: led_untouched_def sysfs_def)
  moreover have "winner (\<lambda>_. led_off) = None"
    by (simp add: winner_cases lit_def led_off_def)
  ultimately show ?thesis
    by (simp add: hw_inv_def init_lights_inv init_lights_abs)
qed

section \<open>The mutex is held around every file access\<close>

lemma lock_state_snoc [simp]: "lock_state (tr @ [e]) = lock_auto (fst e) (lock_state tr)"
  by (simp add: lock_state_def)

lemma lock_state_snoc2 [simp]:
  "lock_state (tr @ [e1, e2]) = lock_auto (fst e2) (lock_auto (fst e1) (lock_state tr))"
  "lock_state (tr @ [e1, e2, e3])
     = lock_auto (fst e3) (lock_auto (fst e2) (lock_auto (fst e1) (lock_state tr)))"
  by (simp_all add: lock_state_def)

definition holds_lock :: "lights \<Rightarrow> bool" where
  "holds_lock s \<longleftrightarrow> lock_state (ltrace s) = Some True"

lemma holds_lock_write_int [simp]: "holds_lock s \<Longrightarrow> holds_lock (snd (write_int env p v s))"
  by (simp add: holds_lock_def write_defs)

lemma holds_lock_write_on_off [simp]: "holds_lock s \<Longrightarrow> holds_lock (snd (write_on_off env p a b s))"
  by (simp add: holds_lock_def write_defs)

lemma holds_lock_write_leds [simp]: "holds_lock s \<Longrightarrow> holds_lock (snd (write_leds_locked env ledp s))"
  by (simp add: write_leds_locked_def Let_def)

lemma holds_lock_update [simp]:
  "holds_lock (s\<lparr>g_leds := x\<rparr>) = holds_lock s" "holds_lock (s\<lparr>g_cur_led := y\<rparr>) = holds_lock s"
  by (simp_all add: holds_lock_def)

lemma holds_lock_set_light [simp]:
  "holds_lock s \<Longrightarrow> holds_lock (snd (set_light_locked abi env st type s))"
  by (simp add: set_light_locked_def Let_def case_prod_beta)

definition lock_free :: "lights \<Rightarrow> bool" where
  "lock_free s \<longleftrightarrow> lock_state (ltrace s) = Some False"

lemma lock_acquire [simp]: "lock_free s \<Longrightarrow> holds_lock (snd (lsys env L_lock s))"
  by (simp add: lock_free_def holds_lock_def lsys_eq)

lemma lock_release [simp]: "holds_lock s \<Longrightarrow> lock_free (snd (lsys env L_unlock s))"
  by (simp add: lock_free_def holds_lock_def lsys_eq)

lemma light_step_lock: "lock_free s \<Longrightarrow> lock_free (light_step abi env req s)"
  by (cases "fst req") (simp_all add: set_light_defs)

interpretation llock: invariant_system "light_step abi env" lock_free for abi env
  by unfold_locales (rule light_step_lock)

section \<open>The order of the LED's file accesses\<close>

lemma opens_append [simp]: "opens (tr @ ext) = opens tr @ opens ext"
  by (simp add: opens_def)

lemma opens_write_int [simp]: "opens (ltrace (snd (write_int env p v s))) = opens (ltrace s) @ [p]"
  by (simp add: write_defs) (simp add: opens_def)

lemma opens_write_on_off [simp]:
  "opens (ltrace (snd (write_on_off env p a b s))) = opens (ltrace s) @ [p]"
  by (simp add: write_defs) (simp add: opens_def)

section \<open>The trace only grows\<close>

definition grows :: "lights \<Rightarrow> lights \<Rightarrow> bool" where
  "grows s t \<longleftrightarrow> (\<exists>ext. ltrace t = ltrace s @ ext)"

lemma grows_refl [simp]: "grows s s"
  by (simp add: grows_def)

lemma grows_trans: "grows s t \<Longrightarrow> grows t u \<Longrightarrow> grows s u"
  by (auto simp: grows_def)

lemma grows_lsys: "grows s t \<Longrightarrow> grows s (snd (lsys env c t))"
  by (auto simp: grows_def lsys_eq)

lemma grows_write_int: "grows s t \<Longrightarrow> grows s (snd (write_int env p v t))"
  by (auto simp: grows_def write_defs)

lemma grows_write_on_off: "grows s t \<Longrightarrow> grows s (snd (write_on_off env p a b t))"
  by (auto simp: grows_def write_defs)

lemma grows_write_leds: "grows s t \<Longrightarrow> grows s (snd (write_leds_locked env ledp t))"
  by (simp add: write_leds_locked_def Let_def grows_write_int grows_write_on_off)

lemma grows_update:
  "grows s t \<Longrightarrow> grows s (t\<lparr>g_leds := x\<rparr>)" "grows s t \<Longrightarrow> grows s (t\<lparr>g_cur_led := y\<rparr>)"
  by (simp_all add: grows_def)

lemma grows_set_light: "grows s t \<Longrightarrow> grows s (snd (set_light_locked abi env st type t))"
  by (simp add: set_light_locked_def Let_def case_prod_beta grows_update grows_write_leds)

lemma light_step_grows: "grows s (light_step abi env req s)"
  by (cases "fst req")
    (simp_all add: set_light_defs grows_lsys grows_write_int grows_set_light)

interpretation lrec: trace_recorder "light_step abi env" ltrace for abi env
  by unfold_locales (use light_step_grows in \<open>simp add: grows_def\<close>)

section \<open>Warnings\<close>

text \<open>Each of the two writers reports at most one failure to open a file.\<close>

fun is_alog :: "lcall \<Rightarrow> bool" where
  "is_alog (L_alog t) = True"
| "is_alog c = False"

definition logged :: "lights_trace \<Rightarrow> lcall list" where
  "logged tr = filter is_alog (map fst tr)"

definition warn_inv :: "lights \<Rightarrow> bool" where
  "warn_inv s \<longleftrightarrow> length (logged (ltrace s)) = of_bool (warned_int s) + of_bool (warned_on_off s)"

lemma logged_append [simp]: "logged (tr @ ext) = logged tr @ logged ext"
  by (simp add: logged_def)

lemma logged_Cons [simp]: "logged (e # tr) = (if is_alog (fst e) then [fst e] else []) @ logged tr" "logged [] = []"
  by (simp_all add: logged_def)

lemma warn_write_int [simp]: "warn_inv s \<Longrightarrow> warn_inv (snd (write_int env p v s))"
  by (simp add: warn_inv_def write_defs)

lemma warn_write_on_off [simp]: "warn_inv s \<Longrightarrow> warn_inv (snd (write_on_off env p a b s))"
  by (simp add: warn_inv_def write_defs)

lemma warn_lsys [simp]: "\<not> is_alog c \<Longrightarrow> warn_inv (snd (lsys env c s)) = warn_inv s"
  by (simp add: warn_inv_def lsys_eq)

lemma warn_update [simp]:
  "warn_inv (s\<lparr>g_leds := x\<rparr>) = warn_inv s" "warn_inv (s\<lparr>g_cur_led := y\<rparr>) = warn_inv s"
  by (simp_all add: warn_inv_def)

lemma warn_write_leds [simp]: "warn_inv s \<Longrightarrow> warn_inv (snd (write_leds_locked env ledp s))"
  by (simp add: write_leds_locked_def Let_def)

lemma warn_set_light [simp]: "warn_inv s \<Longrightarrow> warn_inv (snd (set_light_locked abi env st type s))"
  by (simp add: set_light_locked_def Let_def case_prod_beta)

lemma light_step_warn: "warn_inv s \<Longrightarrow> warn_inv (light_step abi env req s)"
  by (cases "fst req") (simp_all add: set_light_defs)

interpretation lwarn: invariant_system "light_step abi env" warn_inv for abi env
  by unfold_locales (rule light_step_warn)

end
