(* ===== verification/Lights_Threads.thy ===== *)
theory Lights_Threads
  imports Lights_Spec
begin

text \<open>
  Concurrent callers of the lights HAL. The framework may call the \<open>set_light\<close> pointers of
  src/liblight/lights.c from several threads at once; the functions serialise their work with
  the mutex \<open>g_lock\<close>. Here every function is cut into its single actions: taking and releasing the
  mutex, each access to the static variables \<open>g_leds\<close>, \<open>g_cur_led\<close> and \<open>already_warned\<close>, and each
  system call is one instruction of a thread, and the threads interleave in any order. The mutex
  is an object the instructions operate on: a thread is stopped by it only where its function
  has \<open>I_lock\<close>, and nothing else keeps two threads apart.
\<close>

section \<open>The instructions of the functions\<close>

datatype warned_var = Warned_int | Warned_on_off   \<comment> \<open>\<open>already_warned\<close> of each writer\<close>

datatype linstr =
    I_lock                           \<comment> \<open>\<open>pthread_mutex_lock(&g_lock)\<close>\<close>
  | I_unlock                         \<comment> \<open>\<open>pthread_mutex_unlock(&g_lock)\<close>\<close>
  | I_write_int string int           \<comment> \<open>enter \<open>write_int\<close>: open the file\<close>
  | I_write_on_off string int int    \<comment> \<open>enter \<open>write_on_off\<close>: open the file\<close>
  | I_write int string               \<comment> \<open>\<open>amt = write(fd, buffer, bytes)\<close>\<close>
  | I_close int int                  \<comment> \<open>\<open>close(fd)\<close>, then \<open>amt == -1 ? -errno : 0\<close>\<close>
  | I_warn warned_var string int     \<comment> \<open>the open failed: look at \<open>already_warned\<close>\<close>
  | I_alog warned_var string         \<comment> \<open>\<open>ALOGE(...)\<close>\<close>
  | I_set_warned warned_var int      \<comment> \<open>\<open>already_warned = 1; return -errno\<close>\<close>
  | I_store nat led_config           \<comment> \<open>\<open>g_leds[type] = ...\<close>\<close>
  | I_arbitrate nat led_config       \<comment> \<open>compare with \<open>g_cur_led\<close>\<close>
  | I_scan nat                       \<comment> \<open>one round of the search for a lower lit LED\<close>
  | I_set_cur int                    \<comment> \<open>\<open>g_cur_led = ...\<close>\<close>
  | I_err int                        \<comment> \<open>\<open>return\<close> of a status\<close>

text \<open>The body of \<open>write_leds_locked\<close> as instructions.\<close>

definition led_instrs :: "led_config option \<Rightarrow> linstr list" where
  "led_instrs ledp =
     (let led = (case ledp of None \<Rightarrow> led_off | Some led \<Rightarrow> led);
          on = sint (onMS led);
          off = sint (offMS led)
      in [I_write_int RGB_LOCKED_FILE 0,
          I_write_int RED_LED_FILE (uint (drop_bit 16 (colorRGB led) AND 0xFF)),
          I_write_int GREEN_LED_FILE (uint (drop_bit 8 (colorRGB led) AND 0xFF)),
          I_write_int BLUE_LED_FILE (uint (colorRGB led AND 0xFF)),
          I_write_on_off RED_TIMEOUT_FILE on off,
          I_write_on_off GREEN_TIMEOUT_FILE on off,
          I_write_on_off BLUE_TIMEOUT_FILE on off,
          I_write_int RGB_LOCKED_FILE 1,
          I_err 0])"

text \<open>The body of \<open>set_light_locked\<close> for one of its three valid types.\<close>

definition locked_instrs :: "light_abi \<Rightarrow> light_state \<Rightarrow> nat \<Rightarrow> linstr list" where
  "locked_instrs abi state type =
     (let led = led_of_state abi state in [I_store type led, I_arbitrate type led])"

text \<open>
  The functions from their first action to their \<open>return\<close>. Brightness and the fixed-up state of the
  attention light are computed on the caller's own data. The status of \<open>set_light_locked\<close> is not
  looked at: three of the functions return 0.
\<close>

fun set_light_instrs :: "light_abi \<Rightarrow> light_req \<Rightarrow> linstr list" where
  "set_light_instrs abi (Fn_backlight, state) =
     [I_lock, I_write_int LCD_FILE (rgb_to_brightness state), I_unlock]"
| "set_light_instrs abi (Fn_buttons, state) =
     [I_lock, I_write_int LED_ENABLE_FILE (rgb_to_brightness state), I_unlock]"
| "set_light_instrs abi (Fn_battery, state) =
     [I_lock] @ locked_instrs abi state 0 @ [I_unlock, I_err 0]"
| "set_light_instrs abi (Fn_notifications, state) =
     [I_lock] @ locked_instrs abi state 1 @ [I_unlock, I_err 0]"
| "set_light_instrs abi (Fn_attention, state) =
     [I_lock] @ locked_instrs abi (fix_attention abi state) 2 @ [I_unlock, I_err 0]"

text \<open>
  One instruction: the instructions to go on with, the status, and the shared state. A status is
  the value the innermost function call returned last.
\<close>

fun has_warned :: "warned_var \<Rightarrow> lights \<Rightarrow> bool" where
  "has_warned Warned_int s = warned_int s"
| "has_warned Warned_on_off s = warned_on_off s"

fun set_warned :: "warned_var \<Rightarrow> lights \<Rightarrow> lights" where
  "set_warned Warned_int s = s\<lparr>warned_int := True\<rparr>"
| "set_warned Warned_on_off s = s\<lparr>warned_on_off := True\<rparr>"

fun exec_instr :: "lights_env \<Rightarrow> linstr \<Rightarrow> int \<times> lights \<Rightarrow> linstr list \<times> int \<times> lights" where
  "exec_instr env I_lock (err, s) = ([], err, snd (lsys env L_lock s))"
| "exec_instr env I_unlock (err, s) = ([], err, snd (lsys env L_unlock s))"
| "exec_instr env (I_write_int p v) (err, s) =
     (let ((fd, errno), s1) = lsys env (L_open p) s in
      (if fd \<ge> 0 then [I_write fd (fmt_d v @ ''\<newline>'')] else [I_warn Warned_int p errno], err, s1))"
| "exec_instr env (I_write_on_off p on off) (err, s) =
     (let ((fd, errno), s1) = lsys env (L_open p) s in
      (if fd \<ge> 0 then [I_write fd (fmt_d on @ '' '' @ fmt_d off @ ''\<newline>'')]
       else [I_warn Warned_on_off p errno], err, s1))"
| "exec_instr env (I_write fd txt) (err, s) =
     (let buffer = put_text 0 32 txt (replicate 32 NUL);
          ((amt, _), s1) = lsys env (L_write fd (take (length txt) buffer)) s
      in ([I_close fd amt], err, s1))"
| "exec_instr env (I_close fd amt) (err, s) =
     (let ((_, errno), s1) = lsys env (L_close fd) s in
      ([], if amt = -1 then - errno else 0, s1))"
| "exec_instr env (I_warn v p errno) (err, s) =
     (if \<not> has_warned v s then [I_alog v p] else [I_err (- errno)], err, s)"
| "exec_instr env (I_alog v p) (err, s) =
     (let ((_, errno), s1) = lsys env (L_alog (open_failed_text p)) s
      in ([I_set_warned v errno], err, s1))"
| "exec_instr env (I_set_warned v errno) (err, s) = ([], - errno, set_warned v s)"
| "exec_instr env (I_store t led) (err, s) = ([], err, s\<lparr>g_leds := (g_leds s)[t := led]\<rparr>)"
| "exec_instr env (I_arbitrate t led) (err, s) =
     (if colorRGB led > 0
      then (if int t \<ge> g_cur_led s then led_instrs (Some led) @ [I_set_cur (int t)] else [I_err 0])
      else (if int t = g_cur_led s then [I_scan t] else [I_err 0]), err, s)"
| "exec_instr env (I_scan 0) (err, s) = (led_instrs None @ [I_set_cur (-1)], err, s)"
| "exec_instr env (I_scan (Suc i)) (err, s) =
     (if colorRGB (g_leds s ! i) > 0
      then led_instrs (Some (g_leds s ! i)) @ [I_set_cur (int i)]
      else [I_scan i], err, s)"
| "exec_instr env (I_set_cur k) (err, s) = ([], err, s\<lparr>g_cur_led := k\<rparr>)"
| "exec_instr env (I_err e) (err, s) = ([], e, s)"

section \<open>Threads\<close>

record lthread =
  in_call :: "(light_req \<times> linstr list \<times> int) option"  \<comment> \<open>the call it is in, what is left of it\<close>
  todo :: "light_req list"                                 \<comment> \<open>calls still to make\<close>
  returned :: "int list"                                   \<comment> \<open>results of the calls made\<close>

record lmachine =
  shared :: lights
  g_lock :: "nat option"                    \<comment> \<open>the thread that holds the mutex\<close>
  threads :: "lthread list"
  lock_order :: "(nat \<times> light_req) list"   \<comment> \<open>who took the mutex for what, in order\<close>

definition start_threads :: "light_req list list \<Rightarrow> lights \<Rightarrow> lmachine" where
  "start_threads progs s =
     \<lparr>shared = s, g_lock = None,
      threads = map (\<lambda>p. \<lparr>in_call = None, todo = p, returned = []\<rparr>) progs, lock_order = []\<rparr>"

definition set_thread :: "nat \<Rightarrow> lthread \<Rightarrow> lmachine \<Rightarrow> lmachine" where
  "set_thread i th m = m\<lparr>threads := (threads m)[i := th]\<rparr>"

text \<open>What an instruction of thread \<open>i\<close> for request \<open>r\<close> does to the mutex.\<close>

definition mutex_effect :: "nat \<Rightarrow> light_req \<Rightarrow> linstr \<Rightarrow> lmachine \<Rightarrow> lmachine" where
  "mutex_effect i r ins m =
     (if ins = I_lock then m\<lparr>g_lock := Some i, lock_order := lock_order m @ [(i, r)]\<rparr>
      else if ins = I_unlock then m\<lparr>g_lock := None\<rparr> else m)"

text \<open>
  A thread enters a function, executes its next instruction, or returns. The only instruction
  that may have to wait is the one that takes the mutex.
\<close>

inductive lstep :: "light_abi \<Rightarrow> lights_env \<Rightarrow> lmachine \<Rightarrow> lmachine \<Rightarrow> bool"
  for abi env where
  call: "i < length (threads m) \<Longrightarrow> threads m ! i = th \<Longrightarrow> in_call th = None \<Longrightarrow> todo th = r # rs \<Longrightarrow>
    lstep abi env m
      (set_thread i (th\<lparr>in_call := Some (r, set_light_instrs abi r, 0), todo := rs\<rparr>) m)"
| exec: "i < length (threads m) \<Longrightarrow> threads m ! i = th \<Longrightarrow>
    in_call th = Some (r, ins # rest, err) \<Longrightarrow>
    (ins = I_lock \<longrightarrow> g_lock m = None) \<Longrightarrow>
    exec_instr env ins (err, shared m) = (pushed, err', s') \<Longrightarrow>
    lstep abi env m
      (set_thread i (th\<lparr>in_call := Some (r, pushed @ rest, err')\<rparr>)
        (mutex_effect i r ins (m\<lparr>shared := s'\<rparr>)))"
| return: "i < length (threads m) \<Longrightarrow> threads m ! i = th \<Longrightarrow> in_call th = Some (r, [], err) \<Longrightarrow>
    lstep abi env m (set_thread i (th\<lparr>in_call := None, returned := returned th @ [err]\<rparr>) m)"

inductive_cases lstep_elim [elim]: "lstep abi env m m'"

definition all_done :: "lmachine \<Rightarrow> bool" where
  "all_done m \<longleftrightarrow> list_all (\<lambda>th. in_call th = None \<and> todo th = []) (threads m)"

text \<open>
  The instructions that touch what the threads share: everything but waiting for the mutex and
  handing on a status.
\<close>

fun touches_shared :: "linstr \<Rightarrow> bool" where
  "touches_shared I_lock = False"
| "touches_shared (I_err e) = False"
| "touches_shared ins = True"

definition about_to_touch :: "lthread \<Rightarrow> bool" where
  "about_to_touch th \<longleftrightarrow> (case in_call th of Some (r, ins # rest, err) \<Rightarrow> touches_shared ins | _ \<Rightarrow> False)"

section \<open>A call run without interruption\<close>

text \<open>How many instructions an instruction can still lead to, itself included.\<close>

fun instr_work :: "linstr \<Rightarrow> nat" where
  "instr_work (I_write_int p v) = 4"
| "instr_work (I_write_on_off p a b) = 4"
| "instr_work (I_write fd d) = 2"
| "instr_work (I_warn v p e) = 3"
| "instr_work (I_alog v p) = 2"
| "instr_work (I_arbitrate t led) = 36 + t"
| "instr_work (I_scan k) = 35 + k"
| "instr_work ins = 1"

abbreviation instrs_work :: "linstr list \<Rightarrow> nat" where
  "instrs_work ins \<equiv> sum_list (map instr_work ins)"

lemma led_instrs_work [simp]: "instrs_work (led_instrs ledp) = 33"
  by (simp add: led_instrs_def Let_def)

lemma exec_instr_work: "instrs_work (fst (exec_instr env ins (err, s))) < instr_work ins"
  by (cases "(env, ins, err, s)" rule: exec_instr.cases) (auto simp: Let_def case_prod_beta)

lemma exec_instr_drops:
  "(pushed, es') = exec_instr env ins es \<Longrightarrow> instrs_work pushed < instr_work ins"
  by (cases es) (metis exec_instr_work fst_conv)

function drain :: "lights_env \<Rightarrow> linstr list \<Rightarrow> int \<times> lights \<Rightarrow> int \<times> lights" where
  "drain env [] es = es"
| "drain env (ins # rest) es =
     (let (pushed, es') = exec_instr env ins es in drain env (pushed @ rest) es')"
  by pat_completeness auto
termination
  by (relation "measure (\<lambda>(env, ins, es). instrs_work ins)")
    (auto dest: exec_instr_drops)

end
