(* ===== verification/Lights_Correct.thy ===== *)
theory Lights_Correct
  imports Lights_Spec
begin

text \<open>
  The properties of the lights HAL, stated over whole runs of requests from the initial state
  where the state matters, and their witnesses. \<open>good_sysfs\<close> is a kernel on which every open and
  write succeeds; \<open>broken_sysfs\<close> one on which every call fails.
\<close>

definition good_sysfs :: lights_env where
  "good_sysfs tr c = (case c of L_open p \<Rightarrow> (3, 0) | L_write fd d \<Rightarrow> (int (length d), 0) | _ \<Rightarrow> (0, 0))"

definition broken_sysfs :: lights_env where
  "broken_sysfs tr c = (-1, 13)"

definition demo_abi :: light_abi where
  "demo_abi = \<lparr>LIGHT_ID_BACKLIGHT = ''backlight'', LIGHT_ID_NOTIFICATIONS = ''notifications'',
     LIGHT_ID_ATTENTION = ''attention'', LIGHT_ID_BATTERY = ''battery'', LIGHT_ID_BUTTONS = ''buttons'',
     LIGHT_FLASH_NONE = 0, LIGHT_FLASH_TIMED = 1, LIGHT_FLASH_HARDWARE = 2, HARDWARE_DEVICE_TAG = 7\<rparr>"

definition solid :: "u32 \<Rightarrow> light_state" where
  "solid c = \<lparr>color = c, flashMode = 0, flashOnMS = 0, flashOffMS = 0\<rparr>"

text \<open>The flash modes are different numbers, as the labels of one \<open>switch\<close> must be.\<close>

definition flash_modes_distinct :: "light_abi \<Rightarrow> bool" where
  "flash_modes_distinct abi \<longleftrightarrow>
     distinct [LIGHT_FLASH_NONE abi, LIGHT_FLASH_TIMED abi, LIGHT_FLASH_HARDWARE abi]"

definition light_names_distinct :: "light_abi \<Rightarrow> bool" where
  "light_names_distinct abi \<longleftrightarrow> distinct [LIGHT_ID_BACKLIGHT abi, LIGHT_ID_NOTIFICATIONS abi,
     LIGHT_ID_ATTENTION abi, LIGHT_ID_BATTERY abi, LIGHT_ID_BUTTONS abi]"

lemma good_sysfs_ok: "sysfs_ok good_sysfs"
  by (simp add: sysfs_ok_def good_sysfs_def)

section \<open>Multiplexing\<close>

text \<open>
  C1: for every sequence of requests and whatever the kernel answers, the static variables
  implement the priority specification: each shared light holds the configuration last requested
  for it, and \<open>g_cur_led\<close> is the index of the lit light of highest priority, or -1 when none is
  lit.
\<close>

theorem lights_refine_spec:
  "light_abs (run (light_step abi env) reqs init_lights)
     = run (light_spec_step abi) reqs (\<lambda>_. led_off)
   \<and> g_cur_led (run (light_step abi env) reqs init_lights)
     = winner_index (run (light_spec_step abi) reqs (\<lambda>_. led_off))"
proof -
  have abs: "light_abs (run (light_step abi env) reqs init_lights)
      = run (light_spec_step abi) reqs (\<lambda>_. led_off)"
    using lmux.abst_run [OF init_lights_inv] by (simp add: init_lights_abs)
  moreover have "lights_inv (run (light_step abi env) reqs init_lights)"
    by (rule lmux.run_inv [OF init_lights_inv])
  ultimately show ?thesis
    by (simp add: lights_inv_def)
qed

text \<open>
  C2: when the kernel accepts the writes, then after every sequence of requests the files of the
  physical LED hold the colour components and blink times of the lit light of highest priority
  (or of the off configuration), with the update latch set, unless no shared light was ever lit
  and the LED has not been touched at all.
\<close>

theorem lights_hw_shows_winner:
  assumes "sysfs_ok env"
  shows "led_shows (sysfs (ltrace (run (light_step abi env) reqs init_lights)))
           (shown_config (run (light_spec_step abi) reqs (\<lambda>_. led_off)))
       \<or> winner (run (light_spec_step abi) reqs (\<lambda>_. led_off)) = None
         \<and> led_untouched (sysfs (ltrace (run (light_step abi env) reqs init_lights)))"
proof -
  have "hw_inv (run (light_step abi env) reqs init_lights)"
    using invariant_system.run_inv [OF hw_invariant_system [OF assms] init_lights_hw] .
  moreover have "light_abs (run (light_step abi env) reqs init_lights)
      = run (light_spec_step abi) reqs (\<lambda>_. led_off)"
    using lmux.abst_run [OF init_lights_inv] by (simp add: init_lights_abs)
  ultimately show ?thesis
    by (simp add: hw_inv_def)
qed

theorem lights_hw_shows_winner_witness:
  "led_shows (sysfs (ltrace (run (light_step demo_abi good_sysfs)
       [(Fn_battery, solid 0x0000ff), (Fn_notifications, solid 0xff0000)] init_lights)))
     \<lparr>colorRGB = 0xff0000, onMS = 0, offMS = 0\<rparr>"
proof -
  let ?reqs = "[(Fn_battery, solid 0x0000ff), (Fn_notifications, solid 0xff0000)]"
  have "winner (run (light_spec_step demo_abi) ?reqs (\<lambda>_. led_off)) = Some Notifications"
    and "run (light_spec_step demo_abi) ?reqs (\<lambda>_. led_off) Notifications
      = \<lparr>colorRGB = 0xff0000, onMS = 0, offMS = 0\<rparr>"
    by (simp_all add: winner_cases lit_def light_spec_step_def led_of_state_def solid_def
        demo_abi_def led_off_def)
  then show ?thesis
    using lights_hw_shows_winner [OF good_sysfs_ok, of demo_abi ?reqs]
    by (simp add: shown_config_def)
qed

text \<open>
  Every sequence of requests takes and releases the mutex alternately, touches a file only
  while holding it, and ends with the mutex released, whatever the kernel answers.
\<close>

theorem lights_mutex_discipline:
  "lock_state (ltrace (run (light_step abi env) reqs init_lights)) = Some False"
  using llock.run_inv [of init_lights abi env reqs] by (simp add: lock_free_def lock_state_def)

text \<open>
  Programming the LED clears the latch first, then sets the three brightness files and the
  three blink files, and sets the latch last, in this order and whether or not any of the
  accesses fails; it always reports success.
\<close>

theorem write_leds_order:
  "opens (ltrace (snd (write_leds_locked env ledp s))) = opens (ltrace s) @
     [RGB_LOCKED_FILE, RED_LED_FILE, GREEN_LED_FILE, BLUE_LED_FILE,
      RED_TIMEOUT_FILE, GREEN_TIMEOUT_FILE, BLUE_TIMEOUT_FILE, RGB_LOCKED_FILE]
   \<and> fst (write_leds_locked env ledp s) = 0"
  by (simp add: write_leds_locked_def Let_def)

section \<open>Brightness\<close>

lemma channels_of_grey:
  assumes "0 \<le> v" "v \<le> 255" "uint (color st) = v * 0x010101"
  shows "red_of (color st) = v \<and> green_of (color st) = v \<and> blue_of (color st) = v"
proof -
  have "v * 0x010101 div 65536 = v" and "v * 0x010101 div 256 = v * 257"
    using assms by linarith+
  moreover have "v mod 256 = v" and "(v * 257) mod 256 = v" and "v * 0x010101 mod 256 = v"
    using assms by (simp_all add: mod_mult_right_eq [of v 257 256, symmetric]
        mod_mult_right_eq [of v "0x010101" 256, symmetric])
  ultimately show ?thesis by (simp add: red_of_def green_of_def blue_of_def assms(3))
qed

lemma brightness_grey:
  assumes "0 \<le> v" "v \<le> 255" "uint (color st) = v * 0x010101"
  shows "rgb_to_brightness st = v"
  using channels_of_grey [OF assms] by (simp add: brightness_formula)

text \<open>
  C33: the brightness of a colour is the weighted mean (77 R + 150 G + 29 B) / 256 of its
  channels, always between 0 and 255, and a grey of level v has brightness exactly v.
\<close>

theorem brightness_correct:
  "rgb_to_brightness st = (77 * red_of (color st) + 150 * green_of (color st)
       + 29 * blue_of (color st)) div 256
   \<and> 0 \<le> rgb_to_brightness st \<and> rgb_to_brightness st \<le> 255
   \<and> (\<forall>v. 0 \<le> v \<and> v \<le> 255 \<and> uint (color st) = v * 0x010101 \<longrightarrow> rgb_to_brightness st = v)"
  by (intro conjI brightness_formula brightness_range allI impI) (blast intro: brightness_grey)

theorem brightness_correct_witness: "rgb_to_brightness (solid 0x808080) = 128"
proof -
  have "uint (color (solid 0x808080)) = 128 * 0x010101" by (simp add: solid_def)
  with brightness_correct [of "solid 0x808080"] show ?thesis
    by (metis numeral_le_iff semiring_norm(68,69,71,72) zero_le_numeral)
qed

text \<open>
  C34: on a kernel that accepts the writes, setting the backlight leaves in its file a decimal
  number followed by a newline that reads back as the brightness of the requested colour.
\<close>

theorem backlight_roundtrip:
  assumes "sysfs_ok env"
  shows "\<exists>txt. sysfs (ltrace (snd (set_light_backlight env st s))) LCD_FILE = Some txt
           \<and> atoi txt = rgb_to_brightness st"
proof -
  have r: "-2147483648 \<le> rgb_to_brightness st" "rgb_to_brightness st \<le> 4294967295"
    using brightness_range [of st] by simp_all
  have "sysfs (ltrace (snd (set_light_backlight env st s))) LCD_FILE
      = Some (fmt_d (rgb_to_brightness st) @ ''\<newline>'')"
    using sysfs_write_int [OF assms r, of LCD_FILE "snd (lsys env L_lock s)"]
    by (simp add: set_light_backlight_def Let_def case_prod_beta lsys_eq)
  moreover have "atoi (fmt_d (rgb_to_brightness st) @ ''\<newline>'') = rgb_to_brightness st"
    using brightness_range [of st]
    by (intro atoi_fmt_d) (simp_all add: LONG_MIN_def LONG_MAX_def digit_in_def digit_val_def)
  ultimately show ?thesis by blast
qed

theorem backlight_roundtrip_witness:
  "\<exists>txt. sysfs (ltrace (snd (set_light_backlight good_sysfs (solid 0xffffff) init_lights))) LCD_FILE
       = Some txt \<and> atoi txt = 255"
  using backlight_roundtrip [OF good_sysfs_ok, of "solid 0xffffff" init_lights]
    brightness_formula [of "solid 0xffffff"]
  by (simp add: solid_def red_of_def green_of_def blue_of_def)

section \<open>Errors\<close>

text \<open>
  A light type outside the table is refused with -EINVAL and nothing else happens; an
  unopenable file makes \<open>set_light_backlight\<close> return a negated error, that of the open, or the one
  the log call leaves behind when this is the first failure; the three multiplexed lights report
  success whatever the kernel answers.
\<close>

theorem lights_errors:
  "(type < 0 \<or> 3 \<le> type \<longrightarrow> set_light_locked abi env st type s = (- EINVAL, s))
   \<and> (let tr1 = ltrace s @ [(L_lock, env (ltrace s) L_lock)];
          tr2 = tr1 @ [(L_open LCD_FILE, env tr1 (L_open LCD_FILE))] in
      fst (env tr1 (L_open LCD_FILE)) < 0 \<longrightarrow>
        fst (set_light_backlight env st s)
          = - snd (if warned_int s then env tr1 (L_open LCD_FILE)
                   else env tr2 (L_alog (open_failed_text LCD_FILE))))
   \<and> fst (set_light_battery abi env st s) = 0
   \<and> fst (set_light_notifications abi env st s) = 0
   \<and> fst (set_light_attention abi env st s) = 0"
  by (auto simp: set_light_locked_def set_light_defs write_int_def lsys_eq)

theorem lights_errors_witness:
  "set_light_locked demo_abi broken_sysfs (solid 1) 3 init_lights = (-22, init_lights)
   \<and> fst (set_light_backlight broken_sysfs (solid 1) init_lights) = -13"
  using lights_errors [of 3 demo_abi broken_sysfs "solid 1" init_lights]
  by (simp add: EINVAL_def broken_sysfs_def Let_def)

text \<open>
  Over any sequence of requests each of the two writers logs at most one failure to open,
  so at most two messages are logged however often the files are missing.
\<close>

theorem lights_warn_once:
  "length (logged (ltrace (run (light_step abi env) reqs init_lights))) \<le> 2"
proof -
  have "warn_inv (run (light_step abi env) reqs init_lights)"
    by (rule lwarn.run_inv) (simp add: warn_inv_def init_lights_def)
  then show ?thesis by (simp add: warn_inv_def of_bool_def split: if_splits)
qed

section \<open>Attention light and module entry\<close>

text \<open>
  The attention light is switched off by a request without flashing whatever its colour, a
  hardware flash with an on time and no off time becomes a steady light of the same colour, and
  every other request keeps its colour and blink times.
\<close>

theorem attention_fixup:
  assumes "flash_modes_distinct abi"
  shows "led_of_state abi (fix_attention abi st) =
    (if flashMode st = LIGHT_FLASH_NONE abi then led_off
     else if flashMode st = LIGHT_FLASH_HARDWARE abi \<and> sint (flashOnMS st) > 0 \<and> flashOffMS st = 0
     then \<lparr>colorRGB = color st AND 0x00ffffff, onMS = 0, offMS = 0\<rparr>
     else led_of_state abi st)"
  using assms
  by (auto simp: fix_attention_def led_of_state_def flash_modes_distinct_def led_off_def)

theorem attention_fixup_witness:
  "led_of_state demo_abi (fix_attention demo_abi (solid 0x00ff00)) = led_off"
  using attention_fixup [of demo_abi "solid 0x00ff00"]
  by (simp add: flash_modes_distinct_def demo_abi_def solid_def)

text \<open>
  Opening a light by one of the five names yields a device bound to the entry point of that
  light, an unknown name is refused with -EINVAL and no device, and the mutex is initialised at
  most once, by the first successful lookup.
\<close>

theorem open_lights_binds:
  assumes "light_names_distinct abi"
    and "word_of_int (fst (env (ltrace s @ (if g_init s then [] else
           [(L_mutex_init, env (ltrace s) L_mutex_init)])) L_malloc)) \<noteq> (0 :: u32)"
  shows "(\<forall>fn. select_set_light abi name = Some fn \<longrightarrow>
           (\<exists>dev. fst (open_lights abi env hwmod name s) = Inr (0, Some dev)
              \<and> dev_set_light dev = fn \<and> dev_module dev = hwmod)
           \<and> g_init (snd (open_lights abi env hwmod name s))
           \<and> (g_init s \<longrightarrow> L_mutex_init \<notin> fst ` set (drop (length (ltrace s))
                (ltrace (snd (open_lights abi env hwmod name s))))))
       \<and> (select_set_light abi name = None \<longrightarrow>
           open_lights abi env hwmod name s = (Inr (- EINVAL, None), s))
       \<and> select_set_light abi (LIGHT_ID_BACKLIGHT abi) = Some Fn_backlight
       \<and> select_set_light abi (LIGHT_ID_NOTIFICATIONS abi) = Some Fn_notifications
       \<and> select_set_light abi (LIGHT_ID_ATTENTION abi) = Some Fn_attention
       \<and> select_set_light abi (LIGHT_ID_BATTERY abi) = Some Fn_battery
       \<and> select_set_light abi (LIGHT_ID_BUTTONS abi) = Some Fn_buttons"
  using assms
  by (simp add: light_names_distinct_def)
    (auto simp: open_lights_def init_globals_def lsys_eq Let_def case_prod_beta select_set_light_def)

theorem open_lights_binds_witness:
  "\<exists>dev. fst (open_lights demo_abi (\<lambda>_ _. (4096, 0)) 9 ''battery'' init_lights) = Inr (0, Some dev)
     \<and> dev_set_light dev = Fn_battery"
proof -
  have d: "light_names_distinct demo_abi"
    by (simp add: light_names_distinct_def demo_abi_def)
  have "select_set_light demo_abi ''battery'' = Some Fn_battery"
    by (simp add: select_set_light_def demo_abi_def)
  then show ?thesis
    using open_lights_binds [OF d, of "\<lambda>_ _. (4096, 0)" init_lights "''battery''" 9] by auto
qed

text \<open>
  The device structure is cleared without a test of \<open>malloc\<close>'s result, so opening a known
  light runs into a null dereference exactly when the allocation fails.
\<close>

theorem open_lights_null_malloc:
  "select_set_light abi name \<noteq> None \<Longrightarrow>
     (fst (open_lights abi env hwmod name s) = Inl Null_Deref) \<longleftrightarrow>
     word_of_int (fst (env (ltrace s @ (if g_init s then [] else
           [(L_mutex_init, env (ltrace s) L_mutex_init)])) L_malloc)) = (0 :: u32)"
  by (auto simp: open_lights_def init_globals_def lsys_eq Let_def case_prod_beta split: if_splits)

theorem open_lights_null_malloc_witness:
  "fst (open_lights demo_abi (\<lambda>_ _. (0, 12)) 9 ''battery'' init_lights) = Inl Null_Deref"
  using open_lights_null_malloc [of demo_abi "''battery''" "\<lambda>_ _. (0, 12)" 9 init_lights]
  by (simp add: select_set_light_def demo_abi_def)

end
