(* ===== verification/Lights_Threads_Correct.thy ===== *)
theory Lights_Threads_Correct
  imports Lights_Threads Lights_Correct
begin

text \<open>
  Concurrent callers of the lights HAL are serialised by its mutex: no thread touches what the
  threads share without holding it, what the threads do together is what the sequential functions
  do one after the other in the order the mutex was taken, every call returns what its sequential
  counterpart returns, and no schedule blocks or runs for ever.
\<close>

section \<open>A call without interruption is the sequential function\<close>

lemma drain_append: "drain env (a @ b) es = drain env b (drain env a es)"
  by (induction env a es rule: drain.induct) (simp_all add: case_prod_beta Let_def)

lemma drain_cons: "drain env (ins # rest) es = drain env rest (drain env [ins] es)"
  using drain_append [of env "[ins]" rest es] by simp

lemma drain_write_int [simp]: "drain env [I_write_int p v] (err, s) = write_int env p v s"
  by (simp add: write_int_def buffered_write_def Let_def case_prod_beta)

lemma drain_write_on_off [simp]: "drain env [I_write_on_off p a b] (err, s) = write_on_off env p a b s"
  by (simp add: write_on_off_def buffered_write_def Let_def case_prod_beta)

declare drain.simps(2) [simp del]

lemma drain_writes_prod [simp]:
  "drain env [I_write_int p v] es = write_int env p v (snd es)"
  "drain env [I_write_on_off p a b] es = write_on_off env p a b (snd es)"
  "drain env [I_err e] es = (e, snd es)"
  "drain env [I_set_cur k] es = (fst es, (snd es)\<lparr>g_cur_led := k\<rparr>)"
  "drain env [I_lock] es = (fst es, snd (lsys env L_lock (snd es)))"
  "drain env [I_unlock] es = (fst es, snd (lsys env L_unlock (snd es)))"
  by (cases es; simp add: drain.simps(2) [of _ "I_err _"] drain.simps(2) [of _ "I_set_cur _"]
      drain.simps(2) [of _ I_lock] drain.simps(2) [of _ I_unlock])+

lemma drain_led_instrs [simp]: "drain env (led_instrs ledp) es = write_leds_locked env ledp (snd es)"
  by (simp add: led_instrs_def write_leds_locked_def Let_def drain_cons [of _ _ "_ # _"])

lemmas drain_single =
  drain.simps(2) [of env "I_store k led" for env k led] drain.simps(2) [of env "I_arbitrate k led" for env k led]

lemma drain_scan:
  "drain env [I_scan t] (err, s) =
     (let i = find_lower (g_leds s) t;
          (e, s2) = write_leds_locked env (if i \<ge> 0 then Some (g_leds s ! nat i) else None) s
      in (e, s2\<lparr>g_cur_led := i\<rparr>))"
  by (induction t) (simp_all add: drain.simps(2) [of env "I_scan k" for k] drain_append Let_def case_prod_beta)

lemma drain_locked_instrs:
  assumes "t < 3"
  shows "snd (drain env (locked_instrs abi st t) (err, s)) = snd (set_light_locked abi env st (int t) s)"
  using assms
  by (cases "g_cur_led s = int t")
     (auto simp: locked_instrs_def set_light_locked_def Let_def case_prod_beta drain_single drain_append
        drain_scan)

lemma set_light_call:
  "drain env (set_light_instrs abi r) (0, s) = call_set_light abi env (fst r) (snd r) s"
proof -
  obtain fn st where r: "r = (fn, st)" by (cases r)
  show ?thesis
    by (cases fn)
      (simp_all add: r drain_cons [of _ I_lock "_ # _"] drain_cons [of _ "I_write_int _ _" "_ # _"]
        drain_cons [of _ I_lock "_ @ _"] drain_cons [of _ I_unlock "_ # _"] drain_append
        set_light_defs drain_locked_instrs)
qed

section \<open>The order in which the mutex is taken\<close>

text \<open>The calls of a lock order performed one after the other, with what each returns.\<close>

fun serial :: "light_abi \<Rightarrow> lights_env \<Rightarrow> (nat \<times> light_req) list \<Rightarrow> lights \<Rightarrow> (nat \<times> int) list \<times> lights"
  where
  "serial abi env [] s = ([], s)"
| "serial abi env ((i, r) # rs) s =
     (let (v, t) = call_set_light abi env (fst r) (snd r) s;
          (vs, u) = serial abi env rs t
      in ((i, v) # vs, u))"

lemma serial_append:
  "serial abi env (a @ b) s =
     (fst (serial abi env a s) @ fst (serial abi env b (snd (serial abi env a s))),
      snd (serial abi env b (snd (serial abi env a s))))"
  by (induction a arbitrary: s) (auto simp: case_prod_beta Let_def)


text \<open>What thread \<open>i\<close> did in a list of tagged events.\<close>

definition of_thread :: "nat \<Rightarrow> (nat \<times> 'a) list \<Rightarrow> 'a list" where
  "of_thread i es = map snd (filter (\<lambda>e. fst e = i) es)"

lemma of_thread_append [simp]: "of_thread i (a @ b) = of_thread i a @ of_thread i b"
  by (simp add: of_thread_def)

lemma of_thread_single [simp]: "of_thread i [(j, x)] = (if j = i then [x] else [])"
  by (simp add: of_thread_def)

lemma of_thread_Nil [simp]: "of_thread i [] = []"
  by (simp add: of_thread_def)

section \<open>Invariants\<close>

text \<open>
  The shape of the functions: they take the mutex, do their work without it being taken or
  released again, release it, and at most hand on a status after that.
\<close>

definition plain :: "linstr list \<Rightarrow> bool" where
  "plain ins \<longleftrightarrow> I_lock \<notin> set ins \<and> I_unlock \<notin> set ins"

definition only_returns :: "linstr list \<Rightarrow> bool" where
  "only_returns ins \<longleftrightarrow> ins = [] \<or> (\<exists>e. ins = [I_err e])"

definition inside :: "linstr list \<Rightarrow> bool" where
  "inside ins \<longleftrightarrow> (\<exists>body tail. ins = body @ I_unlock # tail \<and> plain body \<and> only_returns tail)"

lemma set_light_shape: "\<exists>rest. set_light_instrs abi r = I_lock # rest \<and> inside rest"
proof -
  obtain fn st where r: "r = (fn, st)" by (cases r)
  have "inside ([I_write_int p v] @ I_unlock # [])" "inside (locked_instrs abi st' t @ I_unlock # [I_err 0])"
    for p v st' t
    unfolding inside_def by (rule exI, rule exI, rule conjI, rule refl,
        simp add: plain_def only_returns_def locked_instrs_def Let_def)+
  then show ?thesis by (cases fn) (simp_all add: r)
qed

lemma exec_instr_plain:
  "exec_instr env ins es = (pushed, es') \<Longrightarrow> plain pushed"
  by (cases "(env, ins, es)" rule: exec_instr.cases)
    (auto simp: plain_def led_instrs_def Let_def case_prod_beta split: if_splits)

lemma inside_step:
  assumes "inside (ins # rest)" and "exec_instr env ins es = (pushed, es')"
  shows "ins = I_unlock \<and> pushed = [] \<and> only_returns rest \<or> ins \<noteq> I_lock \<and> ins \<noteq> I_unlock \<and> inside (pushed @ rest)"
proof -
  obtain body tail where eq: "ins # rest = body @ I_unlock # tail" "plain body" "only_returns tail"
    using assms(1) by (auto simp: inside_def)
  show ?thesis
  proof (cases body)
    case Nil
    then show ?thesis using eq assms(2) by (cases es) auto
  next
    case (Cons b bs)
    then have "ins = b" "pushed @ rest = (pushed @ bs) @ I_unlock # tail" using eq by auto
    moreover have "plain (pushed @ bs)"
      using Cons eq(2) exec_instr_plain [OF assms(2)] by (auto simp: plain_def)
    ultimately have "inside (pushed @ rest)" using eq(3) unfolding inside_def by blast
    moreover have "ins \<noteq> I_lock" "ins \<noteq> I_unlock" using Cons eq(1,2) by (auto simp: plain_def)
    ultimately show ?thesis by blast
  qed
qed

lemma inside_not [simp]:
  "\<not> inside []" "\<not> inside [I_err e]" "\<not> inside (I_lock # rest)"
  by (auto simp: inside_def plain_def Cons_eq_append_conv)

lemma only_returns_not [simp]: "\<not> only_returns (I_lock # rest)" "\<not> only_returns (I_unlock # rest)"
  by (auto simp: only_returns_def)

text \<open>
  Where a thread can be: before its function takes the mutex, inside, or after it has released it
  and about to return. The holder of the mutex is the thread that is inside.
\<close>

definition call_ok :: "light_abi \<Rightarrow> bool \<Rightarrow> lthread \<Rightarrow> bool" where
  "call_ok abi holds th \<longleftrightarrow> (case in_call th of None \<Rightarrow> \<not> holds
     | Some (r, ins, err) \<Rightarrow>
         \<not> holds \<and> ins = set_light_instrs abi r \<and> err = 0
         \<or> holds \<and> inside ins
         \<or> \<not> holds \<and> only_returns ins)"

definition mutex_ok :: "light_abi \<Rightarrow> lmachine \<Rightarrow> bool" where
  "mutex_ok abi m \<longleftrightarrow> (\<forall>i < length (threads m). call_ok abi (g_lock m = Some i) (threads m ! i))
     \<and> (\<forall>i. g_lock m = Some i \<longrightarrow> i < length (threads m))"

text \<open>The request a thread has not taken the mutex for yet, and the result it has not returned yet.\<close>

definition awaiting :: "lthread \<Rightarrow> light_req list" where
  "awaiting th = (case in_call th of Some (r, I_lock # rest, err) \<Rightarrow> [r] | _ \<Rightarrow> [])"

definition owed :: "lthread \<Rightarrow> int list" where
  "owed th = (case in_call th of Some (r, [], err) \<Rightarrow> [err] | Some (r, [I_err e], err) \<Rightarrow> [e] | _ \<Rightarrow> [])"

text \<open>Each thread makes the calls of its program in order.\<close>

definition program_ok :: "light_req list list \<Rightarrow> lmachine \<Rightarrow> bool" where
  "program_ok progs m \<longleftrightarrow> length (threads m) = length progs
     \<and> (\<forall>i < length progs.
          of_thread i (lock_order m) @ awaiting (threads m ! i) @ todo (threads m ! i) = progs ! i)"

text \<open>The calls of \<open>ord\<close> are complete: their results have been delivered or are about to be.\<close>

definition delivered ::
    "light_abi \<Rightarrow> lights_env \<Rightarrow> (nat \<times> light_req) list \<Rightarrow> lights \<Rightarrow> lthread list \<Rightarrow> bool" where
  "delivered abi env ord s0 ths \<longleftrightarrow>
     (\<forall>i < length ths. returned (ths ! i) @ owed (ths ! i) = of_thread i (fst (serial abi env ord s0)))"

text \<open>
  With the mutex free the shared state is that of the sequential run; with the mutex held it
  becomes that of the sequential run once the holder's remaining instructions are done.
\<close>

definition linearized :: "light_abi \<Rightarrow> lights_env \<Rightarrow> lights \<Rightarrow> lmachine \<Rightarrow> bool" where
  "linearized abi env s0 m \<longleftrightarrow> (case g_lock m of
     None \<Rightarrow> shared m = snd (serial abi env (lock_order m) s0) \<and> delivered abi env (lock_order m) s0 (threads m)
   | Some i \<Rightarrow> (\<exists>before r ins err.
        in_call (threads m ! i) = Some (r, ins, err) \<and> lock_order m = before @ [(i, r)]
        \<and> drain env ins (err, shared m)
            = call_set_light abi env (fst r) (snd r) (snd (serial abi env before s0))
        \<and> delivered abi env before s0 (threads m)))"

definition threads_inv ::
    "light_abi \<Rightarrow> lights_env \<Rightarrow> light_req list list \<Rightarrow> lights \<Rightarrow> lmachine \<Rightarrow> bool" where
  "threads_inv abi env progs s0 m \<longleftrightarrow> mutex_ok abi m \<and> program_ok progs m \<and> linearized abi env s0 m"

lemma set_thread_fields [simp]:
  "shared (set_thread i th m) = shared m" "g_lock (set_thread i th m) = g_lock m"
  "lock_order (set_thread i th m) = lock_order m"
  "threads (set_thread i th m) = (threads m)[i := th]"
  by (simp_all add: set_thread_def)


lemma mutex_effect_fields [simp]:
  "shared (mutex_effect i r ins m) = shared m" "threads (mutex_effect i r ins m) = threads m"
  "g_lock (mutex_effect i r ins m)
     = (if ins = I_lock then Some i else if ins = I_unlock then None else g_lock m)"
  "lock_order (mutex_effect i r ins m) = lock_order m @ (if ins = I_lock then [(i, r)] else [])"
  by (simp_all add: mutex_effect_def)

text \<open>What an instruction can be, given where its thread is.\<close>

lemma exec_cases:
  assumes "mutex_ok abi m" and "i < length (threads m)"
    and "in_call (threads m ! i) = Some (r, ins # rest, err)"
    and "ins = I_lock \<longrightarrow> g_lock m = None"
    and "exec_instr env ins (err, shared m) = (pushed, err', s')"
  obtains (acquire) "ins = I_lock" "g_lock m = None" "pushed = []" "err = 0" "err' = 0"
      "s' = snd (lsys env L_lock (shared m))" "set_light_instrs abi r = I_lock # rest" "inside rest"
  | (work) "g_lock m = Some i" "ins \<noteq> I_lock" "ins \<noteq> I_unlock" "inside (ins # rest)" "inside (pushed @ rest)"
  | (release) "g_lock m = Some i" "ins = I_unlock" "pushed = []" "err' = err"
      "s' = snd (lsys env L_unlock (shared m))" "only_returns rest"
  | (hand_on) e where "g_lock m \<noteq> Some i" "ins = I_err e" "rest = []" "pushed = []" "err' = e" "s' = shared m"
proof -
  have ok: "call_ok abi (g_lock m = Some i) (threads m ! i)"
    using assms(1,2) by (simp add: mutex_ok_def)
  consider (before) "g_lock m \<noteq> Some i" "set_light_instrs abi r = ins # rest" "err = 0"
    | (held) "g_lock m = Some i" "inside (ins # rest)"
    | (after) "g_lock m \<noteq> Some i" "only_returns (ins # rest)"
    using ok assms(3) by (auto simp: call_ok_def)
  then show thesis
  proof cases
    case before
    obtain rest' where shape: "set_light_instrs abi r = I_lock # rest'" "inside rest'"
      using set_light_shape by blast
    with before(2) have "ins = I_lock" "rest = rest'" by simp_all
    with before shape assms(4,5) show thesis by (intro acquire) auto
  next
    case held
    from inside_step [OF held(2) assms(5)] held assms(5) show thesis
      by (elim disjE conjE) (auto intro: release work)
  next
    case after
    then obtain e where "ins = I_err e" "rest = []" by (auto simp: only_returns_def)
    with after(1) assms(5) show thesis by (intro hand_on) auto
  qed
qed

lemma mutex_ok_set:
  assumes "mutex_ok abi m" and "i < length (threads m)" and "g = Some i \<or> g = None \<or> g = g_lock m"
    and "g_lock m = Some i \<or> g_lock m = None \<or> g = g_lock m"
    and "call_ok abi (g = Some i) th"
    and "threads m' = (threads m)[i := th]" and "g_lock m' = g"
  shows "mutex_ok abi m'"
  unfolding mutex_ok_def
proof (intro conjI allI impI)
  fix j
  assume "j < length (threads m')"
  then have j: "j < length (threads m)" by (simp add: assms(6))
  show "call_ok abi (g_lock m' = Some j) (threads m' ! j)"
  proof (cases "j = i")
    case True
    then show ?thesis using assms(2,5-7) by simp
  next
    case False
    then have "(g = Some j) = (g_lock m = Some j)" using assms(3,4) by auto
    then show ?thesis using False assms(1,6,7) j by (simp add: mutex_ok_def)
  qed
next
  fix j
  assume "g_lock m' = Some j"
  then show "j < length (threads m')"
    using assms(1-3,6,7) by (auto simp: mutex_ok_def)
qed

lemma mutex_ok_step:
  assumes ok: "mutex_ok abi m" and st: "lstep abi env m m'"
  shows "mutex_ok abi m'"
  using st
proof cases
  case (call i th r rs)
  have "g_lock m \<noteq> Some i"
    using ok call by (auto simp: mutex_ok_def call_ok_def)
  with call show ?thesis
    by (intro mutex_ok_set [OF ok, of i "g_lock m"]) (auto simp: call_ok_def)
next
  case (exec i th r ins rest err pushed err' s')
  have sec: "in_call (threads m ! i) = Some (r, ins # rest, err)" using exec by simp
  show ?thesis
    using ok exec(2) sec exec(5,6)
  proof (cases rule: exec_cases)
    case acquire
    with exec show ?thesis
      by (intro mutex_ok_set [OF ok, of i "Some i"]) (auto simp: call_ok_def)
  next
    case work
    with exec show ?thesis
      by (intro mutex_ok_set [OF ok, of i "Some i"]) (auto simp: call_ok_def)
  next
    case release
    with exec show ?thesis
      by (intro mutex_ok_set [OF ok, of i None]) (auto simp: call_ok_def)
  next
    case (hand_on e)
    with exec show ?thesis
      by (intro mutex_ok_set [OF ok, of i "g_lock m"]) (auto simp: call_ok_def only_returns_def)
  qed
next
  case (return i th r err)
  have "g_lock m \<noteq> Some i"
    using ok return by (auto simp: mutex_ok_def call_ok_def)
  with return show ?thesis
    by (intro mutex_ok_set [OF ok, of i "g_lock m"]) (auto simp: call_ok_def)
qed

text \<open>What a thread has of its program is in the lock order, about to enter it, or still to come.\<close>

lemma awaiting_simps [simp]:
  "in_call th = None \<Longrightarrow> awaiting th = []"
  "in_call th = Some (r, set_light_instrs abi r, e) \<Longrightarrow> awaiting th = [r]"
  "in_call th = Some (r, I_lock # rest, e) \<Longrightarrow> awaiting th = [r]"
  "in_call th = Some (r, ins, e) \<Longrightarrow> inside ins \<or> only_returns ins \<Longrightarrow> awaiting th = []"
  using set_light_shape [of abi r]
  by (auto simp: awaiting_def split: list.splits linstr.splits)

lemma owed_simps [simp]:
  "in_call th = None \<Longrightarrow> owed th = []"
  "in_call th = Some (r, set_light_instrs abi r, e) \<Longrightarrow> owed th = []"
  "in_call th = Some (r, I_lock # rest, e) \<Longrightarrow> owed th = []"
  "in_call th = Some (r, ins, e) \<Longrightarrow> inside ins \<Longrightarrow> owed th = []"
  "in_call th = Some (r, [], e) \<Longrightarrow> owed th = [e]"
  "in_call th = Some (r, [I_err v], e) \<Longrightarrow> owed th = [v]"
  using set_light_shape [of abi r]
  by (auto simp: owed_def split: list.splits linstr.splits)

lemma drain_only_returns:
  "only_returns ins \<Longrightarrow> in_call th = Some (r, ins, e) \<Longrightarrow> owed th = [fst (drain env ins (e, s))]"
  "only_returns ins \<Longrightarrow> snd (drain env ins (e, s)) = s"
  by (auto simp: only_returns_def)

lemma program_ok_set:
  assumes "program_ok progs m" and "i < length (threads m)"
    and "threads m' = (threads m)[i := th]" and "lock_order m' = lock_order m @ map (Pair i) new"
    and "new @ awaiting th @ todo th = awaiting (threads m ! i) @ todo (threads m ! i)"
  shows "program_ok progs m'"
proof -
  have "of_thread j (map (Pair i) new) = (if j = i then new else [])" for j
    by (cases "j = i") (simp_all add: of_thread_def comp_def filter_map)
  with assms show ?thesis by (auto simp: program_ok_def nth_list_update)
qed

lemma program_ok_step:
  assumes mu: "mutex_ok abi m" and ok: "program_ok progs m" and st: "lstep abi env m m'"
  shows "program_ok progs m'"
  using st
proof cases
  case (call i th r rs)
  then show ?thesis
    by (intro program_ok_set [OF ok, of i _ _ "[]"]) auto
next
  case (exec i th r ins rest err pushed err' s')
  have sec: "in_call (threads m ! i) = Some (r, ins # rest, err)" using exec by simp
  show ?thesis
    using mu exec(2) sec exec(5,6)
  proof (cases rule: exec_cases)
    case acquire
    with exec show ?thesis by (intro program_ok_set [OF ok, of i _ _ "[r]"]) auto
  next
    case work
    with exec show ?thesis by (intro program_ok_set [OF ok, of i _ _ "[]"]) auto
  next
    case release
    then have "awaiting (threads m ! i) = []" using sec by (simp add: awaiting_def)
    with release exec show ?thesis by (intro program_ok_set [OF ok, of i _ _ "[]"]) auto
  next
    case (hand_on e)
    then have "awaiting (threads m ! i) = []" using sec by (simp add: awaiting_def)
    with hand_on exec show ?thesis
      by (intro program_ok_set [OF ok, of i _ _ "[]"]) (auto simp: only_returns_def)
  qed
next
  case (return i th r err)
  then show ?thesis
    by (intro program_ok_set [OF ok, of i _ _ "[]"]) (auto simp: only_returns_def)
qed

lemma delivered_keep:
  "delivered abi env ord s0 ths \<Longrightarrow> returned th @ owed th = returned (ths ! i) @ owed (ths ! i)
     \<Longrightarrow> delivered abi env ord s0 (ths[i := th])"
  by (cases "i < length ths") (auto simp: delivered_def nth_list_update)

text \<open>A step of a thread that does not hold the mutex, and neither takes it nor changes what is shared.\<close>

lemma linearized_other:
  assumes "linearized abi env s0 m" and "g_lock m \<noteq> Some i"
    and "returned th @ owed th = returned (threads m ! i) @ owed (threads m ! i)"
    and "threads m' = (threads m)[i := th]" "g_lock m' = g_lock m" "shared m' = shared m"
      "lock_order m' = lock_order m"
  shows "linearized abi env s0 m'"
proof (cases "g_lock m")
  case None
  with assms show ?thesis by (simp add: linearized_def delivered_keep)
next
  case (Some j)
  with assms(2) have "j \<noteq> i" by simp
  with Some assms show ?thesis
    by (fastforce simp: linearized_def intro: delivered_keep)
qed

lemma linearized_step:
  assumes mu: "mutex_ok abi m" and lin: "linearized abi env s0 m" and st: "lstep abi env m m'"
  shows "linearized abi env s0 m'"
  using st
proof cases
  case (call i th r rs)
  have "g_lock m \<noteq> Some i" using mu call by (auto simp: mutex_ok_def call_ok_def)
  with call show ?thesis by (intro linearized_other [OF lin, of i]) auto
next
  case (exec i th r ins rest err pushed err' s')
  have sec: "in_call (threads m ! i) = Some (r, ins # rest, err)" using exec by simp
  show ?thesis
    using mu exec(2) sec exec(5,6)
  proof (cases rule: exec_cases)
    case acquire
    have "drain env rest (0, s')
        = call_set_light abi env (fst r) (snd r) (snd (serial abi env (lock_order m) s0))"
      using set_light_call [of env abi r "shared m"] acquire lin
      by (simp add: linearized_def drain.simps(2))
    moreover have "delivered abi env (lock_order m) s0 (threads m)"
      using acquire lin by (simp add: linearized_def)
    ultimately show ?thesis
      using acquire exec by (auto simp: linearized_def intro!: delivered_keep)
  next
    case work
    with exec lin show ?thesis
      by (fastforce simp: linearized_def drain.simps(2) intro!: delivered_keep)
  next
    case release
    with lin sec obtain before where ord: "lock_order m = before @ [(i, r)]"
      and fin: "drain env rest (err, s')
                = call_set_light abi env (fst r) (snd r) (snd (serial abi env before s0))"
      and del: "delivered abi env before s0 (threads m)"
      by (auto simp: linearized_def drain.simps(2))
    have "fst (drain env rest (err, s'))
        = fst (call_set_light abi env (fst r) (snd r) (snd (serial abi env before s0)))"
      by (simp only: fin)
    moreover have "owed (threads m ! i) = []" using release sec by (simp add: owed_def)
    ultimately have "delivered abi env (lock_order m) s0
        ((threads m)[i := th\<lparr>in_call := Some (r, rest, err)\<rparr>])"
      using del exec(2,3) release drain_only_returns(1) [of rest "th\<lparr>in_call := Some (r, rest, err)\<rparr>" r err env s']
      by (auto simp: delivered_def nth_list_update ord serial_append case_prod_beta Let_def)
    moreover have "s' = snd (serial abi env (lock_order m) s0)"
      using drain_only_returns(2) [of rest env err s'] release fin
      by (simp add: ord serial_append case_prod_beta Let_def)
    ultimately show ?thesis
      using release exec by (simp add: linearized_def)
  next
    case (hand_on e)
    with exec sec show ?thesis by (intro linearized_other [OF lin, of i]) auto
  qed
next
  case (return i th r err)
  have "g_lock m \<noteq> Some i" using mu return by (auto simp: mutex_ok_def call_ok_def)
  with return show ?thesis by (intro linearized_other [OF lin, of i]) auto
qed

lemma threads_inv_step:
  "threads_inv abi env progs s0 m \<Longrightarrow> lstep abi env m m' \<Longrightarrow> threads_inv abi env progs s0 m'"
  unfolding threads_inv_def by (meson mutex_ok_step program_ok_step linearized_step)

lemma start_threads_inv: "threads_inv abi env progs s0 (start_threads progs s0)"
  by (auto simp: threads_inv_def mutex_ok_def call_ok_def program_ok_def linearized_def delivered_def
      start_threads_def)

section \<open>Progress\<close>

definition thread_work :: "light_abi \<Rightarrow> lthread \<Rightarrow> nat" where
  "thread_work abi th =
     (case in_call th of None \<Rightarrow> 0 | Some (r, ins, err) \<Rightarrow> Suc (instrs_work ins))
     + sum_list (map (\<lambda>r. 2 + instrs_work (set_light_instrs abi r)) (todo th))"

definition machine_work :: "light_abi \<Rightarrow> lmachine \<Rightarrow> nat" where
  "machine_work abi m = sum_list (map (thread_work abi) (threads m))"

lemma machine_work_less:
  assumes "i < length (threads m)" and "thread_work abi th < thread_work abi (threads m ! i)"
    and "threads m' = (threads m)[i := th]"
  shows "machine_work abi m' < machine_work abi m"
proof -
  have "thread_work abi (threads m ! i) \<le> sum_list (map (thread_work abi) (threads m))"
    using assms(1) by (auto intro: member_le_sum_list)
  with assms show ?thesis
    by (simp add: machine_work_def map_update sum_list_update)
qed

lemma lstep_work:
  assumes "lstep abi env m m'"
  shows "machine_work abi m' < machine_work abi m"
  using assms
proof cases
  case (call i th r rs)
  then show ?thesis by (intro machine_work_less [of i]) (auto simp: thread_work_def)
next
  case (exec i th r ins rest err pushed err' s')
  from exec(6) have "instrs_work pushed < instr_work ins"
    using exec_instr_drops by metis
  with exec show ?thesis by (intro machine_work_less [of i]) (auto simp: thread_work_def)
next
  case (return i th r err)
  then show ?thesis by (intro machine_work_less [of i]) (auto simp: thread_work_def)
qed

lemma exec_enabled:
  assumes "i < length (threads m)" and "in_call (threads m ! i) = Some (r, ins # rest, err)"
    and "ins = I_lock \<longrightarrow> g_lock m = None"
  shows "\<exists>m'. lstep abi env m m'"
proof -
  obtain pushed err' s' where "exec_instr env ins (err, shared m) = (pushed, err', s')"
    by (cases "exec_instr env ins (err, shared m)") auto
  with lstep.exec [OF assms(1) refl assms(2,3)] show ?thesis by blast
qed

text \<open>The holder of the mutex can always go on; with the mutex free any thread with work left can.\<close>

lemma lstep_progress:
  assumes mu: "mutex_ok abi m" and "\<not> all_done m"
  shows "\<exists>m'. lstep abi env m m'"
proof (cases "g_lock m")
  case None
  from assms(2) obtain i where i: "i < length (threads m)"
    and busy: "in_call (threads m ! i) = None \<longrightarrow> todo (threads m ! i) \<noteq> []"
    by (auto simp: all_done_def list_all_length)
  show ?thesis
  proof (cases "in_call (threads m ! i)")
    case idle: None
    with busy obtain r rs where "todo (threads m ! i) = r # rs" by (auto simp: neq_Nil_conv)
    with lstep.call [OF i refl idle] show ?thesis by blast
  next
    case (Some c)
    then obtain r ins err where c: "in_call (threads m ! i) = Some (r, ins, err)" by (cases c) auto
    show ?thesis
    proof (cases ins)
      case Nil
      with lstep.return [OF i refl] c show ?thesis by blast
    next
      case Cons
      with exec_enabled [OF i] c None show ?thesis by blast
    qed
  qed
next
  case (Some i)
  with mu have i: "i < length (threads m)" and "call_ok abi True (threads m ! i)"
    by (auto simp: mutex_ok_def)
  then obtain r ins err where c: "in_call (threads m ! i) = Some (r, ins, err)" and "inside ins"
    by (auto simp: call_ok_def split: option.splits)
  obtain a rest where a: "ins = a # rest" using \<open>inside ins\<close> by (cases ins) auto
  with \<open>inside ins\<close> have "a \<noteq> I_lock" by (metis inside_not(3))
  with a exec_enabled [OF i] c show ?thesis by blast
qed

interpretation lthr: ending_system "lstep abi env" "threads_inv abi env progs s0" "machine_work abi" all_done
  for abi env progs s0
  by unfold_locales
    (erule (1) threads_inv_step, erule lstep_work, simp add: threads_inv_def, erule conjE, rule lstep_progress)

lemmas reached_inv = lthr.reach_inv [OF _ start_threads_inv]

section \<open>The properties\<close>

lemma touching_holds:
  assumes "mutex_ok abi m" and "i < length (threads m)" and "about_to_touch (threads m ! i)"
  shows "g_lock m = Some i"
proof (rule ccontr)
  assume free: "g_lock m \<noteq> Some i"
  from assms(3) obtain r ins rest err where c: "in_call (threads m ! i) = Some (r, ins # rest, err)"
    and t: "touches_shared ins"
    by (auto simp: about_to_touch_def split: option.splits list.splits)
  from assms(1,2) free c have "ins # rest = set_light_instrs abi r \<or> only_returns (ins # rest)"
    by (auto simp: mutex_ok_def call_ok_def)
  then have "ins = I_lock \<or> (\<exists>e. ins = I_err e)"
    using set_light_shape [of abi r] by (auto simp: only_returns_def)
  with t show False by auto
qed

lemma one_touching:
  assumes "mutex_ok abi m"
  shows "length (filter about_to_touch (threads m)) \<le> 1"
proof -
  have "{i. i < length (threads m) \<and> about_to_touch (threads m ! i)} \<subseteq> set_option (g_lock m)"
    using touching_holds [OF assms] by auto
  moreover have "card (set_option (g_lock m)) \<le> 1" "finite (set_option (g_lock m))"
    by (cases "g_lock m"; simp)+
  ultimately show ?thesis
    unfolding length_filter_conv_card by (meson card_mono le_trans)
qed

lemma holder_releases:
  assumes "mutex_ok abi m" and "g_lock m = Some i"
  shows "i < length (threads m)
    \<and> (\<exists>r ins err. in_call (threads m ! i) = Some (r, ins, err) \<and> I_lock \<notin> set ins \<and> I_unlock \<in> set ins)"
  using assms
  by (fastforce simp: mutex_ok_def call_ok_def inside_def plain_def only_returns_def split: option.splits)

lemma all_done_unlocked: "mutex_ok abi m \<Longrightarrow> all_done m \<Longrightarrow> g_lock m = None"
  by (cases "g_lock m") (auto simp: mutex_ok_def call_ok_def all_done_def list_all_length)

lemma all_done_settled:
  "all_done m \<Longrightarrow> i < length (threads m) \<Longrightarrow>
     awaiting (threads m ! i) = [] \<and> owed (threads m ! i) = [] \<and> todo (threads m ! i) = []"
  by (simp add: all_done_def list_all_length awaiting_def owed_def)

text \<open>
  C12: The mutex protects what the functions share. In every state the threads can reach, a thread
  that is about to access a static variable or to make a system call holds \<open>g_lock\<close>, so there is at
  most one such thread; and the holder is inside a function that does not take the mutex a second
  time and still has its release before it.\<close>

theorem lights_mutual_exclusion:
  assumes "(lstep abi env)\<^sup>*\<^sup>* (start_threads progs s0) m"
  shows "(\<forall>i < length (threads m). about_to_touch (threads m ! i) \<longrightarrow> g_lock m = Some i)
    \<and> length (filter about_to_touch (threads m)) \<le> 1
    \<and> (\<forall>i. g_lock m = Some i \<longrightarrow> i < length (threads m)
          \<and> (\<exists>r ins err. in_call (threads m ! i) = Some (r, ins, err)
                \<and> I_lock \<notin> set ins \<and> I_unlock \<in> set ins))"
proof -
  have "mutex_ok abi m" using reached_inv [OF assms] by (simp add: threads_inv_def)
  then show ?thesis using touching_holds one_touching holder_releases by blast
qed

text \<open>Two callers, one of the battery and one of the notification light; the second has taken the mutex.\<close>

definition demo_progs :: "light_req list list" where
  "demo_progs = [[(Fn_battery, solid 0xff0000)], [(Fn_notifications, solid 0x00ff00)]]"

definition demo_called :: lmachine where
  "demo_called =
     set_thread 1 \<lparr>in_call = Some ((Fn_notifications, solid 0x00ff00),
          I_lock # locked_instrs demo_abi (solid 0x00ff00) 1 @ [I_unlock, I_err 0], 0), todo = [], returned = []\<rparr>
       (start_threads demo_progs init_lights)"

definition demo_locked :: lmachine where
  "demo_locked =
     set_thread 1 \<lparr>in_call = Some ((Fn_notifications, solid 0x00ff00),
          locked_instrs demo_abi (solid 0x00ff00) 1 @ [I_unlock, I_err 0], 0), todo = [], returned = []\<rparr>
       (mutex_effect 1 (Fn_notifications, solid 0x00ff00) I_lock
          (demo_called\<lparr>shared := snd (lsys good_sysfs L_lock init_lights)\<rparr>))"

lemmas demo_defs = demo_locked_def demo_called_def start_threads_def demo_progs_def

lemma demo_reached: "(lstep demo_abi good_sysfs)\<^sup>*\<^sup>* (start_threads demo_progs init_lights) demo_locked"
proof -
  have "lstep demo_abi good_sysfs (start_threads demo_progs init_lights) demo_called"
    using lstep.call [of 1 "start_threads demo_progs init_lights" _ "(Fn_notifications, solid 0x00ff00)" "[]",
        OF _ refl, of demo_abi good_sysfs]
    by (simp add: demo_defs)
  moreover have "lstep demo_abi good_sysfs demo_called demo_locked"
    using lstep.exec [of 1 demo_called _ "(Fn_notifications, solid 0x00ff00)" I_lock _ 0 good_sysfs "[]" 0
        "snd (lsys good_sysfs L_lock init_lights)" demo_abi, OF _ refl]
    by (simp add: demo_defs)
  ultimately show ?thesis by (meson converse_rtranclp_into_rtranclp r_into_rtranclp)
qed

lemma demo_completes:
  "\<exists>m. (lstep demo_abi good_sysfs)\<^sup>*\<^sup>* (start_threads demo_progs init_lights) m \<and> all_done m"
  by (rule lthr.completes [OF start_threads_inv])

theorem lights_mutual_exclusion_witness:
  "about_to_touch (threads demo_locked ! 1) \<and> g_lock demo_locked = Some 1
     \<and> length (filter about_to_touch (threads demo_locked)) = 1"
  using lights_mutual_exclusion [OF demo_reached]
  by (simp add: demo_defs about_to_touch_def locked_instrs_def Let_def)

text \<open>
  C3: Linearizability. Whenever the mutex is free, the static variables and the system calls made
  are those of the sequential functions called one after the other in the order the mutex was
  taken; every call has returned, or is about to return, what it returns there; and each thread's
  calls appear in that order as its program makes them.\<close>

theorem lights_linearizable:
  assumes "(lstep abi env)\<^sup>*\<^sup>* (start_threads progs s0) m" and "g_lock m = None"
  shows "shared m = snd (serial abi env (lock_order m) s0)
    \<and> (\<forall>i < length progs.
          returned (threads m ! i) @ owed (threads m ! i)
            = of_thread i (fst (serial abi env (lock_order m) s0))
          \<and> of_thread i (lock_order m) @ awaiting (threads m ! i) @ todo (threads m ! i) = progs ! i)"
  using reached_inv [OF assms(1)] assms(2)
  by (auto simp: threads_inv_def linearized_def delivered_def program_ok_def)

theorem lights_linearizable_witness:
  "\<exists>m. (lstep demo_abi good_sysfs)\<^sup>*\<^sup>* (start_threads demo_progs init_lights) m \<and> g_lock m = None
     \<and> of_thread 0 (lock_order m) = [(Fn_battery, solid 0xff0000)]
     \<and> shared m = snd (serial demo_abi good_sysfs (lock_order m) init_lights)
     \<and> returned (threads m ! 0) = of_thread 0 (fst (serial demo_abi good_sysfs (lock_order m) init_lights))"
proof -
  obtain m where m: "(lstep demo_abi good_sysfs)\<^sup>*\<^sup>* (start_threads demo_progs init_lights) m" "all_done m"
    using demo_completes by blast
  have inv: "threads_inv demo_abi good_sysfs demo_progs init_lights m" by (rule reached_inv [OF m(1)])
  then have "g_lock m = None" using all_done_unlocked m(2) by (auto simp: threads_inv_def)
  moreover have "awaiting (threads m ! 0) = [] \<and> owed (threads m ! 0) = [] \<and> todo (threads m ! 0) = []"
    using inv by (intro all_done_settled [OF m(2)]) (simp add: threads_inv_def program_ok_def demo_progs_def)
  moreover note lights_linearizable [OF m(1)]
  moreover have "0 < length demo_progs" "demo_progs ! 0 = [(Fn_battery, solid 0xff0000)]"
    by (simp_all add: demo_progs_def)
  ultimately show ?thesis using m(1) by (metis append_Nil append_Nil2)
qed

text \<open>
  C10: No schedule deadlocks or goes on for ever. From every reachable state either all calls
  have returned or some thread can take a step, there is no infinite run, and the calls that are
  left can be completed.\<close>

theorem lights_threads_complete:
  assumes "(lstep abi env)\<^sup>*\<^sup>* (start_threads progs s0) m"
  shows "(all_done m \<or> (\<exists>m'. lstep abi env m m'))
    \<and> \<not> (\<exists>f. f 0 = m \<and> (\<forall>k. lstep abi env (f k) (f (Suc k))))
    \<and> (\<exists>m'. (lstep abi env)\<^sup>*\<^sup>* m m' \<and> all_done m')"
proof -
  have inv: "threads_inv abi env progs s0 m" by (rule reached_inv [OF assms])
  have "all_done m \<or> (\<exists>m'. lstep abi env m m')"
    using lthr.progress [OF inv] by blast
  with lthr.no_infinite_run [OF inv] lthr.completes [OF inv] show ?thesis by blast
qed

theorem lights_threads_complete_witness:
  "\<exists>m. (lstep demo_abi good_sysfs)\<^sup>*\<^sup>* demo_locked m \<and> all_done m"
  using lights_threads_complete [OF demo_reached] by blast



end
