(* ===== verification/Lights_Device.thy ===== *)
theory Lights_Device
  imports Lights_Correct "HOL-Library.Multiset"
begin

text \<open>
  The life of the lights devices, src/liblight/lights.c: the framework opens lights by name,
  calls \<open>set_light\<close> through the devices it was given and closes them again, in any order. A
  session composes \<open>open_lights\<close>, the five entry points and \<open>close_lights\<close>. It is shown to
  refine an abstract session that knows only which light each handle stands for, to initialise
  the mutex once and before its first use, and to free exactly what it allocated.
\<close>

section \<open>Sessions\<close>

text \<open>
  An operation of the framework; a handle is the number of the successful open that returned it.
\<close>

datatype dev_op = Dev_open string | Dev_set nat light_state | Dev_close nat

record lights_session =
  hal :: lights
  handles :: "light_device option list"  \<comment> \<open>\<open>None\<close> once closed\<close>
  crashed :: "fault option"

definition handle_at :: "'a option list \<Rightarrow> nat \<Rightarrow> 'a option" where
  "handle_at hs k = (if k < length hs then hs ! k else None)"

definition session_open ::
    "light_abi \<Rightarrow> lights_env \<Rightarrow> u32 \<Rightarrow> string \<Rightarrow> lights_session \<Rightarrow> lights_session" where
  "session_open abi env hwmod name s =
     (case open_lights abi env hwmod name (hal s) of
        (Inl f, h) \<Rightarrow> s\<lparr>hal := h, crashed := Some f\<rparr>
      | (Inr (_, None), h) \<Rightarrow> s\<lparr>hal := h\<rparr>
      | (Inr (_, Some dev), h) \<Rightarrow> s\<lparr>hal := h, handles := handles s @ [Some dev]\<rparr>)"

text \<open>Calling through a closed device, or closing it again, reads freed memory.\<close>

definition session_set ::
    "light_abi \<Rightarrow> lights_env \<Rightarrow> nat \<Rightarrow> light_state \<Rightarrow> lights_session \<Rightarrow> lights_session" where
  "session_set abi env k state s =
     (case handle_at (handles s) k of
        None \<Rightarrow> s\<lparr>crashed := Some Dangling_Deref\<rparr>
      | Some dev \<Rightarrow> s\<lparr>hal := light_step abi env (dev_set_light dev, state) (hal s)\<rparr>)"

definition session_close :: "lights_env \<Rightarrow> nat \<Rightarrow> lights_session \<Rightarrow> lights_session" where
  "session_close env k s =
     (case handle_at (handles s) k of
        None \<Rightarrow> s\<lparr>crashed := Some Dangling_Deref\<rparr>
      | Some dev \<Rightarrow> s\<lparr>hal := snd (close_lights env (dev_addr dev) (hal s)),
                      handles := (handles s)[k := None]\<rparr>)"

definition session_step ::
    "light_abi \<Rightarrow> lights_env \<Rightarrow> u32 \<Rightarrow> dev_op \<Rightarrow> lights_session \<Rightarrow> lights_session" where
  "session_step abi env hwmod op s =
     (if crashed s = None
      then case op of
          Dev_open name \<Rightarrow> session_open abi env hwmod name s
        | Dev_set k state \<Rightarrow> session_set abi env k state s
        | Dev_close k \<Rightarrow> session_close env k s
      else s)"

definition init_session :: lights_session where
  "init_session = \<lparr>hal = init_lights, handles = [], crashed = None\<rparr>"

section \<open>Specification\<close>

text \<open>
  The abstract session: the light each handle stands for, what was last asked of the shared LED,
  and whether the framework used a handle it did not hold.
\<close>

record session_spec =
  sp_handles :: "set_light_fn option list"
  sp_lights :: light_spec
  sp_misused :: bool

definition light_named :: "light_abi \<Rightarrow> string \<rightharpoonup> set_light_fn" where
  "light_named abi = map_of
     [(LIGHT_ID_BACKLIGHT abi, Fn_backlight), (LIGHT_ID_NOTIFICATIONS abi, Fn_notifications),
      (LIGHT_ID_ATTENTION abi, Fn_attention), (LIGHT_ID_BATTERY abi, Fn_battery),
      (LIGHT_ID_BUTTONS abi, Fn_buttons)]"

definition session_spec_step :: "light_abi \<Rightarrow> dev_op \<Rightarrow> session_spec \<Rightarrow> session_spec" where
  "session_spec_step abi op a =
     (if sp_misused a then a
      else case op of
          Dev_open name \<Rightarrow> (case light_named abi name of
              None \<Rightarrow> a
            | Some fn \<Rightarrow> a\<lparr>sp_handles := sp_handles a @ [Some fn]\<rparr>)
        | Dev_set k state \<Rightarrow> (case handle_at (sp_handles a) k of
              None \<Rightarrow> a\<lparr>sp_misused := True\<rparr>
            | Some fn \<Rightarrow> a\<lparr>sp_lights := light_spec_step abi (fn, state) (sp_lights a)\<rparr>)
        | Dev_close k \<Rightarrow> (case handle_at (sp_handles a) k of
              None \<Rightarrow> a\<lparr>sp_misused := True\<rparr>
            | Some fn \<Rightarrow> a\<lparr>sp_handles := (sp_handles a)[k := None]\<rparr>))"

definition init_spec :: session_spec where
  "init_spec = \<lparr>sp_handles = [], sp_lights = (\<lambda>_. led_off), sp_misused = False\<rparr>"

definition session_abs :: "lights_session \<Rightarrow> session_spec" where
  "session_abs s = \<lparr>sp_handles = map (map_option dev_set_light) (handles s),
     sp_lights = light_abs (hal s), sp_misused = (crashed s \<noteq> None)\<rparr>"

text \<open>An allocator that never runs out of memory.\<close>

definition malloc_ok :: "lights_env \<Rightarrow> bool" where
  "malloc_ok env \<longleftrightarrow> (\<forall>tr. word_of_int (fst (env tr L_malloc)) \<noteq> (0 :: u32))"

section \<open>Resources, read off the trace\<close>

text \<open>
  The mutex: initialised once, locked and released alternately after that, and every file access
  while it is held; \<open>Broken\<close> otherwise.
\<close>

datatype mutex_state = Uninit | Unlocked | Locked | Broken

fun mutex_auto :: "lcall \<Rightarrow> mutex_state \<Rightarrow> mutex_state" where
  "mutex_auto L_mutex_init m = (if m = Uninit then Unlocked else Broken)"
| "mutex_auto L_lock m = (if m = Unlocked then Locked else Broken)"
| "mutex_auto L_unlock m = (if m = Locked then Unlocked else Broken)"
| "mutex_auto L_malloc m = m"
| "mutex_auto (L_free p) m = m"
| "mutex_auto c m = (if m = Locked then Locked else Broken)"

definition mutex_of :: "lights_trace \<Rightarrow> mutex_state" where
  "mutex_of tr = fold mutex_auto (map fst tr) Uninit"

fun allocated :: "lights_trace \<Rightarrow> u32 list" where
  "allocated [] = []"
| "allocated ((c, r) # tr) =
     (if c = L_malloc \<and> word_of_int (fst r) \<noteq> (0 :: u32) then [word_of_int (fst r)] else [])
     @ allocated tr"

fun freed :: "lights_trace \<Rightarrow> u32 list" where
  "freed [] = []"
| "freed ((c, r) # tr) = (case c of L_free p \<Rightarrow> [p] | _ \<Rightarrow> []) @ freed tr"

definition live_addrs :: "light_device option list \<Rightarrow> u32 list" where
  "live_addrs hs = map dev_addr (List.map_filter id hs)"

section \<open>What one request does to the trace\<close>

text \<open>Between taking and releasing the mutex a request accesses files and logs, nothing else.\<close>

fun is_file_call :: "lcall \<Rightarrow> bool" where
  "is_file_call (L_open p) = True"
| "is_file_call (L_write fd d) = True"
| "is_file_call (L_close fd) = True"
| "is_file_call (L_alog t) = True"
| "is_file_call c = False"

definition file_io :: "lights \<Rightarrow> lights \<Rightarrow> bool" where
  "file_io s t \<longleftrightarrow> g_init t = g_init s
     \<and> (\<exists>ext. ltrace t = ltrace s @ ext \<and> list_all (\<lambda>e. is_file_call (fst e)) ext)"

lemma file_io_refl [simp]: "file_io s s"
  by (simp add: file_io_def)

lemma file_io_trans: "file_io s t \<Longrightarrow> file_io t u \<Longrightarrow> file_io s u"
  by (auto simp: file_io_def)

lemma file_io_write_int: "file_io s (snd (write_int env p v s))"
  by (simp add: file_io_def write_defs)

lemma file_io_write_on_off: "file_io s (snd (write_on_off env p a b s))"
  by (simp add: file_io_def write_defs)

lemma file_io_write_leds: "file_io s (snd (write_leds_locked env ledp s))"
  unfolding write_leds_locked_def Let_def snd_conv
  by (intro file_io_trans [OF _ file_io_write_int] file_io_trans [OF _ file_io_write_on_off]
      file_io_refl)

lemma file_io_update [simp]:
  "file_io (s\<lparr>g_leds := x\<rparr>) t = file_io s t" "file_io s (t\<lparr>g_cur_led := y\<rparr>) = file_io s t"
  "file_io s (s\<lparr>g_leds := x\<rparr>)"
  by (simp_all add: file_io_def)

lemma file_io_set_light: "file_io s (snd (set_light_locked abi env st type s))"
  using file_io_write_leds [of "s\<lparr>g_leds := x\<rparr>" for x]
  by (simp add: set_light_locked_def Let_def case_prod_beta)

definition locked_io :: "lights \<Rightarrow> lights \<Rightarrow> bool" where
  "locked_io s t \<longleftrightarrow> g_init t = g_init s
     \<and> (\<exists>r ext r'. ltrace t = ltrace s @ (L_lock, r) # ext @ [(L_unlock, r')]
          \<and> list_all (\<lambda>e. is_file_call (fst e)) ext)"

lemma locked_ioI:
  "file_io (snd (lsys env L_lock s)) t \<Longrightarrow> locked_io s (snd (lsys env L_unlock t))"
  by (auto simp: file_io_def locked_io_def lsys_eq)

lemma light_step_trace: "locked_io s (light_step abi env req s)"
  by (cases "fst req")
    (simp_all add: set_light_defs locked_ioI [OF file_io_write_int] locked_ioI [OF file_io_set_light])

lemma mutex_of_append [simp]: "mutex_of (tr @ ext) = fold mutex_auto (map fst ext) (mutex_of tr)"
  by (simp add: mutex_of_def)

lemma mutex_file_calls:
  "list_all (\<lambda>e. is_file_call (fst e)) ext \<Longrightarrow> fold mutex_auto (map fst ext) Locked = Locked"
proof (induction ext)
  case (Cons e ext)
  then show ?case by (cases "fst e") simp_all
qed simp

lemma heap_append [simp]:
  "allocated (tr @ ext) = allocated tr @ allocated ext" "freed (tr @ ext) = freed tr @ freed ext"
  by (induction tr) (auto split: prod.splits)

lemma heap_file_calls:
  "list_all (\<lambda>e. is_file_call (fst e)) ext \<Longrightarrow> allocated ext = [] \<and> freed ext = []"
proof (induction ext)
  case (Cons e ext)
  then show ?case by (cases e; cases "fst e") simp_all
qed simp

lemma light_step_resources:
  shows "g_init (light_step abi env req s) = g_init s"
    and "mutex_of (ltrace s) = Unlocked \<Longrightarrow> mutex_of (ltrace (light_step abi env req s)) = Unlocked"
    and "allocated (ltrace (light_step abi env req s)) = allocated (ltrace s)"
    and "freed (ltrace (light_step abi env req s)) = freed (ltrace s)"
proof -
  obtain r ext r' where tr: "ltrace (light_step abi env req s)
        = ltrace s @ (L_lock, r) # ext @ [(L_unlock, r')]"
    and ext: "list_all (\<lambda>e. is_file_call (fst e)) ext"
    using light_step_trace [of s abi env req] unfolding locked_io_def by blast
  show "g_init (light_step abi env req s) = g_init s"
    using light_step_trace [of s abi env req] unfolding locked_io_def by blast
  show "mutex_of (ltrace s) = Unlocked \<Longrightarrow> mutex_of (ltrace (light_step abi env req s)) = Unlocked"
    by (simp add: tr mutex_file_calls [OF ext])
  show "allocated (ltrace (light_step abi env req s)) = allocated (ltrace s)"
    "freed (ltrace (light_step abi env req s)) = freed (ltrace s)"
    by (simp_all add: tr heap_file_calls [OF ext])
qed

section \<open>What opening and closing do\<close>

definition same_slots :: "lights \<Rightarrow> lights \<Rightarrow> bool" where
  "same_slots s t \<longleftrightarrow> g_leds t = g_leds s \<and> g_cur_led t = g_cur_led s"

lemma same_slots_abs:
  "same_slots s t \<Longrightarrow> light_abs t = light_abs s" "same_slots s t \<Longrightarrow> lights_inv t = lights_inv s"
  by (simp_all add: same_slots_def light_abs_def lights_inv_def)

lemma live_addrs_append [simp]: "live_addrs (hs @ ks) = live_addrs hs @ live_addrs ks"
  by (simp add: live_addrs_def map_filter_def)

lemma live_addrs_Cons [simp]:
  "live_addrs (Some d # hs) = dev_addr d # live_addrs hs" "live_addrs (None # hs) = live_addrs hs"
  "live_addrs [] = []"
  by (simp_all add: live_addrs_def)

lemma mset_live_close:
  assumes "handle_at hs k = Some d"
  shows "mset (live_addrs hs) = mset (live_addrs (hs[k := None])) + {#dev_addr d#}"
proof -
  from assms have k: "k < length hs" and d: "hs ! k = Some d"
    by (auto simp: handle_at_def split: if_splits)
  have "hs = take k hs @ Some d # drop (Suc k) hs"
    using id_take_nth_drop [OF k] d by simp
  then have "live_addrs hs
      = live_addrs (take k hs) @ dev_addr d # live_addrs (drop (Suc k) hs)"
    by (metis live_addrs_append live_addrs_Cons)
  moreover have "live_addrs (hs[k := None])
      = live_addrs (take k hs) @ live_addrs (drop (Suc k) hs)"
    by (simp add: upd_conv_take_nth_drop [OF k])
  ultimately show ?thesis by simp
qed

lemma select_set_light_named: "select_set_light abi name = light_named abi name"
  by (simp add: select_set_light_def light_named_def)

lemma open_lights_effect:
  assumes "open_lights abi env hwmod name s = (r, t)"
  shows "(select_set_light abi name = None \<and> r = Inr (- EINVAL, None) \<and> t = s)
       \<or> (\<exists>fn p. select_set_light abi name = Some fn \<and> g_init t \<and> same_slots s t
            \<and> mutex_of (ltrace t) = mutex_of (ltrace s @ (if g_init s then [] else [(L_mutex_init, p)]))
            \<and> freed (ltrace t) = freed (ltrace s)
            \<and> ((r = Inl Null_Deref \<and> allocated (ltrace t) = allocated (ltrace s)
                  \<and> \<not> malloc_ok env)
               \<or> (\<exists>d. r = Inr (0, Some d) \<and> dev_set_light d = fn \<and> dev_addr d \<noteq> 0
                    \<and> allocated (ltrace t) = allocated (ltrace s) @ [dev_addr d])))"
  using assms
  by (auto simp: open_lights_def init_globals_def lsys_eq Let_def case_prod_beta same_slots_def
      malloc_ok_def split: option.splits if_splits)

lemma close_lights_effect:
  "p \<noteq> 0 \<Longrightarrow> snd (close_lights env p s) = s\<lparr>ltrace := ltrace s @ [(L_free p, env (ltrace s) (L_free p))]\<rparr>"
  by (simp add: close_lights_def lsys_eq)

lemma light_abs_close [simp]: "light_abs (snd (close_lights env p s)) = light_abs s"
  by (simp add: close_lights_def light_abs_def)

section \<open>The invariant of a session\<close>

definition session_inv :: "lights_session \<Rightarrow> bool" where
  "session_inv s \<longleftrightarrow> lights_inv (hal s)
     \<and> mutex_of (ltrace (hal s)) = (if g_init (hal s) then Unlocked else Uninit)
     \<and> (g_init (hal s) \<or> handles s = [])
     \<and> 0 \<notin> set (live_addrs (handles s))
     \<and> mset (allocated (ltrace (hal s)))
         = mset (freed (ltrace (hal s))) + mset (live_addrs (handles s))"

lemma init_session_inv: "session_inv init_session"
  by (simp add: session_inv_def init_session_def init_lights_inv mutex_of_def)
    (simp add: init_lights_def)

lemma handle_at_live:
  assumes "handle_at hs k = Some d"
  shows "dev_addr d \<in> set (live_addrs hs)" and "hs \<noteq> []"
    and "set (live_addrs (hs[k := None])) \<subseteq> set (live_addrs hs)"
proof -
  have "set_mset (mset (live_addrs hs))
      = set_mset (mset (live_addrs (hs[k := None])) + {#dev_addr d#})"
    using mset_live_close [OF assms] by simp
  then show "dev_addr d \<in> set (live_addrs hs)"
    "set (live_addrs (hs[k := None])) \<subseteq> set (live_addrs hs)" by auto
  show "hs \<noteq> []" using assms by (auto simp: handle_at_def)
qed

lemma session_open_inv:
  assumes "session_inv s"
  shows "session_inv (session_open abi env hwmod name s)"
proof -
  obtain r t where o: "open_lights abi env hwmod name (hal s) = (r, t)" by force
  show ?thesis
    using open_lights_effect [OF o] assms
    by (elim disjE exE conjE)
      (auto simp: session_open_def o session_inv_def same_slots_abs split: if_splits)
qed

lemma session_set_inv:
  assumes "session_inv s"
  shows "session_inv (session_set abi env k st s)"
proof (cases "handle_at (handles s) k")
  case None
  then show ?thesis using assms by (simp add: session_set_def session_inv_def)
next
  case (Some d)
  then have "g_init (hal s)"
    using assms handle_at_live(2) [OF Some] by (auto simp: session_inv_def)
  then show ?thesis
    using assms Some
    by (simp add: session_set_def session_inv_def light_step_resources light_step_inv)
qed

lemma session_close_inv:
  assumes "session_inv s"
  shows "session_inv (session_close env k s)"
proof (cases "handle_at (handles s) k")
  case None
  then show ?thesis using assms by (simp add: session_close_def session_inv_def)
next
  case (Some d)
  then have "dev_addr d \<noteq> 0"
    using assms handle_at_live(1) [OF Some] by (auto simp: session_inv_def)
  moreover have "0 \<notin> set (live_addrs ((handles s)[k := None]))"
    using assms handle_at_live(3) [OF Some] by (auto simp: session_inv_def)
  ultimately show ?thesis
    using assms Some mset_live_close [OF Some]
    by (simp add: session_close_def session_inv_def close_lights_effect light_abs_def lights_inv_def)
qed

lemma session_step_inv:
  "session_inv s \<Longrightarrow> session_inv (session_step abi env hwmod op s)"
  by (cases op)
    (simp_all add: session_step_def session_open_inv session_set_inv session_close_inv)

lemma handle_at_map [simp]:
  "handle_at (map (map_option f) hs) k = map_option f (handle_at hs k)"
  by (simp add: handle_at_def)

lemma session_step_abs:
  assumes "malloc_ok env" and "session_inv s"
  shows "session_abs (session_step abi env hwmod op s) = session_spec_step abi op (session_abs s)"
proof (cases op)
  case (Dev_open name)
  obtain r t where o: "open_lights abi env hwmod name (hal s) = (r, t)" by force
  show ?thesis
    using open_lights_effect [OF o] assms(1) Dev_open
    by (elim disjE exE conjE)
      (auto simp: session_step_def session_open_def o session_spec_step_def session_abs_def
        same_slots_abs select_set_light_named)
next
  case (Dev_set k st)
  then show ?thesis
    using assms(2)
    by (simp add: session_step_def session_set_def session_spec_step_def session_abs_def
        session_inv_def light_step_abs split: option.split)
next
  case (Dev_close k)
  then show ?thesis
    using assms(2) handle_at_live(1) [of "handles s" k]
    by (auto simp: session_step_def session_close_def session_spec_step_def session_abs_def
        session_inv_def light_abs_close map_update split: option.split)
qed

interpretation lsess: invariant_system "session_step abi env hwmod" session_inv for abi env hwmod
  by unfold_locales (rule session_step_inv)

interpretation ldev: simulation "session_step abi env hwmod" "\<lambda>s. malloc_ok env \<and> session_inv s"
    session_abs "session_spec_step abi" for abi env hwmod
  by unfold_locales (simp_all add: session_step_inv session_step_abs)

section \<open>Properties\<close>

text \<open>
  C13: whatever lights the framework opens by name, sets through the handles it got and closes
  again, in any order, the HAL behaves as the abstract session does: each handle drives the light
  whose name it was opened with, an unknown name yields no handle, the shared LED's
  configurations are those last requested through open handles, and the only way to crash is to
  use a handle that is closed or was never given, provided memory does not run out.
\<close>

theorem lights_session_refines:
  assumes "malloc_ok env"
  shows "session_abs (run (session_step abi env hwmod) ops init_session)
           = run (session_spec_step abi) ops init_spec"
proof -
  have "session_abs init_session = init_spec"
    by (simp add: session_abs_def init_session_def init_spec_def init_lights_abs)
  then show ?thesis
    using ldev.abst_run [of env init_session abi hwmod ops] assms init_session_inv by simp
qed

theorem lights_session_refines_witness:
  "crashed (run (session_step demo_abi (\<lambda>_ _. (4096, 0)) 9)
      [Dev_open ''battery'', Dev_open ''torch'', Dev_open ''buttons'', Dev_set 0 (solid 0x0000ff),
       Dev_close 0, Dev_set 1 (solid 0xff0000)] init_session) = None
   \<and> light_abs (hal (run (session_step demo_abi (\<lambda>_ _. (4096, 0)) 9)
      [Dev_open ''battery'', Dev_open ''torch'', Dev_open ''buttons'', Dev_set 0 (solid 0x0000ff),
       Dev_close 0, Dev_set 1 (solid 0xff0000)] init_session)) Battery
     = \<lparr>colorRGB = 0xff, onMS = 0, offMS = 0\<rparr>"
proof -
  let ?ops = "[Dev_open ''battery'', Dev_open ''torch'', Dev_open ''buttons'',
    Dev_set 0 (solid 0x0000ff), Dev_close 0, Dev_set 1 (solid 0xff0000)]"
  let ?s = "run (session_step demo_abi (\<lambda>_ _. (4096, 0)) 9) ?ops init_session"
  have spec: "sp_misused (run (session_spec_step demo_abi) ?ops init_spec) = False"
    "sp_lights (run (session_spec_step demo_abi) ?ops init_spec) Battery
      = \<lparr>colorRGB = 0xff, onMS = 0, offMS = 0\<rparr>"
    by (simp_all add: session_spec_step_def init_spec_def handle_at_def light_named_def
        demo_abi_def light_spec_step_def led_of_state_def solid_def)
  have "malloc_ok (\<lambda>_ _. (4096, 0))"
    by (simp add: malloc_ok_def)
  from lights_session_refines [OF this, of demo_abi 9 ?ops]
  have "sp_misused (session_abs ?s) = False"
    "sp_lights (session_abs ?s) Battery = \<lparr>colorRGB = 0xff, onMS = 0, offMS = 0\<rparr>"
    using spec by (simp_all only:)
  then show ?thesis by (simp add: session_abs_def)
qed

text \<open>
  C16: in every session, even one that misuses a handle or runs out of memory, the mutex is
  initialised at most once and before it is first locked, locked and released in turn, held
  around every file access and free between two operations; and every block allocated has been
  freed exactly once or belongs to a device still open, so that nothing is left allocated when
  all devices are closed.
\<close>

theorem lights_session_resources:
  "let s = run (session_step abi env hwmod) ops init_session in
     mutex_of (ltrace (hal s)) = (if g_init (hal s) then Unlocked else Uninit)
     \<and> mset (allocated (ltrace (hal s)))
         = mset (freed (ltrace (hal s))) + mset (live_addrs (handles s))"
  using lsess.run_inv [OF init_session_inv, of abi env hwmod ops]
  by (simp add: Let_def session_inv_def)

end
