(* ===== verification/BT_Vendor.thy ===== *)
theory BT_Vendor
  imports C_Prelude
begin

text \<open>
  The Bluetooth vendor library, src/libbt-vendor-mtk/libbt-vendor-mtk.c: a thin layer between
  the host stack and MediaTek's libbluetoothdrv.so, which it opens at run time. Its state is the
  file's global variables. Calls into the dynamic linker, into the two functions of the opened
  library and into the host stack's callbacks are environment calls answered by a 32-bit word
  (a pointer, or an \<open>int\<close> read with \<open>sint\<close>). A null pointer is 0; calling through one is a fault.

  The constants of the stack's headers are a parameter of type \<open>bt_abi\<close>.
\<close>

section \<open>Data\<close>

record bt_abi =
  BT_HC_STATUS_FAIL :: int
  BT_VND_OP_RESULT_SUCCESS :: int
  CH_MAX :: nat

text \<open>The opcodes the file names; any other value reaches the default branch.\<close>

datatype bt_vendor_opcode =
    BT_VND_OP_POWER_CTRL
  | BT_VND_OP_SCO_CFG
  | BT_VND_OP_GET_LPM_IDLE_TIMEOUT
  | BT_VND_OP_LPM_SET_MODE
  | BT_VND_OP_LPM_WAKE_SET_STATE
  | BT_VND_OP_USERIAL_OPEN
  | BT_VND_OP_USERIAL_CLOSE
  | BT_VND_OP_FW_CFG
  | BT_VND_OP_EPILOG
  | BT_VND_OP_other int

record bt_vendor_callbacks =
  fwcfg_cb :: u32
  epilog_cb :: u32

datatype bcall =
    Dlerror
  | Dlopen string
  | Dlsym u32 string
  | Dlclose u32
  | Mtk_bt_enable u32 int
  | Mtk_bt_disable u32 u32
  | Fwcfg_cb u32 int
  | Epilog_cb u32 int

type_synonym bt_env = "(bcall, u32) env"
type_synonym bt_trace = "(bcall, u32) trace"

record bt =
  mtklib_handle :: u32
  hci_tty_fd :: u32
  mtk_bt_enable :: u32
  mtk_bt_disable :: u32
  bt_vendor_cbacks :: "bt_vendor_callbacks option"
  btrace :: bt_trace

definition init_bt :: bt where
  "init_bt = \<lparr>mtklib_handle = 0, hci_tty_fd = -1, mtk_bt_enable = 0, mtk_bt_disable = 0,
     bt_vendor_cbacks = None, btrace = []\<rparr>"

definition WL_DEFAULT_LPM_IDLE_TIMEOUT :: u32 where
  [const_defs]: "WL_DEFAULT_LPM_IDLE_TIMEOUT = 200"

definition bsys :: "bt_env \<Rightarrow> bcall \<Rightarrow> bt \<Rightarrow> u32 \<times> bt" where
  "bsys env c s = (let (r, tr) = ask env c (btrace s) in (r, s\<lparr>btrace := tr\<rparr>))"

text \<open>The name of the device, src/bluetooth/bdroid_buildcfg.h.\<close>

definition BTM_DEF_LOCAL_NAME :: string where
  [const_defs]: "BTM_DEF_LOCAL_NAME = ''Wiko Rainbow''"

section \<open>Interface functions\<close>

text \<open>The callback for controller configuration and \<open>main\<close>; the callback only logs.\<close>

definition hw_config_cback :: "u32 \<Rightarrow> bt \<Rightarrow> bt" where
  "hw_config_cback p_evt_buf s = s"

definition bt_main :: int where
  "bt_main = 0"

definition mtk_init :: "bt_abi \<Rightarrow> bt_env \<Rightarrow> bt_vendor_callbacks option \<Rightarrow> bt \<Rightarrow> int \<times> bt" where
  "mtk_init abi env p_cb s =
     (if p_cb = None then (BT_HC_STATUS_FAIL abi, s)
      else
        let s1 = s\<lparr>bt_vendor_cbacks := p_cb\<rparr>;
            s2 = snd (bsys env Dlerror s1);
            (h, s3) = bsys env (Dlopen ''libbluetoothdrv.so'') s2;
            s4 = s3\<lparr>mtklib_handle := h\<rparr>
        in if h = 0 then (sint h, s4)
           else
             let (en, s5) = bsys env (Dlsym h ''mtk_bt_enable'') s4;
                 s6 = s5\<lparr>mtk_bt_enable := en\<rparr>;
                 (dis, s7) = bsys env (Dlsym h ''mtk_bt_disable'') s6;
                 s8 = s7\<lparr>mtk_bt_disable := dis\<rparr>;
                 (dlerrors, s9) = bsys env Dlerror s8
             in (0, if dlerrors \<noteq> 0 then snd (bsys env (Dlclose (mtklib_handle s9)) s9) else s9))"

definition mtk_cleanup :: "bt_env \<Rightarrow> bt \<Rightarrow> bt" where
  "mtk_cleanup env s =
     (let s1 = s\<lparr>bt_vendor_cbacks := None\<rparr> in
      if mtklib_handle s1 \<noteq> 0 then snd (bsys env (Dlclose (mtklib_handle s1)) s1) else s1)"

text \<open>
  The loop \<open>for (idx = 0; idx < CH_MAX; idx++) (*fd_array)[idx] = fd\<close> over the caller's array.
\<close>

function fill_fds :: "nat \<Rightarrow> nat \<Rightarrow> u32 \<Rightarrow> u32 list \<Rightarrow> u32 list result" where
  "fill_fds ch_max idx fd arr =
     (if idx < ch_max
      then (if idx < length arr then fill_fds ch_max (Suc idx) fd (arr[idx := fd])
            else Inl Buffer_Overflow)
      else Inr arr)"
  by pat_completeness auto
termination
  by (relation "measure (\<lambda>(ch_max, idx, fd, arr). ch_max - idx)") auto

declare fill_fds.simps [simp del]

definition mtk_open ::
    "bt_abi \<Rightarrow> bt_env \<Rightarrow> u32 list \<Rightarrow> bt \<Rightarrow> (int \<times> u32 list) result \<times> bt" where
  "mtk_open abi env param s =
     (if mtk_bt_enable s = 0 then (Inl Null_Call, s)
      else
        let (fd, s1) = bsys env (Mtk_bt_enable (mtk_bt_enable s) 0) s in
        if sint fd < 0 then (Inr (-1, param), s1)
        else case fill_fds (CH_MAX abi) 0 fd param of
            Inl f \<Rightarrow> (Inl f, s1)
          | Inr param' \<Rightarrow> (Inr (1, param'), s1\<lparr>hci_tty_fd := fd\<rparr>))"

definition mtk_close :: "bt_env \<Rightarrow> bt \<Rightarrow> int result \<times> bt" where
  "mtk_close env s =
     (if hci_tty_fd s = -1 then (Inr (-1), s)
      else if mtk_bt_disable s = 0 then (Inl Null_Call, s)
      else let (r, s1) = bsys env (Mtk_bt_disable (mtk_bt_disable s) (hci_tty_fd s)) s
           in (Inr (sint r), s1))"

text \<open>A call \<open>bt_vendor_cbacks->f(BT_VND_OP_RESULT_SUCCESS)\<close>.\<close>

definition call_back ::
    "bt_env \<Rightarrow> (bt_vendor_callbacks \<Rightarrow> u32) \<Rightarrow> (u32 \<Rightarrow> bcall) \<Rightarrow> bt \<Rightarrow> unit result \<times> bt" where
  "call_back env field mk s =
     (case bt_vendor_cbacks s of
        None \<Rightarrow> (Inl Null_Deref, s)
      | Some cb \<Rightarrow> if field cb = 0 then (Inl Null_Call, s)
                   else (Inr (), snd (bsys env (mk (field cb)) s)))"

text \<open>
  \<open>mtk_op\<close>: the return value and the words behind \<open>param\<close> afterwards (\<open>[]\<close> for a null pointer).
\<close>

definition mtk_op :: "bt_abi \<Rightarrow> bt_env \<Rightarrow> bt_vendor_opcode \<Rightarrow> u32 list \<Rightarrow> bt
    \<Rightarrow> (int \<times> u32 list) result \<times> bt" where
  "mtk_op abi env opcode param s =
     (case opcode of
        BT_VND_OP_POWER_CTRL \<Rightarrow> (Inr (0, param), s)
      | BT_VND_OP_SCO_CFG \<Rightarrow> (Inr (0, param), s)
      | BT_VND_OP_GET_LPM_IDLE_TIMEOUT \<Rightarrow>
          (if param = [] then Inl Null_Deref else Inr (0, param[0 := WL_DEFAULT_LPM_IDLE_TIMEOUT]), s)
      | BT_VND_OP_LPM_SET_MODE \<Rightarrow> (Inr (0, param), s)
      | BT_VND_OP_LPM_WAKE_SET_STATE \<Rightarrow> (Inr (0, param), s)
      | BT_VND_OP_USERIAL_OPEN \<Rightarrow> mtk_open abi env param s
      | BT_VND_OP_USERIAL_CLOSE \<Rightarrow>
          (let (r, s1) = mtk_close env s in
           (case r of Inl f \<Rightarrow> Inl f | Inr ret \<Rightarrow> Inr (ret, param), s1))
      | BT_VND_OP_FW_CFG \<Rightarrow>
          (let (r, s1) = call_back env fwcfg_cb (\<lambda>p. Fwcfg_cb p (BT_VND_OP_RESULT_SUCCESS abi)) s in
           (case r of Inl f \<Rightarrow> Inl f | Inr _ \<Rightarrow> Inr (0, param), s1))
      | BT_VND_OP_EPILOG \<Rightarrow>
          (let (r, s1) = call_back env epilog_cb (\<lambda>p. Epilog_cb p (BT_VND_OP_RESULT_SUCCESS abi)) s in
           (case r of Inl f \<Rightarrow> Inl f | Inr _ \<Rightarrow> Inr (0, param), s1))
      | BT_VND_OP_other n \<Rightarrow> (Inr (0, param), s))"

section \<open>Requests of the host stack\<close>

text \<open>
  The entries of \<open>BLUETOOTH_VENDOR_LIB_INTERFACE\<close>. A fault ends the process, so nothing runs
  after it.
\<close>

datatype bt_req =
    Init "bt_vendor_callbacks option"
  | Op bt_vendor_opcode "u32 list"
  | Cleanup

fun bt_step :: "bt_abi \<Rightarrow> bt_env \<Rightarrow> bt_req \<Rightarrow> fault option \<times> bt \<Rightarrow> fault option \<times> bt" where
  "bt_step abi env req (Some f, s) = (Some f, s)"
| "bt_step abi env (Init cb) (None, s) = (None, snd (mtk_init abi env cb s))"
| "bt_step abi env (Op opcode param) (None, s) =
     (let (r, s1) = mtk_op abi env opcode param s in
      (case r of Inl f \<Rightarrow> Some f | Inr _ \<Rightarrow> None, s1))"
| "bt_step abi env Cleanup (None, s) = (None, mtk_cleanup env s)"

end
