(* ===== verification/BT_Correct.thy ===== *)
theory BT_Correct
  imports BT_Vendor
begin

text \<open>
  The properties of the Bluetooth vendor library: a session with a usable driver library never
  faults, every file descriptor given back to the driver is the one it handed out last, the
  library handle is opened and closed once per session, and what each operation returns. The
  theorems at the end state where the code does not keep what it announces.
\<close>

section \<open>Definitions of the statements\<close>

definition valid_callbacks :: "bt_vendor_callbacks \<Rightarrow> bool" where
  "valid_callbacks cb \<longleftrightarrow> fwcfg_cb cb \<noteq> 0 \<and> epilog_cb cb \<noteq> 0"

definition bt_ready :: "bt \<Rightarrow> bool" where
  "bt_ready s \<longleftrightarrow> mtk_bt_enable s \<noteq> 0 \<and> mtk_bt_disable s \<noteq> 0
     \<and> (case bt_vendor_cbacks s of None \<Rightarrow> False | Some cb \<Rightarrow> valid_callbacks cb)"

text \<open>The caller's buffer is large enough for what the opcode stores in it.\<close>

fun op_fits :: "bt_abi \<Rightarrow> bt_req \<Rightarrow> bool" where
  "op_fits abi (Op opcode param) =
     ((opcode = BT_VND_OP_GET_LPM_IDLE_TIMEOUT \<longrightarrow> param \<noteq> [])
      \<and> (opcode = BT_VND_OP_USERIAL_OPEN \<longrightarrow> CH_MAX abi \<le> length param))"
| "op_fits abi _ = False"

text \<open>The driver library can be opened and exports both symbols.\<close>

definition lib_ok :: "bt_env \<Rightarrow> bool" where
  "lib_ok env \<longleftrightarrow> (\<forall>tr n. env tr (Dlopen n) \<noteq> 0) \<and> (\<forall>tr h n. env tr (Dlsym h n) \<noteq> 0)
     \<and> (\<forall>tr. env tr Dlerror = 0)"

text \<open>
  The descriptor the driver handed out last, followed over a trace: \<open>None\<close> once some other
  descriptor, or none at all, is given back.
\<close>

fun fd_auto :: "bcall \<times> u32 \<Rightarrow> u32 option \<Rightarrow> u32 option" where
  "fd_auto (Mtk_bt_enable p flag, r) (Some cur) = Some (if sint r < 0 then cur else r)"
| "fd_auto (Mtk_bt_disable p fd, r) (Some cur) = (if fd = cur \<and> fd \<noteq> -1 then Some cur else None)"
| "fd_auto _ st = st"

definition fd_state :: "bt_trace \<Rightarrow> u32 option" where
  "fd_state tr = fold fd_auto tr (Some (-1))"

definition fd_inv :: "fault option \<times> bt \<Rightarrow> bool" where
  "fd_inv fs \<longleftrightarrow> (if fst fs = None then fd_state (btrace (snd fs)) = Some (hci_tty_fd (snd fs))
     else fd_state (btrace (snd fs)) \<noteq> None)"

definition dlopens :: "bt_trace \<Rightarrow> u32 list" where
  "dlopens tr = concat (map (\<lambda>e. case e of (Dlopen n, h) \<Rightarrow> [h] | _ \<Rightarrow> []) tr)"

definition dlcloses :: "bt_trace \<Rightarrow> u32 list" where
  "dlcloses tr = concat (map (\<lambda>e. case e of (Dlclose h, r) \<Rightarrow> [h] | _ \<Rightarrow> []) tr)"

section \<open>Lemmas\<close>

lemma bsys_eq: "bsys env c s = (env (btrace s) c, s\<lparr>btrace := btrace s @ [(c, env (btrace s) c)]\<rparr>)"
  by (simp add: bsys_def ask_def)

lemmas bt_defs = mtk_init_def mtk_cleanup_def mtk_open_def mtk_close_def call_back_def mtk_op_def
  bsys_eq Let_def case_prod_beta

lemma fill_fds_spec:
  "fill_fds ch_max idx fd arr =
     (if idx < ch_max \<and> length arr < ch_max \<and> idx \<le> length arr then Inl Buffer_Overflow
      else if length arr < idx \<and> idx < ch_max then Inl Buffer_Overflow
      else Inr (take idx arr @ replicate (ch_max - idx) fd @ drop (max idx ch_max) arr))"
proof (induction ch_max idx fd arr rule: fill_fds.induct)
  case (1 ch_max idx fd arr)
  show ?case
  proof (cases "idx < ch_max \<and> idx < length arr")
    case True
    then have "fill_fds ch_max idx fd arr = fill_fds ch_max (Suc idx) fd (arr[idx := fd])"
      by (subst fill_fds.simps) simp
    moreover have "take (Suc idx) (arr[idx := fd]) = take idx arr @ [fd]"
      using True by (simp add: take_Suc_conv_app_nth)
    moreover have "fd # replicate (ch_max - Suc idx) fd = replicate (ch_max - idx) fd"
      using True by (simp add: replicate_Suc [symmetric] Suc_diff_Suc del: replicate_Suc)
    ultimately show ?thesis
      using 1 True by (auto simp: drop_update_cancel max_def)
  next
    case False
    then show ?thesis by (subst fill_fds.simps) (auto simp: max_def)
  qed
qed

lemma fill_fds_all:
  "fill_fds n 0 fd arr =
     (if n \<le> length arr then Inr (replicate n fd @ drop n arr) else Inl Buffer_Overflow)"
  by (auto simp: fill_fds_spec)

lemma op_ready:
  assumes "bt_ready s" and "op_fits abi (Op opcode param)"
  shows "\<exists>r. fst (mtk_op abi env opcode param s) = Inr r"
    and "bt_ready (snd (mtk_op abi env opcode param s))"
  using assms
  by (cases opcode; auto simp: bt_defs bt_ready_def valid_callbacks_def fill_fds_all
      split: option.splits if_splits)+

lemma bt_step_ready:
  assumes "fst fs = None \<and> bt_ready (snd fs)" and "op_fits abi req"
  shows "fst (bt_step abi env req fs) = None \<and> bt_ready (snd (bt_step abi env req fs))"
proof -
  obtain s where fs: "fs = (None, s)" and ready: "bt_ready s"
    using assms(1) by (cases fs) auto
  obtain opcode param where req: "req = Op opcode param"
    using assms(2) by (cases req) auto
  obtain r where "fst (mtk_op abi env opcode param s) = Inr r"
    using op_ready(1) [OF ready] assms(2) unfolding req by blast
  moreover have "bt_ready (snd (mtk_op abi env opcode param s))"
    using op_ready(2) [OF ready] assms(2) unfolding req by blast
  ultimately show ?thesis by (simp add: fs req case_prod_beta Let_def)
qed

interpretation btready: guarded_system "bt_step abi env"
    "\<lambda>fs. fst fs = None \<and> bt_ready (snd fs)" "op_fits abi" for abi env
  by unfold_locales (rule bt_step_ready)

lemma init_ready:
  "lib_ok env \<Longrightarrow> valid_callbacks cb \<Longrightarrow> bt_ready (snd (mtk_init abi env (Some cb) s))"
  by (simp add: bt_defs bt_ready_def lib_ok_def)

lemma fd_state_snoc [simp]:
  "fd_state (tr @ [e]) = fd_auto e (fd_state tr)"
  "fd_state (tr @ [e1, e2]) = fd_auto e2 (fd_auto e1 (fd_state tr))"
  "fd_state (tr @ [e1, e2, e3, e4, e5])
     = fd_auto e5 (fd_auto e4 (fd_auto e3 (fd_auto e2 (fd_auto e1 (fd_state tr)))))"
  "fd_state (tr @ [e1, e2, e3, e4, e5, e6])
     = fd_auto e6 (fd_auto e5 (fd_auto e4 (fd_auto e3 (fd_auto e2 (fd_auto e1 (fd_state tr))))))"
  by (simp_all add: fd_state_def)

lemma bt_step_fd: "fd_inv fs \<Longrightarrow> fd_inv (bt_step abi env req fs)"
proof (induction abi env req fs rule: bt_step.induct)
  case (3 abi env opcode param s)
  then show ?case
    by (cases opcode)
      (auto simp: fd_inv_def bt_defs split: sum.splits option.splits if_splits)
qed (auto simp: fd_inv_def bt_defs)

interpretation btfd: invariant_system "bt_step abi env" fd_inv for abi env
  by unfold_locales (rule bt_step_fd)

lemma init_bt_fd: "fd_inv (None, init_bt)"
  by (simp add: fd_inv_def init_bt_def fd_state_def)

lemma dl_append [simp]:
  "dlopens (xs @ ys) = dlopens xs @ dlopens ys" "dlcloses (xs @ ys) = dlcloses xs @ dlcloses ys"
  by (simp_all add: dlopens_def dlcloses_def)

text \<open>Operations leave the library handle alone.\<close>

definition same_lib :: "bt \<Rightarrow> bt \<Rightarrow> bool" where
  "same_lib s t \<longleftrightarrow> mtklib_handle t = mtklib_handle s \<and> dlopens (btrace t) = dlopens (btrace s)
     \<and> dlcloses (btrace t) = dlcloses (btrace s)"

lemma op_same_lib: "same_lib s (snd (mtk_op abi env opcode param s))"
  by (cases opcode) (auto simp: same_lib_def bt_defs dlopens_def dlcloses_def
      split: sum.splits option.splits if_splits)

lemma ops_same_lib:
  "list_all (op_fits abi) ops \<Longrightarrow> same_lib s (snd (run (bt_step abi env) ops (f, s)))"
proof (induction ops arbitrary: f s)
  case Nil
  then show ?case by (simp add: same_lib_def)
next
  case (Cons op ops)
  obtain opcode param where op: "op = Op opcode param"
    using Cons.prems by (cases op) auto
  have step: "same_lib s (snd (bt_step abi env op (f, s)))"
    using op_same_lib [of s abi env opcode param]
    by (cases f) (auto simp: op same_lib_def case_prod_beta Let_def)
  moreover have "same_lib (snd (bt_step abi env op (f, s)))
      (snd (run (bt_step abi env) ops (bt_step abi env op (f, s))))"
    using Cons.IH [of "snd (bt_step abi env op (f, s))" "fst (bt_step abi env op (f, s))"] Cons.prems
    by simp
  ultimately show ?case by (simp add: same_lib_def)
qed

section \<open>Witness inputs\<close>

definition demo_bt_abi :: bt_abi where
  "demo_bt_abi = \<lparr>BT_HC_STATUS_FAIL = 1, BT_VND_OP_RESULT_SUCCESS = 0, CH_MAX = 4\<rparr>"

definition good_lib :: bt_env where
  "good_lib tr c = (case c of Dlopen n \<Rightarrow> 4096 | Dlsym h n \<Rightarrow> 8192 | Mtk_bt_enable p flag \<Rightarrow> 37 | _ \<Rightarrow> 0)"

definition missing_lib :: bt_env where
  "missing_lib tr c = 0"

definition missing_symbols :: bt_env where
  "missing_symbols tr c = (case c of Dlopen n \<Rightarrow> 4096 | Dlerror \<Rightarrow> 1 | _ \<Rightarrow> 0)"

definition demo_callbacks :: bt_vendor_callbacks where
  "demo_callbacks = \<lparr>fwcfg_cb = 100, epilog_cb = 104\<rparr>"

definition demo_session :: "bt_req list" where
  "demo_session = [Op BT_VND_OP_POWER_CTRL [], Op BT_VND_OP_USERIAL_OPEN [0, 0, 0, 0, 9],
     Op BT_VND_OP_FW_CFG [], Op BT_VND_OP_USERIAL_CLOSE []]"

lemma good_lib_ok: "lib_ok good_lib"
  by (simp add: lib_ok_def good_lib_def)

lemma demo_callbacks_valid: "valid_callbacks demo_callbacks"
  by (simp add: valid_callbacks_def demo_callbacks_def)

lemma demo_session_fits: "list_all (op_fits demo_bt_abi) demo_session"
  by (simp add: demo_session_def demo_bt_abi_def)

section \<open>Sessions\<close>

text \<open>
  C8: when the driver library can be opened and has both symbols, the host passes callbacks with
  both functions the code calls, and the two operations that write to their parameter get an array
  for it (one number for the idle-timeout query, \<open>CH_MAX\<close> descriptors for opening the transport),
  then initialisation, any sequence of operations and the final cleanup run without a fault, from
  any earlier state.
\<close>

theorem bt_session_no_fault:
  assumes "lib_ok env" and "valid_callbacks cb" and "list_all (op_fits abi) ops"
  shows "fst (run (bt_step abi env) (Init (Some cb) # ops @ [Cleanup]) (None, s)) = None"
proof -
  let ?s = "snd (mtk_init abi env (Some cb) s)"
  let ?fs = "run (bt_step abi env) ops (None, ?s)"
  have "fst ?fs = None"
    using btready.guarded_run [of "(None, ?s)" abi ops env] init_ready [OF assms(1,2)] assms(3) by simp
  then have "fst (bt_step abi env Cleanup ?fs) = None"
    by (cases ?fs) simp
  then show ?thesis by simp
qed

theorem bt_session_no_fault_witness:
  "fst (run (bt_step demo_bt_abi good_lib) (Init (Some demo_callbacks) # demo_session @ [Cleanup])
     (None, init_bt)) = None"
  by (rule bt_session_no_fault [OF good_lib_ok demo_callbacks_valid demo_session_fits])

text \<open>
  C27: over every sequence of requests and for every behaviour of the driver library, a
  descriptor is given back to the driver only if it is the one the driver handed out last; the
  driver is never asked to close a descriptor before it handed one out.
\<close>

theorem bt_fd_discipline:
  "fd_state (btrace (snd (run (bt_step abi env) reqs (None, init_bt)))) \<noteq> None"
  using btfd.run_inv [OF init_bt_fd, of abi env reqs] by (auto simp: fd_inv_def split: if_splits)

text \<open>
  C28: in a session from the initial state, on a driver library that opens and has both symbols,
  with usable callbacks and with arrays for the two operations that write to their parameter, the
  library is opened exactly once and closed exactly once, with the handle it was opened under. A
  library without one of the symbols is closed twice instead, as shown below.
\<close>

theorem bt_handle_once:
  assumes "lib_ok env" and "valid_callbacks cb" and "list_all (op_fits abi) ops"
  shows "\<exists>h. dlopens (btrace (snd (run (bt_step abi env) (Init (Some cb) # ops @ [Cleanup]) (None, init_bt)))) = [h]
           \<and> dlcloses (btrace (snd (run (bt_step abi env) (Init (Some cb) # ops @ [Cleanup]) (None, init_bt)))) = [h]"
proof -
  let ?s = "snd (mtk_init abi env (Some cb) init_bt)"
  let ?fs = "run (bt_step abi env) ops (None, ?s)"
  obtain h where h: "mtklib_handle ?s = h" "h \<noteq> 0" "dlopens (btrace ?s) = [h]" "dlcloses (btrace ?s) = []"
    using assms(1) by (auto simp: bt_defs lib_ok_def init_bt_def dlopens_def dlcloses_def)
  have same: "same_lib ?s (snd ?fs)"
    using assms(3) by (rule ops_same_lib)
  have nofault: "fst ?fs = None"
    using btready.guarded_run [of "(None, ?s)" abi ops env] init_ready [OF assms(1,2)] assms(3) by simp
  then have "bt_step abi env Cleanup ?fs = (None, mtk_cleanup env (snd ?fs))"
    by (cases ?fs) simp
  moreover have "dlopens (btrace (mtk_cleanup env (snd ?fs))) = [h]"
    and "dlcloses (btrace (mtk_cleanup env (snd ?fs))) = [h]"
    using h same by (simp_all add: same_lib_def mtk_cleanup_def bsys_eq Let_def)
      (simp_all add: dlopens_def dlcloses_def)
  ultimately show ?thesis by simp
qed

theorem bt_handle_once_witness:
  "\<exists>h. dlopens (btrace (snd (run (bt_step demo_bt_abi good_lib)
       (Init (Some demo_callbacks) # demo_session @ [Cleanup]) (None, init_bt)))) = [h]
     \<and> dlcloses (btrace (snd (run (bt_step demo_bt_abi good_lib)
       (Init (Some demo_callbacks) # demo_session @ [Cleanup]) (None, init_bt)))) = [h]"
  by (rule bt_handle_once [OF good_lib_ok demo_callbacks_valid demo_session_fits])

section \<open>Operations\<close>

text \<open>
  Opening the transport calls the driver once; on a descriptor it returns 1, stores the
  descriptor in each of the first CH_MAX entries of the caller's array and nowhere else, and
  remembers it; on a negative result it returns -1 and changes neither; an array that is too
  short is overrun.
\<close>

theorem mtk_open_correct:
  assumes "mtk_bt_enable s \<noteq> 0" and "fd = env (btrace s) (Mtk_bt_enable (mtk_bt_enable s) 0)"
  shows "mtk_op abi env BT_VND_OP_USERIAL_OPEN param s =
    (let s1 = s\<lparr>btrace := btrace s @ [(Mtk_bt_enable (mtk_bt_enable s) 0, fd)]\<rparr> in
     if sint fd < 0 then (Inr (-1, param), s1)
     else if CH_MAX abi \<le> length param
     then (Inr (1, replicate (CH_MAX abi) fd @ drop (CH_MAX abi) param), s1\<lparr>hci_tty_fd := fd\<rparr>)
     else (Inl Buffer_Overflow, s1))"
  using assms by (simp add: bt_defs fill_fds_all)

theorem mtk_open_correct_witness:
  "fst (mtk_op demo_bt_abi good_lib BT_VND_OP_USERIAL_OPEN [0, 0, 0, 0, 9]
      (init_bt\<lparr>mtk_bt_enable := 8192\<rparr>)) = Inr (1, [37, 37, 37, 37, 9])"
proof -
  have "replicate 4 (37 :: u32) = [37, 37, 37, 37]" by (simp add: numeral_eq_Suc)
  then show ?thesis
    using mtk_open_correct [of "init_bt\<lparr>mtk_bt_enable := 8192\<rparr>" 37 good_lib demo_bt_abi "[0, 0, 0, 0, 9]"]
    by (simp add: good_lib_def demo_bt_abi_def init_bt_def)
qed

text \<open>
  The power, SCO, low-power and unknown opcodes return 0 without any effect; the idle
  timeout query returns 0 and stores 200 in the caller's word; firmware configuration and epilog
  report success through the callback the host registered, once, and return 0.
\<close>

theorem mtk_op_passive:
  "mtk_op abi env BT_VND_OP_POWER_CTRL param s = (Inr (0, param), s)
   \<and> mtk_op abi env BT_VND_OP_SCO_CFG param s = (Inr (0, param), s)
   \<and> mtk_op abi env BT_VND_OP_LPM_SET_MODE param s = (Inr (0, param), s)
   \<and> mtk_op abi env BT_VND_OP_LPM_WAKE_SET_STATE param s = (Inr (0, param), s)
   \<and> mtk_op abi env (BT_VND_OP_other n) param s = (Inr (0, param), s)
   \<and> mtk_op abi env BT_VND_OP_GET_LPM_IDLE_TIMEOUT (w # ws) s = (Inr (0, 200 # ws), s)
   \<and> (bt_vendor_cbacks s = Some cb \<and> valid_callbacks cb \<longrightarrow>
     mtk_op abi env BT_VND_OP_FW_CFG param s = (Inr (0, param), s\<lparr>btrace := btrace s @
        [(Fwcfg_cb (fwcfg_cb cb) (BT_VND_OP_RESULT_SUCCESS abi),
          env (btrace s) (Fwcfg_cb (fwcfg_cb cb) (BT_VND_OP_RESULT_SUCCESS abi)))]\<rparr>)
     \<and> mtk_op abi env BT_VND_OP_EPILOG param s = (Inr (0, param), s\<lparr>btrace := btrace s @
        [(Epilog_cb (epilog_cb cb) (BT_VND_OP_RESULT_SUCCESS abi),
          env (btrace s) (Epilog_cb (epilog_cb cb) (BT_VND_OP_RESULT_SUCCESS abi)))]\<rparr>))"
  by (auto simp: bt_defs const_defs valid_callbacks_def)

theorem mtk_op_passive_witness:
  "map fst (btrace (snd (mtk_op demo_bt_abi good_lib BT_VND_OP_FW_CFG []
      (init_bt\<lparr>bt_vendor_cbacks := Some demo_callbacks\<rparr>)))) = [Fwcfg_cb 100 0]"
  using mtk_op_passive [of demo_bt_abi good_lib "[]" "init_bt\<lparr>bt_vendor_cbacks := Some demo_callbacks\<rparr>"
      0 0 "[]" demo_callbacks]
  by (simp add: init_bt_def demo_callbacks_def valid_callbacks_def demo_bt_abi_def)

section \<open>Where the code falls short\<close>

text \<open>
  When the driver library is missing, initialisation still returns 0, the value for success,
  and the host's next attempt to open the transport calls through a null function pointer.
\<close>

theorem mtk_init_missing_library:
  assumes "\<And>tr. env tr (Dlopen ''libbluetoothdrv.so'') = 0" and "mtk_bt_enable s = 0"
  shows "fst (mtk_init abi env (Some cb) s) = 0
    \<and> fst (run (bt_step abi env) [Init (Some cb), Op BT_VND_OP_USERIAL_OPEN param] (None, s))
        = Some Null_Call"
  using assms by (simp add: bt_defs)

theorem mtk_init_missing_library_witness:
  "fst (run (bt_step demo_bt_abi missing_lib) [Init (Some demo_callbacks), Op BT_VND_OP_USERIAL_OPEN []]
     (None, init_bt)) = Some Null_Call"
proof -
  have "missing_lib tr (Dlopen ''libbluetoothdrv.so'') = 0" for tr
    by (simp add: missing_lib_def)
  moreover have "mtk_bt_enable init_bt = 0" by (simp add: init_bt_def)
  ultimately show ?thesis using mtk_init_missing_library by blast
qed

text \<open>
  C40: when a symbol of the driver library is missing, initialisation closes the library, still
  returns 0 and keeps the stale handle, so that the cleanup closes the same handle a second time.
\<close>

theorem mtk_init_missing_symbol:
  assumes "env (btrace s @ [(Dlerror, env (btrace s) Dlerror)]) (Dlopen ''libbluetoothdrv.so'') = h"
    and "h \<noteq> 0" and "\<And>tr. tr \<noteq> btrace s \<Longrightarrow> env tr Dlerror \<noteq> 0"
  shows "fst (mtk_init abi env (Some cb) s) = 0
    \<and> dlopens (btrace (snd (run (bt_step abi env) [Init (Some cb), Cleanup] (None, s))))
        = dlopens (btrace s) @ [h]
    \<and> dlcloses (btrace (snd (run (bt_step abi env) [Init (Some cb), Cleanup] (None, s))))
        = dlcloses (btrace s) @ [h, h]"
  using assms by (simp add: bt_defs) (simp add: dlopens_def dlcloses_def)

theorem mtk_init_missing_symbol_witness:
  "dlcloses (btrace (snd (run (bt_step demo_bt_abi missing_symbols) [Init (Some demo_callbacks), Cleanup]
      (None, init_bt)))) = [4096, 4096]"
  using mtk_init_missing_symbol [of missing_symbols init_bt 4096 demo_bt_abi demo_callbacks]
  by (simp add: missing_symbols_def init_bt_def dlcloses_def)

text \<open>
  Closing the transport does not forget its descriptor, so closing twice asks the driver to
  disable the same descriptor twice.
\<close>

theorem mtk_close_twice:
  assumes "hci_tty_fd s \<noteq> -1" and "mtk_bt_disable s \<noteq> 0"
  shows "map fst (drop (length (btrace s)) (btrace (snd (run (bt_step abi env)
      [Op BT_VND_OP_USERIAL_CLOSE [], Op BT_VND_OP_USERIAL_CLOSE []] (None, s)))))
    = [Mtk_bt_disable (mtk_bt_disable s) (hci_tty_fd s), Mtk_bt_disable (mtk_bt_disable s) (hci_tty_fd s)]"
  using assms by (simp add: bt_defs)

theorem mtk_close_twice_witness:
  "map fst (drop 0 (btrace (snd (run (bt_step demo_bt_abi good_lib)
      [Op BT_VND_OP_USERIAL_CLOSE [], Op BT_VND_OP_USERIAL_CLOSE []]
      (None, init_bt\<lparr>hci_tty_fd := 37, mtk_bt_disable := 8192\<rparr>)))))
    = [Mtk_bt_disable 8192 37, Mtk_bt_disable 8192 37]"
  using mtk_close_twice [of "init_bt\<lparr>hci_tty_fd := 37, mtk_bt_disable := 8192\<rparr>" demo_bt_abi good_lib]
  by (simp add: init_bt_def)

end
