(* ===== verification/C_Bytes.thy ===== *)
theory C_Bytes
  imports C_Text
begin

text \<open>
  Numbers and text as bytes in memory, in the little-endian order of the 32-bit ARM target and of
  the hosts the images are built on, and that reading the bytes of a number gives it back.
\<close>

text \<open>The \<open>n\<close> low bytes of a word, the least significant one first.\<close>

definition le_bytes :: "nat \<Rightarrow> 'a::len word \<Rightarrow> u8 list" where
  "le_bytes n w = map (\<lambda>i. ucast (drop_bit (8 * i) w)) [0..<n]"

definition char_bytes :: "string \<Rightarrow> u8 list" where
  "char_bytes s = map of_char s"

text \<open>Reading little-endian bytes back.\<close>

definition of_le_bytes :: "u8 list \<Rightarrow> int" where
  "of_le_bytes bs = horner_sum uint 256 bs"

lemma length_le_bytes [simp]: "length (le_bytes n w) = n"
  by (simp add: le_bytes_def)

lemma length_char_bytes [simp]: "length (char_bytes s) = length s"
  by (simp add: char_bytes_def)

lemma le_bytes_4: "le_bytes 4 w = [ucast w, ucast (drop_bit 8 w), ucast (drop_bit 16 w), ucast (drop_bit 24 w)]"
  by (simp add: le_bytes_def upt_rec)

lemma uint_byte: "uint (ucast (drop_bit k (w :: u32)) :: u8) = uint w div 2 ^ k mod 256"
proof -
  have "uint (ucast (drop_bit k w) :: u8) = take_bit 8 (uint (drop_bit k w))"
    by (simp add: unsigned_ucast_eq unsigned_take_bit_eq)
  also have "uint (drop_bit k w) = drop_bit k (uint w)"
    by (rule bit_eqI) (auto simp: bit_simps)
  finally show ?thesis
    by (simp only: take_bit_eq_mod drop_bit_eq_div) simp
qed

lemma base_256:
  fixes x :: int
  assumes "0 \<le> x" "x < 2 ^ 32"
  shows "x mod 256 + 256 * (x div 2 ^ 8 mod 256 + 256 * (x div 2 ^ 16 mod 256 + 256 * (x div 2 ^ 24 mod 256))) = x"
proof -
  have "x div 2 ^ 16 = x div 2 ^ 8 div 256" "x div 2 ^ 24 = x div 2 ^ 16 div 256"
    by (simp_all add: zdiv_zmult2_eq [symmetric])
  moreover have "x div 2 ^ 24 mod 256 = x div 2 ^ 24"
    using assms by simp
  ultimately show ?thesis
    using div_mult_mod_eq [of x 256] div_mult_mod_eq [of "x div 2 ^ 8" 256] div_mult_mod_eq [of "x div 2 ^ 16" 256]
    by simp
qed

lemma horner_4: "horner_sum uint 256 [a, b, c, d] = uint a + 256 * (uint b + 256 * (uint c + 256 * uint d))"
  by simp

lemma of_le_bytes_u32 [simp]: "of_le_bytes (le_bytes 4 (w :: u32)) = uint w"
proof -
  have w: "uint w < 2 ^ 32" using uint_lt2p [of w] by simp
  have low: "uint (ucast w :: u8) = uint w mod 256" using uint_byte [of 0 w] by simp
  show ?thesis
    unfolding of_le_bytes_def le_bytes_4 horner_4 uint_byte low by (rule base_256 [OF uint_ge_0 w])
qed

lemma of_le_bytes_u16 [simp]: "of_le_bytes (le_bytes 2 (w :: u16)) = uint w"
proof -
  have w: "uint w < 2 ^ 16" using uint_lt2p [of w] by simp
  have hi: "uint (ucast (drop_bit 8 w) :: u8) = uint w div 256"
  proof -
    have "uint (drop_bit 8 w) = drop_bit 8 (uint w)"
      by (rule bit_eqI) (auto simp: bit_simps)
    then have "uint (ucast (drop_bit 8 w) :: u8) = take_bit 8 (drop_bit 8 (uint w))"
      by (simp add: unsigned_ucast_eq unsigned_take_bit_eq)
    moreover have "uint w div 256 mod 256 = uint w div 256"
      using w by (intro mod_pos_pos_trivial) (simp_all add: pos_imp_zdiv_nonneg_iff)
    ultimately show ?thesis by (simp add: take_bit_eq_mod drop_bit_eq_div)
  qed
  have lo: "uint (ucast w :: u8) = uint w mod 256"
    by (simp add: unsigned_ucast_eq take_bit_eq_mod)
  have "le_bytes 2 w = [ucast w, ucast (drop_bit 8 w)]"
    by (simp add: le_bytes_def upt_rec)
  then show ?thesis
    by (simp add: of_le_bytes_def lo hi)
qed

end
