(* ===== verification/Wireless_Ext.thy ===== *)
theory Wireless_Ext
  imports C_Bytes
begin

text \<open>
  The structures of the wireless extensions that
  src/wpa_supplicant_8_lib/mediatek_driver_nl80211.h declares for itself, and the request
  \<open>wpa_driver_mediatek_set_country\<close> builds with them. A union is a datatype with one constructor
  for each member; a pointer to text is the text it points to, and its address is a parameter
  where the bytes of a structure matter. The layout is that of the 32-bit ARM ABI: little endian,
  every field at a multiple of its size, which leaves no padding in any of these structures.
\<close>

definition IFNAMSIZ :: nat where [const_defs]: "IFNAMSIZ = 16"

record iw_point =
  pointer :: string
  point_length :: u16
  point_flags :: u16

record iw_param =
  param_value :: s32
  fixed :: u8
  disabled :: u8
  param_flags :: u16

record iw_freq =
  freq_m :: s32
  freq_e :: u16               \<comment> \<open>a signed 16-bit exponent\<close>
  freq_i :: u8
  freq_flags :: u8

record iw_quality =
  quality_qual :: u8
  quality_level :: u8
  quality_noise :: u8
  quality_updated :: u8

text \<open>\<open>struct sockaddr\<close> of the C library.\<close>

record sockaddr =
  sa_family :: u16
  sa_data :: "u8 list"        \<comment> \<open>14 bytes\<close>

datatype iwreq_data =
    U_name string             \<comment> \<open>\<open>IFNAMSIZ\<close> characters\<close>
  | U_essid iw_point
  | U_nwid iw_param
  | U_freq iw_freq
  | U_sens iw_param
  | U_bitrate iw_param
  | U_txpower iw_param
  | U_rts iw_param
  | U_frag iw_param
  | U_mode u32
  | U_retry iw_param
  | U_encoding iw_point
  | U_power iw_param
  | U_qual iw_quality
  | U_ap_addr sockaddr
  | U_addr sockaddr
  | U_param iw_param
  | U_data iw_point

record iwreq =
  ifrn_name :: string         \<comment> \<open>\<open>IFNAMSIZ\<close> characters, \<open>ifr_name\<close>\<close>
  iwreq_u :: iwreq_data

text \<open>\<open>strncpy\<close>: at most \<open>n\<close> characters, padded with NUL, not terminated when the source is longer.\<close>

definition strncpy :: "nat \<Rightarrow> string \<Rightarrow> string" where
  "strncpy n src = take n src @ replicate (n - length src) NUL"

text \<open>
  The request of \<open>wpa_driver_mediatek_set_country\<close>: a structure of zeros with the interface's
  name, the text and its length.
\<close>

definition country_iwreq :: "string \<Rightarrow> string \<Rightarrow> iwreq" where
  "country_iwreq name buf =
     \<lparr>ifrn_name = strncpy IFNAMSIZ name,
      iwreq_u = U_data \<lparr>pointer = buf, point_length = of_nat (length buf), point_flags = 0\<rparr>\<rparr>"

section \<open>Layout\<close>

definition iw_point_bytes :: "(string \<Rightarrow> u32) \<Rightarrow> iw_point \<Rightarrow> u8 list" where
  "iw_point_bytes addr_of p =
     le_bytes 4 (addr_of (pointer p)) @ le_bytes 2 (point_length p) @ le_bytes 2 (point_flags p)"

definition iw_param_bytes :: "iw_param \<Rightarrow> u8 list" where
  "iw_param_bytes p = le_bytes 4 (param_value p) @ [fixed p, disabled p] @ le_bytes 2 (param_flags p)"

definition iw_freq_bytes :: "iw_freq \<Rightarrow> u8 list" where
  "iw_freq_bytes f = le_bytes 4 (freq_m f) @ le_bytes 2 (freq_e f) @ [freq_i f, freq_flags f]"

definition iw_quality_bytes :: "iw_quality \<Rightarrow> u8 list" where
  "iw_quality_bytes q = [quality_qual q, quality_level q, quality_noise q, quality_updated q]"

definition sockaddr_bytes :: "sockaddr \<Rightarrow> u8 list" where
  "sockaddr_bytes a = le_bytes 2 (sa_family a) @ sa_data a"

fun member_bytes :: "(string \<Rightarrow> u32) \<Rightarrow> iwreq_data \<Rightarrow> u8 list" where
  "member_bytes addr_of (U_name n) = char_bytes n"
| "member_bytes addr_of (U_essid p) = iw_point_bytes addr_of p"
| "member_bytes addr_of (U_nwid p) = iw_param_bytes p"
| "member_bytes addr_of (U_freq f) = iw_freq_bytes f"
| "member_bytes addr_of (U_sens p) = iw_param_bytes p"
| "member_bytes addr_of (U_bitrate p) = iw_param_bytes p"
| "member_bytes addr_of (U_txpower p) = iw_param_bytes p"
| "member_bytes addr_of (U_rts p) = iw_param_bytes p"
| "member_bytes addr_of (U_frag p) = iw_param_bytes p"
| "member_bytes addr_of (U_mode m) = le_bytes 4 m"
| "member_bytes addr_of (U_retry p) = iw_param_bytes p"
| "member_bytes addr_of (U_encoding p) = iw_point_bytes addr_of p"
| "member_bytes addr_of (U_power p) = iw_param_bytes p"
| "member_bytes addr_of (U_qual q) = iw_quality_bytes q"
| "member_bytes addr_of (U_ap_addr a) = sockaddr_bytes a"
| "member_bytes addr_of (U_addr a) = sockaddr_bytes a"
| "member_bytes addr_of (U_param p) = iw_param_bytes p"
| "member_bytes addr_of (U_data p) = iw_point_bytes addr_of p"

definition sizeof_iwreq_data :: nat where
  "sizeof_iwreq_data = 16"

definition iwreq_bytes :: "(string \<Rightarrow> u32) \<Rightarrow> iwreq \<Rightarrow> u8 list" where
  "iwreq_bytes addr_of r =
     (let m = member_bytes addr_of (iwreq_u r)
      in char_bytes (ifrn_name r) @ m @ replicate (sizeof_iwreq_data - length m) 0)"

text \<open>The lengths of the arrays inside the structures.\<close>

fun member_typed :: "iwreq_data \<Rightarrow> bool" where
  "member_typed (U_name n) \<longleftrightarrow> length n = IFNAMSIZ"
| "member_typed (U_ap_addr a) \<longleftrightarrow> length (sa_data a) = 14"
| "member_typed (U_addr a) \<longleftrightarrow> length (sa_data a) = 14"
| "member_typed _ \<longleftrightarrow> True"

definition iwreq_typed :: "iwreq \<Rightarrow> bool" where
  "iwreq_typed r \<longleftrightarrow> length (ifrn_name r) = IFNAMSIZ \<and> member_typed (iwreq_u r)"

lemmas layout_defs = iw_point_bytes_def iw_param_bytes_def iw_freq_bytes_def iw_quality_bytes_def
  sockaddr_bytes_def

lemma length_strncpy [simp]: "length (strncpy n s) = n"
  by (simp add: strncpy_def)

lemma member_fits: "member_typed u \<Longrightarrow> length (member_bytes addr_of u) \<le> sizeof_iwreq_data"
  by (cases u) (simp_all add: layout_defs sizeof_iwreq_data_def IFNAMSIZ_def)

lemma length_iwreq_bytes: "iwreq_typed r \<Longrightarrow> length (iwreq_bytes addr_of r) = 32"
  using member_fits [of "iwreq_u r" addr_of]
  by (simp add: iwreq_bytes_def iwreq_typed_def Let_def IFNAMSIZ_def sizeof_iwreq_data_def)

lemma country_iwreq_typed: "iwreq_typed (country_iwreq name buf)"
  by (simp add: iwreq_typed_def country_iwreq_def)

section \<open>The request for a country code\<close>

lemma char_bytes_strncpy: "char_bytes (strncpy n s) = char_bytes (take n s) @ replicate (n - length s) 0"
  by (simp add: strncpy_def char_bytes_def of_char_def char_of_def NUL_def)

lemma country_bytes:
  "iwreq_bytes addr_of (country_iwreq name buf) =
     char_bytes (strncpy 16 name) @ le_bytes 4 (addr_of buf) @ le_bytes 2 (of_nat (length buf) :: u16)
       @ replicate 10 0"
proof -
  have "le_bytes 2 (0 :: u16) @ replicate 8 (0 :: u8) = replicate 10 0"
    by (simp add: le_bytes_def numeral_eq_Suc)
  then show ?thesis
    by (simp add: iwreq_bytes_def country_iwreq_def Let_def iw_point_bytes_def sizeof_iwreq_data_def
        IFNAMSIZ_def)
qed

text \<open>
  C35: Every well-typed request occupies the 32 bytes the kernel copies, whichever member of the
  union it uses. In the one \<open>wpa_driver_mediatek_set_country\<close> sends, the kernel reads back the
  interface's name in the first 16 bytes, the address of the text, its length and zero flags.\<close>

theorem country_request_layout:
  assumes "iwreq_typed r" and "length buf < 65536" and "bs = iwreq_bytes addr_of (country_iwreq name buf)"
  shows "length (iwreq_bytes addr_of r) = 32 \<and> length bs = 32
    \<and> take 16 bs = char_bytes (take 16 name) @ replicate (16 - length name) 0
    \<and> of_le_bytes (take 4 (drop 16 bs)) = uint (addr_of buf)
    \<and> of_le_bytes (take 2 (drop 20 bs)) = int (length buf)
    \<and> drop 22 bs = replicate 10 0"
  using assms(2)
  by (simp add: length_iwreq_bytes [OF assms(1)] assms(3) country_bytes char_bytes_strncpy unsigned_of_nat
      take_bit_nat_eq_self min_def)

theorem country_request_layout_witness:
  "of_le_bytes (take 2 (drop 20 (iwreq_bytes (\<lambda>_. 0xbeff0000) (country_iwreq ''wlan0'' ''COUNTRY VN'')))) = 10"
  using country_request_layout [OF country_iwreq_typed [of "[]" "[]"], of "''COUNTRY VN''" _ "\<lambda>_. 0xbeff0000" "''wlan0''"]
  by simp

end
