(* ===== verification/Testmode.thy ===== *)
theory Testmode
  imports Wireless_Ext
begin

text \<open>
  The test-mode channel of the MediaTek Wi-Fi library, the first half of
  src/wpa_supplicant_8_lib/mediatek_driver_cmd_nl80211.c with the structures and attribute
  numbers of mediatek_driver_nl80211.h: requests are packed into a structure with a common
  header, sent to the kernel in one netlink message, and the attributes of the kernel's reply
  are copied into a structure of the caller.

  Parameters: the netlink library (\<open>libnl\<close>, over an abstract type of messages and of
  attributes), the constants of headers that are not part of the repository (\<open>wifi_abi\<close>), and
  the build configuration (\<open>wifi_cfg\<close>). A pointer to a structure that a request fills is
  modelled by the structure itself, passed in and out.
\<close>

section \<open>Parameters\<close>

record wifi_cfg =
  CONFIG_MEDIATEK_WIFI_BEAM :: bool
  CONFIG_MTK_POOR_LINK_DETECT :: bool
  CONFIG_HOTSPOT_MGR_SUPPORT :: bool
  CONFIG_WAPI_SUPPORT :: bool
  CONFIG_MTK_P2P_SIGMA :: bool

record wifi_abi =
  hwaddr_aton :: "string \<Rightarrow> macaddr option"     \<comment> \<open>\<open>None\<close> where the function returns non-zero\<close>
  GO_READY_STATE :: nat
  GO_READY_NUM :: nat
  IW_ENCODE_SEQ_MAX_SIZE :: nat
  IW_ENCODE_EXT_GROUP_KEY :: u32
  IW_ENCODE_EXT_SET_TX_KEY :: u32
  IW_ENCODE_ALG_SMS4 :: u32
  WPA_DRIVER_FLAGS_P2P_CONCURRENT :: u32
  WLAN_REASON_DEAUTH_LEAVING :: int
  wapi_key_cap :: nat                            \<comment> \<open>\<open>sizeof extparams.key\<close>\<close>
  wapi_seq_cap :: nat                            \<comment> \<open>\<open>sizeof extparams.tx_seq\<close>\<close>
  sizeof_wapi_key_params :: u32
  sizeof_link_detect_params :: u32
  sizeof_p2p_sigma_params :: u32

datatype nla_type = NLA_UNSPEC | NLA_U8 | NLA_U16 | NLA_U32 | NLA_U64

text \<open>
  The netlink library: the attribute \<open>NL80211_ATTR_TESTDATA\<close> of a message after \<open>nla_parse\<close>;
  \<open>nla_parse_nested\<close> with the highest attribute number and a policy (\<open>None\<close> for a non-zero
  return, else the table it fills); the readers of one attribute; \<open>nla_memcpy\<close> from the old to
  the new contents of its destination.
\<close>

record ('m, 'a) libnl =
  nl_testdata :: "'m \<Rightarrow> 'a option"
  nl_nested :: "nat \<Rightarrow> (nat \<times> nla_type) list \<Rightarrow> 'a \<Rightarrow> (nat \<Rightarrow> 'a option) option"
  nla_get_u8 :: "'a \<Rightarrow> u8"
  nla_get_u16 :: "'a \<Rightarrow> u16"
  nla_get_u32 :: "'a \<Rightarrow> u32"
  nla_get_u64 :: "'a \<Rightarrow> u64"
  nla_memcpy :: "u8 list \<Rightarrow> 'a \<Rightarrow> nat \<Rightarrow> u8 list"

text \<open>
  What the library documents about \<open>nla_memcpy\<close>: it writes at most the given number of bytes, so
  a destination of at least that size keeps its size.
\<close>

definition libnl_ok :: "('m, 'a) libnl \<Rightarrow> bool" where
  "libnl_ok nl \<longleftrightarrow> (\<forall>d a n. n \<le> length d \<longrightarrow> length (nla_memcpy nl d a n) = length d)"

definition ETH_ALEN :: nat where [const_defs]: "ETH_ALEN = 6"

section \<open>mediatek_driver_nl80211.h\<close>

text \<open>\<open>BIT(n)\<close> is the word with bit \<open>n\<close> set, as the header's comment on \<open>BITS\<close> spells out.\<close>

definition BIT :: "nat \<Rightarrow> u32" where "BIT n = push_bit n 1"

definition BITS :: "nat \<Rightarrow> nat \<Rightarrow> u32" where
  "BITS m n = (NOT (BIT m - 1)) AND ((BIT n - 1) OR BIT n)"

definition STA_STATISTICS_VERSION :: nat where [const_defs]: "STA_STATISTICS_VERSION = 1"
definition STA_STATISTICS_MAC :: nat where [const_defs]: "STA_STATISTICS_MAC = 2"
definition STA_STATISTICS_LINK_SCORE :: nat where [const_defs]: "STA_STATISTICS_LINK_SCORE = 3"
definition STA_STATISTICS_FLAG :: nat where [const_defs]: "STA_STATISTICS_FLAG = 4"
definition STA_STATISTICS_PER :: nat where [const_defs]: "STA_STATISTICS_PER = 5"
definition STA_STATISTICS_RSSI :: nat where [const_defs]: "STA_STATISTICS_RSSI = 6"
definition STA_STATISTICS_PHY_MODE :: nat where [const_defs]: "STA_STATISTICS_PHY_MODE = 7"
definition STA_STATISTICS_TX_RATE :: nat where [const_defs]: "STA_STATISTICS_TX_RATE = 8"
definition STA_STATISTICS_TOTAL_CNT :: nat where [const_defs]: "STA_STATISTICS_TOTAL_CNT = 9"
definition STA_STATISTICS_THRESHOLD_CNT :: nat where [const_defs]: "STA_STATISTICS_THRESHOLD_CNT = 10"
definition STA_STATISTICS_AVG_PROCESS_TIME :: nat where
  [const_defs]: "STA_STATISTICS_AVG_PROCESS_TIME = 11"
definition STA_STATISTICS_FAIL_CNT :: nat where [const_defs]: "STA_STATISTICS_FAIL_CNT = 12"
definition STA_STATISTICS_TIMEOUT_CNT :: nat where [const_defs]: "STA_STATISTICS_TIMEOUT_CNT = 13"
definition STA_STATISTICS_AVG_AIR_TIME :: nat where [const_defs]: "STA_STATISTICS_AVG_AIR_TIME = 14"
definition STA_STATISTICS_TC_EMPTY_CNT_ARRAY :: nat where
  [const_defs]: "STA_STATISTICS_TC_EMPTY_CNT_ARRAY = 15"
definition STA_STATISTICS_TC_QUE_LEN_ARRAY :: nat where
  [const_defs]: "STA_STATISTICS_TC_QUE_LEN_ARRAY = 16"
definition STA_STATISTICS_TC_AVG_QUE_LEN_ARRAY :: nat where
  [const_defs]: "STA_STATISTICS_TC_AVG_QUE_LEN_ARRAY = 17"
definition STA_STATISTICS_TC_CUR_QUE_LEN_ARRAY :: nat where
  [const_defs]: "STA_STATISTICS_TC_CUR_QUE_LEN_ARRAY = 18"
definition STA_STATISTICS_RESERVED_ARRAY :: nat where [const_defs]: "STA_STATISTICS_RESERVED_ARRAY = 19"
definition STA_STATISTICS_NUM :: nat where [const_defs]: "STA_STATISTICS_NUM = 20"
definition STA_STATISTICS_MAX :: nat where [const_defs]: "STA_STATISTICS_MAX = STA_STATISTICS_NUM - 1"

definition LINK_TX_FAIL_CNT :: nat where [const_defs]: "LINK_TX_FAIL_CNT = 1"
definition LINK_TX_RETRY_CNT :: nat where [const_defs]: "LINK_TX_RETRY_CNT = 2"
definition LINK_TX_MULTI_RETRY_CNT :: nat where [const_defs]: "LINK_TX_MULTI_RETRY_CNT = 3"
definition LINK_ACK_FAIL_CNT :: nat where [const_defs]: "LINK_ACK_FAIL_CNT = 4"
definition LINK_FCS_ERR_CNT :: nat where [const_defs]: "LINK_FCS_ERR_CNT = 5"
definition LINK_TX_CNT :: nat where [const_defs]: "LINK_TX_CNT = 6"
definition LINK_TX_OK_CNT :: nat where [const_defs]: "LINK_TX_OK_CNT = 7"
definition LINK_TX_OS_CNT :: nat where [const_defs]: "LINK_TX_OS_CNT = 8"
definition LINK_DETECT_NUM :: nat where [const_defs]: "LINK_DETECT_NUM = 9"
definition LINK_DETECT_MAX :: nat where [const_defs]: "LINK_DETECT_MAX = LINK_DETECT_NUM - 1"

definition TC_DATA_NUM :: nat where [const_defs]: "TC_DATA_NUM = 4"

text \<open>
  \<open>tx_rate\<close> is a double; the code stores half of a 16-bit number in it, which a double holds
  exactly.
\<close>

record sta_statistics =
  version :: u8
  addr :: "u8 list"
  flag :: u32
  link_score :: u8
  per :: u8
  rssi :: int
  phy_mode :: u32
  tx_rate :: double
  tx_total_cnt :: u32
  tx_exc_threshold_cnt :: u32
  tx_avg_process_time :: u32
  tx_fail_cnt :: u32
  tx_timeout_cnt :: u32
  tx_avg_air_time :: u32
  tc_buf_full_cnt :: "u32 list"
  tc_que_len :: "u32 list"
  tc_avg_que_len :: "u32 list"
  tc_cur_que_len :: "u32 list"
  reserved :: "u8 list"

record sta_link_detect =
  ld_tx_fail_cnt :: u64
  ld_tx_retry_cnt :: u64
  ld_tx_multi_retry_cnt :: u64
  ld_ack_fail_cnt :: u64
  ld_fcs_err_cnt :: u64
  ld_tx_cnt :: u64
  ld_tx_ok_cnt :: u64
  ld_tx_os_cnt :: u64

section \<open>Request structures\<close>

record test_mode_info =
  index :: u32
  buflen :: u32

record hotspot_params =
  hp_hdr :: test_mode_info
  hp_blocked :: u8
  hp_bssid :: macaddr

record get_sta_statistics_params =
  gs_hdr :: test_mode_info
  gs_version :: u32
  gs_flag :: u32
  gs_addr :: macaddr
  gs_buf :: sta_statistics        \<comment> \<open>the structure behind the pointer\<close>

record sw_cmd_params =
  sw_hdr :: test_mode_info
  sw_set :: u8
  sw_adr :: ulong
  sw_data :: ulong

record link_detect_params =
  lp_hdr :: test_mode_info
  lp_buf :: sta_link_detect       \<comment> \<open>the structure behind the pointer\<close>

record p2p_sigma_params =
  ps_hdr :: test_mode_info
  ps_idx :: u32
  ps_value :: u32

record wapi_key_params =
  wk_hdr :: test_mode_info
  wk_key_index :: s32
  wk_key_len :: u32
  wk_ext_flags :: u32
  wk_addr :: macaddr
  wk_key :: "u8 list"             \<comment> \<open>the whole array\<close>
  wk_ext_key_len :: u32
  wk_alg :: u32
  wk_tx_seq :: "u8 list"          \<comment> \<open>the whole array\<close>

record beamplus_params =
  bp_hdr :: test_mode_info
  bp_value :: u32

datatype testmode_data =
    TM_sw_cmd sw_cmd_params
  | TM_hotspot hotspot_params
  | TM_sta_statistics get_sta_statistics_params
  | TM_link_detect link_detect_params
  | TM_p2p_sigma p2p_sigma_params
  | TM_wapi_key wapi_key_params
  | TM_beamplus beamplus_params

text \<open>The header, which every structure starts with.\<close>

fun tm_hdr :: "testmode_data \<Rightarrow> test_mode_info" where
  "tm_hdr (TM_sw_cmd p) = sw_hdr p"
| "tm_hdr (TM_hotspot p) = hp_hdr p"
| "tm_hdr (TM_sta_statistics p) = gs_hdr p"
| "tm_hdr (TM_link_detect p) = lp_hdr p"
| "tm_hdr (TM_p2p_sigma p) = ps_hdr p"
| "tm_hdr (TM_wapi_key p) = wk_hdr p"
| "tm_hdr (TM_beamplus p) = bp_hdr p"

text \<open>Sizes of the structures this file declares, on 32-bit ARM (padding to four bytes).\<close>

definition sizeof_hotspot_params :: u32 where [const_defs]: "sizeof_hotspot_params = 16"
definition sizeof_get_sta_statistics_params :: u32 where
  [const_defs]: "sizeof_get_sta_statistics_params = 28"
definition sizeof_sw_cmd_params :: u32 where [const_defs]: "sizeof_sw_cmd_params = 20"

section \<open>Reply handlers\<close>

text \<open>Arrays of 32-bit counters as the bytes \<open>nla_memcpy\<close> sees (little endian).\<close>

definition bytes_of_u32 :: "u32 \<Rightarrow> u8 list" where
  "bytes_of_u32 w = [ucast w, ucast (drop_bit 8 w), ucast (drop_bit 16 w), ucast (drop_bit 24 w)]"

fun u32s_of_bytes :: "u8 list \<Rightarrow> u32 list" where
  "u32s_of_bytes (a # b # c # d # bs) =
     (ucast a OR push_bit 8 (ucast b) OR push_bit 16 (ucast c) OR push_bit 24 (ucast d))
       # u32s_of_bytes bs"
| "u32s_of_bytes _ = []"

definition memcpy_u32s :: "('m, 'a) libnl \<Rightarrow> u32 list \<Rightarrow> 'a \<Rightarrow> u32 list" where
  "memcpy_u32s nl ws a = (let bs = concat (map bytes_of_u32 ws) in
     u32s_of_bytes (nla_memcpy nl bs a (length bs)))"

definition sta_statistics_policy :: "(nat \<times> nla_type) list" where
  "sta_statistics_policy =
     [(STA_STATISTICS_VERSION, NLA_U8), (STA_STATISTICS_MAC, NLA_UNSPEC),
      (STA_STATISTICS_LINK_SCORE, NLA_U8), (STA_STATISTICS_FLAG, NLA_U32),
      (STA_STATISTICS_PER, NLA_U8), (STA_STATISTICS_RSSI, NLA_U8),
      (STA_STATISTICS_PHY_MODE, NLA_U32), (STA_STATISTICS_TX_RATE, NLA_U16),
      (STA_STATISTICS_FAIL_CNT, NLA_U32), (STA_STATISTICS_TIMEOUT_CNT, NLA_U32),
      (STA_STATISTICS_AVG_AIR_TIME, NLA_U32), (STA_STATISTICS_TOTAL_CNT, NLA_U32),
      (STA_STATISTICS_THRESHOLD_CNT, NLA_U32), (STA_STATISTICS_AVG_PROCESS_TIME, NLA_U32),
      (STA_STATISTICS_TC_EMPTY_CNT_ARRAY, NLA_UNSPEC), (STA_STATISTICS_TC_QUE_LEN_ARRAY, NLA_UNSPEC),
      (STA_STATISTICS_TC_AVG_QUE_LEN_ARRAY, NLA_UNSPEC),
      (STA_STATISTICS_TC_CUR_QUE_LEN_ARRAY, NLA_UNSPEC), (STA_STATISTICS_RESERVED_ARRAY, NLA_UNSPEC)]"

text \<open>\<open>(((int)nla_get_u8(sinfo[i]) - 220) / 2)\<close>, division truncating towards zero.\<close>

definition rssi_of_u8 :: "u8 \<Rightarrow> int" where
  "rssi_of_u8 b = (uint b - 220) sdiv 2"

definition tx_rate_of_u16 :: "u16 \<Rightarrow> double" where
  "tx_rate_of_u16 w = Dbl (of_int (uint w) / 2)"

text \<open>The \<open>switch\<close> for one attribute that is present.\<close>

definition sta_statistics_switch ::
    "('m, 'a) libnl \<Rightarrow> nat \<Rightarrow> 'a \<Rightarrow> sta_statistics \<Rightarrow> sta_statistics" where
  "sta_statistics_switch nl i a st =
     (if i = STA_STATISTICS_VERSION then st\<lparr>version := nla_get_u8 nl a\<rparr>
      else if i = STA_STATISTICS_MAC then st\<lparr>addr := nla_memcpy nl (addr st) a ETH_ALEN\<rparr>
      else if i = STA_STATISTICS_LINK_SCORE then st\<lparr>link_score := nla_get_u8 nl a\<rparr>
      else if i = STA_STATISTICS_FLAG then st\<lparr>flag := nla_get_u32 nl a\<rparr>
      else if i = STA_STATISTICS_PER then st\<lparr>per := nla_get_u8 nl a\<rparr>
      else if i = STA_STATISTICS_RSSI then st\<lparr>rssi := rssi_of_u8 (nla_get_u8 nl a)\<rparr>
      else if i = STA_STATISTICS_PHY_MODE then st\<lparr>phy_mode := nla_get_u32 nl a\<rparr>
      else if i = STA_STATISTICS_TX_RATE then st\<lparr>tx_rate := tx_rate_of_u16 (nla_get_u16 nl a)\<rparr>
      else if i = STA_STATISTICS_FAIL_CNT then st\<lparr>tx_fail_cnt := nla_get_u32 nl a\<rparr>
      else if i = STA_STATISTICS_TIMEOUT_CNT then st\<lparr>tx_timeout_cnt := nla_get_u32 nl a\<rparr>
      else if i = STA_STATISTICS_AVG_AIR_TIME then st\<lparr>tx_avg_air_time := nla_get_u32 nl a\<rparr>
      else if i = STA_STATISTICS_TOTAL_CNT then st\<lparr>tx_total_cnt := nla_get_u32 nl a\<rparr>
      else if i = STA_STATISTICS_THRESHOLD_CNT then st\<lparr>tx_exc_threshold_cnt := nla_get_u32 nl a\<rparr>
      else if i = STA_STATISTICS_AVG_PROCESS_TIME then st\<lparr>tx_avg_process_time := nla_get_u32 nl a\<rparr>
      else if i = STA_STATISTICS_TC_EMPTY_CNT_ARRAY
        then st\<lparr>tc_buf_full_cnt := memcpy_u32s nl (tc_buf_full_cnt st) a\<rparr>
      else if i = STA_STATISTICS_TC_QUE_LEN_ARRAY
        then st\<lparr>tc_que_len := memcpy_u32s nl (tc_que_len st) a\<rparr>
      else if i = STA_STATISTICS_TC_AVG_QUE_LEN_ARRAY
        then st\<lparr>tc_avg_que_len := memcpy_u32s nl (tc_avg_que_len st) a\<rparr>
      else if i = STA_STATISTICS_TC_CUR_QUE_LEN_ARRAY
        then st\<lparr>tc_cur_que_len := memcpy_u32s nl (tc_cur_que_len st) a\<rparr>
      else if i = STA_STATISTICS_RESERVED_ARRAY
        then st\<lparr>reserved := nla_memcpy nl (reserved st) a (length (reserved st))\<rparr>
      else st)"

text \<open>The loop \<open>for (i = 1; i < NUM; i++) if (sinfo[i]) switch (i) ...\<close>.\<close>

definition attr_loop :: "nat \<Rightarrow> (nat \<Rightarrow> 'a option) \<Rightarrow> (nat \<Rightarrow> 'a \<Rightarrow> 's \<Rightarrow> 's) \<Rightarrow> 's \<Rightarrow> 's" where
  "attr_loop num sinfo sw st =
     fold (\<lambda>i st. case sinfo i of None \<Rightarrow> st | Some a \<Rightarrow> sw i a st) [1..<num] st"

text \<open>
  The three handlers; each returns \<open>NL_SKIP\<close> on every path, so only the structure they fill is
  modelled.
\<close>

definition testmode_sta_statistics_handler ::
    "('m, 'a) libnl \<Rightarrow> 'm \<Rightarrow> sta_statistics \<Rightarrow> sta_statistics" where
  "testmode_sta_statistics_handler nl msg st =
     (case nl_testdata nl msg of None \<Rightarrow> st
      | Some td \<Rightarrow> (case nl_nested nl STA_STATISTICS_MAX sta_statistics_policy td of None \<Rightarrow> st
         | Some sinfo \<Rightarrow> attr_loop STA_STATISTICS_NUM sinfo (sta_statistics_switch nl) st))"

definition testmode_beamplus_go_ready_handler ::
    "('m, 'a) libnl \<Rightarrow> wifi_abi \<Rightarrow> 'm \<Rightarrow> u32 \<Rightarrow> u32" where
  "testmode_beamplus_go_ready_handler nl abi msg go_ready =
     (case nl_testdata nl msg of None \<Rightarrow> go_ready
      | Some td \<Rightarrow> (case nl_nested nl (GO_READY_NUM abi - 1) [(GO_READY_STATE abi, NLA_U32)] td of
           None \<Rightarrow> go_ready
         | Some sinfo \<Rightarrow> attr_loop (GO_READY_NUM abi) sinfo
             (\<lambda>i a g. if i = GO_READY_STATE abi then nla_get_u32 nl a else g) go_ready))"

definition link_detect_policy :: "(nat \<times> nla_type) list" where
  "link_detect_policy =
     [(LINK_TX_FAIL_CNT, NLA_U64), (LINK_TX_RETRY_CNT, NLA_U64), (LINK_TX_MULTI_RETRY_CNT, NLA_U64),
      (LINK_ACK_FAIL_CNT, NLA_U64), (LINK_FCS_ERR_CNT, NLA_U64), (LINK_TX_CNT, NLA_U64),
      (LINK_TX_OK_CNT, NLA_U64), (LINK_TX_OS_CNT, NLA_U64)]"

text \<open>
  \<open>ack_cnt\<close> is read as a signed 64-bit number and stored without its sign; the negation is the
  machine's, which maps the smallest number to itself.
\<close>

definition ack_magnitude :: "u64 \<Rightarrow> u64" where
  "ack_magnitude ack_cnt = (if sint ack_cnt < 0 then - ack_cnt else ack_cnt)"

definition link_detect_switch ::
    "('m, 'a) libnl \<Rightarrow> nat \<Rightarrow> 'a \<Rightarrow> sta_link_detect \<Rightarrow> sta_link_detect" where
  "link_detect_switch nl i a st =
     (if i = LINK_TX_FAIL_CNT then st\<lparr>ld_tx_fail_cnt := nla_get_u64 nl a\<rparr>
      else if i = LINK_TX_RETRY_CNT then st\<lparr>ld_tx_retry_cnt := nla_get_u64 nl a\<rparr>
      else if i = LINK_TX_MULTI_RETRY_CNT then st\<lparr>ld_tx_multi_retry_cnt := nla_get_u64 nl a\<rparr>
      else if i = LINK_ACK_FAIL_CNT then st\<lparr>ld_ack_fail_cnt := ack_magnitude (nla_get_u64 nl a)\<rparr>
      else if i = LINK_FCS_ERR_CNT then st\<lparr>ld_fcs_err_cnt := nla_get_u64 nl a\<rparr>
      else if i = LINK_TX_CNT then st\<lparr>ld_tx_cnt := nla_get_u64 nl a\<rparr>
      else if i = LINK_TX_OK_CNT then st\<lparr>ld_tx_ok_cnt := nla_get_u64 nl a\<rparr>
      else if i = LINK_TX_OS_CNT then st\<lparr>ld_tx_os_cnt := nla_get_u64 nl a\<rparr>
      else st)"

definition testmode_sta_link_detect_handler ::
    "('m, 'a) libnl \<Rightarrow> 'm \<Rightarrow> sta_link_detect \<Rightarrow> sta_link_detect" where
  "testmode_sta_link_detect_handler nl msg st =
     (case nl_testdata nl msg of None \<Rightarrow> st
      | Some td \<Rightarrow> (case nl_nested nl LINK_DETECT_MAX link_detect_policy td of None \<Rightarrow> st
         | Some sinfo \<Rightarrow> attr_loop LINK_DETECT_NUM sinfo (link_detect_switch nl) st))"

section \<open>Sending\<close>

text \<open>What the driver shares with its other interfaces: \<open>drv->global\<close>.\<close>

record drv_global =
  nl80211_id :: int
  ioctl_sock :: int

record drv_data =
  ifindex :: u32
  nl_global :: "drv_global option"
  first_ifname :: string          \<comment> \<open>\<open>drv->first_bss.ifname\<close>\<close>
  associated :: bool
  drv_bssid :: macaddr
  ctx :: "nat option"

record i802_bss =
  ifname :: string
  drv :: "drv_data option"

datatype wcall =
    Nlmsg_alloc
  | Genlmsg_put_testmode int               \<comment> \<open>\<open>nl80211_cmd(drv, msg, 0, NL80211_CMD_TESTMODE)\<close>\<close>
  | Nla_put_ifindex u32                    \<comment> \<open>\<open>NLA_PUT_U32(msg, NL80211_ATTR_IFINDEX, ...)\<close>\<close>
  | Nla_put_testdata u32 testmode_data     \<comment> \<open>\<open>NLA_PUT(msg, NL80211_ATTR_TESTDATA, ...)\<close>\<close>
  | Send_and_recv_msgs
  | Socket
  | Ioctl_siwpriv iwreq                    \<comment> \<open>\<open>ioctl(sock, 0x8B0C, &iwr)\<close>\<close>
  | Close
  | Linux_set_iface_flags int string bool
  | Wpa_msg string
  | Wpa_drv_deauthenticate macaddr int

text \<open>An answer: the return value and, for a send, the reply messages given to the handler.\<close>

type_synonym 'm wresp = "int \<times> 'm list"
type_synonym 'm wifi_env = "(wcall, 'm wresp) env"
type_synonym 'm wifi_trace = "(wcall, 'm wresp) trace"

text \<open>
  \<open>nl80211_cmd\<close>: \<open>genlmsg_put\<close> with the family's number, which is read through \<open>drv->global\<close>; its
  caller ignores the result.
\<close>

definition nl80211_cmd ::
    "'m wifi_env \<Rightarrow> drv_data \<Rightarrow> 'm wifi_trace \<Rightarrow> 'm wresp result \<times> 'm wifi_trace" where
  "nl80211_cmd env d tr = (case nl_global d of None \<Rightarrow> (Inl Null_Deref, tr)
     | Some g \<Rightarrow> apfst Inr (ask env (Genlmsg_put_testmode (nl80211_id g)) tr))"

text \<open>
  The \<open>switch(index)\<close> of \<open>wpa_driver_nl80211_testmode\<close>: the structure after the handler chosen by
  the index has seen all replies. A structure read through the wrong type is a fault.
\<close>

definition testmode_dispatch ::
    "wifi_cfg \<Rightarrow> wifi_abi \<Rightarrow> ('m, 'a) libnl \<Rightarrow> u32 \<Rightarrow> 'm list \<Rightarrow> testmode_data \<Rightarrow> testmode_data result" where
  "testmode_dispatch cfg abi nl idx msgs data =
     (if idx = 0x10
      then (case data of
          TM_sta_statistics p \<Rightarrow>
            Inr (TM_sta_statistics (p\<lparr>gs_buf := fold (testmode_sta_statistics_handler nl) msgs (gs_buf p)\<rparr>))
        | _ \<Rightarrow> Inl Type_Confusion)
      else if idx = 0x12 \<and> CONFIG_MEDIATEK_WIFI_BEAM cfg
      then (case data of
          TM_beamplus p \<Rightarrow>
            Inr (TM_beamplus (p\<lparr>bp_value := fold (testmode_beamplus_go_ready_handler nl abi) msgs (bp_value p)\<rparr>))
        | _ \<Rightarrow> Inl Type_Confusion)
      else if idx = 0x20 \<and> CONFIG_MTK_POOR_LINK_DETECT cfg
      then (case data of
          TM_link_detect p \<Rightarrow>
            Inr (TM_link_detect (p\<lparr>lp_buf := fold (testmode_sta_link_detect_handler nl) msgs (lp_buf p)\<rparr>))
        | _ \<Rightarrow> Inl Type_Confusion)
      else Inr data)"

definition wpa_driver_nl80211_testmode ::
    "wifi_cfg \<Rightarrow> wifi_abi \<Rightarrow> ('m, 'a) libnl \<Rightarrow> 'm wifi_env \<Rightarrow> i802_bss option \<Rightarrow> testmode_data \<Rightarrow> u32
       \<Rightarrow> 'm wifi_trace \<Rightarrow> (int \<times> testmode_data) result \<times> 'm wifi_trace" where
  "wpa_driver_nl80211_testmode cfg abi nl env priv data data_len tr =
     (case priv of None \<Rightarrow> (Inl Null_Deref, tr)
      | Some bss \<Rightarrow>
        let ((msg, _), tr1) = ask env Nlmsg_alloc tr in
        if msg = 0 then (Inr (-1, data), tr1)
        else case drv bss of None \<Rightarrow> (Inl Null_Deref, tr1)
        | Some d \<Rightarrow>
          let (r2, tr2) = nl80211_cmd env d tr1 in
          case r2 of Inl f \<Rightarrow> (Inl f, tr2) | Inr _ \<Rightarrow>
          let ((r3, _), tr3) = ask env (Nla_put_ifindex (ifindex d)) tr2
          in if r3 < 0 then (Inr (- ENOBUFS, data), tr3)
          else let ((r4, _), tr4) = ask env (Nla_put_testdata data_len data) tr3
          in if r4 < 0 then (Inr (- ENOBUFS, data), tr4)
          else let idx = index (tm_hdr data) AND BITS 0 23;
                   ((ret, msgs), tr5) = ask env Send_and_recv_msgs tr4
          in (case testmode_dispatch cfg abi nl idx msgs data of
                Inl f \<Rightarrow> Inl f | Inr data' \<Rightarrow> Inr (ret, data'), tr5))"

section \<open>Requests\<close>

text \<open>The header of a request: number, format version 1 in the top byte, and size.\<close>

definition tm_header :: "u32 \<Rightarrow> u32 \<Rightarrow> test_mode_info" where
  "tm_header idx len = \<lparr>index = idx OR push_bit 24 1, buflen = len\<rparr>"

definition sw_cmd_data :: "bool \<Rightarrow> ulong \<Rightarrow> ulong \<Rightarrow> testmode_data" where
  "sw_cmd_data setp adr dat = TM_sw_cmd \<lparr>sw_hdr = tm_header 1 sizeof_sw_cmd_params,
     sw_set = (if setp then 1 else 0), sw_adr = adr, sw_data = dat\<rparr>"

definition hotspot_data :: "macaddr option \<Rightarrow> s32 \<Rightarrow> testmode_data" where
  "hotspot_data bssid blocked = TM_hotspot \<lparr>hp_hdr = tm_header 3 sizeof_hotspot_params,
     hp_blocked = ucast blocked,
     hp_bssid = (case bssid of None \<Rightarrow> Mac 0 0 0 0 0 0 | Some b \<Rightarrow> b)\<rparr>"

definition sta_statistics_data :: "macaddr option \<Rightarrow> sta_statistics \<Rightarrow> testmode_data" where
  "sta_statistics_data sta_addr buf = TM_sta_statistics
     \<lparr>gs_hdr = tm_header 0x10 sizeof_get_sta_statistics_params, gs_version = 0, gs_flag = 0,
      gs_addr = (case sta_addr of None \<Rightarrow> Mac 0 0 0 0 0 0 | Some a \<Rightarrow> a), gs_buf = buf\<rparr>"

definition link_detect_data :: "wifi_abi \<Rightarrow> sta_link_detect \<Rightarrow> testmode_data" where
  "link_detect_data abi buf = TM_link_detect
     \<lparr>lp_hdr = tm_header 0x20 (sizeof_link_detect_params abi), lp_buf = buf\<rparr>"

definition p2p_sigma_data :: "wifi_abi \<Rightarrow> int \<Rightarrow> int \<Rightarrow> testmode_data" where
  "p2p_sigma_data abi idx value = TM_p2p_sigma
     \<lparr>ps_hdr = tm_header 1 (sizeof_p2p_sigma_params abi),
      ps_idx = word_of_int idx, ps_value = word_of_int value\<rparr>"

definition wpa_driver_nl80211_driver_sw_cmd ::
    "wifi_cfg \<Rightarrow> wifi_abi \<Rightarrow> ('m, 'a) libnl \<Rightarrow> 'm wifi_env \<Rightarrow> i802_bss option \<Rightarrow> bool \<Rightarrow> ulong \<Rightarrow> ulong
       \<Rightarrow> 'm wifi_trace \<Rightarrow> int result \<times> 'm wifi_trace" where
  "wpa_driver_nl80211_driver_sw_cmd cfg abi nl env priv setp adr dat tr =
     (let (r, tr1) = wpa_driver_nl80211_testmode cfg abi nl env priv (sw_cmd_data setp adr dat)
                       sizeof_sw_cmd_params tr
      in (case r of Inl f \<Rightarrow> Inl f | Inr _ \<Rightarrow> Inr 0, tr1))"

definition wpa_driver_hotspot_block_list_update ::
    "wifi_cfg \<Rightarrow> wifi_abi \<Rightarrow> ('m, 'a) libnl \<Rightarrow> 'm wifi_env \<Rightarrow> i802_bss option \<Rightarrow> macaddr option \<Rightarrow> s32
       \<Rightarrow> 'm wifi_trace \<Rightarrow> int result \<times> 'm wifi_trace" where
  "wpa_driver_hotspot_block_list_update cfg abi nl env priv bssid blocked tr =
     (let (r, tr1) = wpa_driver_nl80211_testmode cfg abi nl env priv (hotspot_data bssid blocked)
                       sizeof_hotspot_params tr
      in (case r of Inl f \<Rightarrow> Inl f | Inr (ret, _) \<Rightarrow> Inr ret, tr1))"

definition wpa_driver_sta_block ::
    "wifi_cfg \<Rightarrow> wifi_abi \<Rightarrow> ('m, 'a) libnl \<Rightarrow> 'm wifi_env \<Rightarrow> i802_bss option \<Rightarrow> string
       \<Rightarrow> 'm wifi_trace \<Rightarrow> int result \<times> 'm wifi_trace" where
  "wpa_driver_sta_block cfg abi nl env priv cmd tr =
     (case hwaddr_aton abi cmd of None \<Rightarrow> (Inr (-1), tr)
      | Some bssid \<Rightarrow> wpa_driver_hotspot_block_list_update cfg abi nl env priv (Some bssid) 1 tr)"

definition wpa_driver_sta_unblock ::
    "wifi_cfg \<Rightarrow> wifi_abi \<Rightarrow> ('m, 'a) libnl \<Rightarrow> 'm wifi_env \<Rightarrow> i802_bss option \<Rightarrow> string
       \<Rightarrow> 'm wifi_trace \<Rightarrow> int result \<times> 'm wifi_trace" where
  "wpa_driver_sta_unblock cfg abi nl env priv cmd tr =
     (case hwaddr_aton abi cmd of None \<Rightarrow> (Inr (-1), tr)
      | Some bssid \<Rightarrow> wpa_driver_hotspot_block_list_update cfg abi nl env priv (Some bssid) 0 tr)"

text \<open>
  The arguments of \<open>set_wapi_key\<close>: the \<open>ETH_ALEN\<close> bytes at \<open>addr\<close>, and a length with each of the
  two byte strings. Copying more than the destination array holds is a fault.
\<close>

record wapi_key_args =
  wa_addr :: "macaddr option"
  wa_key_idx :: s32
  wa_set_tx :: s32
  wa_seq :: "u8 list option"
  wa_seq_len :: nat
  wa_key :: "u8 list option"
  wa_key_len :: nat

definition memcpy_bytes :: "u8 list \<Rightarrow> u8 list \<Rightarrow> nat \<Rightarrow> u8 list result" where
  "memcpy_bytes dst src n = (if length dst < n then Inl Buffer_Overflow
     else if length src < n then Inl Read_Past_End else Inr (write_at 0 (take n src) dst))"

text \<open>The key and the sequence number in the request, whose arrays start out as zeros.\<close>

definition wapi_key_copy :: "wifi_abi \<Rightarrow> wapi_key_args \<Rightarrow> u8 list result" where
  "wapi_key_copy abi a = (case wa_key a of
       Some key \<Rightarrow> if wa_key_len a \<noteq> 0 then memcpy_bytes (replicate (wapi_key_cap abi) 0) key (wa_key_len a)
                  else Inr (replicate (wapi_key_cap abi) 0)
     | None \<Rightarrow> Inr (replicate (wapi_key_cap abi) 0))"

definition wapi_seq_copy :: "wifi_abi \<Rightarrow> wapi_key_args \<Rightarrow> u8 list result" where
  "wapi_seq_copy abi a = (case wa_seq a of
       Some seq \<Rightarrow> if wa_seq_len a \<noteq> 0 then memcpy_bytes (replicate (wapi_seq_cap abi) 0) seq (wa_seq_len a)
                  else Inr (replicate (wapi_seq_cap abi) 0)
     | None \<Rightarrow> Inr (replicate (wapi_seq_cap abi) 0))"

definition wapi_key_data :: "wifi_abi \<Rightarrow> wapi_key_args \<Rightarrow> u8 list \<Rightarrow> u8 list \<Rightarrow> testmode_data" where
  "wapi_key_data abi a key seq = TM_wapi_key
     \<lparr>wk_hdr = tm_header 2 (sizeof_wapi_key_params abi),
      wk_key_index = wa_key_idx a + 1, wk_key_len = of_nat (wa_key_len a),
      wk_ext_flags =
        (if wa_addr a = None \<or> wa_addr a = Some (Mac 0xff 0xff 0xff 0xff 0xff 0xff)
         then IW_ENCODE_EXT_GROUP_KEY abi else 0)
        OR (if wa_set_tx a \<noteq> 0 then IW_ENCODE_EXT_SET_TX_KEY abi else 0),
      wk_addr = (case wa_addr a of Some b \<Rightarrow> b | None \<Rightarrow> Mac 0xff 0xff 0xff 0xff 0xff 0xff),
      wk_key = key,
      wk_ext_key_len = (if wa_key a \<noteq> None \<and> wa_key_len a \<noteq> 0 then of_nat (wa_key_len a) else 0),
      wk_alg = IW_ENCODE_ALG_SMS4 abi, wk_tx_seq = seq\<rparr>"

definition wpa_driver_nl80211_set_wapi_key ::
    "wifi_cfg \<Rightarrow> wifi_abi \<Rightarrow> ('m, 'a) libnl \<Rightarrow> 'm wifi_env \<Rightarrow> i802_bss option \<Rightarrow> wapi_key_args
       \<Rightarrow> 'm wifi_trace \<Rightarrow> int result \<times> 'm wifi_trace" where
  "wpa_driver_nl80211_set_wapi_key cfg abi nl env priv a tr =
     (if priv = None then (Inl Null_Deref, tr)
      else if wa_seq_len a > IW_ENCODE_SEQ_MAX_SIZE abi * 2 then (Inr (-1), tr)
      else case wapi_key_copy abi a of Inl f \<Rightarrow> (Inl f, tr)
      | Inr key \<Rightarrow> (case wapi_seq_copy abi a of Inl f \<Rightarrow> (Inl f, tr)
         | Inr seq \<Rightarrow>
           let (r, tr1) = wpa_driver_nl80211_testmode cfg abi nl env priv (wapi_key_data abi a key seq)
                            (sizeof_wapi_key_params abi) tr
           in (case r of Inl f \<Rightarrow> Inl f | Inr _ \<Rightarrow> Inr 0, tr1)))"

text \<open>\<open>wpa_driver_nl80211_send_msg\<close> checks the length and does nothing else.\<close>

definition wpa_driver_nl80211_send_msg :: "i802_bss option \<Rightarrow> s32 \<Rightarrow> int result" where
  "wpa_driver_nl80211_send_msg priv msg_in_len =
     (if priv = None then Inl Null_Deref else if sint msg_in_len > 1024 then Inr (-1) else Inr 0)"

text \<open>
  The two queries return the structure the handler filled; it starts out as whatever the
  caller's stack held.
\<close>

definition wpas_get_sta_statistics ::
    "wifi_cfg \<Rightarrow> wifi_abi \<Rightarrow> ('m, 'a) libnl \<Rightarrow> 'm wifi_env \<Rightarrow> i802_bss option \<Rightarrow> macaddr option
       \<Rightarrow> sta_statistics \<Rightarrow> 'm wifi_trace \<Rightarrow> (int \<times> sta_statistics) result \<times> 'm wifi_trace" where
  "wpas_get_sta_statistics cfg abi nl env drv_priv sta_addr buf tr =
     (let (r, tr1) = wpa_driver_nl80211_testmode cfg abi nl env drv_priv (sta_statistics_data sta_addr buf)
                       sizeof_get_sta_statistics_params tr
      in (case r of Inl f \<Rightarrow> Inl f
          | Inr (ret, TM_sta_statistics p) \<Rightarrow> Inr (ret, gs_buf p)
          | Inr _ \<Rightarrow> Inl Type_Confusion, tr1))"

definition wpas_get_sta_link_detect ::
    "wifi_cfg \<Rightarrow> wifi_abi \<Rightarrow> ('m, 'a) libnl \<Rightarrow> 'm wifi_env \<Rightarrow> i802_bss option
       \<Rightarrow> sta_link_detect \<Rightarrow> 'm wifi_trace \<Rightarrow> (int \<times> sta_link_detect) result \<times> 'm wifi_trace" where
  "wpas_get_sta_link_detect cfg abi nl env drv_priv buf tr =
     (let (r, tr1) = wpa_driver_nl80211_testmode cfg abi nl env drv_priv (link_detect_data abi buf)
                       (sizeof_link_detect_params abi) tr
      in (case r of Inl f \<Rightarrow> Inl f
          | Inr (ret, TM_link_detect p) \<Rightarrow> Inr (ret, lp_buf p)
          | Inr _ \<Rightarrow> Inl Type_Confusion, tr1))"

definition wpas_p2p_sigma_test_mode ::
    "wifi_cfg \<Rightarrow> wifi_abi \<Rightarrow> ('m, 'a) libnl \<Rightarrow> 'm wifi_env \<Rightarrow> i802_bss option \<Rightarrow> int \<Rightarrow> int
       \<Rightarrow> 'm wifi_trace \<Rightarrow> int result \<times> 'm wifi_trace" where
  "wpas_p2p_sigma_test_mode cfg abi nl env drv_priv idx value tr =
     (let (r, tr1) = wpa_driver_nl80211_testmode cfg abi nl env drv_priv (p2p_sigma_data abi idx value)
                       (sizeof_p2p_sigma_params abi) tr
      in (case r of Inl f \<Rightarrow> Inl f | Inr (ret, _) \<Rightarrow> Inr ret, tr1))"

end
