(* ===== verification/Sta_Stats.thy ===== *)
theory Sta_Stats
  imports Testmode
begin

text \<open>
  The two statistics reports of mediatek_driver_cmd_nl80211.c: \<open>print_sta_statistics\<close>,
  \<open>wpa_driver_get_sta_statistics\<close> and \<open>wpa_driver_get_sta_link_detect\<close>. Each is a chain of guarded
  \<open>snprintf\<close> calls into the caller's buffer; the texts of the chain are a list, and the chain is
  \<^const>\<open>snprintf_chain\<close>. The buffer is the list of its bytes; a caller who passes a length the buffer
  does not have makes the chain write behind its end, which is a fault.
\<close>

definition EOL :: string where "EOL = [CHR 0x0A]"

text \<open>A line \<open>name=value\<close>, and the four values of a traffic class array.\<close>

definition stat_line :: "string \<Rightarrow> string \<Rightarrow> string" where
  "stat_line name v = name @ ''='' @ v @ EOL"

definition fmt_tc :: "u32 list \<Rightarrow> string" where
  "fmt_tc ws = fmt_d (sint (ws ! 0)) @ '':'' @ fmt_d (sint (ws ! 1)) @ '':'' @ fmt_d (sint (ws ! 2))
     @ '':'' @ fmt_d (sint (ws ! 3))"

text \<open>
  A text of the chain, with the index of \<open>reserved\<close> its arguments read, where they do. The
  unsigned counters are printed with \<open>%d\<close>.
\<close>

type_synonym piece = "string \<times> nat option"

definition stats_lines :: "sta_statistics \<Rightarrow> string list" where
  "stats_lines st =
     [stat_line ''sta_addr'' (mac_str (addr st)),
      stat_line ''link_score'' (fmt_d (uint (link_score st))),
      stat_line ''per'' (fmt_d (uint (per st))),
      stat_line ''rssi'' (fmt_d (rssi st)),
      stat_line ''phy'' (''0x'' @ fmt_08X (phy_mode st)),
      stat_line ''rate'' (fmt_1f (tx_rate st)),
      stat_line ''total_cnt'' (fmt_d (sint (tx_total_cnt st))),
      stat_line ''threshold_cnt'' (fmt_d (sint (tx_exc_threshold_cnt st))),
      stat_line ''fail_cnt'' (fmt_d (sint (tx_fail_cnt st))),
      stat_line ''timeout_cnt'' (fmt_d (sint (tx_timeout_cnt st))),
      stat_line ''apt'' (fmt_d (sint (tx_avg_process_time st))),
      stat_line ''aat'' (fmt_d (sint (tx_avg_air_time st))),
      stat_line ''TC_buf_full_cnt'' (fmt_tc (tc_buf_full_cnt st)),
      stat_line ''TC_sta_que_len'' (fmt_tc (tc_que_len st)),
      stat_line ''TC_avg_que_len'' (fmt_tc (tc_avg_que_len st)),
      stat_line ''TC_cur_que_len'' (fmt_tc (tc_cur_que_len st)),
      stat_line ''flag'' (''0x'' @ fmt_08X (flag st))]"

definition reserved_block :: "string \<Rightarrow> nat \<Rightarrow> nat \<Rightarrow> u8 list \<Rightarrow> piece list" where
  "reserved_block label lo hi rs =
     [(label, None)]
     @ concat (map (\<lambda>i. (fmt_02X (rs ! i), Some i) # (if (i + 1) mod 4 = 0 then [('' '', Some i)] else []))
         [lo..<hi])
     @ [(EOL, Some hi)]"

definition stats_pieces :: "sta_statistics \<Rightarrow> piece list" where
  "stats_pieces st = map (\<lambda>s. (s, None)) (stats_lines st)
     @ reserved_block ''reserved0='' 0 16 (reserved st)
     @ reserved_block ''reserved1='' 16 32 (reserved st)
     @ [(''===='' @ EOL, None)]"

definition print_sta_statistics :: "sta_statistics \<Rightarrow> char list \<Rightarrow> nat \<Rightarrow> (int \<times> char list) result" where
  "print_sta_statistics st buf buf_len =
     (case snprintf_chain buf_len (map fst (stats_pieces st)) 0 buf of Inl f \<Rightarrow> Inl f
      | Inr (ok, pos, mem) \<Rightarrow> Inr (if ok then int pos else 0, mem))"

text \<open>
  The structure is a local variable that nothing initialises: \<open>stack\<close> is what it holds when the
  function is entered.
\<close>

definition wpa_driver_get_sta_statistics ::
    "wifi_cfg \<Rightarrow> wifi_abi \<Rightarrow> ('m, 'a) libnl \<Rightarrow> 'm wifi_env \<Rightarrow> i802_bss option \<Rightarrow> string \<Rightarrow> char list \<Rightarrow> nat
       \<Rightarrow> sta_statistics \<Rightarrow> 'm wifi_trace \<Rightarrow> (int \<times> char list) result \<times> 'm wifi_trace" where
  "wpa_driver_get_sta_statistics cfg abi nl env drv_priv sta buf buf_len stack tr =
     (case hwaddr_aton abi sta of None \<Rightarrow> (Inr (-1, buf), tr)
      | Some sta_addr \<Rightarrow>
        let (r, tr1) = wpas_get_sta_statistics cfg abi nl env drv_priv (Some sta_addr) stack tr
        in (case r of Inl f \<Rightarrow> Inl f
            | Inr (ret, st) \<Rightarrow> if ret < 0 then Inr (-1, buf) else print_sta_statistics st buf buf_len,
            tr1))"

definition link_detect_lines :: "sta_link_detect \<Rightarrow> string list" where
  "link_detect_lines st =
     [stat_line ''rFailedCount'' (fmt_u (unat (ld_tx_fail_cnt st))),
      stat_line ''rRetryCount'' (fmt_u (unat (ld_tx_retry_cnt st))),
      stat_line ''rMultipleRetryCount'' (fmt_u (unat (ld_tx_multi_retry_cnt st))),
      stat_line ''rACKFailureCount'' (fmt_u (unat (ld_ack_fail_cnt st))),
      stat_line ''rFCSErrorCount'' (fmt_u (unat (ld_fcs_err_cnt st))),
      stat_line ''tx_total'' (fmt_u (unat (ld_tx_cnt st))),
      stat_line ''tx_ok'' (fmt_u (unat (ld_tx_ok_cnt st))),
      stat_line ''tx_os'' (fmt_u (unat (ld_tx_os_cnt st)))]"

definition wpa_driver_get_sta_link_detect ::
    "wifi_cfg \<Rightarrow> wifi_abi \<Rightarrow> ('m, 'a) libnl \<Rightarrow> 'm wifi_env \<Rightarrow> i802_bss option \<Rightarrow> char list \<Rightarrow> nat
       \<Rightarrow> sta_link_detect \<Rightarrow> 'm wifi_trace \<Rightarrow> (int \<times> char list) result \<times> 'm wifi_trace" where
  "wpa_driver_get_sta_link_detect cfg abi nl env drv_priv buf buf_len stack tr =
     (let (r, tr1) = wpas_get_sta_link_detect cfg abi nl env drv_priv stack tr
      in (case r of Inl f \<Rightarrow> Inl f
          | Inr (ret, st) \<Rightarrow>
            if ret < 0 then Inr (-1, buf)
            else (case snprintf_chain buf_len (link_detect_lines st) 0 buf of Inl f \<Rightarrow> Inl f
                  | Inr (ok, pos, mem) \<Rightarrow> Inr (int pos, mem)),
          tr1))"

end
