(* ===== verification/Driver_Cmd.thy ===== *)
theory Driver_Cmd
  imports Sta_Stats
begin

text \<open>
  The private command interface, the second half of
  src/wpa_supplicant_8_lib/mediatek_driver_cmd_nl80211.c: \<open>wpa_driver_nl80211_driver_cmd\<close> with one
  definition per branch of its dispatch, the handlers it calls, and the stubs at the end of the
  file.

  The supplicant's objects are external; what the commands read and write of them is kept in a
  heap, a map from addresses for each kind of object, because the \<open>mcc\<close> command walks the linked
  list of interfaces and writes through shared pointers. A command can loop forever on a cyclic
  list, so the result is an option. Logging is not modelled.
\<close>

section \<open>Objects of the supplicant\<close>

record wpa_supplicant =
  drv_priv :: "i802_bss option"
  conf :: bool                          \<comment> \<open>whether the pointer is not null\<close>
  own_addr :: macaddr
  num_multichan_concurrent :: u32
  drv_flags :: u32
  global :: "nat option"
  next_iface :: "nat option"            \<comment> \<open>the field \<open>next\<close>\<close>

record wpa_global =
  ifaces :: "nat option"
  p2p :: "nat option"

record p2p_data =
  p2p_cfg :: "nat option"               \<comment> \<open>the field \<open>cfg\<close>\<close>

record p2p_config =
  concurrent_operations :: int

record wpa_heap =
  wpas :: "nat \<Rightarrow> wpa_supplicant option"
  globals :: "nat \<Rightarrow> wpa_global option"
  p2ps :: "nat \<Rightarrow> p2p_data option"
  cfgs :: "nat \<Rightarrow> p2p_config option"

text \<open>Following a pointer that may be null.\<close>

definition deref :: "(nat \<Rightarrow> 'v option) \<Rightarrow> nat option \<Rightarrow> 'v result" where
  "deref m p = (case p of None \<Rightarrow> Inl Null_Deref
     | Some a \<Rightarrow> (case m a of None \<Rightarrow> Inl Dangling_Deref | Some v \<Rightarrow> Inr v))"

section \<open>Country code\<close>

definition wpa_driver_mediatek_set_country ::
    "'m wifi_env \<Rightarrow> drv_data \<Rightarrow> string \<Rightarrow> 'm wifi_trace \<Rightarrow> int result \<times> 'm wifi_trace" where
  "wpa_driver_mediatek_set_country env d alpha2_arg tr =
     (let ((sock, _), tr1) = ask env Socket tr in
      if sock < 0 then (Inr (-1), tr1)
      else let buf = ''COUNTRY '' @ alpha2_arg in
        if 11 < length buf + 1 then (Inl Buffer_Overflow, tr1)
        else let ((ret, _), tr2) = ask env (Ioctl_siwpriv (country_iwreq (first_ifname d) buf)) tr1;
                 (_, tr3) = ask env Close tr2
             in (Inr (if ret < 0 then ret else 0), tr3))"

section \<open>Wi-Fi Direct test commands\<close>

text \<open>
  The handlers cut the command at the spaces they find, so they return the text the caller's
  buffer holds afterwards. What \<open>wpa_config_parse_string\<close> returns is only logged and freed.
\<close>

definition p2p_ctrl_iface_set_opps ::
    "wifi_cfg \<Rightarrow> wifi_abi \<Rightarrow> ('m, 'a) libnl \<Rightarrow> 'm wifi_env \<Rightarrow> i802_bss option \<Rightarrow> string
       \<Rightarrow> 'm wifi_trace \<Rightarrow> (int \<times> string) result \<times> 'm wifi_trace" where
  "p2p_ctrl_iface_set_opps cfg abi nl env priv cmd tr =
     (let CTWin = atoi cmd in
      case split_at (CHR '' '') cmd of None \<Rightarrow> (Inl Null_Deref, tr)
      | Some (a, str) \<Rightarrow>
        (case hwaddr_aton abi str of None \<Rightarrow> (Inr (-1, a @ [NUL] @ str), tr)
         | Some _ \<Rightarrow>
           (case split_at (CHR '' '') str of None \<Rightarrow> (Inl Null_Deref, tr)
            | Some (b, rest) \<Rightarrow>
              let (r, tr1) = wpas_p2p_sigma_test_mode cfg abi nl env priv 107 CTWin tr
              in (case r of Inl f \<Rightarrow> Inl f | Inr _ \<Rightarrow> Inr (0, a @ [NUL] @ b @ [NUL] @ rest), tr1))))"

definition p2p_ctrl_iface_set_power_save ::
    "wifi_cfg \<Rightarrow> wifi_abi \<Rightarrow> ('m, 'a) libnl \<Rightarrow> 'm wifi_env \<Rightarrow> i802_bss option \<Rightarrow> string
       \<Rightarrow> 'm wifi_trace \<Rightarrow> (int \<times> string) result \<times> 'm wifi_trace" where
  "p2p_ctrl_iface_set_power_save cfg abi nl env priv cmd tr =
     (let (r, tr1) = wpas_p2p_sigma_test_mode cfg abi nl env priv 108 (atoi cmd) tr
      in (case r of Inl f \<Rightarrow> Inl f | Inr _ \<Rightarrow> Inr (0, cmd), tr1))"

definition p2p_ctrl_iface_set_sleep ::
    "wifi_cfg \<Rightarrow> wifi_abi \<Rightarrow> ('m, 'a) libnl \<Rightarrow> 'm wifi_env \<Rightarrow> i802_bss option \<Rightarrow> string
       \<Rightarrow> 'm wifi_trace \<Rightarrow> (int \<times> string) result \<times> 'm wifi_trace" where
  "p2p_ctrl_iface_set_sleep cfg abi nl env priv cmd tr =
     (case hwaddr_aton abi cmd of None \<Rightarrow> (Inr (-1, cmd), tr)
      | Some _ \<Rightarrow>
        (case split_at (CHR '' '') cmd of None \<Rightarrow> (Inl Null_Deref, tr)
         | Some (a, str) \<Rightarrow>
           let (r, tr1) = wpas_p2p_sigma_test_mode cfg abi nl env priv 106 0 tr
           in (case r of Inl f \<Rightarrow> Inl f | Inr _ \<Rightarrow> Inr (0, a @ [NUL] @ str), tr1)))"

section \<open>Multi-channel concurrency\<close>

text \<open>One turn of the loops of the \<open>mcc\<close> command; \<open>on\<close> tells which of the two loops.\<close>

definition mcc_iface :: "wifi_abi \<Rightarrow> bool \<Rightarrow> wpa_supplicant \<Rightarrow> wpa_supplicant" where
  "mcc_iface abi on w =
     (if on then w\<lparr>num_multichan_concurrent := 2,
                   drv_flags := drv_flags w OR WPA_DRIVER_FLAGS_P2P_CONCURRENT abi\<rparr>
      else w\<lparr>num_multichan_concurrent := 0,
             drv_flags := drv_flags w AND NOT (WPA_DRIVER_FLAGS_P2P_CONCURRENT abi)\<rparr>)"

definition mcc_p2p :: "bool \<Rightarrow> wpa_supplicant \<Rightarrow> wpa_heap \<Rightarrow> wpa_heap result" where
  "mcc_p2p on w h =
     (case deref (globals h) (global w) of Inl f \<Rightarrow> Inl f
      | Inr g \<Rightarrow> if p2p g = None then Inr h
        else (case deref (p2ps h) (p2p g) of Inl f \<Rightarrow> Inl f
         | Inr p \<Rightarrow> (case p2p_cfg p of None \<Rightarrow> Inr h
            | Some c \<Rightarrow> (case cfgs h c of None \<Rightarrow> Inl Dangling_Deref
               | Some cf \<Rightarrow> Inr (h\<lparr>cfgs := (cfgs h)(c \<mapsto>
                    cf\<lparr>concurrent_operations := (if on then 1 else 0)\<rparr>)\<rparr>)))))"

definition mcc_body :: "wifi_abi \<Rightarrow> bool \<Rightarrow> nat \<Rightarrow> wpa_heap \<Rightarrow> (wpa_heap \<times> nat option) result" where
  "mcc_body abi on a h =
     (case wpas h a of None \<Rightarrow> Inl Dangling_Deref
      | Some w \<Rightarrow>
        (case mcc_p2p on w (h\<lparr>wpas := (wpas h)(a \<mapsto> mcc_iface abi on w)\<rparr>) of Inl f \<Rightarrow> Inl f
         | Inr h' \<Rightarrow> Inr (h', next_iface w)))"

partial_function (option) mcc_loop ::
    "wifi_abi \<Rightarrow> bool \<Rightarrow> nat option \<Rightarrow> wpa_heap \<Rightarrow> wpa_heap result option" where
  "mcc_loop abi on p h =
     (case p of None \<Rightarrow> Some (Inr h)
      | Some a \<Rightarrow> (case mcc_body abi on a h of Inl f \<Rightarrow> Some (Inl f)
         | Inr (h', n) \<Rightarrow> mcc_loop abi on n h'))"

section \<open>The command interface\<close>

text \<open>
  The buffer of a command: text, or the structure two of the commands read from it. Using it as
  the wrong kind is a fault.
\<close>

datatype cmd_buf =
    Text "char list"
  | Wapi_key_param wapi_key_args
  | Wapi_msg_send_param s32             \<comment> \<open>\<open>msg_in_len\<close>; the other members are not used\<close>

text \<open>What a command leaves behind: result, command text, buffer and heap.\<close>

record cmd_state =
  dc_ret :: int
  dc_cmd :: string
  dc_buf :: cmd_buf
  dc_heap :: wpa_heap

type_synonym 'm cmd_result = "cmd_state result \<times> 'm wifi_trace"

text \<open>A result of a called function put into the state, a fault passed on.\<close>

definition dc_set_ret :: "cmd_state \<Rightarrow> int result \<Rightarrow> cmd_state result" where
  "dc_set_ret s r = (case r of Inl f \<Rightarrow> Inl f | Inr ret \<Rightarrow> Inr (s\<lparr>dc_ret := ret\<rparr>))"

definition dc_set_buf :: "cmd_state \<Rightarrow> (int \<times> char list) result \<Rightarrow> cmd_state result" where
  "dc_set_buf s r = (case r of Inl f \<Rightarrow> Inl f
     | Inr (ret, buf) \<Rightarrow> Inr (s\<lparr>dc_ret := ret, dc_buf := Text buf\<rparr>))"

text \<open>
  The cut command: a handler that was given the command from position \<open>n\<close> on returns the rest.
\<close>

definition dc_set_cmd :: "cmd_state \<Rightarrow> nat \<Rightarrow> (int \<times> string) result \<Rightarrow> cmd_state result" where
  "dc_set_cmd s n r = (case r of Inl f \<Rightarrow> Inl f
     | Inr (ret, rest) \<Rightarrow> Inr (s\<lparr>dc_ret := ret, dc_cmd := take n (dc_cmd s) @ rest\<rparr>))"

text \<open>
  The local variable \<open>wpa_s\<close> is \<^term>\<open>Inl Uninit_Use\<close> until it is assigned. Reading it, and reading
  the object it points to:
\<close>

definition dc_wpa_s :: "cmd_state \<Rightarrow> nat result \<Rightarrow> wpa_supplicant result" where
  "dc_wpa_s s wpa_s = (case wpa_s of Inl f \<Rightarrow> Inl f | Inr a \<Rightarrow> deref (wpas (dc_heap s)) (Some a))"

definition dc_get_sta_statistics ::
    "wifi_cfg \<Rightarrow> wifi_abi \<Rightarrow> ('m, 'a) libnl \<Rightarrow> 'm wifi_env \<Rightarrow> nat result \<Rightarrow> nat \<Rightarrow> sta_statistics
       \<Rightarrow> cmd_state \<Rightarrow> 'm wifi_trace \<Rightarrow> 'm cmd_result" where
  "dc_get_sta_statistics cfg abi nl env wpa_s buf_len stack s tr =
     (case dc_wpa_s s wpa_s of Inl f \<Rightarrow> (Inl f, tr)
      | Inr w \<Rightarrow> (case dc_buf s of
          Text buf \<Rightarrow> apfst (dc_set_buf s)
            (wpa_driver_get_sta_statistics cfg abi nl env (drv_priv w) (drop 19 (dc_cmd s)) buf buf_len stack tr)
        | _ \<Rightarrow> (Inl Type_Confusion, tr)))"

definition dc_get_sta_link_detect ::
    "wifi_cfg \<Rightarrow> wifi_abi \<Rightarrow> ('m, 'a) libnl \<Rightarrow> 'm wifi_env \<Rightarrow> nat result \<Rightarrow> nat \<Rightarrow> sta_link_detect
       \<Rightarrow> cmd_state \<Rightarrow> 'm wifi_trace \<Rightarrow> 'm cmd_result" where
  "dc_get_sta_link_detect cfg abi nl env wpa_s buf_len stack s tr =
     (case dc_wpa_s s wpa_s of Inl f \<Rightarrow> (Inl f, tr)
      | Inr w \<Rightarrow> (case dc_buf s of
          Text buf \<Rightarrow> apfst (dc_set_buf s)
            (wpa_driver_get_sta_link_detect cfg abi nl env (drv_priv w) buf buf_len stack tr)
        | _ \<Rightarrow> (Inl Type_Confusion, tr)))"

definition macaddr_text :: "macaddr \<Rightarrow> string" where
  "macaddr_text a = ''Macaddr = '' @ mac_str (mac_bytes a) @ EOL"

definition dc_macaddr :: "nat result \<Rightarrow> nat \<Rightarrow> cmd_state \<Rightarrow> cmd_state result" where
  "dc_macaddr wpa_s buf_len s =
     (case dc_wpa_s s wpa_s of Inl f \<Rightarrow> Inl f
      | Inr w \<Rightarrow> (case dc_buf s of
          Text buf \<Rightarrow> (let t = macaddr_text (own_addr w) in
            case snprintf_at 0 buf_len t buf of Inl f \<Rightarrow> Inl f
            | Inr mem \<Rightarrow> Inr (s\<lparr>dc_ret := int (length t), dc_buf := Text mem\<rparr>))
        | _ \<Rightarrow> Inl Type_Confusion))"

definition dc_country :: "'m wifi_env \<Rightarrow> drv_data \<Rightarrow> cmd_state \<Rightarrow> 'm wifi_trace \<Rightarrow> 'm cmd_result" where
  "dc_country env d s tr =
     (if length (dc_cmd s) < 8 then (Inl Read_Past_End, tr)
      else apfst (dc_set_ret s) (wpa_driver_mediatek_set_country env d (drop 8 (dc_cmd s)) tr))"

text \<open>
  Bringing the interface up or down on the socket of \<open>drv->global\<close>; the event is sent only on success.
\<close>

definition dc_iface ::
    "'m wifi_env \<Rightarrow> drv_data \<Rightarrow> bool \<Rightarrow> cmd_state \<Rightarrow> 'm wifi_trace \<Rightarrow> 'm cmd_result" where
  "dc_iface env d up s tr =
     (case nl_global d of None \<Rightarrow> (Inl Null_Deref, tr) | Some g \<Rightarrow>
      let ((ret, _), tr1) = ask env (Linux_set_iface_flags (ioctl_sock g) (first_ifname d) up) tr;
          tr2 = (if ret \<noteq> 0 then tr1
                 else snd (ask env (Wpa_msg (if up then ''CTRL-EVENT-DRIVER-STATE STARTED''
                        else ''CTRL-EVENT-DRIVER-STATE STOPPED'')) tr1))
      in (Inr (s\<lparr>dc_ret := ret\<rparr>), tr2))"

definition dc_stop ::
    "wifi_abi \<Rightarrow> 'm wifi_env \<Rightarrow> nat result \<Rightarrow> drv_data \<Rightarrow> cmd_state \<Rightarrow> 'm wifi_trace \<Rightarrow> 'm cmd_result" where
  "dc_stop abi env wpa_s d s tr =
     (if associated d
      then (case wpa_s of Inl f \<Rightarrow> (Inl f, tr)
        | Inr _ \<Rightarrow> dc_iface env d False s
            (snd (ask env (Wpa_drv_deauthenticate (drv_bssid d) (WLAN_REASON_DEAUTH_LEAVING abi)) tr)))
      else dc_iface env d False s tr)"

text \<open>A software command with fixed data, and one whose number follows the command's name.\<close>

definition dc_sw_cmd ::
    "wifi_cfg \<Rightarrow> wifi_abi \<Rightarrow> ('m, 'a) libnl \<Rightarrow> 'm wifi_env \<Rightarrow> i802_bss \<Rightarrow> ulong \<Rightarrow> ulong
       \<Rightarrow> cmd_state \<Rightarrow> 'm wifi_trace \<Rightarrow> 'm cmd_result" where
  "dc_sw_cmd cfg abi nl env bss sw_cmd idx s tr =
     apfst (\<lambda>r. dc_set_ret s (case r of Inl f \<Rightarrow> Inl f | Inr _ \<Rightarrow> Inr 0))
       (wpa_driver_nl80211_driver_sw_cmd cfg abi nl env (Some bss) True sw_cmd idx tr)"

definition dc_sw_number ::
    "wifi_cfg \<Rightarrow> wifi_abi \<Rightarrow> ('m, 'a) libnl \<Rightarrow> 'm wifi_env \<Rightarrow> i802_bss \<Rightarrow> nat \<Rightarrow> ulong \<Rightarrow> ulong
       \<Rightarrow> cmd_state \<Rightarrow> 'm wifi_trace \<Rightarrow> 'm cmd_result" where
  "dc_sw_number cfg abi nl env bss n sw_cmd off s tr =
     (let cp = drop n (dc_cmd s); (v, endp) = strtol0 cp in
      if cp = [] \<or> endp = cp then (Inr (s\<lparr>dc_ret := -1\<rparr>), tr)
      else dc_sw_cmd cfg abi nl env bss sw_cmd (word_of_int v + off) s tr)"

definition dc_sta_block ::
    "wifi_cfg \<Rightarrow> wifi_abi \<Rightarrow> ('m, 'a) libnl \<Rightarrow> 'm wifi_env \<Rightarrow> i802_bss \<Rightarrow> bool
       \<Rightarrow> cmd_state \<Rightarrow> 'm wifi_trace \<Rightarrow> 'm cmd_result" where
  "dc_sta_block cfg abi nl env bss block s tr =
     apfst (\<lambda>r. dc_set_ret s (case r of Inl f \<Rightarrow> Inl f | Inr ret \<Rightarrow> Inr (if ret \<noteq> 0 then -1 else 0)))
       (if block then wpa_driver_sta_block cfg abi nl env (Some bss) (drop 10 (dc_cmd s)) tr
        else wpa_driver_sta_unblock cfg abi nl env (Some bss) (drop 12 (dc_cmd s)) tr)"

definition dc_set_wapi_key ::
    "wifi_cfg \<Rightarrow> wifi_abi \<Rightarrow> ('m, 'a) libnl \<Rightarrow> 'm wifi_env \<Rightarrow> i802_bss
       \<Rightarrow> cmd_state \<Rightarrow> 'm wifi_trace \<Rightarrow> 'm cmd_result" where
  "dc_set_wapi_key cfg abi nl env bss s tr =
     (case dc_buf s of
        Wapi_key_param a \<Rightarrow>
          apfst (dc_set_ret s) (wpa_driver_nl80211_set_wapi_key cfg abi nl env (Some bss) a tr)
      | _ \<Rightarrow> (Inl Type_Confusion, tr))"

definition dc_wapi_msg_send :: "i802_bss \<Rightarrow> cmd_state \<Rightarrow> cmd_state result" where
  "dc_wapi_msg_send bss s =
     (case dc_buf s of
        Wapi_msg_send_param len \<Rightarrow> dc_set_ret s (wpa_driver_nl80211_send_msg (Some bss) len)
      | _ \<Rightarrow> Inl Type_Confusion)"

text \<open>\<open>None\<close> when the loop over the interfaces does not end.\<close>

definition dc_mcc :: "wifi_abi \<Rightarrow> nat result \<Rightarrow> cmd_state \<Rightarrow> cmd_state result option" where
  "dc_mcc abi wpa_s s =
     (case dc_wpa_s s wpa_s of Inl f \<Rightarrow> Some (Inl f)
      | Inr w \<Rightarrow>
        if drv_priv w = None then Some (Inr (s\<lparr>dc_ret := -1\<rparr>))
        else case split_at (CHR '' '') (dc_cmd s) of
          None \<Rightarrow> Some (Inr (s\<lparr>dc_ret := -1\<rparr>))
        | Some (name, val) \<Rightarrow>
          (case deref (globals (dc_heap s)) (global w) of Inl f \<Rightarrow> Some (Inl f)
           | Inr g \<Rightarrow>
             map_option (\<lambda>r. case r of Inl f \<Rightarrow> Inl f
                 | Inr h \<Rightarrow> Inr (s\<lparr>dc_ret := 0, dc_cmd := name @ [NUL] @ val, dc_heap := h\<rparr>))
               (mcc_loop abi (atoi val \<noteq> 0) (ifaces g) (dc_heap s))))"

text \<open>The three Wi-Fi Direct commands, by the handler and the length of the command's name.\<close>

definition dc_p2p ::
    "(i802_bss option \<Rightarrow> string \<Rightarrow> 'm wifi_trace \<Rightarrow> (int \<times> string) result \<times> 'm wifi_trace) \<Rightarrow> nat
       \<Rightarrow> nat result \<Rightarrow> cmd_state \<Rightarrow> 'm wifi_trace \<Rightarrow> 'm cmd_result" where
  "dc_p2p handler n wpa_s s tr =
     (case dc_wpa_s s wpa_s of Inl f \<Rightarrow> (Inl f, tr)
      | Inr w \<Rightarrow> apfst (dc_set_cmd s n) (handler (drv_priv w) (drop n (dc_cmd s)) tr))"

text \<open>\<open>p2p_set_sleep\<close> without arguments: the handler runs on a local string.\<close>

definition dc_p2p_sleep_all ::
    "wifi_cfg \<Rightarrow> wifi_abi \<Rightarrow> ('m, 'a) libnl \<Rightarrow> 'm wifi_env \<Rightarrow> nat result
       \<Rightarrow> cmd_state \<Rightarrow> 'm wifi_trace \<Rightarrow> 'm cmd_result" where
  "dc_p2p_sleep_all cfg abi nl env wpa_s s tr =
     (case dc_wpa_s s wpa_s of Inl f \<Rightarrow> (Inl f, tr)
      | Inr w \<Rightarrow> apfst (\<lambda>r. dc_set_ret s (map_sum id fst r))
          (p2p_ctrl_iface_set_sleep cfg abi nl env (drv_priv w) (''ff:ff:ff:ff:ff:ff '' @ [CHR 0x22, CHR 0x22]) tr))"

text \<open>
  The dispatch on the command text, in the order of the source; \<open>ret\<close> starts out as -1 and stays so
  in a branch that does not assign it. The three \<open>get\<close>/\<open>set\<close> commands for power mode and RTS
  threshold have their driver calls commented out, so they only fail. \<open>stack1\<close> and \<open>stack2\<close> are the
  uninitialised structures of the two reports.
\<close>

definition driver_cmd_dispatch ::
    "wifi_cfg \<Rightarrow> wifi_abi \<Rightarrow> ('m, 'a) libnl \<Rightarrow> 'm wifi_env \<Rightarrow> i802_bss \<Rightarrow> drv_data \<Rightarrow> nat result \<Rightarrow> nat
       \<Rightarrow> sta_statistics \<Rightarrow> sta_link_detect \<Rightarrow> cmd_state \<Rightarrow> 'm wifi_trace \<Rightarrow> 'm cmd_result option" where
  "driver_cmd_dispatch cfg abi nl env bss d wpa_s buf_len stack1 stack2 s tr =
     (let cmd = dc_cmd s in
      if strncasecmp_eq cmd ''POWERMODE '' 10 then Some (Inr s, tr)
      else if strncasecmp_eq cmd ''GET_STA_STATISTICS '' 19
        then Some (dc_get_sta_statistics cfg abi nl env wpa_s buf_len stack1 s tr)
      else if CONFIG_MTK_POOR_LINK_DETECT cfg \<and> strncasecmp_eq cmd ''GET_STA_LINK_DETECT'' 19
        then Some (dc_get_sta_link_detect cfg abi nl env wpa_s buf_len stack2 s tr)
      else if strncmp_eq cmd ''MACADDR'' 7 then Some (dc_macaddr wpa_s buf_len s, tr)
      else if strncasecmp_eq cmd ''COUNTRY'' 7 then Some (dc_country env d s tr)
      else if strcasecmp_eq cmd ''start'' then Some (dc_iface env d True s tr)
      else if strcasecmp_eq cmd ''stop'' then Some (dc_stop abi env wpa_s d s tr)
      else if strncasecmp_eq cmd ''getpower'' 8 then Some (Inr s, tr)
      else if strncasecmp_eq cmd ''get-rts-threshold'' 17 then Some (Inr s, tr)
      else if strncasecmp_eq cmd ''set-rts-threshold'' 17 then Some (Inr s, tr)
      else if strncasecmp_eq cmd ''rxfilter-add'' 12
        then Some (dc_sw_number cfg abi nl env bss 12 0x9F000000 0x00900200 s tr)
      else if strncasecmp_eq cmd ''rxfilter-remove'' 15
        then Some (dc_sw_number cfg abi nl env bss 15 0x9F000000 0x00900300 s tr)
      else if strncasecmp_eq cmd ''rxfilter-stop'' 13
        then Some (dc_sw_cmd cfg abi nl env bss 0x9F000000 0x00900000 s tr)
      else if strncasecmp_eq cmd ''rxfilter-start'' 14
        then Some (dc_sw_cmd cfg abi nl env bss 0x9F000000 0x00900100 s tr)
      else if strcasecmp_eq cmd ''btcoexscan-start'' then Some (Inr (s\<lparr>dc_ret := 0\<rparr>), tr)
      else if strcasecmp_eq cmd ''btcoexscan-stop'' then Some (Inr (s\<lparr>dc_ret := 0\<rparr>), tr)
      else if strncasecmp_eq cmd ''btcoexmode'' 10 then Some (Inr (s\<lparr>dc_ret := 0\<rparr>), tr)
      else if strncasecmp_eq cmd ''smt-rate'' 8
        then Some (dc_sw_number cfg abi nl env bss 8 0xFFFF0123 0 s tr)
      else if strncasecmp_eq cmd ''smt-test-on'' 11
        then Some (dc_sw_cmd cfg abi nl env bss 0xFFFF1234 0 s tr)
      else if strncasecmp_eq cmd ''smt-test-off'' 12
        then Some (dc_sw_cmd cfg abi nl env bss 0xFFFF1235 0 s tr)
      else if CONFIG_HOTSPOT_MGR_SUPPORT cfg \<and> strncmp_eq cmd ''STA-BLOCK '' 10
        then Some (dc_sta_block cfg abi nl env bss True s tr)
      else if CONFIG_HOTSPOT_MGR_SUPPORT cfg \<and> strncmp_eq cmd ''STA-UNBLOCK '' 12
        then Some (dc_sta_block cfg abi nl env bss False s tr)
      else if CONFIG_WAPI_SUPPORT cfg \<and> strncasecmp_eq cmd ''set-wapi-key'' 12
        then Some (dc_set_wapi_key cfg abi nl env bss s tr)
      else if CONFIG_WAPI_SUPPORT cfg \<and> strncasecmp_eq cmd ''wapi-msg-send'' 13
        then Some (dc_wapi_msg_send bss s, tr)
      else if CONFIG_MTK_P2P_SIGMA cfg \<and> strncasecmp_eq cmd ''mcc'' 3
        then map_option (\<lambda>r. (r, tr)) (dc_mcc abi wpa_s s)
      else if CONFIG_MTK_P2P_SIGMA cfg \<and> strncmp_eq cmd ''p2p_set_opps '' 13
        then Some (dc_p2p (p2p_ctrl_iface_set_opps cfg abi nl env) 13 wpa_s s tr)
      else if CONFIG_MTK_P2P_SIGMA cfg \<and> strncmp_eq cmd ''p2p_set_power_save '' 19
        then Some (dc_p2p (p2p_ctrl_iface_set_power_save cfg abi nl env) 19 wpa_s s tr)
      else if CONFIG_MTK_P2P_SIGMA cfg \<and> strncmp_eq cmd ''p2p_set_sleep '' 14
        then Some (dc_p2p (p2p_ctrl_iface_set_sleep cfg abi nl env) 14 wpa_s s tr)
      else if CONFIG_MTK_P2P_SIGMA cfg \<and> strncmp_eq cmd ''p2p_set_sleep'' 13
        then Some (dc_p2p_sleep_all cfg abi nl env wpa_s s tr)
      else Some (Inr s, tr))"

text \<open>
  The entry point: the guards, and the assignment of \<open>wpa_s\<close>, which the access point's interface
  does not make.
\<close>

definition wpa_driver_nl80211_driver_cmd ::
    "wifi_cfg \<Rightarrow> wifi_abi \<Rightarrow> ('m, 'a) libnl \<Rightarrow> 'm wifi_env \<Rightarrow> i802_bss option \<Rightarrow> string \<Rightarrow> cmd_buf \<Rightarrow> nat
       \<Rightarrow> sta_statistics \<Rightarrow> sta_link_detect \<Rightarrow> wpa_heap \<Rightarrow> 'm wifi_trace \<Rightarrow> 'm cmd_result option" where
  "wpa_driver_nl80211_driver_cmd cfg abi nl env priv cmd buf buf_len stack1 stack2 h tr =
     (let s = \<lparr>dc_ret = -1, dc_cmd = cmd, dc_buf = buf, dc_heap = h\<rparr> in
      case priv of None \<Rightarrow> Some (Inl Null_Deref, tr)
      | Some bss \<Rightarrow> (case drv bss of None \<Rightarrow> Some (Inr s, tr)
        | Some d \<Rightarrow> (case ctx d of None \<Rightarrow> Some (Inr s, tr)
          | Some c \<Rightarrow>
            if ifname bss = ''ap0''
            then driver_cmd_dispatch cfg abi nl env bss d (Inl Uninit_Use) buf_len stack1 stack2 s tr
            else (case wpas h c of None \<Rightarrow> Some (Inl Dangling_Deref, tr)
              | Some w \<Rightarrow> if \<not> conf w then Some (Inr s, tr)
                else driver_cmd_dispatch cfg abi nl env bss d (Inr c) buf_len stack1 stack2 s tr))))"

section \<open>Stubs\<close>

definition wpa_driver_set_p2p_noa :: "i802_bss option \<Rightarrow> u8 \<Rightarrow> s32 \<Rightarrow> s32 \<Rightarrow> int result" where
  "wpa_driver_set_p2p_noa priv count start duration = (if priv = None then Inl Null_Deref else Inr (-1))"

definition wpa_driver_get_p2p_noa :: "i802_bss option \<Rightarrow> u8 list \<Rightarrow> (int \<times> u8 list) result" where
  "wpa_driver_get_p2p_noa priv buf = (if priv = None then Inl Null_Deref else Inr (-1, buf))"

definition wpa_driver_set_p2p_ps :: "i802_bss option \<Rightarrow> s32 \<Rightarrow> s32 \<Rightarrow> s32 \<Rightarrow> int result" where
  "wpa_driver_set_p2p_ps priv legacy_ps opp_ps ctwindow = (if priv = None then Inl Null_Deref else Inr (-1))"

definition wpa_driver_set_ap_wps_p2p_ie :: "i802_bss option \<Rightarrow> int result" where
  "wpa_driver_set_ap_wps_p2p_ie priv = (if priv = None then Inl Null_Deref else Inr 0)"

end
