(* ===== verification/Testmode_Correct.thy ===== *)
theory Testmode_Correct
  imports Testmode
begin

text \<open>
  Correctness of the test-mode channel: what goes over it and in which order, that every request
  reaches the handler for its own structure, that the handlers read each attribute into its
  field, and the limits of the WAPI key request.
\<close>

section \<open>The mask\<close>

lemma bit_BIT: "n < 32 \<Longrightarrow> bit (BIT n) k \<longleftrightarrow> k = n"
  by (auto simp: BIT_def bit_exp_iff possible_bit_word)

lemma BIT_minus_1: "BIT n - 1 = mask n"
  by (simp add: BIT_def mask_eq_exp_minus_1 push_bit_eq_mult)

lemma BITS_0_23: "BITS 0 23 = 0xFFFFFF"
  by (simp add: BITS_def BIT_def)

section \<open>The interface of a request\<close>

text \<open>
  A request is a structure with a header; its number survives the masking of the version, and
  the \<open>switch\<close> finds the structure it expects. \<open>reply\<close> is the structure after the replies.
\<close>

locale testmode_request =
  fixes mk :: "'p \<Rightarrow> testmode_data" and idx :: u32 and sz :: u32
  assumes hdr: "tm_hdr (mk p) = tm_header idx sz"
    and idx24: "idx AND BITS 0 23 = idx"
begin

lemma masked: "index (tm_hdr (mk p)) AND BITS 0 23 = idx"
proof -
  have "(idx OR 0x1000000) AND BITS 0 23 = (idx AND BITS 0 23) OR (0x1000000 AND BITS 0 23)"
    by (rule bit.conj_disj_distrib2)
  also have "\<dots> = idx" by (simp add: idx24) (simp add: BITS_0_23)
  finally show ?thesis by (simp add: hdr tm_header_def)
qed

lemma versioned: "drop_bit 24 (index (tm_hdr (mk p))) = 1"
proof -
  have "drop_bit 24 idx = drop_bit 24 (idx AND 0xFFFFFF)"
    by (simp add: idx24 [unfolded BITS_0_23])
  also have "\<dots> = 0" by (simp only: drop_bit_and) simp
  finally show ?thesis by (simp add: hdr tm_header_def drop_bit_or)
qed

lemma layout: "index (tm_hdr (mk p)) AND BITS 0 23 = idx \<and> drop_bit 24 (index (tm_hdr (mk p))) = 1
    \<and> buflen (tm_hdr (mk p)) = sz"
  using masked versioned by (simp add: hdr) (simp add: tm_header_def)

end

text \<open>The six requests of the file.\<close>

lemmas request_defs = sw_cmd_data_def hotspot_data_def sta_statistics_data_def link_detect_data_def
  p2p_sigma_data_def wapi_key_data_def

interpretation rq_sw: testmode_request "\<lambda>(s, a, d). sw_cmd_data s a d" 1 sizeof_sw_cmd_params
  by unfold_locales (auto simp: request_defs BITS_0_23)

interpretation rq_wapi: testmode_request "\<lambda>(a, k, q). wapi_key_data abi a k q" 2 "sizeof_wapi_key_params abi"
  for abi
  by unfold_locales (auto simp: request_defs BITS_0_23)

interpretation rq_hotspot: testmode_request "\<lambda>(b, x). hotspot_data b x" 3 sizeof_hotspot_params
  by unfold_locales (auto simp: request_defs BITS_0_23)

interpretation rq_stats: testmode_request "\<lambda>(a, b). sta_statistics_data a b" "0x10"
    sizeof_get_sta_statistics_params
  by unfold_locales (auto simp: request_defs BITS_0_23)

interpretation rq_link: testmode_request "link_detect_data abi" "0x20" "sizeof_link_detect_params abi"
  for abi
  by unfold_locales (auto simp: request_defs BITS_0_23)

interpretation rq_sigma: testmode_request "\<lambda>(i, v). p2p_sigma_data abi i v" 1
    "sizeof_p2p_sigma_params abi"
  for abi
  by unfold_locales (auto simp: request_defs BITS_0_23)

lemmas masked_index = rq_sw.masked [of "(s, a, d)" for s a d, simplified]
  rq_wapi.masked [of _ "(a, k, q)" for a k q, simplified] rq_hotspot.masked [of "(b, x)" for b x, simplified]
  rq_stats.masked [of "(a, b)" for a b, simplified] rq_link.masked
  rq_sigma.masked [of _ "(i, v)" for i v, simplified]

section \<open>Order of the calls\<close>

definition tm_calls :: "drv_global \<Rightarrow> drv_data \<Rightarrow> u32 \<Rightarrow> testmode_data \<Rightarrow> wcall list" where
  "tm_calls g d len data = [Nlmsg_alloc, Genlmsg_put_testmode (nl80211_id g), Nla_put_ifindex (ifindex d),
     Nla_put_testdata len data, Send_and_recv_msgs]"

text \<open>The outcome of a send, given what the environment answered to each call.\<close>

definition tm_result ::
    "wifi_cfg \<Rightarrow> wifi_abi \<Rightarrow> ('m, 'a) libnl \<Rightarrow> testmode_data \<Rightarrow> 'm wresp \<Rightarrow> (int \<times> testmode_data) result" where
  "tm_result cfg abi nl data answer =
     (case testmode_dispatch cfg abi nl (index (tm_hdr data) AND BITS 0 23) (snd answer) data of
        Inl f \<Rightarrow> Inl f | Inr data' \<Rightarrow> Inr (fst answer, data'))"

lemma testmode_outcome:
  assumes "drv bss = Some d" and "nl_global d = Some g"
    and "wpa_driver_nl80211_testmode cfg abi nl env (Some bss) data len tr = (r, tr')"
  obtains (alloc) a where "tr' = tr @ [(Nlmsg_alloc, a)]" "fst a = 0" "r = Inr (-1, data)"
  | (put) as where "tr' = tr @ zip (take (length as) (tm_calls g d len data)) as"
      "fst (as ! 0) \<noteq> 0" "length as = 3 \<or> length as = 4 \<and> 0 \<le> fst (as ! 2)" "fst (last as) < 0" "r = Inr (- ENOBUFS, data)"
  | (sent) as where "tr' = tr @ zip (tm_calls g d len data) as" "length as = 5"
      "fst (as ! 0) \<noteq> 0" "0 \<le> fst (as ! 2)" "0 \<le> fst (as ! 3)"
      "r = tm_result cfg abi nl data (as ! 4)"
proof -
  let ?ask = "\<lambda>c t. t @ [(c, env t c)]"
  define a1 where "a1 = env tr Nlmsg_alloc"
  define t1 where "t1 = ?ask Nlmsg_alloc tr"
  define a2 where "a2 = env t1 (Genlmsg_put_testmode (nl80211_id g))"
  define t2 where "t2 = ?ask (Genlmsg_put_testmode (nl80211_id g)) t1"
  define a3 where "a3 = env t2 (Nla_put_ifindex (ifindex d))"
  define t3 where "t3 = ?ask (Nla_put_ifindex (ifindex d)) t2"
  define a4 where "a4 = env t3 (Nla_put_testdata len data)"
  define t4 where "t4 = ?ask (Nla_put_testdata len data) t3"
  define a5 where "a5 = env t4 Send_and_recv_msgs"
  note ds = a1_def t1_def a2_def t2_def a3_def t3_def a4_def t4_def a5_def
  note eqs = assms(3) [unfolded wpa_driver_nl80211_testmode_def nl80211_cmd_def ask_def Let_def,
      simplified assms(1,2) case_prod_beta option.case fst_conv snd_conv apfst_def map_prod_simp sum.case, folded ds]
  show thesis
  proof (cases "fst a1 = 0")
    case True
    with eqs show thesis by (intro alloc [of a1]) (auto simp: t1_def a1_def)
  next
    case ok1: False
    show thesis
    proof (cases "fst a3 < 0")
      case True
      with ok1 eqs show thesis
        by (intro put [of "[a1, a2, a3]"]) (auto simp: ds tm_calls_def)
    next
      case ok3: False
      show thesis
      proof (cases "fst a4 < 0")
        case True
        with ok1 ok3 eqs show thesis
          by (intro put [of "[a1, a2, a3, a4]"]) (auto simp: ds tm_calls_def)
      next
        case False
        with ok1 ok3 eqs show thesis
          by (intro sent [of "[a1, a2, a3, a4, a5]"]) (simp_all add: ds tm_calls_def tm_result_def cong: sum.case_cong)
      qed
    qed
  qed
qed

section \<open>Handlers read attributes into fields\<close>

definition attr_or :: "(nat \<Rightarrow> 'a option) \<Rightarrow> nat \<Rightarrow> ('a \<Rightarrow> 'v) \<Rightarrow> 'v \<Rightarrow> 'v" where
  "attr_or sinfo i rd old = (case sinfo i of None \<Rightarrow> old | Some a \<Rightarrow> rd a)"

text \<open>One pass of the loop body as the update of one field.\<close>

definition attr_body :: "(nat \<Rightarrow> 'a option) \<Rightarrow> (nat \<Rightarrow> 'a \<Rightarrow> 's \<Rightarrow> 's) \<Rightarrow> nat \<Rightarrow> 's \<Rightarrow> 's" where
  "attr_body sinfo sw i st = (case sinfo i of None \<Rightarrow> st | Some a \<Rightarrow> sw i a st)"

lemma attr_loop_body: "attr_loop num sinfo sw st = fold (attr_body sinfo sw) [1..<num] st"
  by (simp add: attr_loop_def attr_body_def [abs_def])

lemma sta_statistics_body:
  "attr_body sinfo (sta_statistics_switch nl) 1 st = st\<lparr>version := attr_or sinfo 1 (nla_get_u8 nl) (version st)\<rparr>"
  "attr_body sinfo (sta_statistics_switch nl) 2 st = st\<lparr>addr := attr_or sinfo 2 (\<lambda>a. nla_memcpy nl (addr st) a 6) (addr st)\<rparr>"
  "attr_body sinfo (sta_statistics_switch nl) 3 st = st\<lparr>link_score := attr_or sinfo 3 (nla_get_u8 nl) (link_score st)\<rparr>"
  "attr_body sinfo (sta_statistics_switch nl) 4 st = st\<lparr>flag := attr_or sinfo 4 (nla_get_u32 nl) (flag st)\<rparr>"
  "attr_body sinfo (sta_statistics_switch nl) 5 st = st\<lparr>per := attr_or sinfo 5 (nla_get_u8 nl) (per st)\<rparr>"
  "attr_body sinfo (sta_statistics_switch nl) 6 st = st\<lparr>rssi := attr_or sinfo 6 (\<lambda>a. rssi_of_u8 (nla_get_u8 nl a)) (rssi st)\<rparr>"
  "attr_body sinfo (sta_statistics_switch nl) 7 st = st\<lparr>phy_mode := attr_or sinfo 7 (nla_get_u32 nl) (phy_mode st)\<rparr>"
  "attr_body sinfo (sta_statistics_switch nl) 8 st = st\<lparr>tx_rate := attr_or sinfo 8 (\<lambda>a. tx_rate_of_u16 (nla_get_u16 nl a)) (tx_rate st)\<rparr>"
  "attr_body sinfo (sta_statistics_switch nl) 9 st = st\<lparr>tx_total_cnt := attr_or sinfo 9 (nla_get_u32 nl) (tx_total_cnt st)\<rparr>"
  "attr_body sinfo (sta_statistics_switch nl) 10 st = st\<lparr>tx_exc_threshold_cnt := attr_or sinfo 10 (nla_get_u32 nl) (tx_exc_threshold_cnt st)\<rparr>"
  "attr_body sinfo (sta_statistics_switch nl) 11 st = st\<lparr>tx_avg_process_time := attr_or sinfo 11 (nla_get_u32 nl) (tx_avg_process_time st)\<rparr>"
  "attr_body sinfo (sta_statistics_switch nl) 12 st = st\<lparr>tx_fail_cnt := attr_or sinfo 12 (nla_get_u32 nl) (tx_fail_cnt st)\<rparr>"
  "attr_body sinfo (sta_statistics_switch nl) 13 st = st\<lparr>tx_timeout_cnt := attr_or sinfo 13 (nla_get_u32 nl) (tx_timeout_cnt st)\<rparr>"
  "attr_body sinfo (sta_statistics_switch nl) 14 st = st\<lparr>tx_avg_air_time := attr_or sinfo 14 (nla_get_u32 nl) (tx_avg_air_time st)\<rparr>"
  "attr_body sinfo (sta_statistics_switch nl) 15 st = st\<lparr>tc_buf_full_cnt := attr_or sinfo 15 (memcpy_u32s nl (tc_buf_full_cnt st)) (tc_buf_full_cnt st)\<rparr>"
  "attr_body sinfo (sta_statistics_switch nl) 16 st = st\<lparr>tc_que_len := attr_or sinfo 16 (memcpy_u32s nl (tc_que_len st)) (tc_que_len st)\<rparr>"
  "attr_body sinfo (sta_statistics_switch nl) 17 st = st\<lparr>tc_avg_que_len := attr_or sinfo 17 (memcpy_u32s nl (tc_avg_que_len st)) (tc_avg_que_len st)\<rparr>"
  "attr_body sinfo (sta_statistics_switch nl) 18 st = st\<lparr>tc_cur_que_len := attr_or sinfo 18 (memcpy_u32s nl (tc_cur_que_len st)) (tc_cur_que_len st)\<rparr>"
  "attr_body sinfo (sta_statistics_switch nl) 19 st = st\<lparr>reserved := attr_or sinfo 19 (\<lambda>a. nla_memcpy nl (reserved st) a (length (reserved st))) (reserved st)\<rparr>"
  by (simp_all add: attr_body_def attr_or_def sta_statistics_switch_def const_defs split: option.split)

lemma upt_1_20: "[1..<20] = [1, 2, 3, 4, 5, 6, 7, 8, 9, 10, 11, 12, 13, 14, 15, 16, 17, 18, 19 :: nat]"
  by (simp add: upt_conv_Cons)

lemma upt_1_9: "[1..<9] = [1, 2, 3, 4, 5, 6, 7, 8 :: nat]"
  by (simp add: upt_conv_Cons)

lemma sta_statistics_loop:
  "attr_loop STA_STATISTICS_NUM sinfo (sta_statistics_switch nl) st =
     \<lparr>version = attr_or sinfo 1 (nla_get_u8 nl) (version st),
      addr = attr_or sinfo 2 (\<lambda>a. nla_memcpy nl (addr st) a 6) (addr st),
      flag = attr_or sinfo 4 (nla_get_u32 nl) (flag st),
      link_score = attr_or sinfo 3 (nla_get_u8 nl) (link_score st),
      per = attr_or sinfo 5 (nla_get_u8 nl) (per st),
      rssi = attr_or sinfo 6 (\<lambda>a. rssi_of_u8 (nla_get_u8 nl a)) (rssi st),
      phy_mode = attr_or sinfo 7 (nla_get_u32 nl) (phy_mode st),
      tx_rate = attr_or sinfo 8 (\<lambda>a. tx_rate_of_u16 (nla_get_u16 nl a)) (tx_rate st),
      tx_total_cnt = attr_or sinfo 9 (nla_get_u32 nl) (tx_total_cnt st),
      tx_exc_threshold_cnt = attr_or sinfo 10 (nla_get_u32 nl) (tx_exc_threshold_cnt st),
      tx_avg_process_time = attr_or sinfo 11 (nla_get_u32 nl) (tx_avg_process_time st),
      tx_fail_cnt = attr_or sinfo 12 (nla_get_u32 nl) (tx_fail_cnt st),
      tx_timeout_cnt = attr_or sinfo 13 (nla_get_u32 nl) (tx_timeout_cnt st),
      tx_avg_air_time = attr_or sinfo 14 (nla_get_u32 nl) (tx_avg_air_time st),
      tc_buf_full_cnt = attr_or sinfo 15 (memcpy_u32s nl (tc_buf_full_cnt st)) (tc_buf_full_cnt st),
      tc_que_len = attr_or sinfo 16 (memcpy_u32s nl (tc_que_len st)) (tc_que_len st),
      tc_avg_que_len = attr_or sinfo 17 (memcpy_u32s nl (tc_avg_que_len st)) (tc_avg_que_len st),
      tc_cur_que_len = attr_or sinfo 18 (memcpy_u32s nl (tc_cur_que_len st)) (tc_cur_que_len st),
      reserved = attr_or sinfo 19 (\<lambda>a. nla_memcpy nl (reserved st) a (length (reserved st))) (reserved st)\<rparr>"
  unfolding attr_loop_body STA_STATISTICS_NUM_def upt_1_20
  by (simp add: sta_statistics_body del: One_nat_def)

lemma link_detect_body:
  "attr_body sinfo (link_detect_switch nl) 1 st = st\<lparr>ld_tx_fail_cnt := attr_or sinfo 1 (nla_get_u64 nl) (ld_tx_fail_cnt st)\<rparr>"
  "attr_body sinfo (link_detect_switch nl) 2 st = st\<lparr>ld_tx_retry_cnt := attr_or sinfo 2 (nla_get_u64 nl) (ld_tx_retry_cnt st)\<rparr>"
  "attr_body sinfo (link_detect_switch nl) 3 st = st\<lparr>ld_tx_multi_retry_cnt := attr_or sinfo 3 (nla_get_u64 nl) (ld_tx_multi_retry_cnt st)\<rparr>"
  "attr_body sinfo (link_detect_switch nl) 4 st = st\<lparr>ld_ack_fail_cnt := attr_or sinfo 4 (\<lambda>a. ack_magnitude (nla_get_u64 nl a)) (ld_ack_fail_cnt st)\<rparr>"
  "attr_body sinfo (link_detect_switch nl) 5 st = st\<lparr>ld_fcs_err_cnt := attr_or sinfo 5 (nla_get_u64 nl) (ld_fcs_err_cnt st)\<rparr>"
  "attr_body sinfo (link_detect_switch nl) 6 st = st\<lparr>ld_tx_cnt := attr_or sinfo 6 (nla_get_u64 nl) (ld_tx_cnt st)\<rparr>"
  "attr_body sinfo (link_detect_switch nl) 7 st = st\<lparr>ld_tx_ok_cnt := attr_or sinfo 7 (nla_get_u64 nl) (ld_tx_ok_cnt st)\<rparr>"
  "attr_body sinfo (link_detect_switch nl) 8 st = st\<lparr>ld_tx_os_cnt := attr_or sinfo 8 (nla_get_u64 nl) (ld_tx_os_cnt st)\<rparr>"
  by (simp_all add: attr_body_def attr_or_def link_detect_switch_def const_defs split: option.split)

lemma link_detect_loop:
  "attr_loop LINK_DETECT_NUM sinfo (link_detect_switch nl) st =
     \<lparr>ld_tx_fail_cnt = attr_or sinfo 1 (nla_get_u64 nl) (ld_tx_fail_cnt st),
      ld_tx_retry_cnt = attr_or sinfo 2 (nla_get_u64 nl) (ld_tx_retry_cnt st),
      ld_tx_multi_retry_cnt = attr_or sinfo 3 (nla_get_u64 nl) (ld_tx_multi_retry_cnt st),
      ld_ack_fail_cnt = attr_or sinfo 4 (\<lambda>a. ack_magnitude (nla_get_u64 nl a)) (ld_ack_fail_cnt st),
      ld_fcs_err_cnt = attr_or sinfo 5 (nla_get_u64 nl) (ld_fcs_err_cnt st),
      ld_tx_cnt = attr_or sinfo 6 (nla_get_u64 nl) (ld_tx_cnt st),
      ld_tx_ok_cnt = attr_or sinfo 7 (nla_get_u64 nl) (ld_tx_ok_cnt st),
      ld_tx_os_cnt = attr_or sinfo 8 (nla_get_u64 nl) (ld_tx_os_cnt st)\<rparr>"
  unfolding attr_loop_body LINK_DETECT_NUM_def upt_1_9
  by (simp add: link_detect_body del: One_nat_def)

lemma attr_max: "STA_STATISTICS_MAX = 19" "LINK_DETECT_MAX = 8"
  by (simp_all add: const_defs)

section \<open>Ranges\<close>

lemma rssi_of_u8_range: "-110 \<le> rssi_of_u8 b \<and> rssi_of_u8 b \<le> 17"
proof -
  have "-110 \<le> (x - 220) sdiv 2 \<and> (x - 220) sdiv 2 \<le> 17" if "0 \<le> x" "x < 256" for x :: int
    using that by (auto simp: signed_divide_int_def sgn_if abs_if)
  from this [of "uint b"] show ?thesis using uint_lt2p [of b] by (simp add: rssi_of_u8_def)
qed

lemma uint_ack_magnitude: "uint (ack_magnitude w) = \<bar>sint w\<bar>"
proof -
  have un: "uint (word_of_int k :: u64) = k" if "0 \<le> k" "k \<le> 2 ^ 63" for k
    using that by (simp add: unsigned_of_int) (intro take_bit_int_eq_self; simp)
  show ?thesis
    using un [of "- sint w"] un [of "sint w"] sint_ge [of w] sint_lt [of w]
    by (simp add: ack_magnitude_def abs_if)
qed

lemma length_u32s_of_bytes: "length (u32s_of_bytes bs) = length bs div 4"
  by (induction bs rule: u32s_of_bytes.induct) auto

lemma length_bytes_of_u32s: "length (concat (map bytes_of_u32 ws)) = 4 * length ws"
  by (induction ws) (simp_all add: bytes_of_u32_def)

lemma length_memcpy_u32s: "libnl_ok nl \<Longrightarrow> length (memcpy_u32s nl ws a) = length ws"
  by (simp add: memcpy_u32s_def Let_def length_u32s_of_bytes libnl_ok_def length_bytes_of_u32s
      del: length_concat)

definition stats_shape :: "sta_statistics \<Rightarrow> bool" where
  "stats_shape st \<longleftrightarrow> length (addr st) = ETH_ALEN \<and> length (tc_buf_full_cnt st) = TC_DATA_NUM
     \<and> length (tc_que_len st) = TC_DATA_NUM \<and> length (tc_avg_que_len st) = TC_DATA_NUM
     \<and> length (tc_cur_que_len st) = TC_DATA_NUM \<and> length (reserved st) = 32"

definition rssi_ok :: "sta_statistics \<Rightarrow> bool" where
  "rssi_ok st \<longleftrightarrow> -110 \<le> rssi st \<and> rssi st \<le> 17"

lemma attr_or_P: "P old \<Longrightarrow> (\<And>a. P (rd a)) \<Longrightarrow> P (attr_or sinfo i rd old)"
  by (simp add: attr_or_def split: option.split)

lemma handler_shape:
  assumes nl: "libnl_ok nl" and st: "stats_shape st"
  shows "stats_shape (testmode_sta_statistics_handler nl msg st)"
proof -
  have copy: "length (attr_or sinfo i (\<lambda>a. nla_memcpy nl d a n) d) = length d" if "n \<le> length d"
    for sinfo i d n
    using nl that by (intro attr_or_P [where P = "\<lambda>x. length x = length d"]) (auto simp: libnl_ok_def)
  have words: "length (attr_or sinfo i (memcpy_u32s nl ws) ws) = length ws" for sinfo i ws
    by (intro attr_or_P [where P = "\<lambda>x. length x = length ws"]) (simp_all add: length_memcpy_u32s nl)
  show ?thesis
    using st by (auto simp: testmode_sta_statistics_handler_def sta_statistics_loop stats_shape_def
        copy words ETH_ALEN_def split: option.split)
qed

lemma handler_rssi:
  assumes "rssi_ok st"
  shows "rssi_ok (testmode_sta_statistics_handler nl msg st)"
proof -
  have "-110 \<le> attr_or sinfo 6 (\<lambda>a. rssi_of_u8 (nla_get_u8 nl a)) (rssi st)
      \<and> attr_or sinfo 6 (\<lambda>a. rssi_of_u8 (nla_get_u8 nl a)) (rssi st) \<le> 17" for sinfo
    using assms rssi_of_u8_range by (intro attr_or_P [where P = "\<lambda>x. -110 \<le> x \<and> x \<le> 17"]) (simp_all add: rssi_ok_def)
  with assms show ?thesis
    by (simp add: testmode_sta_statistics_handler_def sta_statistics_loop rssi_ok_def split: option.split)
qed

text \<open>Both are invariants over the messages of a reply, whatever they contain.\<close>

interpretation stshape: invariant_system "testmode_sta_statistics_handler nl"
    "\<lambda>st. libnl_ok nl \<longrightarrow> stats_shape st" for nl
  by unfold_locales (simp add: handler_shape)

interpretation strssi: invariant_system "testmode_sta_statistics_handler nl" rssi_ok for nl
  by unfold_locales (rule handler_rssi)

section \<open>The structure each request ends up with\<close>

lemma tm_result_requests:
  "tm_result cfg abi nl (sw_cmd_data s adr dat) ans = Inr (fst ans, sw_cmd_data s adr dat)"
  "tm_result cfg abi nl (hotspot_data b x) ans = Inr (fst ans, hotspot_data b x)"
  "tm_result cfg abi nl (sta_statistics_data a buf) ans
     = Inr (fst ans, sta_statistics_data a (fold (testmode_sta_statistics_handler nl) (snd ans) buf))"
  "tm_result cfg abi nl (link_detect_data abi lbuf) ans = Inr (fst ans, link_detect_data abi
     (if CONFIG_MTK_POOR_LINK_DETECT cfg then fold (testmode_sta_link_detect_handler nl) (snd ans) lbuf
      else lbuf))"
  "tm_result cfg abi nl (p2p_sigma_data abi i v) ans = Inr (fst ans, p2p_sigma_data abi i v)"
  "tm_result cfg abi nl (wapi_key_data abi w k q) ans = Inr (fst ans, wapi_key_data abi w k q)"
  unfolding tm_result_def masked_index
  by (simp_all add: testmode_dispatch_def request_defs)

text \<open>A request never faults once a driver is there, and returns a structure of its own kind.\<close>

lemma testmode_returns:
  assumes "drv bss = Some d" "nl_global d = Some g" and "\<And>ans. \<exists>x. tm_result cfg abi nl (mk y) ans = Inr (fst ans, mk x)"
  shows "\<exists>ret x. fst (wpa_driver_nl80211_testmode cfg abi nl env (Some bss) (mk y) len tr) = Inr (ret, mk x)"
proof -
  obtain r tr' where eq: "wpa_driver_nl80211_testmode cfg abi nl env (Some bss) (mk y) len tr = (r, tr')"
    by fastforce
  show ?thesis
    using assms(1,2) eq
  proof (cases rule: testmode_outcome)
    case (sent as)
    then show ?thesis using eq assms(3) [of "as ! 4"] by auto
  qed (use eq in auto)
qed

text \<open>Each of the five request functions, with a driver behind the interface.\<close>

lemma requests_return:
  assumes "drv bss = Some d" "nl_global d = Some g"
  shows sw_cmd_returns: "fst (wpa_driver_nl80211_driver_sw_cmd cfg abi nl env (Some bss) s adr dat tr) = Inr 0"
    and hotspot_returns: "\<exists>ret. fst (wpa_driver_hotspot_block_list_update cfg abi nl env (Some bss) b x tr) = Inr ret"
    and stats_returns: "\<exists>ret. fst (wpas_get_sta_statistics cfg abi nl env (Some bss) a buf tr) = Inr ret"
    and link_returns: "\<exists>ret. fst (wpas_get_sta_link_detect cfg abi nl env (Some bss) lbuf tr) = Inr ret"
    and sigma_returns: "\<exists>ret. fst (wpas_p2p_sigma_test_mode cfg abi nl env (Some bss) i v tr) = Inr ret"
  subgoal
    using testmode_returns [where mk = "\<lambda>_. sw_cmd_data s adr dat" and y = "undefined :: unit", OF assms, of cfg abi nl env sizeof_sw_cmd_params tr]
    by (auto simp: tm_result_requests wpa_driver_nl80211_driver_sw_cmd_def case_prod_beta)
  subgoal
    using testmode_returns [where mk = "\<lambda>_. hotspot_data b x" and y = "undefined :: unit", OF assms, of cfg abi nl env sizeof_hotspot_params tr]
    by (auto simp: tm_result_requests wpa_driver_hotspot_block_list_update_def case_prod_beta)
  subgoal
    using testmode_returns [where mk = "sta_statistics_data a" and y = buf, OF assms, of cfg abi nl env sizeof_get_sta_statistics_params tr]
    by (simp add: tm_result_requests wpas_get_sta_statistics_def case_prod_beta) (auto simp: sta_statistics_data_def)
  subgoal
    using testmode_returns [where mk = "link_detect_data abi" and y = lbuf, OF assms, of cfg abi nl env "sizeof_link_detect_params abi" tr]
    by (simp add: tm_result_requests wpas_get_sta_link_detect_def case_prod_beta) (auto simp: link_detect_data_def)
  subgoal
    using testmode_returns [where mk = "\<lambda>_. p2p_sigma_data abi i v" and y = "undefined :: unit", OF assms, of cfg abi nl env "sizeof_p2p_sigma_params abi" tr]
    by (auto simp: tm_result_requests wpas_p2p_sigma_test_mode_def case_prod_beta)
  done

section \<open>A channel that accepts the request\<close>

definition env_accepts :: "'m wifi_env \<Rightarrow> 'm wresp \<Rightarrow> bool" where
  "env_accepts env reply \<longleftrightarrow> (\<forall>tr. fst (env tr Nlmsg_alloc) \<noteq> 0)
     \<and> (\<forall>tr i. 0 \<le> fst (env tr (Nla_put_ifindex i))) \<and> (\<forall>tr n p. 0 \<le> fst (env tr (Nla_put_testdata n p)))
     \<and> (\<forall>tr. env tr Send_and_recv_msgs = reply)"

lemma testmode_accepted:
  assumes d: "drv bss = Some d" "nl_global d = Some g" and env: "env_accepts env reply"
  obtains ext where
    "wpa_driver_nl80211_testmode cfg abi nl env (Some bss) data len tr
       = (tm_result cfg abi nl data reply, tr @ ext)"
    "map fst ext = tm_calls g d len data"
  using assms
  by (simp add: wpa_driver_nl80211_testmode_def nl80211_cmd_def ask_def Let_def env_accepts_def
      case_prod_beta tm_result_def tm_calls_def not_less [symmetric] cong: sum.case_cong)

text \<open>
  A concrete netlink library for the examples below: a message is its list of attributes, each a
  number with its payload in little-endian bytes, the way type-length-value data is laid out.
\<close>

definition tlv_bytes :: "(nat \<times> u8 list) list \<Rightarrow> u8 list" where
  "tlv_bytes a = (case a of [] \<Rightarrow> [] | x # _ \<Rightarrow> snd x)"

definition tlv_u32s :: "(nat \<times> u8 list) list \<Rightarrow> u32 list" where
  "tlv_u32s a = u32s_of_bytes (tlv_bytes a @ replicate 8 0)"

definition tlv_libnl :: "((nat \<times> u8 list) list, (nat \<times> u8 list) list) libnl" where
  "tlv_libnl = \<lparr>nl_testdata = Some,
     nl_nested = (\<lambda>mx pol td. Some (\<lambda>i. if i \<le> mx then map_option (\<lambda>b. [(i, b)]) (map_of td i) else None)),
     nla_get_u8 = (\<lambda>a. ucast (tlv_u32s a ! 0)), nla_get_u16 = (\<lambda>a. ucast (tlv_u32s a ! 0)),
     nla_get_u32 = (\<lambda>a. tlv_u32s a ! 0),
     nla_get_u64 = (\<lambda>a. ucast (tlv_u32s a ! 0) OR push_bit 32 (ucast (tlv_u32s a ! 1))),
     nla_memcpy = (\<lambda>d a n. write_at 0 (take n (tlv_bytes a)) d)\<rparr>"

lemma tlv_libnl_ok: "libnl_ok tlv_libnl"
  by (auto simp: libnl_ok_def tlv_libnl_def write_at_def)

text \<open>An address is six pairs of hexadecimal digits with one character between them.\<close>

fun demo_bytes :: "nat \<Rightarrow> string \<Rightarrow> u8 list option" where
  "demo_bytes 0 s = Some []"
| "demo_bytes (Suc n) (a # b # s) =
     (if digit_in 16 a \<and> digit_in 16 b
      then map_option ((#) (of_nat (16 * the (digit_val a) + the (digit_val b)))) (demo_bytes n (tl s))
      else None)"
| "demo_bytes (Suc n) s = None"

definition demo_aton :: "string \<Rightarrow> macaddr option" where
  "demo_aton s = (case demo_bytes 6 s of Some [a, b, c, d, e, f] \<Rightarrow> Some (Mac a b c d e f) | _ \<Rightarrow> None)"

definition demo_cfg :: wifi_cfg where
  "demo_cfg = \<lparr>CONFIG_MEDIATEK_WIFI_BEAM = True, CONFIG_MTK_POOR_LINK_DETECT = True,
     CONFIG_HOTSPOT_MGR_SUPPORT = True, CONFIG_WAPI_SUPPORT = True, CONFIG_MTK_P2P_SIGMA = True\<rparr>"

definition demo_abi :: wifi_abi where
  "demo_abi = \<lparr>hwaddr_aton = demo_aton, GO_READY_STATE = 1, GO_READY_NUM = 2,
     IW_ENCODE_SEQ_MAX_SIZE = 8, IW_ENCODE_EXT_GROUP_KEY = 4, IW_ENCODE_EXT_SET_TX_KEY = 8,
     IW_ENCODE_ALG_SMS4 = 32, WPA_DRIVER_FLAGS_P2P_CONCURRENT = 0x200,
     WLAN_REASON_DEAUTH_LEAVING = 3, wapi_key_cap = 32, wapi_seq_cap = 16,
     sizeof_wapi_key_params = 92, sizeof_link_detect_params = 12, sizeof_p2p_sigma_params = 16\<rparr>"

definition demo_global :: drv_global where
  "demo_global = \<lparr>nl80211_id = 20, ioctl_sock = 5\<rparr>"

definition demo_drv :: drv_data where
  "demo_drv = \<lparr>ifindex = 3, nl_global = Some demo_global, first_ifname = ''wlan0'', associated = True,
     drv_bssid = Mac 1 2 3 4 5 6, ctx = Some 0\<rparr>"

definition demo_bss :: i802_bss where
  "demo_bss = \<lparr>ifname = ''wlan0'', drv = Some demo_drv\<rparr>"

lemma demo_bss_drv: "drv demo_bss = Some demo_drv" "nl_global demo_drv = Some demo_global"
  by (simp_all add: demo_bss_def demo_drv_def)

text \<open>An environment in which every call succeeds and the kernel replies with the given messages.\<close>

definition demo_env :: "'m list \<Rightarrow> 'm wifi_env" where
  "demo_env msgs tr c = (case c of Nlmsg_alloc \<Rightarrow> (1, []) | Send_and_recv_msgs \<Rightarrow> (0, msgs) | _ \<Rightarrow> (0, []))"

lemma demo_env_accepts: "env_accepts (demo_env msgs) (0, msgs)"
  by (simp add: env_accepts_def demo_env_def)

section \<open>Properties\<close>

text \<open>How many calls a request makes, by the answers to the first four.\<close>

definition calls_made :: "'m wresp list \<Rightarrow> nat" where
  "calls_made as = (if fst (as ! 0) = 0 then 1 else if fst (as ! 2) < 0 then 3
     else if fst (as ! 3) < 0 then 4 else 5)"

text \<open>
  C17: a test-mode request makes its calls in a fixed order, allocate, header, interface index,
  request, send, and how many of them depends on three answers alone: a failed allocation ends it
  at once with -1, an attribute that does not fit ends it with -ENOBUFS before anything is sent, and
  otherwise there is exactly one send, whose result is returned with the structure its handler
  filled. What \<open>genlmsg_put\<close> answers is not looked at: also a request without its header is sent.
\<close>

theorem testmode_call_order:
  assumes "drv bss = Some d" "nl_global d = Some g"
    and "wpa_driver_nl80211_testmode cfg abi nl env (Some bss) data len tr = (r, tr')"
  shows "\<exists>as. length as = calls_made as
     \<and> tr' = tr @ zip (take (length as) (tm_calls g d len data)) as
     \<and> r = (if length as = 1 then Inr (-1, data) else if length as < 5 then Inr (- ENOBUFS, data)
            else tm_result cfg abi nl data (as ! 4))"
  using assms
proof (cases rule: testmode_outcome)
  case (alloc a)
  then show ?thesis by (intro exI [of _ "[a]"]) (simp add: tm_calls_def calls_made_def)
next
  case (put as)
  then have "last as = as ! (length as - 1)" by (intro last_conv_nth) auto
  with put show ?thesis by (intro exI [of _ as]) (auto simp: calls_made_def)
next
  case (sent as)
  then show ?thesis by (intro exI [of _ as]) (simp add: tm_calls_def calls_made_def)
qed

theorem testmode_call_order_witness:
  "\<exists>as. snd (wpa_driver_nl80211_testmode demo_cfg demo_abi tlv_libnl (demo_env []) (Some demo_bss)
       (sw_cmd_data True 1 2) 20 [])
     = zip (take (length as) (tm_calls demo_global demo_drv 20 (sw_cmd_data True 1 2))) as"
proof -
  let ?r = "wpa_driver_nl80211_testmode demo_cfg demo_abi tlv_libnl (demo_env []) (Some demo_bss)
      (sw_cmd_data True 1 2) 20 []"
  from testmode_call_order [OF demo_bss_drv, where r = "fst ?r" and tr' = "snd ?r", OF prod.collapse [symmetric]]
  show ?thesis by auto
qed

text \<open>
  The lengths \<open>set_wapi_key\<close> is called with: what it copies is there, and fits the arrays of the
  request unless the sequence number is so long that it is refused.
\<close>

definition wapi_args_ok :: "wifi_abi \<Rightarrow> wapi_key_args \<Rightarrow> bool" where
  "wapi_args_ok abi a \<longleftrightarrow> 2 * IW_ENCODE_SEQ_MAX_SIZE abi < wa_seq_len a
     \<or> (case wa_key a of None \<Rightarrow> True | Some k \<Rightarrow> wa_key_len a \<le> wapi_key_cap abi \<and> wa_key_len a \<le> length k)
       \<and> (case wa_seq a of None \<Rightarrow> True | Some q \<Rightarrow> wa_seq_len a \<le> wapi_seq_cap abi \<and> wa_seq_len a \<le> length q)"

text \<open>What \<open>set_wapi_key\<close> returns, fault by fault in the order of the source.\<close>

lemma wapi_key_result:
  assumes "drv bss = Some d" "nl_global d = Some g"
  shows "fst (wpa_driver_nl80211_set_wapi_key cfg abi nl env (Some bss) a tr) =
     (if 2 * IW_ENCODE_SEQ_MAX_SIZE abi < wa_seq_len a then Inr (-1)
      else if wa_key a \<noteq> None \<and> wapi_key_cap abi < wa_key_len a then Inl Buffer_Overflow
      else if wa_key a \<noteq> None \<and> length (the (wa_key a)) < wa_key_len a then Inl Read_Past_End
      else if wa_seq a \<noteq> None \<and> wapi_seq_cap abi < wa_seq_len a then Inl Buffer_Overflow
      else if wa_seq a \<noteq> None \<and> length (the (wa_seq a)) < wa_seq_len a then Inl Read_Past_End
      else Inr 0)"
proof -
  have ret: "fst (let (r, tr1) = wpa_driver_nl80211_testmode cfg abi nl env (Some bss)
      (wapi_key_data abi a k q) (sizeof_wapi_key_params abi) tr
      in (case r of Inl f \<Rightarrow> Inl f | Inr _ \<Rightarrow> Inr (0 :: int), tr1)) = Inr 0" for k q
    using testmode_returns [where mk = "\<lambda>_. wapi_key_data abi a k q" and y = "undefined :: unit",
        OF assms, of cfg abi nl env "sizeof_wapi_key_params abi" tr]
    by (auto simp: tm_result_requests case_prod_beta)
  have key: "\<exists>k. wapi_key_copy abi a =
      (if wa_key a \<noteq> None \<and> wapi_key_cap abi < wa_key_len a then Inl Buffer_Overflow
       else if wa_key a \<noteq> None \<and> length (the (wa_key a)) < wa_key_len a then Inl Read_Past_End else Inr k)"
    by (auto simp: wapi_key_copy_def memcpy_bytes_def split: option.split)
  have seq: "\<exists>q. wapi_seq_copy abi a =
      (if wa_seq a \<noteq> None \<and> wapi_seq_cap abi < wa_seq_len a then Inl Buffer_Overflow
       else if wa_seq a \<noteq> None \<and> length (the (wa_seq a)) < wa_seq_len a then Inl Read_Past_End else Inr q)"
    by (auto simp: wapi_seq_copy_def memcpy_bytes_def split: option.split)
  from key seq obtain k q where
    "wapi_key_copy abi a =
      (if wa_key a \<noteq> None \<and> wapi_key_cap abi < wa_key_len a then Inl Buffer_Overflow
       else if wa_key a \<noteq> None \<and> length (the (wa_key a)) < wa_key_len a then Inl Read_Past_End else Inr k)"
    "wapi_seq_copy abi a =
      (if wa_seq a \<noteq> None \<and> wapi_seq_cap abi < wa_seq_len a then Inl Buffer_Overflow
       else if wa_seq a \<noteq> None \<and> length (the (wa_seq a)) < wa_seq_len a then Inl Read_Past_End else Inr q)"
    by blast
  then show ?thesis
    using ret [of k q] by (simp add: wpa_driver_nl80211_set_wapi_key_def mult.commute)
qed

lemma wapi_key_returns:
  assumes "drv bss = Some d" "nl_global d = Some g" and "wapi_args_ok abi a"
  shows "\<exists>ret. fst (wpa_driver_nl80211_set_wapi_key cfg abi nl env (Some bss) a tr) = Inr ret"
  using assms(3) unfolding wapi_key_result [OF assms(1,2)]
  by (auto simp: wapi_args_ok_def split: option.splits)

text \<open>
  C18: with a driver and its shared data behind the interface, none of the six requests of the file
  faults, whatever the kernel answers and however the library is configured: the \<open>switch\<close> on the
  masked number always finds the structure it casts to. For the WAPI key this needs a key and a
  sequence number that are as long as said and no longer than the arrays of the request (or a
  sequence number so long that it is refused). The software command always reports success.
\<close>

theorem requests_no_fault:
  assumes "drv bss = Some d" "nl_global d = Some g"
  shows "fst (wpa_driver_nl80211_driver_sw_cmd cfg abi nl env (Some bss) s adr dat tr) = Inr 0
    \<and> (\<exists>ret. fst (wpa_driver_hotspot_block_list_update cfg abi nl env (Some bss) b x tr) = Inr ret)
    \<and> (\<exists>ret. fst (wpas_get_sta_statistics cfg abi nl env (Some bss) a buf tr) = Inr ret)
    \<and> (\<exists>ret. fst (wpas_get_sta_link_detect cfg abi nl env (Some bss) lbuf tr) = Inr ret)
    \<and> (\<exists>ret. fst (wpas_p2p_sigma_test_mode cfg abi nl env (Some bss) i v tr) = Inr ret)
    \<and> (wapi_args_ok abi wa \<longrightarrow>
        (\<exists>ret. fst (wpa_driver_nl80211_set_wapi_key cfg abi nl env (Some bss) wa tr) = Inr ret))"
  by (intro conjI impI requests_return [OF assms] wapi_key_returns [OF assms])

definition demo_wapi :: wapi_key_args where
  "demo_wapi = \<lparr>wa_addr = None, wa_key_idx = 0, wa_set_tx = 1, wa_seq = Some (replicate 16 0), wa_seq_len = 16,
     wa_key = Some (replicate 32 7), wa_key_len = 32\<rparr>"

theorem requests_no_fault_witness:
  "fst (wpa_driver_nl80211_driver_sw_cmd demo_cfg demo_abi tlv_libnl (demo_env []) (Some demo_bss) True 1 2 []) = Inr 0
   \<and> wapi_args_ok demo_abi demo_wapi
   \<and> (\<exists>ret. fst (wpa_driver_nl80211_set_wapi_key demo_cfg demo_abi tlv_libnl (demo_env []) (Some demo_bss)
        demo_wapi []) = Inr ret)"
proof -
  have "wapi_args_ok demo_abi demo_wapi" by code_simp
  with requests_no_fault [OF demo_bss_drv] show ?thesis by blast
qed

text \<open>
  C21: the station statistics handler reads every attribute of the reply into the field that
  bears its name, converts the signal strength and the rate, and leaves the field of an absent
  attribute as it was; without test data, or when the parser refuses it, nothing changes.
\<close>

theorem sta_statistics_handler_correct:
  "testmode_sta_statistics_handler nl msg st =
     (case Option.bind (nl_testdata nl msg) (nl_nested nl 19 sta_statistics_policy) of None \<Rightarrow> st
      | Some sinfo \<Rightarrow>
     \<lparr>version = attr_or sinfo 1 (nla_get_u8 nl) (version st),
      addr = attr_or sinfo 2 (\<lambda>a. nla_memcpy nl (addr st) a 6) (addr st),
      flag = attr_or sinfo 4 (nla_get_u32 nl) (flag st),
      link_score = attr_or sinfo 3 (nla_get_u8 nl) (link_score st),
      per = attr_or sinfo 5 (nla_get_u8 nl) (per st),
      rssi = attr_or sinfo 6 (\<lambda>a. rssi_of_u8 (nla_get_u8 nl a)) (rssi st),
      phy_mode = attr_or sinfo 7 (nla_get_u32 nl) (phy_mode st),
      tx_rate = attr_or sinfo 8 (\<lambda>a. Dbl (of_int (uint (nla_get_u16 nl a)) / 2)) (tx_rate st),
      tx_total_cnt = attr_or sinfo 9 (nla_get_u32 nl) (tx_total_cnt st),
      tx_exc_threshold_cnt = attr_or sinfo 10 (nla_get_u32 nl) (tx_exc_threshold_cnt st),
      tx_avg_process_time = attr_or sinfo 11 (nla_get_u32 nl) (tx_avg_process_time st),
      tx_fail_cnt = attr_or sinfo 12 (nla_get_u32 nl) (tx_fail_cnt st),
      tx_timeout_cnt = attr_or sinfo 13 (nla_get_u32 nl) (tx_timeout_cnt st),
      tx_avg_air_time = attr_or sinfo 14 (nla_get_u32 nl) (tx_avg_air_time st),
      tc_buf_full_cnt = attr_or sinfo 15 (memcpy_u32s nl (tc_buf_full_cnt st)) (tc_buf_full_cnt st),
      tc_que_len = attr_or sinfo 16 (memcpy_u32s nl (tc_que_len st)) (tc_que_len st),
      tc_avg_que_len = attr_or sinfo 17 (memcpy_u32s nl (tc_avg_que_len st)) (tc_avg_que_len st),
      tc_cur_que_len = attr_or sinfo 18 (memcpy_u32s nl (tc_cur_que_len st)) (tc_cur_que_len st),
      reserved = attr_or sinfo 19 (\<lambda>a. nla_memcpy nl (reserved st) a (length (reserved st))) (reserved st)\<rparr>)"
  by (simp add: testmode_sta_statistics_handler_def sta_statistics_loop attr_max tx_rate_of_u16_def split: option.split)

text \<open>
  C22: the link detection handler reads every counter into its field, the acknowledgement
  failures as the magnitude of the signed number the kernel sends.
\<close>

theorem link_detect_handler_correct:
  "testmode_sta_link_detect_handler nl msg st =
     (case Option.bind (nl_testdata nl msg) (nl_nested nl 8 link_detect_policy) of None \<Rightarrow> st
      | Some sinfo \<Rightarrow>
     \<lparr>ld_tx_fail_cnt = attr_or sinfo 1 (nla_get_u64 nl) (ld_tx_fail_cnt st),
      ld_tx_retry_cnt = attr_or sinfo 2 (nla_get_u64 nl) (ld_tx_retry_cnt st),
      ld_tx_multi_retry_cnt = attr_or sinfo 3 (nla_get_u64 nl) (ld_tx_multi_retry_cnt st),
      ld_ack_fail_cnt = attr_or sinfo 4 (\<lambda>a. word_of_int \<bar>sint (nla_get_u64 nl a)\<bar>) (ld_ack_fail_cnt st),
      ld_fcs_err_cnt = attr_or sinfo 5 (nla_get_u64 nl) (ld_fcs_err_cnt st),
      ld_tx_cnt = attr_or sinfo 6 (nla_get_u64 nl) (ld_tx_cnt st),
      ld_tx_ok_cnt = attr_or sinfo 7 (nla_get_u64 nl) (ld_tx_ok_cnt st),
      ld_tx_os_cnt = attr_or sinfo 8 (nla_get_u64 nl) (ld_tx_os_cnt st)\<rparr>)
   \<and> (\<forall>w. uint (ack_magnitude w) = \<bar>sint w\<bar>)"
proof -
  have ack: "ack_magnitude w = word_of_int \<bar>sint w\<bar>" for w
    by (simp flip: uint_ack_magnitude)
  show ?thesis
    by (rule conjI, simp add: testmode_sta_link_detect_handler_def link_detect_loop attr_max ack
        split: option.split, simp only: uint_ack_magnitude simp_thms)
qed

text \<open>
  A statistics query on a channel that accepts it sends one request that names the station,
  returns the kernel's result and the caller's structure after every reply message; the arrays of
  that structure keep their sizes and the signal strength stays between -110 and 17 whatever
  the kernel sends.
\<close>

theorem sta_statistics_query:
  assumes "drv bss = Some d" "nl_global d = Some g" and "env_accepts env (ret, msgs)"
  shows "\<exists>ext st. wpas_get_sta_statistics cfg abi nl env (Some bss) (Some a) buf tr
           = (Inr (ret, st), tr @ ext)
     \<and> map fst ext = tm_calls g d sizeof_get_sta_statistics_params (sta_statistics_data (Some a) buf)
     \<and> st = fold (testmode_sta_statistics_handler nl) msgs buf
     \<and> (libnl_ok nl \<and> stats_shape buf \<longrightarrow> stats_shape st) \<and> (rssi_ok buf \<longrightarrow> rssi_ok st)"
proof -
  obtain ext where "wpa_driver_nl80211_testmode cfg abi nl env (Some bss) (sta_statistics_data (Some a) buf)
        sizeof_get_sta_statistics_params tr
      = (tm_result cfg abi nl (sta_statistics_data (Some a) buf) (ret, msgs), tr @ ext)"
    and "map fst ext = tm_calls g d sizeof_get_sta_statistics_params (sta_statistics_data (Some a) buf)"
    using testmode_accepted [OF assms] by blast
  then show ?thesis
    using stshape.run_inv [of nl buf msgs] strssi.run_inv [of buf nl msgs]
    by (simp add: wpas_get_sta_statistics_def tm_result_requests) (simp add: sta_statistics_data_def)
qed

definition demo_stats :: sta_statistics where
  "demo_stats = \<lparr>version = 0, addr = replicate 6 0, flag = 0, link_score = 0, per = 0, rssi = 0,
     phy_mode = 0, tx_rate = Dbl 0, tx_total_cnt = 0, tx_exc_threshold_cnt = 0, tx_avg_process_time = 0,
     tx_fail_cnt = 0, tx_timeout_cnt = 0, tx_avg_air_time = 0, tc_buf_full_cnt = replicate 4 0,
     tc_que_len = replicate 4 0, tc_avg_que_len = replicate 4 0, tc_cur_que_len = replicate 4 0,
     reserved = replicate 32 0\<rparr>"

lemma demo_stats_ok: "stats_shape demo_stats" "rssi_ok demo_stats"
  by (simp_all add: stats_shape_def rssi_ok_def demo_stats_def const_defs)

theorem sta_statistics_query_witness:
  "\<exists>st. fst (wpas_get_sta_statistics demo_cfg demo_abi tlv_libnl (demo_env [[(6, [120]), (8, [108, 0])]])
        (Some demo_bss) (Some (Mac 1 2 3 4 5 6)) demo_stats []) = Inr (0, st)
     \<and> stats_shape st \<and> rssi st = -50 \<and> tx_rate st = Dbl 54 \<and> rssi_ok st"
proof -
  let ?m = "[(6, [120]), (8, [108, 0])] :: (nat \<times> u8 list) list"
  have "rssi (testmode_sta_statistics_handler tlv_libnl ?m demo_stats) = -50"
    and "tx_rate (testmode_sta_statistics_handler tlv_libnl ?m demo_stats) = Dbl 54"
    by code_simp+
  then show ?thesis
    using sta_statistics_query [OF demo_bss_drv demo_env_accepts, where cfg = demo_cfg and abi = demo_abi
        and nl = tlv_libnl and a = "Mac 1 2 3 4 5 6" and buf = demo_stats and tr = "[]" and msgs = "[?m]"]
      tlv_libnl_ok demo_stats_ok
    by auto
qed

text \<open>
  \<open>STA-BLOCK\<close> and \<open>STA-UNBLOCK\<close> refuse text that is not an address without touching the
  channel, and otherwise, on a channel that accepts the request, send exactly one request with
  the parsed address and 1 for block, 0 for unblock, and return the kernel's result.
\<close>

theorem hotspot_block_unblock:
  assumes "drv bss = Some d" "nl_global d = Some g" and "env_accepts env (ret, msgs)"
  shows "(hwaddr_aton abi cmd = None \<longrightarrow>
        wpa_driver_sta_block cfg abi nl env (Some bss) cmd tr = (Inr (-1), tr)
      \<and> wpa_driver_sta_unblock cfg abi nl env (Some bss) cmd tr = (Inr (-1), tr))
   \<and> (\<forall>a. hwaddr_aton abi cmd = Some a \<longrightarrow>
        (\<exists>ext. wpa_driver_sta_block cfg abi nl env (Some bss) cmd tr = (Inr ret, tr @ ext)
           \<and> map fst ext = tm_calls g d 16 (TM_hotspot \<lparr>hp_hdr = \<lparr>index = 0x1000003, buflen = 16\<rparr>,
               hp_blocked = 1, hp_bssid = a\<rparr>))
      \<and> (\<exists>ext. wpa_driver_sta_unblock cfg abi nl env (Some bss) cmd tr = (Inr ret, tr @ ext)
           \<and> map fst ext = tm_calls g d 16 (TM_hotspot \<lparr>hp_hdr = \<lparr>index = 0x1000003, buflen = 16\<rparr>,
               hp_blocked = 0, hp_bssid = a\<rparr>)))"
proof -
  have upd: "\<exists>ext. wpa_driver_hotspot_block_list_update cfg abi nl env (Some bss) (Some a) x tr
      = (Inr ret, tr @ ext) \<and> map fst ext = tm_calls g d 16 (hotspot_data (Some a) x)" for a x
    by (rule testmode_accepted [OF assms, of cfg abi nl "hotspot_data (Some a) x" 16 tr])
      (simp add: wpa_driver_hotspot_block_list_update_def tm_result_requests sizeof_hotspot_params_def)
  have data: "hotspot_data (Some a) x = TM_hotspot \<lparr>hp_hdr = \<lparr>index = 0x1000003, buflen = 16\<rparr>,
      hp_blocked = ucast x, hp_bssid = a\<rparr>" for a x
    by (simp add: hotspot_data_def tm_header_def sizeof_hotspot_params_def)
  show ?thesis
    using upd [where x = 1] upd [where x = 0]
    by (simp add: wpa_driver_sta_block_def wpa_driver_sta_unblock_def data)
qed

theorem hotspot_block_unblock_witness:
  "\<exists>ext. wpa_driver_sta_block demo_cfg demo_abi tlv_libnl (demo_env []) (Some demo_bss)
       ''02:00:5e:10:00:ff'' [] = (Inr 0, ext)
     \<and> map fst ext = tm_calls demo_global demo_drv 16 (TM_hotspot
         \<lparr>hp_hdr = \<lparr>index = 0x1000003, buflen = 16\<rparr>, hp_blocked = 1, hp_bssid = Mac 2 0 0x5e 0x10 0 0xff\<rparr>)"
proof -
  have "hwaddr_aton demo_abi ''02:00:5e:10:00:ff'' = Some (Mac 2 0 0x5e 0x10 0 0xff)" by code_simp
  then show ?thesis
    using hotspot_block_unblock [OF demo_bss_drv demo_env_accepts, where cfg = demo_cfg and abi = demo_abi
        and nl = tlv_libnl and tr = "[]" and msgs = "[]"]
    by fastforce
qed

text \<open>
  C32: installing a WAPI key checks only the length of the sequence number: one longer than twice
  \<open>IW_ENCODE_SEQ_MAX_SIZE\<close> is refused with -1 before any call. A key that is longer than the array
  of the request overflows it, and so does a sequence number that passes the check and is longer
  than its array; a key or a sequence number shorter than its length says is read past its end. In
  every other case the function returns 0, also when the channel fails.
\<close>

theorem wapi_key_limits:
  assumes "drv bss = Some d" "nl_global d = Some g"
  shows "fst (wpa_driver_nl80211_set_wapi_key cfg abi nl env (Some bss) a tr) =
     (if 2 * IW_ENCODE_SEQ_MAX_SIZE abi < wa_seq_len a then Inr (-1)
      else if wa_key a \<noteq> None \<and> wapi_key_cap abi < wa_key_len a then Inl Buffer_Overflow
      else if wa_key a \<noteq> None \<and> length (the (wa_key a)) < wa_key_len a then Inl Read_Past_End
      else if wa_seq a \<noteq> None \<and> wapi_seq_cap abi < wa_seq_len a then Inl Buffer_Overflow
      else if wa_seq a \<noteq> None \<and> length (the (wa_seq a)) < wa_seq_len a then Inl Read_Past_End
      else Inr 0)
   \<and> (2 * IW_ENCODE_SEQ_MAX_SIZE abi < wa_seq_len a \<longrightarrow>
        snd (wpa_driver_nl80211_set_wapi_key cfg abi nl env (Some bss) a tr) = tr)"
  using wapi_key_result [OF assms, of cfg abi nl env a tr]
  by (simp add: wpa_driver_nl80211_set_wapi_key_def mult.commute)

theorem wapi_key_limits_witness:
  "fst (wpa_driver_nl80211_set_wapi_key demo_cfg demo_abi tlv_libnl (demo_env []) (Some demo_bss)
     (demo_wapi\<lparr>wa_key := Some (replicate 33 7), wa_key_len := 33\<rparr>) []) = Inl Buffer_Overflow"
  by (subst wapi_key_limits [OF demo_bss_drv, THEN conjunct1]) (simp add: demo_abi_def demo_wapi_def)

text \<open>
  \<open>BITS(m, n)\<close> is the mask of the bits \<open>m\<close> to \<open>n\<close>, as its comment says.
\<close>

theorem bits_range:
  assumes "m \<le> n" and "n < 32"
  shows "bit (BITS m n) k \<longleftrightarrow> m \<le> k \<and> k \<le> n"
  using assms
  by (auto simp: BITS_def BIT_minus_1 bit_simps bit_BIT not_less)

theorem bits_range_witness: "bit (BITS 16 23) 20 \<and> \<not> bit (BITS 16 23) 24"
  using bits_range [of 16 23 20] bits_range [of 16 23 24] by simp

text \<open>
  Every request carries its number in the low 24 bits of the header's index, the format version 1
  above them, and the size of its structure.
\<close>

lemma request_headers:
  "(\<forall>p \<in> {(sw_cmd_data s adr dat, 1, sizeof_sw_cmd_params), (hotspot_data b x, 3, sizeof_hotspot_params),
      (sta_statistics_data a st, 0x10, sizeof_get_sta_statistics_params),
      (link_detect_data abi ld, 0x20, sizeof_link_detect_params abi),
      (p2p_sigma_data abi i v, 1, sizeof_p2p_sigma_params abi),
      (wapi_key_data abi w k q, 2, sizeof_wapi_key_params abi)}.
     index (tm_hdr (fst p)) AND BITS 0 23 = fst (snd p) \<and> drop_bit 24 (index (tm_hdr (fst p))) = 1
     \<and> buflen (tm_hdr (fst p)) = snd (snd p))"
  using rq_sw.layout [of "(s, adr, dat)"] rq_hotspot.layout [of "(b, x)"]
    rq_stats.layout [of "(a, st)"] rq_link.layout [of abi ld] rq_sigma.layout [of abi "(i, v)"]
    rq_wapi.layout [of abi "(w, k, q)"]
  by simp

end
