(* ===== verification/Sta_Stats_Correct.thy ===== *)
theory Sta_Stats_Correct
  imports Sta_Stats Testmode_Correct
begin

text \<open>
  Correctness of the statistics reports: the text they produce, that nothing past the caller's
  buffer is written, what truncation does to each of them, and a buffer size that is always
  enough.
\<close>

section \<open>A chain of guarded writes that starts at the beginning of a buffer\<close>

lemma emit_all_from_0:
  assumes "ss \<noteq> []" and "n \<le> length mem" and "emit_all n ss 0 mem = (ok, pos, mem')"
  shows emit_ok: "ok \<longleftrightarrow> length (concat ss) < n"
    and emit_len: "length mem' = length mem"
    and emit_outside: "drop n mem' = drop n mem"
    and emit_pos: "ok \<Longrightarrow> pos = length (concat ss)"
    and emit_text: "ok \<Longrightarrow> take (length (concat ss) + 1) mem' = concat ss @ [NUL]"
proof -
  show "ok \<longleftrightarrow> length (concat ss) < n"
    using emit_all_ok_iff [OF assms(1), of n 0 mem] assms(3) by simp
  show "length mem' = length mem"
    using emit_all_length [OF _ assms(2,3)] by simp
  show "drop n mem' = drop n mem"
    using emit_all_outside [OF _ assms(2,3)] by simp
  show "pos = length (concat ss)" if ok
    using emit_all_pos [of n ss 0 mem] assms(3) that by simp
  show "take (length (concat ss) + 1) mem' = concat ss @ [NUL]" if ok
    using emit_all_text [OF assms(1) _ assms(2), of 0] assms(3) that by simp
qed

definition stats_text :: "sta_statistics \<Rightarrow> string" where
  "stats_text st = concat (map fst (stats_pieces st))"

lemma stats_pieces_not_Nil: "map fst (stats_pieces st) \<noteq> []"
  by (simp add: stats_pieces_def)

section \<open>The size of the report\<close>

lemma unat_less_exp: "unat (w :: 'a::len word) < 2 ^ LENGTH('a)"
  by (rule unsigned_less)

lemma length_pad0: "length (pad0 w s) = max w (length s)"
  by (simp add: pad0_def)

lemma length_fmt_02x: "length (fmt_02x b) = 2"
proof -
  have "length (to_base 16 (unat b)) \<le> 2"
    using unat_less_exp [of b] by (intro length_to_base) simp_all
  then show ?thesis by (simp add: fmt_02x_def length_pad0)
qed

lemma length_fmt_02X: "length (fmt_02X b) = 2"
proof -
  have "length (to_base 16 (unat b)) \<le> 2"
    using unat_less_exp [of b] by (intro length_to_base) simp_all
  then show ?thesis by (simp add: fmt_02X_def length_pad0)
qed

lemma length_fmt_08X: "length (fmt_08X w) = 8"
proof -
  have "length (to_base 16 (unat w)) \<le> 8"
    using unat_less_exp [of w] by (intro length_to_base) simp_all
  then show ?thesis by (simp add: fmt_08X_def length_pad0)
qed

lemma length_mac_str: "bs \<noteq> [] \<Longrightarrow> length (mac_str bs) = 3 * length bs - 1"
  by (induction bs rule: mac_str.induct) (simp_all add: length_fmt_02x)

lemma length_fmt_d_byte: "length (fmt_d (uint (b :: u8))) \<le> 3"
proof -
  have "nat (uint b) < 10 ^ 3" using unat_less_exp [of b] by simp
  then have "length (fmt_u (nat (uint b))) \<le> 3" by (intro length_fmt_u) simp_all
  then show ?thesis by (simp add: fmt_d_def)
qed

lemma length_fmt_tc: "length (fmt_tc ws) \<le> 47"
  using length_fmt_d_sint [of "ws ! 0"] length_fmt_d_sint [of "ws ! 1"]
    length_fmt_d_sint [of "ws ! 2"] length_fmt_d_sint [of "ws ! 3"]
  by (simp add: fmt_tc_def)

text \<open>
  A rate that is short when printed: what a half of a 16-bit number can be, or what is no number. An
  uninitialised double can also be a number with hundreds of digits.
\<close>

fun short_rate :: "double \<Rightarrow> bool" where
  "short_rate (Dbl x) \<longleftrightarrow> 0 \<le> x \<and> x \<le> 32768"
| "short_rate _ \<longleftrightarrow> True"

definition rate_ok :: "sta_statistics \<Rightarrow> bool" where
  "rate_ok st \<longleftrightarrow> short_rate (tx_rate st)"

lemma length_fmt_1f_Dbl:
  assumes "0 \<le> x" and "x \<le> 32768"
  shows "length (fmt_1f (Dbl x)) \<le> 7"
proof -
  have "\<lfloor>10 * x\<rfloor> \<le> 327680" using assms by (simp add: floor_le_iff)
  then have "round_half_even (10 * x) \<le> 327681"
    by (simp add: round_half_even_def Let_def)
  then have "nat (round_half_even (10 * x)) div 10 < 10 ^ 5" by simp
  then have "length (fmt_u (nat (round_half_even (10 * x)) div 10)) \<le> 5"
    by (intro length_fmt_u) simp_all
  moreover have "length (fmt_u (nat (round_half_even (10 * x)) mod 10)) \<le> 1"
    by (intro length_fmt_u) simp_all
  ultimately show ?thesis using assms by (simp add: Let_def)
qed

lemma length_fmt_1f: "rate_ok st \<Longrightarrow> length (fmt_1f (tx_rate st)) \<le> 7"
  by (cases "tx_rate st") (simp_all add: rate_ok_def length_fmt_1f_Dbl del: fmt_1f.simps(1))

text \<open>The signal strength is an \<open>int\<close>, whatever the stack held.\<close>

definition rssi_int :: "sta_statistics \<Rightarrow> bool" where
  "rssi_int st \<longleftrightarrow> -2147483648 \<le> rssi st \<and> rssi st \<le> 2147483647"

lemma length_reserved_block:
  "length (concat (map fst (reserved_block label 0 16 rs))) = length label + 37"
  "length (concat (map fst (reserved_block label 16 32 rs))) = length label + 37"
  by (simp_all add: reserved_block_def upt_conv_Cons length_fmt_02X EOL_def)

lemma length_stat_line: "length v \<le> k \<Longrightarrow> length (stat_line name v) \<le> length name + k + 2"
  by (simp add: stat_line_def EOL_def)

lemma stats_text_le:
  assumes "length (addr st) = ETH_ALEN" and "rssi_int st" and "rate_ok st"
  shows "length (stats_text st) \<le> 600"
proof -
  have "length (mac_str (addr st)) = 17"
    using assms(1) length_mac_str [of "addr st"] by (cases "addr st") (simp_all add: ETH_ALEN_def)
  moreover have "length (fmt_d (rssi st)) \<le> 11" using assms by (intro length_fmt_d) (simp_all add: rssi_int_def)
  moreover have "length (fmt_1f (tx_rate st)) \<le> 7" using assms by (intro length_fmt_1f)
  moreover note length_fmt_d_byte [of "link_score st"] length_fmt_d_byte [of "per st"]
    length_fmt_08X [of "phy_mode st"] length_fmt_08X [of "flag st"]
    length_fmt_d_sint [of "tx_total_cnt st"] length_fmt_d_sint [of "tx_exc_threshold_cnt st"]
    length_fmt_d_sint [of "tx_fail_cnt st"] length_fmt_d_sint [of "tx_timeout_cnt st"]
    length_fmt_d_sint [of "tx_avg_process_time st"] length_fmt_d_sint [of "tx_avg_air_time st"]
    length_fmt_tc [of "tc_buf_full_cnt st"] length_fmt_tc [of "tc_que_len st"]
    length_fmt_tc [of "tc_avg_que_len st"] length_fmt_tc [of "tc_cur_que_len st"]
  ultimately have lines: "length (concat (stats_lines st)) \<le> 489"
    by (simp add: stats_lines_def stat_line_def EOL_def)
  have "length (stats_text st) = length (concat (stats_lines st)) + 47 + 47 + 5"
    by (simp add: stats_text_def stats_pieces_def length_reserved_block EOL_def comp_def del: length_concat)
  with lines show ?thesis by simp
qed

section \<open>Properties\<close>

lemma print_sta_statistics_chain:
  assumes "n \<le> length buf"
  obtains ok pos mem where "emit_all n (map fst (stats_pieces st)) 0 buf = (ok, pos, mem)"
    and "print_sta_statistics st buf n = Inr (if ok then int pos else 0, mem)"
proof -
  obtain ok pos mem where e: "emit_all n (map fst (stats_pieces st)) 0 buf = (ok, pos, mem)"
    by (metis surj_pair)
  with that [OF e] show thesis
    using snprintf_chain_inside [OF _ assms, of 0 "map fst (stats_pieces st)"]
    by (simp add: print_sta_statistics_def)
qed

text \<open>
  C25: on a buffer that is as long as the caller says the station report does not fault and is all
  or nothing: when the whole text fits with its NUL the buffer starts with it and its length is
  returned, otherwise 0 is returned; in both cases no byte past the length the caller gave is
  written. A buffer of more than 600 bytes gets the report whole if the rate of the structure is
  a half of a 16-bit number or no number at all (the address has six bytes and the signal strength
  is an \<open>int\<close>). The structure is a local variable nothing initialises, so without a reply that
  carries the rate the last condition need not hold.
\<close>

theorem print_sta_statistics_correct:
  assumes "n \<le> length buf"
  shows "\<exists>ret buf'. print_sta_statistics st buf n = Inr (ret, buf')
      \<and> length buf' = length buf \<and> drop n buf' = drop n buf
      \<and> (if length (stats_text st) < n
         then ret = int (length (stats_text st))
              \<and> take (length (stats_text st) + 1) buf' = stats_text st @ [NUL]
         else ret = 0)
      \<and> (length (addr st) = ETH_ALEN \<and> rssi_int st \<and> rate_ok st \<and> 600 < n
         \<longrightarrow> ret = int (length (stats_text st)) \<and> 0 < ret)"
proof -
  obtain ok pos mem where e: "emit_all n (map fst (stats_pieces st)) 0 buf = (ok, pos, mem)"
    and p: "print_sta_statistics st buf n = Inr (if ok then int pos else 0, mem)"
    using print_sta_statistics_chain [OF assms] .
  note e0 = emit_all_from_0 [OF stats_pieces_not_Nil assms e, folded stats_text_def]
  have "0 < length (stats_text st)"
    by (simp add: stats_text_def stats_pieces_def)
  then show ?thesis
    using e0 stats_text_le [of st] by (auto simp: p)
qed

theorem print_sta_statistics_correct_witness:
  "\<exists>ret buf'. print_sta_statistics demo_stats (replicate 700 NUL) 700 = Inr (ret, buf') \<and> 0 < ret \<and> length buf' = 700"
proof -
  have "length (addr demo_stats) = ETH_ALEN" "rssi_int demo_stats" "rate_ok demo_stats"
    by (simp_all add: demo_stats_def ETH_ALEN_def rssi_int_def rate_ok_def)
  then show ?thesis
    using print_sta_statistics_correct [of 700 "replicate 700 NUL" demo_stats] by fastforce
qed

text \<open>
  C26: the link report keeps whole lines: it returns the length of the longest run of leading
  lines that fits, which is what the buffer starts with, and never writes past the length the
  caller gave.
\<close>

theorem link_detect_report:
  assumes "drv bss = Some d" "nl_global d = Some g" and "env_accepts env (0, msgs)" and "CONFIG_MTK_POOR_LINK_DETECT cfg"
    and "n \<le> length buf"
  shows "\<exists>pos buf' tr' k. wpa_driver_get_sta_link_detect cfg abi nl env (Some bss) buf n stack tr
        = (Inr (int pos, buf'), tr')
     \<and> (let lines = link_detect_lines (fold (testmode_sta_link_detect_handler nl) msgs stack) in
        k \<le> length lines \<and> pos = length (concat (take k lines))
        \<and> take pos buf' = concat (take k lines) \<and> (k = 0 \<or> pos < n)
        \<and> (k < length lines \<longrightarrow> n \<le> length (concat (take (Suc k) lines))))
     \<and> length buf' = length buf \<and> drop n buf' = drop n buf"
proof -
  define st where "st = fold (testmode_sta_link_detect_handler nl) msgs stack"
  obtain ok pos mem where e: "emit_all n (link_detect_lines st) 0 buf = (ok, pos, mem)"
    by (metis surj_pair)
  have ne: "link_detect_lines st \<noteq> []" by (simp add: link_detect_lines_def)
  obtain ext where "wpa_driver_nl80211_testmode cfg abi nl env (Some bss) (link_detect_data abi stack)
        (sizeof_link_detect_params abi) tr
      = (tm_result cfg abi nl (link_detect_data abi stack) (0, msgs), tr @ ext)"
    using testmode_accepted [OF assms(1-3)] by metis
  then have "wpas_get_sta_link_detect cfg abi nl env (Some bss) stack tr = (Inr (0, st), tr @ ext)"
    using assms(4)
    by (simp add: wpas_get_sta_link_detect_def tm_result_requests st_def) (simp add: link_detect_data_def)
  then have "wpa_driver_get_sta_link_detect cfg abi nl env (Some bss) buf n stack tr
      = (Inr (int pos, mem), tr @ ext)"
    using snprintf_chain_inside [OF _ assms(5), of 0 "link_detect_lines st"]
    by (simp add: wpa_driver_get_sta_link_detect_def e)
  moreover obtain k where "k \<le> length (link_detect_lines st)"
    "pos = length (concat (take k (link_detect_lines st)))"
    "take pos mem = concat (take k (link_detect_lines st))" "k = 0 \<or> pos < n"
    "k < length (link_detect_lines st) \<longrightarrow> n \<le> length (concat (take (Suc k) (link_detect_lines st)))"
    using emit_all_prefix [OF _ assms(5) e] by auto
  ultimately show ?thesis
    using emit_len [OF ne assms(5) e] emit_outside [OF ne assms(5) e]
    unfolding st_def [symmetric] Let_def by blast
qed

definition demo_link :: sta_link_detect where
  "demo_link = \<lparr>ld_tx_fail_cnt = 1, ld_tx_retry_cnt = 2, ld_tx_multi_retry_cnt = 3, ld_ack_fail_cnt = 4,
     ld_fcs_err_cnt = 5, ld_tx_cnt = 6, ld_tx_ok_cnt = 7, ld_tx_os_cnt = 8\<rparr>"

theorem link_detect_report_witness:
  "\<exists>pos buf' tr'. wpa_driver_get_sta_link_detect demo_cfg demo_abi tlv_libnl (demo_env [])
       (Some demo_bss) (replicate 20 NUL) 20 demo_link [] = (Inr (int pos, buf'), tr')
     \<and> length buf' = 20"
proof -
  have c: "CONFIG_MTK_POOR_LINK_DETECT demo_cfg" by (simp add: demo_cfg_def)
  show ?thesis
    using link_detect_report [OF demo_bss_drv demo_env_accepts c, where n = 20 and buf = "replicate 20 NUL"
        and nl = tlv_libnl and abi = demo_abi and stack = demo_link and tr = "[]" and msgs = "[]"]
    by auto
qed

text \<open>
  A statistics request for text that is no address returns -1 with the channel and the buffer
  untouched; a kernel error returns -1 with the buffer untouched; otherwise the report of the
  structure the replies were read into is printed. When the kernel sends no reply message this
  structure is the uninitialised local variable, so the report shows what the stack held.
\<close>

theorem get_sta_statistics_paths:
  assumes "drv bss = Some d" "nl_global d = Some g" and "env_accepts env (ret, msgs)"
  shows "(hwaddr_aton abi sta = None \<longrightarrow>
        wpa_driver_get_sta_statistics cfg abi nl env (Some bss) sta buf n stack tr = (Inr (-1, buf), tr))
   \<and> (hwaddr_aton abi sta \<noteq> None \<longrightarrow>
        fst (wpa_driver_get_sta_statistics cfg abi nl env (Some bss) sta buf n stack tr) =
          (if ret < 0 then Inr (-1, buf)
               else print_sta_statistics (fold (testmode_sta_statistics_handler nl) msgs stack) buf n))
   \<and> (hwaddr_aton abi sta \<noteq> None \<and> 0 \<le> ret \<and> msgs = [] \<longrightarrow>
        fst (wpa_driver_get_sta_statistics cfg abi nl env (Some bss) sta buf n stack tr) =
          print_sta_statistics stack buf n)"
proof -
  have "fst (wpas_get_sta_statistics cfg abi nl env (Some bss) a stack tr)
      = Inr (ret, fold (testmode_sta_statistics_handler nl) msgs stack)" for a
    by (rule testmode_accepted [OF assms, of cfg abi nl "sta_statistics_data a stack"
          sizeof_get_sta_statistics_params tr])
      (simp add: wpas_get_sta_statistics_def tm_result_requests, simp add: sta_statistics_data_def)
  then show ?thesis
    by (auto simp: wpa_driver_get_sta_statistics_def case_prod_beta)
qed

theorem get_sta_statistics_paths_witness:
  "fst (wpa_driver_get_sta_statistics demo_cfg demo_abi tlv_libnl (demo_env []) (Some demo_bss)
       ''02:00:5e:10:00:ff'' (replicate 700 NUL) 700 demo_stats [])
     = print_sta_statistics demo_stats (replicate 700 NUL) 700"
proof -
  have "hwaddr_aton demo_abi ''02:00:5e:10:00:ff'' \<noteq> None" by code_simp
  then show ?thesis
    using get_sta_statistics_paths [OF demo_bss_drv demo_env_accepts, where cfg = demo_cfg and abi = demo_abi
        and nl = tlv_libnl and tr = "[]" and msgs = "[]"]
    by simp
qed

text \<open>
  Every argument of the report reads inside the structure but one: the newline after the
  second block of reserved bytes is printed with \<open>reserved[32]\<close> as an unused argument, one past
  the end of the array.
\<close>

theorem reserved_read_past_end:
  assumes "length (reserved st) = 32"
  shows "filter (\<lambda>p. case snd p of None \<Rightarrow> False | Some i \<Rightarrow> length (reserved st) \<le> i) (stats_pieces st)
     = [(EOL, Some 32)]"
  using assms by (simp add: stats_pieces_def stats_lines_def reserved_block_def upt_conv_Cons)

theorem reserved_read_past_end_witness:
  "length (reserved demo_stats) = 32 \<and>
   filter (\<lambda>p. case snd p of None \<Rightarrow> False | Some i \<Rightarrow> length (reserved demo_stats) \<le> i) (stats_pieces demo_stats)
     = [(EOL, Some 32)]"
proof
  show l: "length (reserved demo_stats) = 32" by (simp add: demo_stats_def)
  show "filter (\<lambda>p. case snd p of None \<Rightarrow> False | Some i \<Rightarrow> length (reserved demo_stats) \<le> i)
      (stats_pieces demo_stats) = [(EOL, Some 32)]"
    by (rule reserved_read_past_end [OF l])
qed

end
