(* ===== verification/Driver_Correct.thy ===== *)
theory Driver_Correct
  imports Driver_Cmd Sta_Stats_Correct
begin

text \<open>
  Correctness of the private command interface: what every command keeps, which commands can
  fault, the effect of the \<open>mcc\<close> loop on the linked list of interfaces, the requests the receive
  filter commands send, and the order of the calls that stop the interface.
\<close>

section \<open>What holds of every branch holds of the dispatch\<close>

locale command_contract =
  fixes cfg :: wifi_cfg and abi :: wifi_abi and nl :: "('m, 'a) libnl" and env :: "'m wifi_env"
    and bss :: i802_bss and d :: drv_data and wpa_s :: "nat result" and buf_len :: nat
    and stack1 :: sta_statistics and stack2 :: sta_link_detect and s :: cmd_state
    and Q :: "cmd_state result \<Rightarrow> bool"
  assumes keep: "Q (Inr s)"
    and zero: "Q (Inr (s\<lparr>dc_ret := 0\<rparr>))"
    and stats: "strncasecmp_eq (dc_cmd s) ''GET_STA_STATISTICS '' 19 \<Longrightarrow>
       Q (fst (dc_get_sta_statistics cfg abi nl env wpa_s buf_len stack1 s tr))"
    and link: "CONFIG_MTK_POOR_LINK_DETECT cfg \<Longrightarrow> strncasecmp_eq (dc_cmd s) ''GET_STA_LINK_DETECT'' 19 \<Longrightarrow>
       Q (fst (dc_get_sta_link_detect cfg abi nl env wpa_s buf_len stack2 s tr))"
    and macaddr: "strncmp_eq (dc_cmd s) ''MACADDR'' 7 \<Longrightarrow> Q (dc_macaddr wpa_s buf_len s)"
    and country: "strncasecmp_eq (dc_cmd s) ''COUNTRY'' 7 \<Longrightarrow> Q (fst (dc_country env d s tr))"
    and iface: "Q (fst (dc_iface env d up s tr))"
    and stop: "Q (fst (dc_stop abi env wpa_s d s tr))"
    and sw_cmd: "Q (fst (dc_sw_cmd cfg abi nl env bss adr dat s tr))"
    and sw_number: "Q (fst (dc_sw_number cfg abi nl env bss n adr off s tr))"
    and block: "Q (fst (dc_sta_block cfg abi nl env bss blk s tr))"
    and wapi_key: "CONFIG_WAPI_SUPPORT cfg \<Longrightarrow> strncasecmp_eq (dc_cmd s) ''set-wapi-key'' 12 \<Longrightarrow>
       Q (fst (dc_set_wapi_key cfg abi nl env bss s tr))"
    and wapi_msg: "CONFIG_WAPI_SUPPORT cfg \<Longrightarrow> strncasecmp_eq (dc_cmd s) ''wapi-msg-send'' 13 \<Longrightarrow>
       Q (dc_wapi_msg_send bss s)"
    and mcc: "CONFIG_MTK_P2P_SIGMA cfg \<Longrightarrow> strncasecmp_eq (dc_cmd s) ''mcc'' 3 \<Longrightarrow> dc_mcc abi wpa_s s = Some r \<Longrightarrow> Q r"
    and opps: "CONFIG_MTK_P2P_SIGMA cfg \<Longrightarrow> strncmp_eq (dc_cmd s) ''p2p_set_opps '' 13 \<Longrightarrow>
       Q (fst (dc_p2p (p2p_ctrl_iface_set_opps cfg abi nl env) 13 wpa_s s tr))"
    and power_save: "CONFIG_MTK_P2P_SIGMA cfg \<Longrightarrow>
       Q (fst (dc_p2p (p2p_ctrl_iface_set_power_save cfg abi nl env) 19 wpa_s s tr))"
    and sleep: "CONFIG_MTK_P2P_SIGMA cfg \<Longrightarrow> strncmp_eq (dc_cmd s) ''p2p_set_sleep '' 14 \<Longrightarrow>
       Q (fst (dc_p2p (p2p_ctrl_iface_set_sleep cfg abi nl env) 14 wpa_s s tr))"
    and sleep_all: "CONFIG_MTK_P2P_SIGMA cfg \<Longrightarrow>
       Q (fst (dc_p2p_sleep_all cfg abi nl env wpa_s s tr))"
begin

lemmas branches = keep zero stats [of tr for tr] link macaddr country iface stop sw_cmd sw_number block
  wapi_key wapi_msg mcc opps power_save sleep sleep_all

lemma dispatch:
  assumes "driver_cmd_dispatch cfg abi nl env bss d wpa_s buf_len stack1 stack2 s tr = Some r"
  shows "Q (fst r)"
proof -
  define Q' where "Q' = (\<lambda>x :: 'm cmd_result option. \<forall>r. x = Some r \<longrightarrow> Q (fst r))"
  have some: "Q' (Some r) \<longleftrightarrow> Q (fst r)" for r by (cases r) (auto simp: Q'_def)
  have m: "CONFIG_MTK_P2P_SIGMA cfg \<Longrightarrow> strncasecmp_eq (dc_cmd s) ''mcc'' 3 \<Longrightarrow>
      Q' (map_option (\<lambda>r. (r, tr)) (dc_mcc abi wpa_s s))"
    using mcc by (auto simp: Q'_def)
  have "Q' (driver_cmd_dispatch cfg abi nl env bss d wpa_s buf_len stack1 stack2 s tr)"
    unfolding driver_cmd_dispatch_def Let_def
    by (simp add: some branches m)
  with assms show ?thesis by (simp add: some)
qed

end

section \<open>Nothing is written past the caller's buffer\<close>

definition buf_kept :: "nat \<Rightarrow> cmd_state \<Rightarrow> cmd_state result \<Rightarrow> bool" where
  "buf_kept n s r \<longleftrightarrow> (\<forall>buf s'. dc_buf s = Text buf \<longrightarrow> n \<le> length buf \<longrightarrow> r = Inr s' \<longrightarrow>
     (\<exists>b. dc_buf s' = Text b \<and> length b = length buf \<and> drop n b = drop n buf))"

lemma buf_keptI: "(\<And>s'. r = Inr s' \<Longrightarrow> dc_buf s' = dc_buf s) \<Longrightarrow> buf_kept n s r"
  by (auto simp: buf_kept_def)

lemma print_sta_statistics_bounds:
  assumes "n \<le> length buf" and "print_sta_statistics st buf n = Inr (ret, b)"
  shows "length b = length buf \<and> drop n b = drop n buf"
proof -
  obtain ok pos mem where e: "emit_all n (map fst (stats_pieces st)) 0 buf = (ok, pos, mem)"
    and p: "print_sta_statistics st buf n = Inr (if ok then int pos else 0, mem)"
    using print_sta_statistics_chain [OF assms(1)] .
  show ?thesis
    using emit_len [OF stats_pieces_not_Nil assms(1) e] emit_outside [OF stats_pieces_not_Nil assms(1) e]
      assms(2) p by simp
qed

lemma get_sta_statistics_buf:
  assumes "fst (wpa_driver_get_sta_statistics cfg abi nl env p a buf n stack tr) = Inr (ret, b)"
  shows "b = buf \<or> (\<exists>st r. print_sta_statistics st buf n = Inr (r, b))"
proof (cases "hwaddr_aton abi a")
  case None
  with assms show ?thesis by (simp add: wpa_driver_get_sta_statistics_def)
next
  case (Some y)
  obtain r tr1 where q: "wpas_get_sta_statistics cfg abi nl env p (Some y) stack tr = (r, tr1)"
    by fastforce
  show ?thesis
  proof (cases r)
    case (Inr x)
    with assms Some q show ?thesis
      by (cases x) (auto simp: wpa_driver_get_sta_statistics_def split: if_splits)
  qed (use assms Some q in \<open>simp add: wpa_driver_get_sta_statistics_def\<close>)
qed

lemma get_sta_link_detect_buf:
  assumes "fst (wpa_driver_get_sta_link_detect cfg abi nl env p buf n stack tr) = Inr (ret, b)"
  shows "b = buf \<or> (\<exists>st ok pos. snprintf_chain n (link_detect_lines st) 0 buf = Inr (ok, pos, b))"
proof -
  obtain r tr1 where q: "wpas_get_sta_link_detect cfg abi nl env p stack tr = (r, tr1)"
    by fastforce
  show ?thesis
  proof (cases r)
    case (Inr x)
    with assms q show ?thesis
      by (cases x) (auto simp: wpa_driver_get_sta_link_detect_def split: if_splits sum.splits)
  qed (use assms q in \<open>simp add: wpa_driver_get_sta_link_detect_def\<close>)
qed

lemma buf_kept_stats: "buf_kept n s (fst (dc_get_sta_statistics cfg abi nl env wpa_s n stack s tr))"
  unfolding buf_kept_def
proof (intro allI impI)
  fix buf s'
  assume "dc_buf s = Text buf" and n: "n \<le> length buf"
    and "fst (dc_get_sta_statistics cfg abi nl env wpa_s n stack s tr) = Inr s'"
  then obtain b where b: "dc_buf s' = Text b" and "b = buf \<or> (\<exists>st r. print_sta_statistics st buf n = Inr (r, b))"
    by (auto simp: dc_get_sta_statistics_def dc_set_buf_def split: sum.splits
        dest!: get_sta_statistics_buf) blast
  with n show "\<exists>b. dc_buf s' = Text b \<and> length b = length buf \<and> drop n b = drop n buf"
    using print_sta_statistics_bounds [OF n] by auto
qed

lemma buf_kept_link: "buf_kept n s (fst (dc_get_sta_link_detect cfg abi nl env wpa_s n stack s tr))"
  unfolding buf_kept_def
proof (intro allI impI)
  fix buf s'
  assume "dc_buf s = Text buf" and n: "n \<le> length buf"
    and "fst (dc_get_sta_link_detect cfg abi nl env wpa_s n stack s tr) = Inr s'"
  then obtain b where b: "dc_buf s' = Text b"
    and "b = buf \<or> (\<exists>st ok pos. snprintf_chain n (link_detect_lines st) 0 buf = Inr (ok, pos, b))"
    by (auto simp: dc_get_sta_link_detect_def dc_set_buf_def split: sum.splits
        dest!: get_sta_link_detect_buf) blast
  moreover have "link_detect_lines st \<noteq> []" for st by (simp add: link_detect_lines_def)
  moreover have "snprintf_chain n ss 0 buf = Inr (emit_all n ss 0 buf)" for ss
    using n by (intro snprintf_chain_inside) simp_all
  ultimately show "\<exists>b. dc_buf s' = Text b \<and> length b = length buf \<and> drop n b = drop n buf"
    using n b emit_len emit_outside by (metis sum.inject(2))
qed

lemma buf_kept_macaddr: "buf_kept n s (dc_macaddr wpa_s n s)"
  by (auto simp: buf_kept_def dc_macaddr_def Let_def snprintf_at_inside length_put_text put_text_tail
      split: sum.splits)

lemma dc_set_ret_buf: "dc_set_ret s r = Inr s' \<Longrightarrow> dc_buf s' = dc_buf s"
  by (auto simp: dc_set_ret_def split: sum.splits)

lemma dc_set_cmd_buf: "dc_set_cmd s n r = Inr s' \<Longrightarrow> dc_buf s' = dc_buf s"
  by (auto simp: dc_set_cmd_def split: sum.splits)

lemma dc_mcc_buf: "dc_mcc abi wpa_s s = Some (Inr s') \<Longrightarrow> dc_buf s' = dc_buf s"
  apply (auto simp: dc_mcc_def split: sum.splits if_splits option.splits)
  subgoal for w n v y g z by (cases z) auto
  done

interpretation cbounds: command_contract cfg abi nl env bss d wpa_s n stack1 stack2 s "buf_kept n s"
  for cfg abi nl env bss d wpa_s n stack1 stack2 s
proof (unfold_locales, goal_cases)
  case 3 show ?case by (rule buf_kept_stats)
next
  case 4 show ?case by (rule buf_kept_link)
next
  case 5 show ?case by (rule buf_kept_macaddr)
qed (rule buf_keptI, auto simp: dc_country_def dc_iface_def dc_stop_def dc_sw_cmd_def dc_sw_number_def
      dc_sta_block_def dc_set_wapi_key_def dc_wapi_msg_send_def dc_p2p_def dc_p2p_sleep_all_def Let_def
      case_prod_beta dest: dc_set_ret_buf dc_set_cmd_buf dc_mcc_buf
      split: if_splits sum.splits cmd_buf.splits option.splits)+

section \<open>The walk over the interfaces\<close>

fun iface_chain :: "wpa_heap \<Rightarrow> nat option \<Rightarrow> nat list \<Rightarrow> bool" where
  "iface_chain h p [] = (p = None)"
| "iface_chain h p (a # as) = (p = Some a \<and>
     (case wpas h a of None \<Rightarrow> False | Some w \<Rightarrow> iface_chain h (next_iface w) as))"

text \<open>
  The Wi-Fi Direct configuration an interface reaches through \<open>global->p2p->cfg\<close>, and that every
  pointer on the way is null or points to a live object.
\<close>

definition iface_cfg :: "wpa_heap \<Rightarrow> wpa_supplicant \<Rightarrow> nat option" where
  "iface_cfg h w = Option.bind (Option.bind (Option.bind (Option.bind (global w) (globals h)) p2p) (p2ps h)) p2p_cfg"

definition iface_ok :: "wpa_heap \<Rightarrow> wpa_supplicant \<Rightarrow> bool" where
  "iface_ok h w \<longleftrightarrow> (case Option.bind (global w) (globals h) of None \<Rightarrow> False
     | Some g \<Rightarrow> (case p2p g of None \<Rightarrow> True
        | Some p \<Rightarrow> (case p2ps h p of None \<Rightarrow> False
           | Some pd \<Rightarrow> (case p2p_cfg pd of None \<Rightarrow> True | Some c \<Rightarrow> cfgs h c \<noteq> None))))"

definition ifaces_ok :: "wpa_heap \<Rightarrow> nat list \<Rightarrow> bool" where
  "ifaces_ok h as \<longleftrightarrow> list_all (\<lambda>a. case wpas h a of None \<Rightarrow> False | Some w \<Rightarrow> iface_ok h w) as"

definition iface_cfgs :: "wpa_heap \<Rightarrow> nat list \<Rightarrow> nat list" where
  "iface_cfgs h as = concat (map (\<lambda>a. case Option.bind (wpas h a) (iface_cfg h) of None \<Rightarrow> [] | Some c \<Rightarrow> [c]) as)"

text \<open>The heap after a walk over \<open>as\<close>, described without the walk.\<close>

definition mcc_effect :: "wifi_abi \<Rightarrow> bool \<Rightarrow> nat list \<Rightarrow> wpa_heap \<Rightarrow> wpa_heap" where
  "mcc_effect abi on as h = h\<lparr>
     wpas := (\<lambda>a. if a \<in> set as then map_option (mcc_iface abi on) (wpas h a) else wpas h a),
     cfgs := (\<lambda>c. if c \<in> set (iface_cfgs h as)
                 then map_option (\<lambda>cf. cf\<lparr>concurrent_operations := (if on then 1 else 0)\<rparr>) (cfgs h c)
                 else cfgs h c)\<rparr>"

lemma mcc_iface_simps [simp]:
  "next_iface (mcc_iface abi on w) = next_iface w" "global (mcc_iface abi on w) = global w"
  "drv_priv (mcc_iface abi on w) = drv_priv w"
  "mcc_iface abi on (mcc_iface abi on w) = mcc_iface abi on w"
  by (simp_all add: mcc_iface_def ac_simps)

lemma mcc_body_ok:
  assumes "wpas h a = Some w" and "iface_ok h w"
  shows "mcc_body abi on a h = Inr (mcc_effect abi on [a] h, next_iface w)"
  using assms
  by (auto simp: mcc_body_def mcc_p2p_def iface_ok_def deref_def mcc_effect_def iface_cfgs_def iface_cfg_def
      fun_eq_iff bind_eq_Some_conv split: option.splits intro!: wpa_heap.equality)

lemma iface_cfg_effect [simp]:
  "iface_cfg (mcc_effect abi on as h) w = iface_cfg h w" "iface_cfg h (mcc_iface abi on w) = iface_cfg h w"
  by (simp_all add: iface_cfg_def mcc_effect_def)

lemma wpas_effect:
  "wpas (mcc_effect abi on as h) a = (if a \<in> set as then map_option (mcc_iface abi on) (wpas h a) else wpas h a)"
  by (simp add: mcc_effect_def)

lemma iface_cfgs_effect [simp]: "iface_cfgs (mcc_effect abi on as h) bs = iface_cfgs h bs"
proof -
  have "Option.bind (wpas (mcc_effect abi on as h) a) (iface_cfg (mcc_effect abi on as h))
      = Option.bind (wpas h a) (iface_cfg h)" for a
    by (cases "wpas h a") (simp_all add: wpas_effect)
  then show ?thesis by (simp add: iface_cfgs_def)
qed

lemma iface_ok_effect [simp]: "iface_ok (mcc_effect abi on as h) w = iface_ok h w"
  by (simp add: iface_ok_def mcc_effect_def split: option.split)

lemma iface_ok_iface [simp]: "iface_ok h (mcc_iface abi on w) = iface_ok h w"
  by (simp add: iface_ok_def)

lemma ifaces_ok_effect [simp]: "ifaces_ok (mcc_effect abi on as h) bs = ifaces_ok h bs"
  by (induction bs) (auto simp: ifaces_ok_def wpas_effect split: option.split)

lemma iface_chain_effect [simp]: "iface_chain (mcc_effect abi on as h) p bs = iface_chain h p bs"
  by (induction bs arbitrary: p) (auto simp: wpas_effect split: option.splits)

lemma mcc_effect_Nil: "mcc_effect abi on [] h = h"
  by (simp add: mcc_effect_def iface_cfgs_def)

lemma iface_cfgs_Cons: "set (iface_cfgs h (a # as)) = set (iface_cfgs h [a]) \<union> set (iface_cfgs h as)"
  by (simp add: iface_cfgs_def)

lemma mcc_effect_Cons: "mcc_effect abi on as (mcc_effect abi on [a] h) = mcc_effect abi on (a # as) h"
proof -
  define e1 where "e1 = mcc_effect abi on [a] h"
  have "mcc_effect abi on as e1 = e1\<lparr>
     wpas := (\<lambda>a. if a \<in> set as then map_option (mcc_iface abi on) (wpas e1 a) else wpas e1 a),
     cfgs := (\<lambda>c. if c \<in> set (iface_cfgs h as)
                 then map_option (\<lambda>cf. cf\<lparr>concurrent_operations := (if on then 1 else 0)\<rparr>) (cfgs e1 c)
                 else cfgs e1 c)\<rparr>"
    unfolding mcc_effect_def [of abi on as e1] by (simp add: e1_def)
  also have "\<dots> = mcc_effect abi on (a # as) h"
    unfolding e1_def mcc_effect_def iface_cfgs_Cons [of h a as]
    by (auto intro!: wpa_heap.equality simp: fun_eq_iff option.map_comp comp_def)
  finally show ?thesis by (simp add: e1_def)
qed

text \<open>On a list that ends, the walk ends, and has exactly the described effect.\<close>

lemma mcc_loop_chain:
  "iface_chain h p as \<Longrightarrow> ifaces_ok h as \<Longrightarrow> mcc_loop abi on p h = Some (Inr (mcc_effect abi on as h))"
proof (induction as arbitrary: p h)
  case Nil
  then show ?case by (subst mcc_loop.simps) (simp add: mcc_effect_Nil)
next
  case (Cons a as)
  then obtain w where w: "p = Some a" "wpas h a = Some w" "iface_chain h (next_iface w) as" "iface_ok h w"
      "ifaces_ok h as"
    by (auto simp: ifaces_ok_def split: option.splits)
  then have "mcc_loop abi on p h = mcc_loop abi on (next_iface w) (mcc_effect abi on [a] h)"
    by (subst mcc_loop.simps) (simp add: mcc_body_ok)
  also have "\<dots> = Some (Inr (mcc_effect abi on as (mcc_effect abi on [a] h)))"
    using w by (intro Cons.IH) simp_all
  finally show ?case by (simp add: mcc_effect_Cons)
qed

text \<open>On a list that runs into a cycle it never ends.\<close>

lemma mcc_loop_self:
  assumes "wpas h a = Some w" and "next_iface w = Some a" and "iface_ok h w"
  shows "mcc_loop abi on (Some a) h = None"
proof -
  define self where "self = (\<lambda>p h. p = Some a \<and> (\<exists>w. wpas h a = Some w \<and> next_iface w = Some a \<and> iface_ok h w))"
  have "\<not> self p h" if "mcc_loop abi on p h = Some r" for p h r
  proof (rule mcc_loop.raw_induct [where P = "\<lambda>_ _ p h _. \<not> self p h", OF _ that], goal_cases)
    case (1 f abi on p h r)
    show ?case
    proof
      assume "self p h"
      then obtain w where w: "p = Some a" "wpas h a = Some w" "next_iface w = Some a" "iface_ok h w"
        by (auto simp: self_def)
      then have "self (Some a) (mcc_effect abi on [a] h)" by (simp add: self_def wpas_effect)
      moreover have "f abi on (Some a) (mcc_effect abi on [a] h) = Some r"
        using "1"(2) w by (simp add: mcc_body_ok)
      ultimately show False using "1"(1) by blast
    qed
  qed
  with assms show ?thesis by (cases "mcc_loop abi on (Some a) h") (auto simp: self_def)
qed

section \<open>Commands that cannot fault\<close>

text \<open>
  What a command asks of its caller. The three reports need a text buffer of the length the caller
  passes; a country command carries one to two characters; the two WAPI commands are given the
  structure they read, the first one with lengths its request has room for; \<open>mcc\<close> with an argument needs
  a list of interfaces that ends; the two Wi-Fi Direct commands that write through the result of
  \<open>strchr\<close> need all their arguments.
\<close>

definition command_ok :: "wifi_cfg \<Rightarrow> wifi_abi \<Rightarrow> nat \<Rightarrow> wpa_supplicant \<Rightarrow> cmd_state \<Rightarrow> bool" where
  "command_ok cfg abi n w s \<longleftrightarrow> (let cmd = dc_cmd s; h = dc_heap s in
     (strncasecmp_eq cmd ''GET_STA_STATISTICS '' 19 \<or> strncasecmp_eq cmd ''GET_STA_LINK_DETECT'' 19
        \<or> strncmp_eq cmd ''MACADDR'' 7 \<longrightarrow> (\<exists>buf. dc_buf s = Text buf \<and> n \<le> length buf))
   \<and> (strncasecmp_eq cmd ''COUNTRY'' 7 \<longrightarrow> 8 \<le> length cmd \<and> length cmd \<le> 10)
   \<and> (CONFIG_WAPI_SUPPORT cfg \<and> strncasecmp_eq cmd ''set-wapi-key'' 12 \<longrightarrow>
        (\<exists>a. dc_buf s = Wapi_key_param a \<and> wapi_args_ok abi a))
   \<and> (CONFIG_WAPI_SUPPORT cfg \<and> strncasecmp_eq cmd ''wapi-msg-send'' 13 \<longrightarrow>
        (\<exists>len. dc_buf s = Wapi_msg_send_param len))
   \<and> (CONFIG_MTK_P2P_SIGMA cfg \<and> strncasecmp_eq cmd ''mcc'' 3 \<and> CHR '' '' \<in> set cmd \<longrightarrow>
        (\<exists>g gl as. global w = Some g \<and> globals h g = Some gl \<and> iface_chain h (ifaces gl) as \<and> ifaces_ok h as))
   \<and> (CONFIG_MTK_P2P_SIGMA cfg \<and> strncmp_eq cmd ''p2p_set_opps '' 13 \<longrightarrow>
        (case split_at (CHR '' '') (drop 13 cmd) of None \<Rightarrow> False
         | Some (a, str) \<Rightarrow> hwaddr_aton abi str = None \<or> CHR '' '' \<in> set str))
   \<and> (CONFIG_MTK_P2P_SIGMA cfg \<and> strncmp_eq cmd ''p2p_set_sleep '' 14 \<longrightarrow>
        hwaddr_aton abi (drop 14 cmd) = None \<or> CHR '' '' \<in> set (drop 14 cmd)))"

text \<open>
  A station's interface: the driver and its shared data are there, and \<open>wpa_s\<close> points to a live
  object that is bound to such a driver.
\<close>

definition bss_ready :: "i802_bss \<Rightarrow> bool" where
  "bss_ready bss \<longleftrightarrow> (\<exists>d g. drv bss = Some d \<and> nl_global d = Some g)"

definition station_ok :: "wifi_cfg \<Rightarrow> wifi_abi \<Rightarrow> i802_bss \<Rightarrow> drv_data \<Rightarrow> nat result \<Rightarrow> nat \<Rightarrow> cmd_state \<Rightarrow> bool" where
  "station_ok cfg abi bss d wpa_s n s \<longleftrightarrow> bss_ready bss \<and> (\<exists>g. nl_global d = Some g)
     \<and> (\<exists>w b. dc_wpa_s s wpa_s = Inr w \<and> drv_priv w = Some b \<and> bss_ready b \<and> command_ok cfg abi n w s)"

definition returns_if :: "bool \<Rightarrow> cmd_state result \<Rightarrow> bool" where
  "returns_if ok r \<longleftrightarrow> (ok \<longrightarrow> (\<exists>s'. r = Inr s'))"

lemma returns_ifI: "(ok \<Longrightarrow> \<exists>s'. r = Inr s') \<Longrightarrow> returns_if ok r"
  by (simp add: returns_if_def)

lemma dc_wpa_s_Inl: "dc_wpa_s s wpa_s = Inr w \<Longrightarrow> \<exists>c. wpa_s = Inr c"
  by (auto simp: dc_wpa_s_def split: sum.splits)

lemma split_at_None: "split_at c s = None \<longleftrightarrow> c \<notin> set s"
  by (simp add: split_at_def)

lemma split_at_Some: "split_at c s = Some p \<Longrightarrow> c \<in> set s"
  by (simp add: split_at_def split: if_splits)

lemma get_sta_statistics_returns:
  assumes "bss_ready b" and "n \<le> length buf"
  shows "\<exists>x. fst (wpa_driver_get_sta_statistics cfg abi nl env (Some b) a buf n stack tr) = Inr x"
proof (cases "hwaddr_aton abi a")
  case (Some y)
  obtain ret st where "fst (wpas_get_sta_statistics cfg abi nl env (Some b) (Some y) stack tr) = Inr (ret, st)"
    using assms(1) stats_returns unfolding bss_ready_def by fastforce
  moreover obtain x where "print_sta_statistics st buf n = Inr x"
    using print_sta_statistics_chain [OF assms(2)] by metis
  ultimately show ?thesis using Some
    by (simp add: wpa_driver_get_sta_statistics_def case_prod_beta)
qed (simp add: wpa_driver_get_sta_statistics_def)

lemma get_sta_link_detect_returns:
  assumes "bss_ready b" and "n \<le> length buf"
  shows "\<exists>x. fst (wpa_driver_get_sta_link_detect cfg abi nl env (Some b) buf n stack tr) = Inr x"
proof -
  obtain ret st where "fst (wpas_get_sta_link_detect cfg abi nl env (Some b) stack tr) = Inr (ret, st)"
    using assms(1) link_returns unfolding bss_ready_def by fastforce
  moreover obtain x where "snprintf_chain n (link_detect_lines st) 0 buf = Inr x"
    using snprintf_chain_inside [OF _ assms(2)] by blast
  ultimately show ?thesis
    by (cases x) (simp add: wpa_driver_get_sta_link_detect_def case_prod_beta)
qed

lemma set_country_returns:
  assumes "length a \<le> 2"
  shows "\<exists>x. fst (wpa_driver_mediatek_set_country env d a tr) = Inr x"
  using assms by (simp add: wpa_driver_mediatek_set_country_def Let_def case_prod_beta)

lemma sta_block_returns:
  assumes "bss_ready bss"
  shows "\<exists>x. fst (wpa_driver_sta_block cfg abi nl env (Some bss) cmd tr) = Inr x"
    and "\<exists>x. fst (wpa_driver_sta_unblock cfg abi nl env (Some bss) cmd tr) = Inr x"
  using assms hotspot_returns
  by (auto simp: bss_ready_def wpa_driver_sta_block_def wpa_driver_sta_unblock_def split: option.split)

lemma dc_set_ret_Inr: "\<exists>x. fst (f tr) = Inr x \<Longrightarrow> \<exists>s'. fst (apfst (dc_set_ret s) (f tr)) = Inr s'"
  by (auto simp: dc_set_ret_def)

lemma dc_reports_return:
  assumes "station_ok cfg abi bss d wpa_s n s" and "dc_buf s = Text buf" "n \<le> length buf"
  shows "\<exists>s'. fst (dc_get_sta_statistics cfg abi nl env wpa_s n stack1 s tr) = Inr s'"
    and "\<exists>s'. fst (dc_get_sta_link_detect cfg abi nl env wpa_s n stack2 s tr) = Inr s'"
    and "\<exists>s'. dc_macaddr wpa_s n s = Inr s'"
proof -
  obtain w b where st: "dc_wpa_s s wpa_s = Inr w" "drv_priv w = Some b" "bss_ready b"
    using assms(1) by (auto simp: station_ok_def)
  obtain x where "fst (wpa_driver_get_sta_statistics cfg abi nl env (Some b) (drop 19 (dc_cmd s)) buf n stack1 tr) = Inr x"
    using get_sta_statistics_returns [OF st(3) assms(3)] by blast
  with st assms(2) show "\<exists>s'. fst (dc_get_sta_statistics cfg abi nl env wpa_s n stack1 s tr) = Inr s'"
    by (cases x) (simp add: dc_get_sta_statistics_def dc_set_buf_def)
  obtain y where "fst (wpa_driver_get_sta_link_detect cfg abi nl env (Some b) buf n stack2 tr) = Inr y"
    using get_sta_link_detect_returns [OF st(3) assms(3)] by blast
  with st assms(2) show "\<exists>s'. fst (dc_get_sta_link_detect cfg abi nl env wpa_s n stack2 s tr) = Inr s'"
    by (cases y) (simp add: dc_get_sta_link_detect_def dc_set_buf_def)
  show "\<exists>s'. dc_macaddr wpa_s n s = Inr s'"
    using st assms(2,3) by (simp add: dc_macaddr_def snprintf_at_inside Let_def)
qed

lemma dc_country_returns:
  assumes "8 \<le> length (dc_cmd s)" "length (dc_cmd s) \<le> 10"
  shows "\<exists>s'. fst (dc_country env d s tr) = Inr s'"
proof -
  have "length (drop 8 (dc_cmd s)) \<le> 2" using assms by simp
  then obtain x where "fst (wpa_driver_mediatek_set_country env d (drop 8 (dc_cmd s)) tr) = Inr x"
    using set_country_returns by blast
  with assms show ?thesis by (simp add: dc_country_def dc_set_ret_def)
qed

lemma dc_sw_cmd_returns:
  assumes "bss_ready bss"
  shows "fst (dc_sw_cmd cfg abi nl env bss adr dat s tr) = Inr (s\<lparr>dc_ret := 0\<rparr>)"
proof -
  obtain d g where "drv bss = Some d" "nl_global d = Some g" using assms by (auto simp: bss_ready_def)
  then show ?thesis by (simp add: dc_sw_cmd_def sw_cmd_returns dc_set_ret_def)
qed

lemma dc_sw_number_returns:
  assumes "bss_ready bss"
  shows "\<exists>s'. fst (dc_sw_number cfg abi nl env bss k adr off s tr) = Inr s'"
  by (simp add: dc_sw_number_def Let_def case_prod_beta dc_sw_cmd_returns [OF assms])

lemma dc_sta_block_returns:
  assumes "bss_ready bss"
  shows "\<exists>s'. fst (dc_sta_block cfg abi nl env bss blk s tr) = Inr s'"
proof -
  obtain x where "fst (wpa_driver_sta_block cfg abi nl env (Some bss) (drop 10 (dc_cmd s)) tr) = Inr x"
    using sta_block_returns(1) [OF assms] by blast
  moreover obtain y where "fst (wpa_driver_sta_unblock cfg abi nl env (Some bss) (drop 12 (dc_cmd s)) tr) = Inr y"
    using sta_block_returns(2) [OF assms] by blast
  ultimately show ?thesis by (simp add: dc_sta_block_def dc_set_ret_def)
qed

lemma dc_iface_returns: "nl_global d = Some g \<Longrightarrow> \<exists>s'. fst (dc_iface env d up s tr) = Inr s'"
  by (simp add: dc_iface_def Let_def case_prod_beta)

lemma dc_stop_returns:
  assumes "station_ok cfg abi bss d wpa_s n s"
  shows "\<exists>s'. fst (dc_stop abi env wpa_s d s tr) = Inr s'"
proof -
  obtain c where "wpa_s = Inr c" using assms dc_wpa_s_Inl by (fastforce simp: station_ok_def)
  then show ?thesis using assms dc_iface_returns by (auto simp: dc_stop_def station_ok_def)
qed

lemma dc_wapi_return:
  assumes "bss_ready bss"
  shows "dc_buf s = Wapi_key_param a \<Longrightarrow> wapi_args_ok abi a \<Longrightarrow>
      \<exists>s'. fst (dc_set_wapi_key cfg abi nl env bss s tr) = Inr s'"
    and "dc_buf s = Wapi_msg_send_param len \<Longrightarrow> \<exists>s'. dc_wapi_msg_send bss s = Inr s'"
proof -
  assume "dc_buf s = Wapi_key_param a" "wapi_args_ok abi a"
  moreover from this obtain x where "fst (wpa_driver_nl80211_set_wapi_key cfg abi nl env (Some bss) a tr) = Inr x"
    using assms wapi_key_returns unfolding bss_ready_def by blast
  ultimately show "\<exists>s'. fst (dc_set_wapi_key cfg abi nl env bss s tr) = Inr s'"
    by (simp add: dc_set_wapi_key_def dc_set_ret_def)
qed (simp add: dc_wapi_msg_send_def wpa_driver_nl80211_send_msg_def dc_set_ret_def)

text \<open>With all its arguments a Wi-Fi Direct test command returns.\<close>

lemma p2p_handlers_return:
  assumes "bss_ready b"
  shows "case split_at (CHR '' '') cmd of None \<Rightarrow> False
        | Some (a, str) \<Rightarrow> hwaddr_aton abi str = None \<or> CHR '' '' \<in> set str \<Longrightarrow>
      \<exists>x. fst (p2p_ctrl_iface_set_opps cfg abi nl env (Some b) cmd tr) = Inr x"
    and "\<exists>x. fst (p2p_ctrl_iface_set_power_save cfg abi nl env (Some b) cmd tr) = Inr x"
    and "hwaddr_aton abi cmd = None \<or> CHR '' '' \<in> set cmd \<Longrightarrow>
      \<exists>x. fst (p2p_ctrl_iface_set_sleep cfg abi nl env (Some b) cmd tr) = Inr x"
proof -
  have sigma: "\<exists>ret. fst (wpas_p2p_sigma_test_mode cfg abi nl env (Some b) i v tr) = Inr ret" for i v
    using assms sigma_returns unfolding bss_ready_def by blast
  show "\<exists>x. fst (p2p_ctrl_iface_set_opps cfg abi nl env (Some b) cmd tr) = Inr x"
    if "case split_at (CHR '' '') cmd of None \<Rightarrow> False
        | Some (a, str) \<Rightarrow> hwaddr_aton abi str = None \<or> CHR '' '' \<in> set str"
    using that sigma [of 107 "atoi cmd"]
    by (auto simp: p2p_ctrl_iface_set_opps_def Let_def case_prod_beta split_at_None split_at_Some split: option.splits)
  show "\<exists>x. fst (p2p_ctrl_iface_set_power_save cfg abi nl env (Some b) cmd tr) = Inr x"
    using sigma [of 108 "atoi cmd"] by (auto simp: p2p_ctrl_iface_set_power_save_def case_prod_beta)
  show "\<exists>x. fst (p2p_ctrl_iface_set_sleep cfg abi nl env (Some b) cmd tr) = Inr x"
    if "hwaddr_aton abi cmd = None \<or> CHR '' '' \<in> set cmd"
    using that sigma [of 106 0]
    by (auto simp: p2p_ctrl_iface_set_sleep_def case_prod_beta split_at_None split: option.splits)
qed

lemma dc_p2p_returns:
  assumes "dc_wpa_s s wpa_s = Inr w" and "drv_priv w = Some b"
    and "\<exists>x. fst (handler (Some b) (drop n (dc_cmd s)) tr) = Inr x"
  shows "\<exists>s'. fst (dc_p2p handler n wpa_s s tr) = Inr s'"
  using assms by (auto simp: dc_p2p_def dc_set_cmd_def)

lemma dc_p2p_sleep_all_returns:
  assumes "dc_wpa_s s wpa_s = Inr w" and "drv_priv w = Some b" and "bss_ready b"
  shows "\<exists>s'. fst (dc_p2p_sleep_all cfg abi nl env wpa_s s tr) = Inr s'"
  using assms p2p_handlers_return(3) [OF assms(3), of abi "''ff:ff:ff:ff:ff:ff '' @ [CHR 0x22, CHR 0x22]" cfg nl env tr]
  by (auto simp: dc_p2p_sleep_all_def dc_set_ret_def)

lemma dc_mcc_returns:
  assumes "dc_wpa_s s wpa_s = Inr w" and "drv_priv w = Some b"
    and "CHR '' '' \<in> set (dc_cmd s) \<Longrightarrow> \<exists>g gl as. global w = Some g \<and> globals (dc_heap s) g = Some gl
        \<and> iface_chain (dc_heap s) (ifaces gl) as \<and> ifaces_ok (dc_heap s) as"
  shows "\<exists>s'. dc_mcc abi wpa_s s = Some (Inr s')"
proof (cases "split_at (CHR '' '') (dc_cmd s)")
  case None
  with assms(1,2) show ?thesis by (simp add: dc_mcc_def)
next
  case (Some p)
  then have "CHR '' '' \<in> set (dc_cmd s)" by (auto simp: split_at_def split: if_splits)
  with assms(3) obtain g gl as where "global w = Some g" "globals (dc_heap s) g = Some gl"
    "iface_chain (dc_heap s) (ifaces gl) as" "ifaces_ok (dc_heap s) as" by blast
  with assms(1,2) Some mcc_loop_chain show ?thesis
    by (cases p) (simp add: dc_mcc_def deref_def)
qed

text \<open>Every branch of the dispatch, under what its command asks for.\<close>

lemma station_branches:
  assumes ok: "station_ok cfg abi bss d wpa_s n s"
  shows station_stats: "strncasecmp_eq (dc_cmd s) ''GET_STA_STATISTICS '' 19 \<Longrightarrow>
      \<exists>s'. fst (dc_get_sta_statistics cfg abi nl env wpa_s n stack1 s tr) = Inr s'"
    and station_link: "strncasecmp_eq (dc_cmd s) ''GET_STA_LINK_DETECT'' 19 \<Longrightarrow>
      \<exists>s'. fst (dc_get_sta_link_detect cfg abi nl env wpa_s n stack2 s tr) = Inr s'"
    and station_macaddr: "strncmp_eq (dc_cmd s) ''MACADDR'' 7 \<Longrightarrow> \<exists>s'. dc_macaddr wpa_s n s = Inr s'"
    and station_country: "strncasecmp_eq (dc_cmd s) ''COUNTRY'' 7 \<Longrightarrow> \<exists>s'. fst (dc_country env d s tr) = Inr s'"
    and station_wapi_key: "CONFIG_WAPI_SUPPORT cfg \<Longrightarrow> strncasecmp_eq (dc_cmd s) ''set-wapi-key'' 12 \<Longrightarrow>
      \<exists>s'. fst (dc_set_wapi_key cfg abi nl env bss s tr) = Inr s'"
    and station_wapi_msg: "CONFIG_WAPI_SUPPORT cfg \<Longrightarrow> strncasecmp_eq (dc_cmd s) ''wapi-msg-send'' 13 \<Longrightarrow>
      \<exists>s'. dc_wapi_msg_send bss s = Inr s'"
    and station_mcc: "CONFIG_MTK_P2P_SIGMA cfg \<Longrightarrow> strncasecmp_eq (dc_cmd s) ''mcc'' 3 \<Longrightarrow>
      \<exists>s'. dc_mcc abi wpa_s s = Some (Inr s')"
    and station_opps: "CONFIG_MTK_P2P_SIGMA cfg \<Longrightarrow> strncmp_eq (dc_cmd s) ''p2p_set_opps '' 13 \<Longrightarrow>
      \<exists>s'. fst (dc_p2p (p2p_ctrl_iface_set_opps cfg abi nl env) 13 wpa_s s tr) = Inr s'"
    and station_power_save: "\<exists>s'. fst (dc_p2p (p2p_ctrl_iface_set_power_save cfg abi nl env) 19 wpa_s s tr) = Inr s'"
    and station_sleep: "CONFIG_MTK_P2P_SIGMA cfg \<Longrightarrow> strncmp_eq (dc_cmd s) ''p2p_set_sleep '' 14 \<Longrightarrow>
      \<exists>s'. fst (dc_p2p (p2p_ctrl_iface_set_sleep cfg abi nl env) 14 wpa_s s tr) = Inr s'"
    and station_sleep_all: "\<exists>s'. fst (dc_p2p_sleep_all cfg abi nl env wpa_s s tr) = Inr s'"
    and station_ready: "bss_ready bss" "\<exists>g. nl_global d = Some g"
proof -
  obtain w b where w: "dc_wpa_s s wpa_s = Inr w" "drv_priv w = Some b" and b: "bss_ready b"
    and bss: "bss_ready bss" and d: "\<exists>g. nl_global d = Some g" and c: "command_ok cfg abi n w s"
    using ok unfolding station_ok_def by blast
  show "bss_ready bss" "\<exists>g. nl_global d = Some g" by (rule bss, rule d)
  note c' = c [unfolded command_ok_def Let_def]
  show "\<exists>s'. fst (dc_get_sta_statistics cfg abi nl env wpa_s n stack1 s tr) = Inr s'"
    if "strncasecmp_eq (dc_cmd s) ''GET_STA_STATISTICS '' 19"
    using c' that dc_reports_return(1) [OF ok] by blast
  show "\<exists>s'. fst (dc_get_sta_link_detect cfg abi nl env wpa_s n stack2 s tr) = Inr s'"
    if "strncasecmp_eq (dc_cmd s) ''GET_STA_LINK_DETECT'' 19"
    using c' that dc_reports_return(2) [OF ok] by blast
  show "\<exists>s'. dc_macaddr wpa_s n s = Inr s'" if "strncmp_eq (dc_cmd s) ''MACADDR'' 7"
    using c' that dc_reports_return(3) [OF ok] by blast
  show "\<exists>s'. fst (dc_country env d s tr) = Inr s'" if "strncasecmp_eq (dc_cmd s) ''COUNTRY'' 7"
    using c' that dc_country_returns by blast
  show "\<exists>s'. fst (dc_set_wapi_key cfg abi nl env bss s tr) = Inr s'"
    if "CONFIG_WAPI_SUPPORT cfg" "strncasecmp_eq (dc_cmd s) ''set-wapi-key'' 12"
    using c' that dc_wapi_return(1) [OF bss] by blast
  show "\<exists>s'. dc_wapi_msg_send bss s = Inr s'"
    if "CONFIG_WAPI_SUPPORT cfg" "strncasecmp_eq (dc_cmd s) ''wapi-msg-send'' 13"
    using c' that dc_wapi_return(2) [OF bss] by blast
  show "\<exists>s'. dc_mcc abi wpa_s s = Some (Inr s')"
    if "CONFIG_MTK_P2P_SIGMA cfg" "strncasecmp_eq (dc_cmd s) ''mcc'' 3"
    using c' that by (intro dc_mcc_returns [OF w]) blast
  show "\<exists>s'. fst (dc_p2p (p2p_ctrl_iface_set_opps cfg abi nl env) 13 wpa_s s tr) = Inr s'"
    if "CONFIG_MTK_P2P_SIGMA cfg" "strncmp_eq (dc_cmd s) ''p2p_set_opps '' 13"
    using c' that by (intro dc_p2p_returns [OF w] p2p_handlers_return(1) [OF b]) blast
  show "\<exists>s'. fst (dc_p2p (p2p_ctrl_iface_set_power_save cfg abi nl env) 19 wpa_s s tr) = Inr s'"
    by (intro dc_p2p_returns [OF w] p2p_handlers_return(2) [OF b])
  show "\<exists>s'. fst (dc_p2p (p2p_ctrl_iface_set_sleep cfg abi nl env) 14 wpa_s s tr) = Inr s'"
    if "CONFIG_MTK_P2P_SIGMA cfg" "strncmp_eq (dc_cmd s) ''p2p_set_sleep '' 14"
    using c' that by (intro dc_p2p_returns [OF w] p2p_handlers_return(3) [OF b]) blast
  show "\<exists>s'. fst (dc_p2p_sleep_all cfg abi nl env wpa_s s tr) = Inr s'"
    by (rule dc_p2p_sleep_all_returns [OF w b])
qed

interpretation csafe: command_contract cfg abi nl env bss d wpa_s n stack1 stack2 s
    "returns_if (station_ok cfg abi bss d wpa_s n s)"
  for cfg abi nl env bss d wpa_s n stack1 stack2 s
proof (unfold_locales, goal_cases)
  case 3 then show ?case by (blast intro: returns_ifI station_stats)
next
  case 4 then show ?case by (blast intro: returns_ifI station_link)
next
  case 5 then show ?case by (blast intro: returns_ifI station_macaddr)
next
  case 6 then show ?case by (blast intro: returns_ifI station_country)
next
  case 7 show ?case by (blast intro: returns_ifI dc_iface_returns dest: station_ready)
next
  case 8 show ?case by (blast intro: returns_ifI dc_stop_returns)
next
  case 9 show ?case by (blast intro: returns_ifI dc_sw_cmd_returns dest: station_ready)
next
  case 10 show ?case by (blast intro: returns_ifI dc_sw_number_returns dest: station_ready)
next
  case 11 show ?case by (blast intro: returns_ifI dc_sta_block_returns dest: station_ready)
next
  case 12 then show ?case by (blast intro: returns_ifI station_wapi_key)
next
  case 13 then show ?case by (blast intro: returns_ifI station_wapi_msg)
next
  case (14 r) then show ?case by (intro returns_ifI) (fastforce dest: station_mcc)
next
  case 15 then show ?case by (blast intro: returns_ifI station_opps)
next
  case 16 show ?case by (blast intro: returns_ifI station_power_save)
next
  case 17 then show ?case by (blast intro: returns_ifI station_sleep)
next
  case 18 show ?case by (blast intro: returns_ifI station_sleep_all)
qed (auto intro: returns_ifI)

section \<open>Entry\<close>

lemma driver_cmd_entry:
  assumes "drv bss = Some d" "ctx d = Some c" "wpas h c = Some w" "conf w"
  shows "wpa_driver_nl80211_driver_cmd cfg abi nl env (Some bss) cmd buf n stack1 stack2 h tr =
     driver_cmd_dispatch cfg abi nl env bss d (if ifname bss = ''ap0'' then Inl Uninit_Use else Inr c) n
       stack1 stack2 \<lparr>dc_ret = -1, dc_cmd = cmd, dc_buf = buf, dc_heap = h\<rparr> tr"
  using assms by (simp add: wpa_driver_nl80211_driver_cmd_def)

text \<open>The access point's interface has no supplicant behind its context.\<close>

lemma driver_cmd_entry_any:
  assumes "drv bss = Some d" "ctx d = Some c" "ifname bss = ''ap0'' \<or> (\<exists>w. wpas h c = Some w \<and> conf w)"
  shows "wpa_driver_nl80211_driver_cmd cfg abi nl env (Some bss) cmd buf n stack1 stack2 h tr =
     driver_cmd_dispatch cfg abi nl env bss d (if ifname bss = ''ap0'' then Inl Uninit_Use else Inr c) n
       stack1 stack2 \<lparr>dc_ret = -1, dc_cmd = cmd, dc_buf = buf, dc_heap = h\<rparr> tr"
  using assms by (auto simp: wpa_driver_nl80211_driver_cmd_def)

lemma sw_cmd_accepted:
  assumes "drv bss = Some d" "nl_global d = Some g" and "env_accepts env reply"
  obtains ext where
    "wpa_driver_nl80211_driver_sw_cmd cfg abi nl env (Some bss) True adr dat tr = (Inr 0, tr @ ext)"
    "map fst ext = tm_calls g d sizeof_sw_cmd_params (sw_cmd_data True adr dat)"
  by (rule testmode_accepted [OF assms, of cfg abi nl "sw_cmd_data True adr dat" sizeof_sw_cmd_params tr])
    (simp add: wpa_driver_nl80211_driver_sw_cmd_def tm_result_requests)

lemma dispatch_ends:
  assumes "CONFIG_MTK_P2P_SIGMA cfg \<Longrightarrow> strncasecmp_eq (dc_cmd s) ''mcc'' 3 \<Longrightarrow> dc_mcc abi wpa_s s \<noteq> None"
  shows "\<exists>r. driver_cmd_dispatch cfg abi nl env bss d wpa_s n stack1 stack2 s tr = Some r"
proof -
  have "driver_cmd_dispatch cfg abi nl env bss d wpa_s n stack1 stack2 s tr \<noteq> None"
    using assms by (simp add: driver_cmd_dispatch_def Let_def)
  then show ?thesis by blast
qed

lemma dc_sw_number_printed:
  assumes "drv bss = Some d" "nl_global d = Some g" and "env_accepts env reply" and "int k \<le> LONG_MAX"
    and "drop m (dc_cmd s) = '' '' @ fmt_u k"
  obtains ext where "dc_sw_number cfg abi nl env bss m adr off s tr = (Inr (s\<lparr>dc_ret := 0\<rparr>), tr @ ext)"
    "map fst ext = tm_calls g d 20 (sw_cmd_data True adr (of_nat k + off))"
  by (rule sw_cmd_accepted [OF assms(1-3), of cfg abi nl adr "of_nat k + off" tr])
    (simp add: dc_sw_number_def assms(5) strtol0_fmt_u [OF assms(4), simplified] dc_sw_cmd_def
      dc_set_ret_def sizeof_sw_cmd_params_def)

section \<open>Properties\<close>

text \<open>
  C4: on a station's interface, in every build, a command that gets what it asks of its caller
  (\<open>command_ok\<close>) returns and does not fault, whatever its text and whatever the kernel answers. What
  is asked: of the three reports a text buffer as long as the caller says; of a country command one
  or two characters; of the two WAPI commands their structure, for the key with lengths that fit its
  request; of \<open>mcc\<close> with an argument a list of interfaces that ends; of the two Wi-Fi Direct commands
  that do not test the result of \<open>strchr\<close> all their arguments. Every other command, known or not, asks for
  nothing. The pointers of the interface's objects are set: the driver, its shared data and its
  context, the supplicant's configuration and its own driver with its shared data.
\<close>

theorem driver_cmd_safe:
  assumes "drv bss = Some d" "nl_global d = Some gd" "ctx d = Some c" "ifname bss \<noteq> ''ap0''"
    and "wpas h c = Some w" "conf w" "drv_priv w = Some b" "drv b = Some e" "nl_global e = Some ge"
    and "command_ok cfg abi n w \<lparr>dc_ret = -1, dc_cmd = cmd, dc_buf = buf, dc_heap = h\<rparr>"
  shows "\<exists>s' tr'. wpa_driver_nl80211_driver_cmd cfg abi nl env (Some bss) cmd buf n stack1 stack2 h tr
     = Some (Inr s', tr')"
proof -
  let ?s = "\<lparr>dc_ret = -1, dc_cmd = cmd, dc_buf = buf, dc_heap = h\<rparr>"
  have ok: "station_ok cfg abi bss d (Inr c) n ?s"
    using assms by (simp add: station_ok_def bss_ready_def dc_wpa_s_def deref_def)
  have "dc_mcc abi (Inr c) ?s \<noteq> None" if "CONFIG_MTK_P2P_SIGMA cfg" "strncasecmp_eq (dc_cmd ?s) ''mcc'' 3"
    using station_mcc [OF ok that] by auto
  then obtain r where r: "driver_cmd_dispatch cfg abi nl env bss d (Inr c) n stack1 stack2 ?s tr = Some r"
    using dispatch_ends by blast
  from csafe.dispatch [OF r] ok obtain s' where "fst r = Inr s'" by (auto simp: returns_if_def)
  with r assms show ?thesis by (cases r) (simp add: driver_cmd_entry)
qed

definition demo_wpa :: wpa_supplicant where
  "demo_wpa = \<lparr>drv_priv = Some demo_bss, conf = True, own_addr = Mac 2 0 0 0 0 1,
     num_multichan_concurrent = 0, drv_flags = 1, global = Some 0, next_iface = Some 1\<rparr>"

definition demo_heap :: wpa_heap where
  "demo_heap = \<lparr>wpas = [0 \<mapsto> demo_wpa, 1 \<mapsto> demo_wpa\<lparr>next_iface := None\<rparr>],
     globals = [0 \<mapsto> \<lparr>ifaces = Some 0, p2p = Some 0\<rparr>],
     p2ps = [0 \<mapsto> \<lparr>p2p_cfg = Some 0\<rparr>], cfgs = [0 \<mapsto> \<lparr>concurrent_operations = 0\<rparr>]\<rparr>"

lemma demo_station:
  "drv demo_bss = Some demo_drv" "ctx demo_drv = Some 0" "wpas demo_heap 0 = Some demo_wpa" "conf demo_wpa"
  "ifname demo_bss \<noteq> ''ap0''" "drv_priv demo_wpa = Some demo_bss"
  by (simp_all add: demo_bss_def demo_drv_def demo_heap_def demo_wpa_def)

theorem driver_cmd_safe_witness:
  "\<exists>s' tr'. wpa_driver_nl80211_driver_cmd demo_cfg demo_abi tlv_libnl (demo_env []) (Some demo_bss)
     ''p2p_set_opps 10 02:00:5e:10:00:ff home'' (Text []) 0 demo_stats demo_link demo_heap [] = Some (Inr s', tr')"
proof (rule driver_cmd_safe [OF demo_bss_drv demo_station(2,5,3,4,6) demo_bss_drv])
  show "command_ok demo_cfg demo_abi 0 demo_wpa
      \<lparr>dc_ret = -1, dc_cmd = ''p2p_set_opps 10 02:00:5e:10:00:ff home'', dc_buf = Text [], dc_heap = demo_heap\<rparr>"
    by (simp add: command_ok_def cmd_compare split_at_def)
qed

text \<open>
  C5: no command, on any interface and in any build, writes past the length the caller gave for
  its text buffer, and none changes the buffer's size.
\<close>

theorem driver_cmd_bounds:
  assumes "n \<le> length buf"
    and "wpa_driver_nl80211_driver_cmd cfg abi nl env priv cmd (Text buf) n stack1 stack2 h tr = Some (Inr s', tr')"
  shows "\<exists>buf'. dc_buf s' = Text buf' \<and> length buf' = length buf \<and> drop n buf' = drop n buf"
proof -
  let ?s = "\<lparr>dc_ret = -1, dc_cmd = cmd, dc_buf = Text buf, dc_heap = h\<rparr>"
  have "s' = ?s \<or> (\<exists>bss d wpa_s. driver_cmd_dispatch cfg abi nl env bss d wpa_s n stack1 stack2 ?s tr = Some (Inr s', tr'))"
    using assms(2) [unfolded wpa_driver_nl80211_driver_cmd_def Let_def]
    by (simp split: option.split_asm if_split_asm) blast+
  then have "s' = ?s \<or> buf_kept n ?s (Inr s')"
    using cbounds.dispatch by fastforce
  then show ?thesis using assms(1) by (auto simp: buf_kept_def)
qed

theorem driver_cmd_bounds_witness:
  "\<exists>s' tr' buf'. wpa_driver_nl80211_driver_cmd demo_cfg demo_abi tlv_libnl (demo_env []) (Some demo_bss) ''MACADDR''
       (Text (replicate 8 CHR ''x'')) 4 demo_stats demo_link demo_heap [] = Some (Inr s', tr')
     \<and> dc_buf s' = Text buf' \<and> length buf' = 8 \<and> drop 4 buf' = replicate 4 CHR ''x''"
proof -
  obtain s' tr' where r: "wpa_driver_nl80211_driver_cmd demo_cfg demo_abi tlv_libnl (demo_env []) (Some demo_bss)
      ''MACADDR'' (Text (replicate 8 CHR ''x'')) 4 demo_stats demo_link demo_heap [] = Some (Inr s', tr')"
    by (simp add: driver_cmd_entry [OF demo_station(1-4)] driver_cmd_dispatch_def cmd_compare
        demo_station dc_macaddr_def snprintf_at_def dc_wpa_s_def deref_def Let_def)
  then show ?thesis
    using driver_cmd_bounds [OF _ r] by auto
qed



text \<open>
  C23: \<open>rxfilter-add\<close> and \<open>rxfilter-remove\<close> followed by a decimal number send one software command
  each, on register 0x9F000000, with the number added to 0x900200 and 0x900300; the addition
  wraps at 32 bits. They return 0 on any interface, the access point's included.
\<close>

theorem rxfilter_commands:
  assumes "drv bss = Some d" "nl_global d = Some g" "ctx d = Some c" "ifname bss = ''ap0'' \<or> (\<exists>w. wpas h c = Some w \<and> conf w)"
    and "env_accepts env reply" and "int k \<le> LONG_MAX"
  shows "(\<exists>ext. wpa_driver_nl80211_driver_cmd cfg abi nl env (Some bss) (''rxfilter-add '' @ fmt_u k) buf n stack1 stack2 h tr
        = Some (Inr \<lparr>dc_ret = 0, dc_cmd = ''rxfilter-add '' @ fmt_u k, dc_buf = buf, dc_heap = h\<rparr>, tr @ ext)
        \<and> map fst ext = tm_calls g d 20 (sw_cmd_data True 0x9F000000 (of_nat k + 0x900200)))
     \<and> (\<exists>ext. wpa_driver_nl80211_driver_cmd cfg abi nl env (Some bss) (''rxfilter-remove '' @ fmt_u k) buf n stack1 stack2 h tr
        = Some (Inr \<lparr>dc_ret = 0, dc_cmd = ''rxfilter-remove '' @ fmt_u k, dc_buf = buf, dc_heap = h\<rparr>, tr @ ext)
        \<and> map fst ext = tm_calls g d 20 (sw_cmd_data True 0x9F000000 (of_nat k + 0x900300)))"
proof (rule conjI, goal_cases)
  let ?s = "\<lambda>cmd. \<lparr>dc_ret = -1, dc_cmd = cmd, dc_buf = buf, dc_heap = h\<rparr>"
  case 1
  show ?case
    by (rule dc_sw_number_printed [OF assms(1,2,5,6), of 12 "?s (''rxfilter-add '' @ fmt_u k)" cfg abi nl
          "0x9F000000" "0x900200" tr])
      (simp_all add: driver_cmd_entry_any [OF assms(1,3,4)] driver_cmd_dispatch_def cmd_compare)
next
  let ?s = "\<lambda>cmd. \<lparr>dc_ret = -1, dc_cmd = cmd, dc_buf = buf, dc_heap = h\<rparr>"
  case 2
  show ?case
    by (rule dc_sw_number_printed [OF assms(1,2,5,6), of 15 "?s (''rxfilter-remove '' @ fmt_u k)" cfg abi nl
          "0x9F000000" "0x900300" tr])
      (simp_all add: driver_cmd_entry_any [OF assms(1,3,4)] driver_cmd_dispatch_def cmd_compare)
qed

theorem rxfilter_commands_witness:
  "\<exists>s' ext. wpa_driver_nl80211_driver_cmd demo_cfg demo_abi tlv_libnl (demo_env []) (Some demo_bss)
       (''rxfilter-add '' @ fmt_u 3) (Text []) 0 demo_stats demo_link demo_heap [] = Some (Inr s', ext)
     \<and> map fst ext = tm_calls demo_global demo_drv 20 (sw_cmd_data True 0x9F000000 0x900203)"
  using rxfilter_commands [OF demo_bss_drv demo_station(2) disjI2 demo_env_accepts, where h = demo_heap and k = 3 and cfg = demo_cfg
      and abi = demo_abi and nl = tlv_libnl and buf = "Text []" and n = 0 and ?stack1.0 = demo_stats
      and ?stack2.0 = demo_link and tr = "[]"]
  demo_station(3,4) by (fastforce simp: LONG_MAX_def)




text \<open>
  C36: setting the country opens a socket, sends the text \<open>COUNTRY\<close> with the code to the first
  interface and closes the socket again, for codes of at most two characters; a longer code
  overflows the buffer of eleven bytes before anything is sent.
\<close>

theorem set_country_correct:
  "(fst (env tr Socket) < 0 \<longrightarrow>
      wpa_driver_mediatek_set_country env d a tr = (Inr (-1), tr @ [(Socket, env tr Socket)]))
   \<and> (0 \<le> fst (env tr Socket) \<and> 2 < length a \<longrightarrow>
      wpa_driver_mediatek_set_country env d a tr = (Inl Buffer_Overflow, tr @ [(Socket, env tr Socket)]))
   \<and> (0 \<le> fst (env tr Socket) \<and> length a \<le> 2 \<longrightarrow>
      (\<exists>as. wpa_driver_mediatek_set_country env d a tr = (Inr (min (fst (as ! 1)) 0),
           tr @ zip [Socket, Ioctl_siwpriv (country_iwreq (first_ifname d) (''COUNTRY '' @ a)), Close] as)
         \<and> length as = 3))"
proof (intro conjI impI, goal_cases)
  case 3
  define t1 where "t1 = tr @ [(Socket, env tr Socket)]"
  define q where "q = Ioctl_siwpriv (country_iwreq (first_ifname d) (''COUNTRY '' @ a))"
  define t2 where "t2 = t1 @ [(q, env t1 q)]"
  have "wpa_driver_mediatek_set_country env d a tr
      = (Inr (if fst (env t1 q) < 0 then fst (env t1 q) else 0), t2 @ [(Close, env t2 Close)])"
    using 3 by (simp add: wpa_driver_mediatek_set_country_def ask_def Let_def case_prod_beta
        t1_def t2_def q_def)
  then show ?case
    by (intro exI [of _ "[env tr Socket, env t1 q, env t2 Close]"]) (simp add: t1_def t2_def q_def min_def)
qed (simp_all add: wpa_driver_mediatek_set_country_def ask_def Let_def case_prod_beta)

theorem set_country_correct_witness:
  "fst (wpa_driver_mediatek_set_country (demo_env ([] :: nat list)) demo_drv ''USA'' []) = Inl Buffer_Overflow"
  using set_country_correct [where env = "demo_env ([] :: nat list)" and tr = "[]" and a = "''USA''" and d = demo_drv]
  by (simp add: demo_env_def)

text \<open>
  C38: on the access point's interface \<open>ap0\<close> the pointer to the supplicant is never assigned, so the
  address and statistics commands, \<open>mcc\<close>, and stopping an associated driver use it uninitialised.
\<close>

theorem ap0_uninitialised:
  assumes "drv bss = Some d" "ctx d = Some c" "ifname bss = ''ap0''" and "CONFIG_MTK_P2P_SIGMA cfg" "associated d"
    and "cmd \<in> {''MACADDR'' @ rest, ''GET_STA_STATISTICS '' @ rest, ''stop'', ''mcc '' @ rest}"
  shows "wpa_driver_nl80211_driver_cmd cfg abi nl env (Some bss) cmd buf n stack1 stack2 h tr
     = Some (Inl Uninit_Use, tr)"
  using assms
  by (auto simp: wpa_driver_nl80211_driver_cmd_def driver_cmd_dispatch_def cmd_compare dc_macaddr_def
      dc_get_sta_statistics_def dc_stop_def dc_mcc_def dc_wpa_s_def)

theorem ap0_uninitialised_witness:
  "wpa_driver_nl80211_driver_cmd demo_cfg demo_abi tlv_libnl (demo_env []) (Some (demo_bss\<lparr>ifname := ''ap0''\<rparr>))
     ''MACADDR'' (Text []) 0 demo_stats demo_link demo_heap [] = Some (Inl Uninit_Use, [])"
  by (rule ap0_uninitialised [where d = demo_drv and c = 0 and rest = "[]"])
    (simp_all add: demo_bss_def demo_drv_def demo_cfg_def)

text \<open>
  C39: the Wi-Fi Direct test commands write through the result of \<open>strchr\<close> without testing it: a
  power-save window without an address, a window with an address but no network name, and a sleep
  command with an address but no name all dereference a null pointer. With all arguments the
  command sends one request with the window's value.
\<close>

theorem p2p_missing_argument:
  assumes "drv b = Some e" "nl_global e = Some ge" and "env_accepts env reply"
  shows "(CHR '' '' \<notin> set cmd \<longrightarrow>
        p2p_ctrl_iface_set_opps cfg abi nl env (Some b) cmd tr = (Inl Null_Deref, tr))
   \<and> (CHR '' '' \<notin> set v \<and> CHR '' '' \<notin> set mac \<and> hwaddr_aton abi mac = Some m \<longrightarrow>
        p2p_ctrl_iface_set_opps cfg abi nl env (Some b) (v @ '' '' @ mac) tr = (Inl Null_Deref, tr))
   \<and> (CHR '' '' \<notin> set mac \<and> hwaddr_aton abi mac = Some m \<longrightarrow>
        p2p_ctrl_iface_set_sleep cfg abi nl env (Some b) mac tr = (Inl Null_Deref, tr))
   \<and> (CHR '' '' \<notin> set v \<and> CHR '' '' \<notin> set mac \<and> hwaddr_aton abi (mac @ '' '' @ ssid) = Some m \<longrightarrow>
        (\<exists>ext. p2p_ctrl_iface_set_opps cfg abi nl env (Some b) (v @ '' '' @ mac @ '' '' @ ssid) tr
            = (Inr (0, v @ [NUL] @ mac @ [NUL] @ ssid), tr @ ext)
          \<and> map fst ext = tm_calls ge e (sizeof_p2p_sigma_params abi)
              (p2p_sigma_data abi 107 (atoi (v @ '' '' @ mac @ '' '' @ ssid)))))"
proof -
  have sp: "split_at (CHR '' '') (x @ CHR '' '' # y) = Some (x, y)" if "CHR '' '' \<notin> set x" for x y
  proof -
    have "takeWhile (\<lambda>c. c \<noteq> CHR '' '') (x @ CHR '' '' # y) = x"
      and "dropWhile (\<lambda>c. c \<noteq> CHR '' '') (x @ CHR '' '' # y) = CHR '' '' # y"
      using that by (auto simp: takeWhile_append dropWhile_append)
    then show ?thesis by (simp add: split_at_def)
  qed
  have no: "split_at (CHR '' '') x = None" if "CHR '' '' \<notin> set x" for x
    using that by (simp add: split_at_def)
  have sig: "\<exists>ext. wpas_p2p_sigma_test_mode cfg abi nl env (Some b) i k tr = (Inr (fst reply), tr @ ext)
      \<and> map fst ext = tm_calls ge e (sizeof_p2p_sigma_params abi) (p2p_sigma_data abi i k)" for i k
    by (rule testmode_accepted [OF assms, of cfg abi nl "p2p_sigma_data abi i k" "sizeof_p2p_sigma_params abi" tr])
      (simp add: wpas_p2p_sigma_test_mode_def tm_result_requests)
  show ?thesis
  proof (intro conjI impI, goal_cases)
    case 4
    with sig [of 107 "atoi (v @ '' '' @ mac @ '' '' @ ssid)"] show ?case
      by (auto simp: p2p_ctrl_iface_set_opps_def sp)
  qed (auto simp: p2p_ctrl_iface_set_opps_def p2p_ctrl_iface_set_sleep_def sp no)
qed

theorem p2p_missing_argument_witness:
  "p2p_ctrl_iface_set_opps demo_cfg demo_abi tlv_libnl (demo_env []) (Some demo_bss) ''10'' [] = (Inl Null_Deref, [])"
  using p2p_missing_argument [OF demo_bss_drv demo_env_accepts, where cmd = "''10''" and cfg = demo_cfg
      and abi = demo_abi and nl = tlv_libnl and tr = "[]"] by simp

text \<open>
  Without a driver, a context or a configuration, and for a command whose first letter starts
  none of the known commands, the interface returns -1 and changes nothing.
\<close>

theorem driver_cmd_rejects:
  assumes "drv bss = None \<or> (\<exists>d. drv bss = Some d \<and> (ctx d = None
      \<or> (\<exists>c w. ctx d = Some c \<and> wpas h c = Some w \<and>
          (\<not> conf w \<and> ifname bss \<noteq> ''ap0'' \<or> conf w \<and> (cmd = [] \<or> lower (hd cmd) \<notin> set ''pgmcsrbw'')))))"
  shows "wpa_driver_nl80211_driver_cmd cfg abi nl env (Some bss) cmd buf n stack1 stack2 h tr
     = Some (Inr \<lparr>dc_ret = -1, dc_cmd = cmd, dc_buf = buf, dc_heap = h\<rparr>, tr)"
proof -
  have unknown: "driver_cmd_dispatch cfg abi nl env bss d wpa_s n stack1 stack2 s tr = Some (Inr s, tr)"
    if "dc_cmd s = [] \<or> lower (hd (dc_cmd s)) \<notin> set ''pgmcsrbw''" for d wpa_s s
  proof (cases "dc_cmd s")
    case Nil
    then show ?thesis by (simp add: driver_cmd_dispatch_def cmd_compare)
  next
    case (Cons x xs)
    with that have "lower x \<notin> set ''pgmcsrbw''" by simp
    moreover from this have "x \<noteq> CHR ''M''" "x \<noteq> CHR ''S''" "x \<noteq> CHR ''p''"
      by (auto simp: lower_upper_case lower_lower_case)
    ultimately show ?thesis
      by (simp add: driver_cmd_dispatch_def cmd_compare Cons)
  qed
  from assms show ?thesis
    by (auto simp: wpa_driver_nl80211_driver_cmd_def unknown Let_def)
qed

theorem driver_cmd_rejects_witness:
  "wpa_driver_nl80211_driver_cmd demo_cfg demo_abi tlv_libnl (demo_env []) (Some demo_bss) ''help'' (Text []) 0
     demo_stats demo_link demo_heap [] = Some (Inr \<lparr>dc_ret = -1, dc_cmd = ''help'', dc_buf = Text [], dc_heap = demo_heap\<rparr>, [])"
  by (rule driver_cmd_rejects) (auto simp: demo_station lower_lower_case)

end
