(* ===== verification/Testmode_Layout.thy ===== *)
theory Testmode_Layout
  imports Testmode_Correct
begin

text \<open>
  The requests of the test-mode channel as bytes in memory: the structures declared at the head of
  src/wpa_supplicant_8_lib/mediatek_driver_cmd_nl80211.c, laid out for 32-bit ARM (little endian,
  members aligned to their size, structures padded to four bytes). Every request clears its
  structure before filling it, so the padding is zero. What the kernel finds at each offset of
  the attribute it receives is what the request was called with.
\<close>

section \<open>Layout of the structures\<close>

definition test_mode_info_bytes :: "test_mode_info \<Rightarrow> u8 list" where
  "test_mode_info_bytes h = le_bytes 4 (index h) @ le_bytes 4 (buflen h)"

definition hotspot_params_bytes :: "hotspot_params \<Rightarrow> u8 list" where
  "hotspot_params_bytes p = test_mode_info_bytes (hp_hdr p) @ [hp_blocked p] @ mac_bytes (hp_bssid p) @ [0]"

text \<open>The last member is the pointer to the caller's structure, whose value is a parameter.\<close>

definition get_sta_statistics_params_bytes :: "u32 \<Rightarrow> get_sta_statistics_params \<Rightarrow> u8 list" where
  "get_sta_statistics_params_bytes ptr p =
     test_mode_info_bytes (gs_hdr p) @ le_bytes 4 (gs_version p) @ le_bytes 4 (gs_flag p)
       @ mac_bytes (gs_addr p) @ [0, 0] @ le_bytes 4 ptr"

definition sw_cmd_params_bytes :: "sw_cmd_params \<Rightarrow> u8 list" where
  "sw_cmd_params_bytes p =
     test_mode_info_bytes (sw_hdr p) @ [sw_set p, 0, 0, 0] @ le_bytes 4 (sw_adr p)
       @ le_bytes 4 (sw_data p)"

text \<open>The bytes of a request; \<open>None\<close> for the structures other headers declare.\<close>

fun tm_bytes :: "u32 \<Rightarrow> testmode_data \<Rightarrow> u8 list option" where
  "tm_bytes ptr (TM_sw_cmd p) = Some (sw_cmd_params_bytes p)"
| "tm_bytes ptr (TM_hotspot p) = Some (hotspot_params_bytes p)"
| "tm_bytes ptr (TM_sta_statistics p) = Some (get_sta_statistics_params_bytes ptr p)"
| "tm_bytes ptr _ = None"

section \<open>What the kernel receives\<close>

text \<open>The test-mode attributes a trace puts into messages: their length and their bytes.\<close>

fun payloads :: "u32 \<Rightarrow> 'm wifi_trace \<Rightarrow> (u32 \<times> u8 list option) list" where
  "payloads ptr [] = []"
| "payloads ptr ((Nla_put_testdata n data, r) # tr) = (n, tm_bytes ptr data) # payloads ptr tr"
| "payloads ptr (_ # tr) = payloads ptr tr"

definition u32_at :: "nat \<Rightarrow> u8 list \<Rightarrow> int" where
  "u32_at k bs = of_le_bytes (take 4 (drop k bs))"

text \<open>
  A request as its receiver expects it: as long as its header says and as the attribute is, with
  the number of the request in the low three bytes of the first word and format version 1 above.
\<close>

definition well_formed_request :: "nat \<Rightarrow> nat \<Rightarrow> u32 \<times> u8 list option \<Rightarrow> bool" where
  "well_formed_request num sz e = (case e of (n, None) \<Rightarrow> False
   | (n, Some bs) \<Rightarrow> unat n = sz \<and> length bs = sz
      \<and> u32_at 0 bs = int num + 2 ^ 24 \<and> u32_at 4 bs = int sz)"

lemma payloads_append [simp]: "payloads ptr (tr @ ext) = payloads ptr tr @ payloads ptr ext"
  by (induction ptr tr rule: payloads.induct) simp_all

lemma payloads_testmode:
  assumes "drv bss = Some d"
  shows "payloads ptr (snd (wpa_driver_nl80211_testmode cfg abi nl env (Some bss) data len tr))
    \<in> {payloads ptr tr, payloads ptr tr @ [(len, tm_bytes ptr data)]}"
proof (cases "nl_global d")
  case None
  then show ?thesis
    using assms
    by (auto simp: wpa_driver_nl80211_testmode_def nl80211_cmd_def ask_def Let_def case_prod_beta)
next
  case (Some g)
  obtain r tr' where run: "wpa_driver_nl80211_testmode cfg abi nl env (Some bss) data len tr = (r, tr')"
    by force
  from assms Some run show ?thesis
  proof (cases rule: testmode_outcome)
    case (alloc a)
    then show ?thesis by (simp add: run)
  next
    case (put as)
    then have "length as = 3 \<or> length as = 4" by auto
    then obtain a b c as' where as: "as = a # b # c # as'" "as' = [] \<or> (\<exists>x. as' = [x])"
      by (auto simp: numeral_3_eq_3 numeral_eq_Suc length_Suc_conv)
    then show ?thesis using put(1) by (auto simp: run tm_calls_def)
  next
    case (sent as)
    then obtain a b c x y where "as = [a, b, c, x, y]"
      by (auto simp: numeral_eq_Suc length_Suc_conv)
    then show ?thesis using sent(1) by (simp add: run tm_calls_def)
  qed
qed

lemma take_le_bytes [simp]: "take n (le_bytes n w @ bs) = le_bytes n w" "drop n (le_bytes n w @ bs) = bs"
  by simp_all

lemma u32_at_0 [simp]: "u32_at 0 (le_bytes 4 (w :: u32) @ bs) = uint w"
  "u32_at 0 (le_bytes 4 w) = uint w"
  by (simp_all add: u32_at_def)

lemma u32_at_skip: "length as \<le> k \<Longrightarrow> u32_at k (as @ bs) = u32_at (k - length as) bs"
  by (simp add: u32_at_def)

lemma u32_at_Cons: "0 < k \<Longrightarrow> u32_at k (x # bs) = u32_at (k - 1) bs"
  by (cases k) (simp_all add: u32_at_def)

lemma uint_request_number:
  "uint (1 OR push_bit 24 (1 :: u32)) = 1 + 2 ^ 24" "uint (3 OR push_bit 24 (1 :: u32)) = 3 + 2 ^ 24"
  "uint (16 OR push_bit 24 (1 :: u32)) = 16 + 2 ^ 24"
  by simp_all

lemma request_layouts:
  "well_formed_request 1 20 (sizeof_sw_cmd_params, tm_bytes ptr (sw_cmd_data s adr dat))"
  "well_formed_request 3 16 (sizeof_hotspot_params, tm_bytes ptr (hotspot_data (Some b) x))"
  "well_formed_request 16 28
     (sizeof_get_sta_statistics_params, tm_bytes ptr (sta_statistics_data (Some b) buf))"
  by (auto simp: well_formed_request_def sw_cmd_data_def hotspot_data_def sta_statistics_data_def
      tm_header_def sw_cmd_params_bytes_def hotspot_params_bytes_def
      get_sta_statistics_params_bytes_def test_mode_info_bytes_def const_defs u32_at_skip
      uint_request_number)

text \<open>The structures' members at their offsets.\<close>

definition sw_cmd_received :: "bool \<Rightarrow> ulong \<Rightarrow> ulong \<Rightarrow> u32 \<times> u8 list option \<Rightarrow> bool" where
  "sw_cmd_received setp adr dat e \<longleftrightarrow> well_formed_request 1 20 e
     \<and> (\<forall>bs. snd e = Some bs \<longrightarrow> bs ! 8 = (if setp then 1 else 0)
          \<and> u32_at 12 bs = uint adr \<and> u32_at 16 bs = uint dat)"

definition hotspot_received :: "macaddr \<Rightarrow> s32 \<Rightarrow> u32 \<times> u8 list option \<Rightarrow> bool" where
  "hotspot_received b blocked e \<longleftrightarrow> well_formed_request 3 16 e
     \<and> (\<forall>bs. snd e = Some bs \<longrightarrow> bs ! 8 = ucast blocked \<and> take 6 (drop 9 bs) = mac_bytes b)"

definition sta_statistics_received :: "u32 \<Rightarrow> macaddr \<Rightarrow> u32 \<times> u8 list option \<Rightarrow> bool" where
  "sta_statistics_received ptr a e \<longleftrightarrow> well_formed_request 16 28 e
     \<and> (\<forall>bs. snd e = Some bs \<longrightarrow> u32_at 8 bs = 0 \<and> u32_at 12 bs = 0 \<and> take 6 (drop 16 bs) = mac_bytes a
          \<and> u32_at 24 bs = uint ptr)"

lemma requests_received:
  "sw_cmd_received s adr dat (sizeof_sw_cmd_params, tm_bytes ptr (sw_cmd_data s adr dat))"
  "hotspot_received b x (sizeof_hotspot_params, tm_bytes ptr (hotspot_data (Some b) x))"
  "sta_statistics_received ptr b
      (sizeof_get_sta_statistics_params, tm_bytes ptr (sta_statistics_data (Some b) buf))"
  unfolding sw_cmd_received_def hotspot_received_def sta_statistics_received_def
  by (simp_all add: request_layouts [unfolded One_nat_def])
    (simp_all add: u32_at_Cons sw_cmd_data_def hotspot_data_def sta_statistics_data_def sw_cmd_params_bytes_def
      hotspot_params_bytes_def get_sta_statistics_params_bytes_def test_mode_info_bytes_def
      u32_at_skip nth_append)

lemma one_payload:
  "drv bss = Some d \<Longrightarrow>
     length (payloads ptr (snd (wpa_driver_nl80211_testmode cfg abi nl env (Some bss) data len []))) \<le> 1"
  using payloads_testmode [of bss d ptr cfg abi nl env data len "[]"] by auto

lemma payloads_received:
  "drv bss = Some d \<Longrightarrow> P (len, tm_bytes ptr data) \<Longrightarrow>
     list_all P (payloads ptr (snd (wpa_driver_nl80211_testmode cfg abi nl env (Some bss) data len [])))"
  using payloads_testmode [of bss d ptr cfg abi nl env data len "[]"] by auto

section \<open>Property\<close>

text \<open>
  C20: what the kernel receives of a request is what the request was called with. Each of the
  three requests whose structure this file declares puts at most one attribute into a message;
  it is as long as its header and the attribute say, starts with the number of the request and
  format version 1, and has the register and its value, the blocked flag and the station, or
  the station and the address of the caller's structure, at the offsets of the members.\<close>

theorem request_bytes_received:
  assumes "drv bss = Some d"
  shows "(let ps = payloads ptr (snd (wpa_driver_nl80211_driver_sw_cmd cfg abi nl env (Some bss) s adr dat []))
          in length ps \<le> 1 \<and> list_all (sw_cmd_received s adr dat) ps)
       \<and> (let ps = payloads ptr (snd (wpa_driver_hotspot_block_list_update cfg abi nl env (Some bss) (Some b) x []))
          in length ps \<le> 1 \<and> list_all (hotspot_received b x) ps)
       \<and> (let ps = payloads ptr (snd (wpas_get_sta_statistics cfg abi nl env (Some bss) (Some b) buf []))
          in length ps \<le> 1 \<and> list_all (sta_statistics_received ptr b) ps)"
  unfolding wpa_driver_nl80211_driver_sw_cmd_def wpa_driver_hotspot_block_list_update_def
    wpas_get_sta_statistics_def Let_def case_prod_beta snd_conv
  by (intro conjI one_payload [OF assms] payloads_received [OF assms] requests_received)

theorem request_bytes_received_witness:
  "payloads 0x1000 (snd (wpa_driver_hotspot_block_list_update demo_cfg demo_abi tlv_libnl (demo_env [])
       (Some demo_bss) (Some (Mac 1 2 3 4 5 6)) 1 []))
     = [(16, Some [3, 0, 0, 1, 16, 0, 0, 0, 1, 1, 2, 3, 4, 5, 6, 0])]
   \<and> hotspot_received (Mac 1 2 3 4 5 6) 1
       (16, Some [3, 0, 0, 1, 16, 0, 0, 0, 1, 1, 2, 3, 4, 5, 6, 0])"
proof -
  let ?ps = "payloads 0x1000 (snd (wpa_driver_hotspot_block_list_update demo_cfg demo_abi tlv_libnl
      (demo_env []) (Some demo_bss) (Some (Mac 1 2 3 4 5 6)) 1 []))"
  have ps: "?ps = [(16, Some [3, 0, 0, 1, 16, 0, 0, 0, 1, 1, 2, 3, 4, 5, 6, 0])]"
    by code_simp
  note request_bytes_received [OF demo_bss_drv(1), of "0x1000" demo_cfg demo_abi tlv_libnl "demo_env []" _ _ _ "Mac 1 2 3 4 5 6" 1]
  then have "list_all (hotspot_received (Mac 1 2 3 4 5 6) 1) ?ps"
    unfolding Let_def by blast
  then show ?thesis unfolding ps by simp
qed

end
