(* ===== verification/Driver_Reports.thy ===== *)
theory Driver_Reports
  imports Driver_Correct Testmode_Layout
begin

text \<open>
  The station report from one end to the other: the private command \<open>GET_STA_STATISTICS\<close>
  (src/wpa_supplicant_8_lib/mediatek_driver_cmd_nl80211.c) goes through the dispatch of
  \<open>wpa_driver_nl80211_driver_cmd\<close>, the request of \<open>wpas_get_sta_statistics\<close>, the send of
  \<open>wpa_driver_nl80211_testmode\<close>, the handler of the kernel's replies and the formatting of
  \<open>print_sta_statistics\<close>. The lemmas of these components are put together here.
\<close>

section \<open>The rate stays in range\<close>

lemma short_rate_u16: "short_rate (tx_rate_of_u16 w)"
proof -
  have "0 \<le> (of_int k :: rat) / 2 \<and> of_int k / 2 \<le> (32768 :: rat)" if "0 \<le> k" "k < 65536" for k
    using that by (simp add: divide_le_eq)
  from this [OF uint_ge_0] show ?thesis
    using uint_lt2p [of w] unfolding tx_rate_of_u16_def by simp
qed

lemma handler_rate: "rate_ok st \<Longrightarrow> rate_ok (testmode_sta_statistics_handler nl msg st)"
  using short_rate_u16
  by (simp add: testmode_sta_statistics_handler_def sta_statistics_loop rate_ok_def attr_or_def
      split: option.split)

interpretation strate: invariant_system "testmode_sta_statistics_handler nl" rate_ok for nl
  by unfold_locales (rule handler_rate)

text \<open>
  The structure is an uninitialised local variable: its rate is whatever the stack held until a
  reply carries the attribute.
\<close>

definition carries_rate :: "('m, 'a) libnl \<Rightarrow> 'm \<Rightarrow> bool" where
  "carries_rate nl msg \<longleftrightarrow>
     (case Option.bind (nl_testdata nl msg) (nl_nested nl STA_STATISTICS_MAX sta_statistics_policy) of
        None \<Rightarrow> False | Some sinfo \<Rightarrow> (case sinfo STA_STATISTICS_TX_RATE of None \<Rightarrow> False | Some _ \<Rightarrow> True))"

lemma handler_sets_rate:
  "carries_rate nl msg \<Longrightarrow> rate_ok (testmode_sta_statistics_handler nl msg st)"
  using short_rate_u16
  by (auto simp: carries_rate_def testmode_sta_statistics_handler_def sta_statistics_loop rate_ok_def
      attr_or_def STA_STATISTICS_TX_RATE_def split: option.splits bind_splits)

lemma replies_set_rate:
  assumes "m \<in> set msgs" and "carries_rate nl m"
  shows "rate_ok (fold (testmode_sta_statistics_handler nl) msgs st)"
proof -
  obtain pre post where "msgs = pre @ m # post" using assms(1) by (auto dest: split_list)
  then show ?thesis using strate.run_inv [OF handler_sets_rate [OF assms(2)]] by simp
qed

lemma handler_rssi_int:
  assumes "rssi_int st"
  shows "rssi_int (testmode_sta_statistics_handler nl msg st)"
proof -
  have "-2147483648 \<le> rssi_of_u8 b \<and> rssi_of_u8 b \<le> 2147483647" for b
    using rssi_of_u8_range [of b] by linarith
  then have "-2147483648 \<le> attr_or sinfo 6 (\<lambda>a. rssi_of_u8 (nla_get_u8 nl a)) (rssi st)
      \<and> attr_or sinfo 6 (\<lambda>a. rssi_of_u8 (nla_get_u8 nl a)) (rssi st) \<le> 2147483647" for sinfo
    using assms
    by (intro attr_or_P [where P = "\<lambda>x. -2147483648 \<le> x \<and> x \<le> 2147483647"]) (simp_all add: rssi_int_def)
  with assms show ?thesis
    by (simp add: testmode_sta_statistics_handler_def sta_statistics_loop rssi_int_def split: option.split)
qed

interpretation stint: invariant_system "testmode_sta_statistics_handler nl" rssi_int for nl
  by unfold_locales (rule handler_rssi_int)

section \<open>The report of a structure\<close>

lemma report_fits:
  assumes "n \<le> length buf" and "600 < n" and "length (addr st) = ETH_ALEN" and "rssi_int st" and "rate_ok st"
  obtains buf' where "print_sta_statistics st buf n = Inr (int (length (stats_text st)), buf')"
    and "take (length (stats_text st) + 1) buf' = stats_text st @ [NUL]"
    and "length buf' = length buf" and "drop n buf' = drop n buf"
proof -
  obtain ok pos mem where e: "emit_all n (map fst (stats_pieces st)) 0 buf = (ok, pos, mem)"
    and p: "print_sta_statistics st buf n = Inr (if ok then int pos else 0, mem)"
    using print_sta_statistics_chain [OF assms(1)] .
  note e0 = emit_all_from_0 [OF stats_pieces_not_Nil assms(1) e, folded stats_text_def]
  have "length (stats_text st) \<le> 600"
    using assms(3-5) by (rule stats_text_le)
  with e0 assms(2) that [of mem] show thesis by (simp add: p)
qed

lemma get_sta_statistics_accepted:
  assumes "drv bss = Some d" "nl_global d = Some g" and "env_accepts env (ret, msgs)" and "hwaddr_aton abi sta = Some a"
    and "0 \<le> ret"
  obtains ext where "wpa_driver_get_sta_statistics cfg abi nl env (Some bss) sta buf n stack tr
      = (print_sta_statistics (fold (testmode_sta_statistics_handler nl) msgs stack) buf n, tr @ ext)"
    and "map fst ext = tm_calls g d sizeof_get_sta_statistics_params (sta_statistics_data (Some a) stack)"
proof -
  obtain ext where "wpa_driver_nl80211_testmode cfg abi nl env (Some bss) (sta_statistics_data (Some a) stack)
        sizeof_get_sta_statistics_params tr
      = (tm_result cfg abi nl (sta_statistics_data (Some a) stack) (ret, msgs), tr @ ext)"
    and ext: "map fst ext = tm_calls g d sizeof_get_sta_statistics_params (sta_statistics_data (Some a) stack)"
    using testmode_accepted [OF assms(1-3)] by blast
  then have "wpas_get_sta_statistics cfg abi nl env (Some bss) (Some a) stack tr
      = (Inr (ret, fold (testmode_sta_statistics_handler nl) msgs stack), tr @ ext)"
    by (simp add: wpas_get_sta_statistics_def tm_result_requests) (simp add: sta_statistics_data_def)
  with that [OF _ ext] assms(4,5) show thesis
    by (simp add: wpa_driver_get_sta_statistics_def)
qed

section \<open>Property\<close>

text \<open>
  C15: a \<open>GET_STA_STATISTICS\<close> command for a readable address, on a station's interface whose
  pointers are set and whose channel accepts the request, makes exactly the calls of one test-mode
  request that names the station, reads every reply into the structure and leaves in the caller's
  buffer the whole report of that structure with its NUL, whose length it returns. It does so
  whatever the uninitialised structure held, provided that one reply carries the rate (otherwise
  the report shows what the stack held and may not fit) and that the caller's length is more than
  600 and no more than its buffer has (a shorter one can get 0); nothing past the caller's length
  is written.\<close>

theorem station_report_delivered:
  assumes station: "drv bss = Some d" "ctx d = Some c" "wpas h c = Some w" "conf w"
      "ifname bss \<noteq> ''ap0''" "drv_priv w = Some b" "drv b = Some e" "nl_global e = Some ge"
    and channel: "env_accepts env (ret, msgs)" "0 \<le> ret" "libnl_ok nl"
    and replies: "m \<in> set msgs" "carries_rate nl m"
    and stack: "stats_shape stack1" "rssi_int stack1"
    and buffer: "n \<le> length buf" "600 < n"
    and mac: "hwaddr_aton abi mac = Some a"
  shows "\<exists>s' buf' ext.
     wpa_driver_nl80211_driver_cmd cfg abi nl env (Some bss) (''GET_STA_STATISTICS '' @ mac) (Text buf) n
         stack1 stack2 h tr = Some (Inr s', tr @ ext)
     \<and> map fst ext = tm_calls ge e sizeof_get_sta_statistics_params (sta_statistics_data (Some a) stack1)
     \<and> dc_buf s' = Text buf' \<and> length buf' = length buf \<and> drop n buf' = drop n buf
     \<and> (let text = stats_text (fold (testmode_sta_statistics_handler nl) msgs stack1) in
        dc_ret s' = int (length text) \<and> take (length text + 1) buf' = text @ [NUL])"
proof -
  define st where "st = fold (testmode_sta_statistics_handler nl) msgs stack1"
  have st: "length (addr st) = ETH_ALEN" "rssi_int st" "rate_ok st"
    using stshape.run_inv [of nl stack1 msgs] stint.run_inv [OF stack(2)] replies_set_rate [OF replies]
      stack(1) channel(3)
    by (simp_all add: st_def stats_shape_def)
  obtain buf' where report: "print_sta_statistics st buf n = Inr (int (length (stats_text st)), buf')"
      "take (length (stats_text st) + 1) buf' = stats_text st @ [NUL]"
      "length buf' = length buf" "drop n buf' = drop n buf"
    using report_fits [OF buffer st] .
  obtain ext where query: "wpa_driver_get_sta_statistics cfg abi nl env (Some b) mac buf n stack1 tr
      = (print_sta_statistics st buf n, tr @ ext)"
    and calls: "map fst ext = tm_calls ge e sizeof_get_sta_statistics_params (sta_statistics_data (Some a) stack1)"
    unfolding st_def using get_sta_statistics_accepted [OF station(7,8) channel(1) mac channel(2)] .
  let ?s = "\<lparr>dc_ret = -1, dc_cmd = ''GET_STA_STATISTICS '' @ mac, dc_buf = Text buf, dc_heap = h\<rparr>"
  have "wpa_driver_nl80211_driver_cmd cfg abi nl env (Some bss) (''GET_STA_STATISTICS '' @ mac) (Text buf) n
      stack1 stack2 h tr = Some (dc_get_sta_statistics cfg abi nl env (Inr c) n stack1 ?s tr)"
    using station(5) by (simp add: driver_cmd_entry [OF station(1-4)] driver_cmd_dispatch_def cmd_compare)
  also have "dc_get_sta_statistics cfg abi nl env (Inr c) n stack1 ?s tr
      = (Inr (?s\<lparr>dc_ret := int (length (stats_text st)), dc_buf := Text buf'\<rparr>), tr @ ext)"
    using station(3,6) query report(1)
    by (simp add: dc_get_sta_statistics_def dc_wpa_s_def deref_def dc_set_buf_def)
  finally show ?thesis
    using report(2-4) calls unfolding st_def [symmetric] Let_def by auto
qed

text \<open>A kernel that reports a signal of 120 and a rate of 108 half megabits.\<close>

theorem station_report_delivered_witness:
  "\<exists>s' ext. wpa_driver_nl80211_driver_cmd demo_cfg demo_abi tlv_libnl (demo_env [[(6, [120]), (8, [108, 0])]])
       (Some demo_bss) ''GET_STA_STATISTICS 02:00:5e:10:00:ff'' (Text (replicate 700 NUL)) 700
       demo_stats demo_link demo_heap [] = Some (Inr s', ext)
     \<and> map fst ext = tm_calls demo_global demo_drv 28 (sta_statistics_data (Some (Mac 2 0 0x5e 0x10 0 0xff)) demo_stats)
     \<and> dc_ret s' = int (length (stats_text
         (testmode_sta_statistics_handler tlv_libnl [(6, [120]), (8, [108, 0])] demo_stats)))"
proof -
  let ?m = "[(6, [120]), (8, [108, 0])] :: (nat \<times> u8 list) list"
  have m: "?m \<in> set [?m]" by simp
  have rate: "carries_rate tlv_libnl ?m" by code_simp
  have int: "rssi_int demo_stats" by code_simp
  have mac: "hwaddr_aton demo_abi ''02:00:5e:10:00:ff'' = Some (Mac 2 0 0x5e 0x10 0 0xff)" by code_simp
  have buf: "700 \<le> length (replicate 700 NUL)" "600 < (700 :: nat)" by simp_all
  have ret: "0 \<le> (0 :: int)" by simp
  have cmd: "''GET_STA_STATISTICS '' @ ''02:00:5e:10:00:ff'' = ''GET_STA_STATISTICS 02:00:5e:10:00:ff''" by simp
  from station_report_delivered [OF demo_station demo_bss_drv demo_env_accepts ret tlv_libnl_ok m rate
      demo_stats_ok(1) int buf mac, of demo_cfg demo_link "[]"]
  show ?thesis
    unfolding cmd Let_def by (auto simp: sizeof_get_sta_statistics_params_def)
qed

end
