(* ===== verification/MTK_RIL.thy ===== *)
theory MTK_RIL
  imports C_Text
begin

text \<open>
  The radio interface layer of the platform,
  src/ril/telephony/java/com/android/internal/telephony/MediaTekRIL.java: a subclass of the
  framework's RIL that reads the modem's replies and messages out of parcels. It replaces the
  readers of operator names, translates the messages only a MediaTek modem sends into the
  framework's, and builds the requests that differ on this modem.

  A Java string is the list of its UTF-16 units and may be null; an exception is a value. The
  framework and the run-time library are a parameter of type \<open>ril_env\<close>: the class Parcel over an
  abstract type of parcels, the superclass with its readers, its request list and its constants,
  the system properties, the operator table and the UTF-16 decoder. What the code does to its
  surroundings is a list of events. Logging is not modelled.
\<close>

section \<open>Java values\<close>

type_synonym jchar = "16 word"
type_synonym jstring = "jchar list"

definition jstr :: "string \<Rightarrow> jstring" where
  "jstr s = map of_char s"

datatype jexn =
    Invalid_hex_char jchar            \<comment> \<open>\<open>RuntimeException\<close> of \<open>hexCharToInt\<close>\<close>
  | Invalid_response nat              \<comment> \<open>\<open>RuntimeException\<close>: not a multiple of five strings\<close>
  | Unrecognized_response int         \<comment> \<open>\<open>RuntimeException\<close>: no reader for the request\<close>
  | Null_pointer
  | String_index_out_of_bounds
  | Array_index_out_of_bounds
  | Number_format
  | Framework_exception nat           \<comment> \<open>thrown by code of the framework\<close>

type_synonym 'a jresult = "jexn + 'a"

definition jbind :: "'a jresult \<Rightarrow> ('a \<Rightarrow> 'b jresult) \<Rightarrow> 'b jresult" where
  "jbind m f = (case m of Inl e \<Rightarrow> Inl e | Inr x \<Rightarrow> f x)"

text \<open>An element of an array of references.\<close>

definition array_get :: "'a list \<Rightarrow> nat \<Rightarrow> 'a jresult" where
  "array_get xs i = (if i < length xs then Inr (xs ! i) else Inl Array_index_out_of_bounds)"

text \<open>\<open>s.substring(i, j)\<close>\<close>

definition substring :: "nat \<Rightarrow> nat \<Rightarrow> jstring \<Rightarrow> jstring jresult" where
  "substring i j s = (if i \<le> j \<and> j \<le> length s then Inr (take (j - i) (drop i s))
     else Inl String_index_out_of_bounds)"

text \<open>
  \<open>Integer.parseInt(s, radix)\<close>: an optional sign and at least one digit, within the range of an
  \<open>int\<close>. Which characters are digits is the Unicode table of \<open>Character.digit\<close>, a parameter.
\<close>

fun parse_digits :: "(jchar \<Rightarrow> nat option) \<Rightarrow> nat \<Rightarrow> int \<Rightarrow> jstring \<Rightarrow> int option" where
  "parse_digits digit radix acc [] = Some acc"
| "parse_digits digit radix acc (c # cs) =
     (case digit c of None \<Rightarrow> None
      | Some d \<Rightarrow> if d < radix then parse_digits digit radix (acc * int radix + int d) cs else None)"

definition parseInt :: "(jchar \<Rightarrow> nat option) \<Rightarrow> nat \<Rightarrow> jstring option \<Rightarrow> int jresult" where
  "parseInt digit radix s =
     (case s of None \<Rightarrow> Inl Number_format
      | Some t \<Rightarrow>
        let neg = (take 1 t = jstr ''-'');
            ds = (if neg \<or> take 1 t = jstr ''+'' then drop 1 t else t)
        in if ds = [] then Inl Number_format
           else case parse_digits digit radix 0 ds of None \<Rightarrow> Inl Number_format
             | Some n \<Rightarrow> let v = (if neg then - n else n)
                 in if - (2 ^ 31) \<le> v \<and> v < 2 ^ 31 then Inr v else Inl Number_format)"

section \<open>The framework\<close>

text \<open>The functions that read one kind of reply.\<close>

datatype reader =
    R_IccCardStatus | R_Ints | R_CallList | R_Void | R_String | R_SignalStrength | R_Strings
  | R_Operator | R_SMS | R_SetupDataCall | R_ICC_IO | R_CallForward | R_OperatorInfos
  | R_DataCallList | R_Raw | R_GetPreferredNetworkType | R_CellList | R_GmsBroadcastConfig
  | R_CdmaBroadcastConfig | R_CrssNotification | R_EtwsNotification

record operator_info =
  operatorAlphaLong :: "jstring option"
  operatorAlphaShort :: "jstring option"
  operatorNumeric :: "jstring option"
  operatorState :: "jstring option"

record signal_strength =
  gsmSignalStrength :: int
  gsmBitErrorRate :: int
  cdmaDbm :: int
  cdmaEcio :: int
  evdoDbm :: int
  evdoEcio :: int
  evdoSnr :: int
  isGsm :: bool

text \<open>What a reader returns; \<open>O_other\<close> stands for an object of the superclass's readers.\<close>

datatype robject =
    O_null
  | O_strings "jstring option list"
  | O_operators "operator_info list"
  | O_signal signal_strength
  | O_other nat

text \<open>A request in flight; \<open>mResult\<close> names the message that waits for the answer.\<close>

record 'p ril_request =
  mSerial :: int
  mRequest :: int
  mResult :: "nat option"
  mParcel :: 'p

text \<open>What an \<open>AsyncResult\<close> carries.\<close>

datatype async_result = Result robject | Result_int int | Failure jexn

datatype 'p revent =
    Ev_remove_request int                          \<comment> \<open>\<open>findAndRemoveRequestFromList(serial)\<close>\<close>
  | Ev_to_target nat async_result                  \<comment> \<open>\<open>AsyncResult.forMessage\<close>, \<open>sendToTarget\<close>\<close>
  | Ev_on_error "'p ril_request" int robject       \<comment> \<open>\<open>rr.onError(error, ret)\<close>\<close>
  | Ev_send "'p ril_request"                       \<comment> \<open>\<open>send(rr)\<close>\<close>
  | Ev_super_unsolicited 'p                        \<comment> \<open>\<open>super.processUnsolicited(p)\<close>\<close>
  | Ev_property_set string jstring
  | Ev_notify_registrants "int list"

record 'p ril_env =
  readInt :: "'p \<Rightarrow> int \<times> 'p"
  writeInt :: "int \<Rightarrow> 'p \<Rightarrow> 'p"
  writeString :: "jstring option \<Rightarrow> 'p \<Rightarrow> 'p"
  dataAvail :: "'p \<Rightarrow> int"
  dataPosition :: "'p \<Rightarrow> int"
  setDataPosition :: "int \<Rightarrow> 'p \<Rightarrow> 'p"
  readStringArray :: "'p \<Rightarrow> jstring option list option jresult \<times> 'p"
  ril_const :: "string \<Rightarrow> int"                      \<comment> \<open>the constants of RILConstants\<close>
  super_response :: "reader \<Rightarrow> 'p \<Rightarrow> robject jresult \<times> 'p"
  super_unsolicited :: "'p \<Rightarrow> jexn option"          \<comment> \<open>what it throws\<close>
  findAndRemove :: "'p revent list \<Rightarrow> int \<Rightarrow> 'p ril_request option"
  obtain_request :: "'p revent list \<Rightarrow> int \<Rightarrow> nat option \<Rightarrow> 'p ril_request"
  signalFromParcel :: "'p \<Rightarrow> signal_strength jresult \<times> 'p"
  property_get :: "'p revent list \<Rightarrow> string \<Rightarrow> jstring"
  property_getInt :: "'p revent list \<Rightarrow> string \<Rightarrow> int \<Rightarrow> int"
  property_getBoolean :: "'p revent list \<Rightarrow> string \<Rightarrow> bool \<Rightarrow> bool"
  getIccRecords :: "'p revent list \<Rightarrow> jexn option"  \<comment> \<open>what the lookup throws\<close>
  operatorReplace :: "jstring option \<Rightarrow> jstring option jresult"
  stateToState :: "jstring option \<Rightarrow> jexn option"   \<comment> \<open>what the constructor of OperatorInfo throws\<close>
  utf16_string :: "u8 list \<Rightarrow> jstring"              \<comment> \<open>\<open>new String(bytes, "UTF-16")\<close>\<close>
  char_digit :: "jchar \<Rightarrow> nat option"               \<comment> \<open>\<open>Character.digit\<close> for radix 36\<close>

text \<open>The object's own fields and the superclass fields it reads.\<close>

record mtk_ril =
  mSimId :: int
  mInstanceId :: "int option"
  mSubscriptionStatusRegistrants :: bool            \<comment> \<open>whether the list is not null\<close>

definition new_MediaTekRIL :: "int option \<Rightarrow> bool \<Rightarrow> mtk_ril" where
  "new_MediaTekRIL instanceId registrants =
     \<lparr>mSimId = 0, mInstanceId = instanceId, mSubscriptionStatusRegistrants = registrants\<rparr>"

section \<open>Constants\<close>

definition RIL_REQUEST_MTK_BASE :: int where "RIL_REQUEST_MTK_BASE = 2000"
definition RIL_UNSOL_MTK_BASE :: int where "RIL_UNSOL_MTK_BASE = 3000"

definition mtk_requests :: "(string \<times> int) list" where
  "mtk_requests = [
    (''RIL_REQUEST_HANGUP_ALL'', 0), (''RIL_REQUEST_GET_COLP'', 1),
    (''RIL_REQUEST_SET_COLP'', 2), (''RIL_REQUEST_GET_COLR'', 3), (''RIL_REQUEST_GET_CCM'', 4),
    (''RIL_REQUEST_GET_ACM'', 5), (''RIL_REQUEST_GET_ACMMAX'', 6),
    (''RIL_REQUEST_GET_PPU_AND_CURRENCY'', 7), (''RIL_REQUEST_SET_ACMMAX'', 8),
    (''RIL_REQUEST_RESET_ACM'', 9), (''RIL_REQUEST_SET_PPU_AND_CURRENCY'', 10),
    (''RIL_REQUEST_RADIO_POWEROFF'', 11), (''RIL_REQUEST_DUAL_SIM_MODE_SWITCH'', 12),
    (''RIL_REQUEST_QUERY_PHB_STORAGE_INFO'', 13), (''RIL_REQUEST_WRITE_PHB_ENTRY'', 14),
    (''RIL_REQUEST_READ_PHB_ENTRY'', 15), (''RIL_REQUEST_SET_GPRS_CONNECT_TYPE'', 16),
    (''RIL_REQUEST_SET_GPRS_TRANSFER_TYPE'', 17),
    (''RIL_REQUEST_MOBILEREVISION_AND_IMEI'', 18),
    (''RIL_REQUEST_QUERY_SIM_NETWORK_LOCK'', 19), (''RIL_REQUEST_SET_SIM_NETWORK_LOCK'', 20),
    (''RIL_REQUEST_SET_SCRI'', 21), (''RIL_REQUEST_VT_DIAL'', 22),
    (''RIL_REQUEST_VOICE_ACCEPT'', 32), (''RIL_REQUEST_BTSIM_CONNECT'', 23),
    (''RIL_REQUEST_BTSIM_DISCONNECT_OR_POWEROFF'', 24),
    (''RIL_REQUEST_BTSIM_POWERON_OR_RESETSIM'', 25), (''RIL_REQUEST_BTSIM_TRANSFERAPDU'', 26),
    (''RIL_REQUEST_EMERGENCY_DIAL'', 27),
    (''RIL_REQUEST_SET_NETWORK_SELECTION_MANUAL_WITH_ACT'', 28),
    (''RIL_REQUEST_QUERY_ICCID'', 29), (''RIL_REQUEST_SIM_AUTHENTICATION'', 30),
    (''RIL_REQUEST_USIM_AUTHENTICATION'', 31), (''RIL_REQUEST_RADIO_POWERON'', 33),
    (''RIL_REQUEST_GET_SMS_SIM_MEM_STATUS'', 34), (''RIL_REQUEST_FORCE_RELEASE_CALL'', 35),
    (''RIL_REQUEST_SET_CALL_INDICATION'', 36), (''RIL_REQUEST_REPLACE_VT_CALL'', 37),
    (''RIL_REQUEST_GET_3G_CAPABILITY'', 38), (''RIL_REQUEST_SET_3G_CAPABILITY'', 39),
    (''RIL_REQUEST_GET_POL_CAPABILITY'', 40), (''RIL_REQUEST_GET_POL_LIST'', 41),
    (''RIL_REQUEST_SET_POL_ENTRY'', 42), (''RIL_REQUEST_QUERY_UPB_CAPABILITY'', 43),
    (''RIL_REQUEST_EDIT_UPB_ENTRY'', 44), (''RIL_REQUEST_DELETE_UPB_ENTRY'', 45),
    (''RIL_REQUEST_READ_UPB_GAS_LIST'', 46), (''RIL_REQUEST_READ_UPB_GRP'', 47),
    (''RIL_REQUEST_WRITE_UPB_GRP'', 48), (''RIL_REQUEST_DISABLE_VT_CAPABILITY'', 49),
    (''RIL_REQUEST_HANGUP_ALL_EX'', 50), (''RIL_REQUEST_SET_SIM_RECOVERY_ON'', 51),
    (''RIL_REQUEST_GET_SIM_RECOVERY_ON'', 52), (''RIL_REQUEST_SET_TRM'', 53),
    (''RIL_REQUEST_DETECT_SIM_MISSING'', 54), (''RIL_REQUEST_GET_CALIBRATION_DATA'', 55),
    (''RIL_REQUEST_GET_PHB_STRING_LENGTH'', 56), (''RIL_REQUEST_GET_PHB_MEM_STORAGE'', 57),
    (''RIL_REQUEST_SET_PHB_MEM_STORAGE'', 58), (''RIL_REQUEST_READ_PHB_ENTRY_EXT'', 59),
    (''RIL_REQUEST_WRITE_PHB_ENTRY_EXT'', 60), (''RIL_REQUEST_GET_SMS_PARAMS'', 61),
    (''RIL_REQUEST_SET_SMS_PARAMS'', 62), (''RIL_REQUEST_SIM_TRANSMIT_BASIC'', 63),
    (''RIL_REQUEST_SIM_OPEN_CHANNEL'', 64), (''RIL_REQUEST_SIM_CLOSE_CHANNEL'', 65),
    (''RIL_REQUEST_SIM_TRANSMIT_CHANNEL'', 66), (''RIL_REQUEST_SIM_GET_ATR'', 67),
    (''RIL_REQUEST_SET_CB_CHANNEL_CONFIG_INFO'', 68),
    (''RIL_REQUEST_SET_CB_LANGUAGE_CONFIG_INFO'', 69),
    (''RIL_REQUEST_GET_CB_CONFIG_INFO'', 70), (''RIL_REQUEST_SET_ALL_CB_LANGUAGE_ON'', 71),
    (''RIL_REQUEST_SET_ETWS'', 72), (''RIL_REQUEST_SET_FD_MODE'', 73),
    (''RIL_REQUEST_SIM_OPEN_CHANNEL_WITH_SW'', 74), (''RIL_REQUEST_SET_CLIP'', 75),
    (''RIL_REQUEST_UICC_SELECT_APPLICATION'', 76),
    (''RIL_REQUEST_UICC_DEACTIVATE_APPLICATION'', 77),
    (''RIL_REQUEST_UICC_APPLICATION_IO'', 78), (''RIL_REQUEST_UICC_AKA_AUTHENTICATE'', 79),
    (''RIL_REQUEST_UICC_GBA_AUTHENTICATE_BOOTSTRAP'', 80),
    (''RIL_REQUEST_UICC_GBA_AUTHENTICATE_NAF'', 81), (''RIL_REQUEST_STK_EVDL_CALL_BY_AP'', 82)]"

definition mtk_unsols :: "(string \<times> int) list" where
  "mtk_unsols = [
    (''RIL_UNSOL_NEIGHBORING_CELL_INFO'', 0), (''RIL_UNSOL_NETWORK_INFO'', 1),
    (''RIL_UNSOL_CALL_FORWARDING'', 2), (''RIL_UNSOL_CRSS_NOTIFICATION'', 3),
    (''RIL_UNSOL_CALL_PROGRESS_INFO'', 4), (''RIL_UNSOL_PHB_READY_NOTIFICATION'', 5),
    (''RIL_UNSOL_SPEECH_INFO'', 6), (''RIL_UNSOL_SIM_INSERTED_STATUS'', 7),
    (''RIL_UNSOL_RADIO_TEMPORARILY_UNAVAILABLE'', 8), (''RIL_UNSOL_ME_SMS_STORAGE_FULL'', 9),
    (''RIL_UNSOL_SMS_READY_NOTIFICATION'', 10), (''RIL_UNSOL_SCRI_RESULT'', 11),
    (''RIL_UNSOL_VT_STATUS_INFO'', 12), (''RIL_UNSOL_VT_RING_INFO'', 13),
    (''RIL_UNSOL_INCOMING_CALL_INDICATION'', 14), (''RIL_UNSOL_SIM_MISSING'', 15),
    (''RIL_UNSOL_GPRS_DETACH'', 16), (''RIL_UNSOL_ATCI_RESPONSE'', 17),
    (''RIL_UNSOL_SIM_RECOVERY'', 18), (''RIL_UNSOL_VIRTUAL_SIM_ON'', 19),
    (''RIL_UNSOL_VIRTUAL_SIM_OFF'', 20), (''RIL_UNSOL_INVALID_SIM'', 21),
    (''RIL_UNSOL_RESPONSE_PS_NETWORK_STATE_CHANGED'', 22), (''RIL_UNSOL_RESPONSE_ACMT'', 23),
    (''RIL_UNSOL_EF_CSP_PLMN_MODE_BIT'', 24), (''RIL_UNSOL_IMEI_LOCK'', 25),
    (''RIL_UNSOL_RESPONSE_MMRR_STATUS_CHANGED'', 26), (''RIL_UNSOL_SIM_PLUG_OUT'', 27),
    (''RIL_UNSOL_SIM_PLUG_IN'', 28), (''RIL_UNSOL_RESPONSE_ETWS_NOTIFICATION'', 29),
    (''RIL_UNSOL_CNAP'', 30), (''RIL_UNSOL_STK_EVDL_CALL'', 31)]"

definition mtk_request :: "string \<Rightarrow> int" where
  "mtk_request name = RIL_REQUEST_MTK_BASE + the (map_of mtk_requests name)"

definition mtk_unsol :: "string \<Rightarrow> int" where
  "mtk_unsol name = RIL_UNSOL_MTK_BASE + the (map_of mtk_unsols name)"

text \<open>A case label: a constant of this file, one of the framework's, or a number.\<close>

datatype case_label = Mtk string | Aosp string | Number int

fun label_value :: "'p ril_env \<Rightarrow> case_label \<Rightarrow> int" where
  "label_value env (Mtk name) = mtk_unsol name"
| "label_value env (Aosp name) = ril_const env name"
| "label_value env (Number n) = n"

text \<open>The labels of a switch are different numbers, so the first match is the only one.\<close>

definition switch_on :: "'p ril_env \<Rightarrow> (case_label \<times> 'a) list \<Rightarrow> int \<Rightarrow> 'a option" where
  "switch_on env cases n = map_of (map (\<lambda>(l, x). (label_value env l, x)) cases) n"

definition solicited_table :: "(case_label \<times> reader) list" where
  "solicited_table = [
    (Aosp ''RIL_REQUEST_GET_SIM_STATUS'', R_IccCardStatus),
    (Aosp ''RIL_REQUEST_ENTER_SIM_PIN'', R_Ints),
    (Aosp ''RIL_REQUEST_ENTER_SIM_PUK'', R_Ints),
    (Aosp ''RIL_REQUEST_ENTER_SIM_PIN2'', R_Ints),
    (Aosp ''RIL_REQUEST_ENTER_SIM_PUK2'', R_Ints),
    (Aosp ''RIL_REQUEST_CHANGE_SIM_PIN'', R_Ints),
    (Aosp ''RIL_REQUEST_CHANGE_SIM_PIN2'', R_Ints),
    (Aosp ''RIL_REQUEST_ENTER_DEPERSONALIZATION_CODE'', R_Ints),
    (Aosp ''RIL_REQUEST_GET_CURRENT_CALLS'', R_CallList),
    (Aosp ''RIL_REQUEST_DIAL'', R_Void), (Aosp ''RIL_REQUEST_GET_IMSI'', R_String),
    (Aosp ''RIL_REQUEST_HANGUP'', R_Void),
    (Aosp ''RIL_REQUEST_HANGUP_WAITING_OR_BACKGROUND'', R_Void),
    (Aosp ''RIL_REQUEST_HANGUP_FOREGROUND_RESUME_BACKGROUND'', R_Void),
    (Aosp ''RIL_REQUEST_SWITCH_WAITING_OR_HOLDING_AND_ACTIVE'', R_Void),
    (Aosp ''RIL_REQUEST_CONFERENCE'', R_Void), (Aosp ''RIL_REQUEST_UDUB'', R_Void),
    (Aosp ''RIL_REQUEST_LAST_CALL_FAIL_CAUSE'', R_Ints),
    (Aosp ''RIL_REQUEST_SIGNAL_STRENGTH'', R_SignalStrength),
    (Aosp ''RIL_REQUEST_VOICE_REGISTRATION_STATE'', R_Strings),
    (Aosp ''RIL_REQUEST_DATA_REGISTRATION_STATE'', R_Strings),
    (Aosp ''RIL_REQUEST_OPERATOR'', R_Operator), (Aosp ''RIL_REQUEST_RADIO_POWER'', R_Void),
    (Aosp ''RIL_REQUEST_DTMF'', R_Void), (Aosp ''RIL_REQUEST_SEND_SMS'', R_SMS),
    (Aosp ''RIL_REQUEST_SEND_SMS_EXPECT_MORE'', R_SMS),
    (Aosp ''RIL_REQUEST_SETUP_DATA_CALL'', R_SetupDataCall),
    (Aosp ''RIL_REQUEST_SIM_IO'', R_ICC_IO), (Aosp ''RIL_REQUEST_SEND_USSD'', R_Void),
    (Aosp ''RIL_REQUEST_CANCEL_USSD'', R_Void), (Aosp ''RIL_REQUEST_GET_CLIR'', R_Ints),
    (Aosp ''RIL_REQUEST_SET_CLIR'', R_Void),
    (Aosp ''RIL_REQUEST_QUERY_CALL_FORWARD_STATUS'', R_CallForward),
    (Aosp ''RIL_REQUEST_SET_CALL_FORWARD'', R_Void),
    (Aosp ''RIL_REQUEST_QUERY_CALL_WAITING'', R_Ints),
    (Aosp ''RIL_REQUEST_SET_CALL_WAITING'', R_Void),
    (Aosp ''RIL_REQUEST_SMS_ACKNOWLEDGE'', R_Void),
    (Aosp ''RIL_REQUEST_GET_IMEI'', R_String), (Aosp ''RIL_REQUEST_GET_IMEISV'', R_String),
    (Aosp ''RIL_REQUEST_ANSWER'', R_Void),
    (Aosp ''RIL_REQUEST_DEACTIVATE_DATA_CALL'', R_Void),
    (Aosp ''RIL_REQUEST_QUERY_FACILITY_LOCK'', R_Ints),
    (Aosp ''RIL_REQUEST_SET_FACILITY_LOCK'', R_Ints),
    (Aosp ''RIL_REQUEST_CHANGE_BARRING_PASSWORD'', R_Void),
    (Aosp ''RIL_REQUEST_QUERY_NETWORK_SELECTION_MODE'', R_Ints),
    (Aosp ''RIL_REQUEST_SET_NETWORK_SELECTION_AUTOMATIC'', R_Void),
    (Aosp ''RIL_REQUEST_SET_NETWORK_SELECTION_MANUAL'', R_Void),
    (Aosp ''RIL_REQUEST_QUERY_AVAILABLE_NETWORKS'', R_OperatorInfos),
    (Aosp ''RIL_REQUEST_DTMF_START'', R_Void), (Aosp ''RIL_REQUEST_DTMF_STOP'', R_Void),
    (Aosp ''RIL_REQUEST_BASEBAND_VERSION'', R_String),
    (Aosp ''RIL_REQUEST_SEPARATE_CONNECTION'', R_Void),
    (Aosp ''RIL_REQUEST_SET_MUTE'', R_Void), (Aosp ''RIL_REQUEST_GET_MUTE'', R_Ints),
    (Aosp ''RIL_REQUEST_QUERY_CLIP'', R_Ints),
    (Aosp ''RIL_REQUEST_LAST_DATA_CALL_FAIL_CAUSE'', R_Ints),
    (Aosp ''RIL_REQUEST_DATA_CALL_LIST'', R_DataCallList),
    (Aosp ''RIL_REQUEST_RESET_RADIO'', R_Void), (Aosp ''RIL_REQUEST_OEM_HOOK_RAW'', R_Raw),
    (Aosp ''RIL_REQUEST_OEM_HOOK_STRINGS'', R_Strings),
    (Aosp ''RIL_REQUEST_SCREEN_STATE'', R_Void),
    (Aosp ''RIL_REQUEST_SET_SUPP_SVC_NOTIFICATION'', R_Void),
    (Aosp ''RIL_REQUEST_WRITE_SMS_TO_SIM'', R_Ints),
    (Aosp ''RIL_REQUEST_DELETE_SMS_ON_SIM'', R_Void),
    (Aosp ''RIL_REQUEST_SET_BAND_MODE'', R_Void),
    (Aosp ''RIL_REQUEST_QUERY_AVAILABLE_BAND_MODE'', R_Ints),
    (Aosp ''RIL_REQUEST_STK_GET_PROFILE'', R_String),
    (Aosp ''RIL_REQUEST_STK_SET_PROFILE'', R_Void),
    (Aosp ''RIL_REQUEST_STK_SEND_ENVELOPE_COMMAND'', R_String),
    (Aosp ''RIL_REQUEST_STK_SEND_TERMINAL_RESPONSE'', R_Void),
    (Aosp ''RIL_REQUEST_STK_HANDLE_CALL_SETUP_REQUESTED_FROM_SIM'', R_Ints),
    (Aosp ''RIL_REQUEST_EXPLICIT_CALL_TRANSFER'', R_Void),
    (Aosp ''RIL_REQUEST_SET_PREFERRED_NETWORK_TYPE'', R_Void),
    (Aosp ''RIL_REQUEST_GET_PREFERRED_NETWORK_TYPE'', R_GetPreferredNetworkType),
    (Aosp ''RIL_REQUEST_GET_NEIGHBORING_CELL_IDS'', R_CellList),
    (Aosp ''RIL_REQUEST_SET_LOCATION_UPDATES'', R_Void),
    (Aosp ''RIL_REQUEST_CDMA_SET_SUBSCRIPTION_SOURCE'', R_Void),
    (Aosp ''RIL_REQUEST_CDMA_SET_ROAMING_PREFERENCE'', R_Void),
    (Aosp ''RIL_REQUEST_CDMA_QUERY_ROAMING_PREFERENCE'', R_Ints),
    (Aosp ''RIL_REQUEST_SET_TTY_MODE'', R_Void),
    (Aosp ''RIL_REQUEST_QUERY_TTY_MODE'', R_Ints),
    (Aosp ''RIL_REQUEST_CDMA_SET_PREFERRED_VOICE_PRIVACY_MODE'', R_Void),
    (Aosp ''RIL_REQUEST_CDMA_QUERY_PREFERRED_VOICE_PRIVACY_MODE'', R_Ints),
    (Aosp ''RIL_REQUEST_CDMA_FLASH'', R_Void),
    (Aosp ''RIL_REQUEST_CDMA_BURST_DTMF'', R_Void),
    (Aosp ''RIL_REQUEST_CDMA_SEND_SMS'', R_SMS),
    (Aosp ''RIL_REQUEST_CDMA_SMS_ACKNOWLEDGE'', R_Void),
    (Aosp ''RIL_REQUEST_GSM_GET_BROADCAST_CONFIG'', R_GmsBroadcastConfig),
    (Aosp ''RIL_REQUEST_GSM_SET_BROADCAST_CONFIG'', R_Void),
    (Aosp ''RIL_REQUEST_GSM_BROADCAST_ACTIVATION'', R_Void),
    (Aosp ''RIL_REQUEST_CDMA_GET_BROADCAST_CONFIG'', R_CdmaBroadcastConfig),
    (Aosp ''RIL_REQUEST_CDMA_SET_BROADCAST_CONFIG'', R_Void),
    (Aosp ''RIL_REQUEST_CDMA_BROADCAST_ACTIVATION'', R_Void),
    (Aosp ''RIL_REQUEST_CDMA_VALIDATE_AND_WRITE_AKEY'', R_Void),
    (Aosp ''RIL_REQUEST_CDMA_SUBSCRIPTION'', R_Strings),
    (Aosp ''RIL_REQUEST_CDMA_WRITE_SMS_TO_RUIM'', R_Ints),
    (Aosp ''RIL_REQUEST_CDMA_DELETE_SMS_ON_RUIM'', R_Void),
    (Aosp ''RIL_REQUEST_DEVICE_IDENTITY'', R_Strings),
    (Aosp ''RIL_REQUEST_GET_SMSC_ADDRESS'', R_String),
    (Aosp ''RIL_REQUEST_SET_SMSC_ADDRESS'', R_Void),
    (Aosp ''RIL_REQUEST_EXIT_EMERGENCY_CALLBACK_MODE'', R_Void),
    (Aosp ''RIL_REQUEST_REPORT_SMS_MEMORY_STATUS'', R_Void),
    (Aosp ''RIL_REQUEST_REPORT_STK_SERVICE_IS_RUNNING'', R_Void), (Number 104, R_Ints),
    (Number 105, R_Ints), (Number 106, R_Strings), (Number 107, R_Ints),
    (Aosp ''RIL_REQUEST_VOICE_RADIO_TECH'', R_Ints)]"

definition unsolicited_table :: "(case_label \<times> reader) list" where
  "unsolicited_table = [
    (Mtk ''RIL_UNSOL_NEIGHBORING_CELL_INFO'', R_Strings),
    (Mtk ''RIL_UNSOL_NETWORK_INFO'', R_Strings),
    (Mtk ''RIL_UNSOL_CALL_FORWARDING'', R_Ints),
    (Mtk ''RIL_UNSOL_CRSS_NOTIFICATION'', R_CrssNotification),
    (Mtk ''RIL_UNSOL_CALL_PROGRESS_INFO'', R_Strings),
    (Mtk ''RIL_UNSOL_PHB_READY_NOTIFICATION'', R_Void),
    (Mtk ''RIL_UNSOL_SIM_INSERTED_STATUS'', R_Ints),
    (Mtk ''RIL_UNSOL_SIM_MISSING'', R_Ints), (Mtk ''RIL_UNSOL_SIM_RECOVERY'', R_Ints),
    (Mtk ''RIL_UNSOL_VIRTUAL_SIM_ON'', R_Ints),
    (Mtk ''RIL_UNSOL_VIRTUAL_SIM_OFF'', R_Ints), (Mtk ''RIL_UNSOL_SPEECH_INFO'', R_Ints),
    (Mtk ''RIL_UNSOL_RADIO_TEMPORARILY_UNAVAILABLE'', R_Ints),
    (Mtk ''RIL_UNSOL_ME_SMS_STORAGE_FULL'', R_Void),
    (Mtk ''RIL_UNSOL_SMS_READY_NOTIFICATION'', R_Void),
    (Mtk ''RIL_UNSOL_VT_STATUS_INFO'', R_Ints), (Mtk ''RIL_UNSOL_VT_RING_INFO'', R_Void),
    (Mtk ''RIL_UNSOL_SCRI_RESULT'', R_Ints), (Mtk ''RIL_UNSOL_GPRS_DETACH'', R_Void),
    (Mtk ''RIL_UNSOL_INCOMING_CALL_INDICATION'', R_Strings),
    (Mtk ''RIL_UNSOL_EF_CSP_PLMN_MODE_BIT'', R_Ints),
    (Mtk ''RIL_UNSOL_RESPONSE_PS_NETWORK_STATE_CHANGED'', R_Void),
    (Mtk ''RIL_UNSOL_INVALID_SIM'', R_Strings), (Mtk ''RIL_UNSOL_RESPONSE_ACMT'', R_Ints),
    (Mtk ''RIL_UNSOL_IMEI_LOCK'', R_Void),
    (Mtk ''RIL_UNSOL_RESPONSE_MMRR_STATUS_CHANGED'', R_Ints),
    (Mtk ''RIL_UNSOL_SIM_PLUG_OUT'', R_Ints), (Mtk ''RIL_UNSOL_SIM_PLUG_IN'', R_Ints),
    (Mtk ''RIL_UNSOL_RESPONSE_ETWS_NOTIFICATION'', R_EtwsNotification),
    (Mtk ''RIL_UNSOL_CNAP'', R_Strings), (Mtk ''RIL_UNSOL_STK_EVDL_CALL'', R_Ints),
    (Aosp ''RIL_UNSOL_RESPONSE_RADIO_STATE_CHANGED'', R_Void)]"

section \<open>Operator names\<close>

definition hexCharToInt :: "jchar \<Rightarrow> int jresult" where
  "hexCharToInt c =
     (if 0x30 \<le> c \<and> c \<le> 0x39 then Inr (uint c - 0x30)
      else if 0x41 \<le> c \<and> c \<le> 0x46 then Inr (uint c - 0x41 + 10)
      else if 0x61 \<le> c \<and> c \<le> 0x66 then Inr (uint c - 0x61 + 10)
      else Inl (Invalid_hex_char c))"

text \<open>
  The loop over pairs of characters. At an odd end the first character of the pair is still
  converted before the second is looked for.
\<close>

fun hex_pairs :: "jstring \<Rightarrow> u8 list jresult" where
  "hex_pairs [] = Inr []"
| "hex_pairs [c] = jbind (hexCharToInt c) (\<lambda>_. Inl String_index_out_of_bounds)"
| "hex_pairs (c # d # s) =
     jbind (hexCharToInt c) (\<lambda>hi. jbind (hexCharToInt d) (\<lambda>lo.
       jbind (hex_pairs s) (\<lambda>bs. Inr (word_of_int (push_bit 4 hi OR lo) # bs))))"

definition hexStringToBytes :: "jstring option \<Rightarrow> u8 list option jresult" where
  "hexStringToBytes s =
     (case s of None \<Rightarrow> Inr None | Some t \<Rightarrow> jbind (hex_pairs t) (\<lambda>bs. Inr (Some bs)))"

text \<open>
  The decoding both operator readers start with: a name that starts with \<open>uCs2\<close> is the
  hexadecimal text of UTF-16 bytes.
\<close>

definition ucs2_name :: "'p ril_env \<Rightarrow> jstring option \<Rightarrow> jstring option jresult" where
  "ucs2_name env name =
     (case name of None \<Rightarrow> Inr None
      | Some s \<Rightarrow>
        if take 4 s = jstr ''uCs2''
        then jbind (hexStringToBytes (Some (drop 4 s))) (\<lambda>bs. case bs of
               None \<Rightarrow> Inl Null_pointer | Some b \<Rightarrow> Inr (Some (utf16_string env b)))
        else Inr (Some s))"

text \<open>Whether a name is missing, so that the table of operators is asked: \<open>name\<close> is not null.\<close>

definition name_unknown :: "jstring \<Rightarrow> jstring option \<Rightarrow> bool" where
  "name_unknown name numeric \<longleftrightarrow> name = [] \<or> numeric = Some name"

definition responseOperator :: "'p ril_env \<Rightarrow> 'p \<Rightarrow> robject jresult \<times> 'p" where
  "responseOperator env p =
     (let (r, p1) = readStringArray env p in
      (jbind r (\<lambda>arr. case arr of None \<Rightarrow> Inl Null_pointer
       | Some response \<Rightarrow>
         jbind (array_get response 0) (\<lambda>name0. jbind (ucs2_name env name0) (\<lambda>name.
           let response1 = response[0 := name] in
           case name of None \<Rightarrow> Inr (O_strings response1)
           | Some n \<Rightarrow> jbind (array_get response1 2) (\<lambda>numeric.
               if name_unknown n numeric
               then jbind (operatorReplace env numeric) (\<lambda>temp.
                      Inr (O_strings (response1[0 := temp, 1 := temp])))
               else Inr (O_strings response1))))), p1))"

text \<open>\<open>s.concat(" " + act)\<close>, where a null \<open>act\<close> prints as \<open>null\<close>.\<close>

definition append_act :: "jstring option \<Rightarrow> jstring option \<Rightarrow> jstring option jresult" where
  "append_act s act = (case s of None \<Rightarrow> Inl Null_pointer
     | Some t \<Rightarrow> Inr (Some (t @ jstr '' '' @ (case act of None \<Rightarrow> jstr ''null'' | Some a \<Rightarrow> a))))"

definition baseband_property :: "mtk_ril \<Rightarrow> string" where
  "baseband_property self =
     (if mSimId self > 0 then ''gsm.baseband.capability'' @ fmt_d (mSimId self + 1)
      else ''gsm.baseband.capability'')"

text \<open>
  The location code of one entry is parsed and skipped; the lookup by it is disabled in the
  source. Returns the next index into the codes.
\<close>

definition skip_lac :: "'p ril_env \<Rightarrow> 'p revent list \<Rightarrow> jstring \<Rightarrow> nat \<Rightarrow> nat jresult" where
  "skip_lac env evs lacStr lacIndex =
     (case getIccRecords env evs of Some e \<Rightarrow> Inl e
      | None \<Rightarrow> jbind (substring lacIndex (lacIndex + 4) lacStr) (\<lambda>lac.
          jbind (parseInt (char_digit env) 16 (Some lac)) (\<lambda>lacValue. Inr (lacIndex + 4))))"

text \<open>One turn of the loop of \<open>responseOperatorInfos\<close>, on the five strings of an entry.\<close>

definition operator_entry :: "'p ril_env \<Rightarrow> mtk_ril \<Rightarrow> 'p revent list \<Rightarrow> bool \<Rightarrow> jstring
    \<Rightarrow> nat \<Rightarrow> jstring option \<Rightarrow> jstring option \<Rightarrow> jstring option \<Rightarrow> jstring option \<Rightarrow> jstring option
    \<Rightarrow> (operator_info \<times> nat) jresult" where
  "operator_entry env self evs lacValid lacStr lacIndex long short numeric state act =
     jbind (ucs2_name env long) (\<lambda>long1.
     jbind (if lacValid \<and> long1 \<noteq> None then skip_lac env evs lacStr lacIndex else Inr lacIndex) (\<lambda>lacIndex1.
     jbind (case long1 of None \<Rightarrow> Inr (long1, short)
            | Some n \<Rightarrow> if name_unknown n numeric
                then jbind (operatorReplace env numeric) (\<lambda>temp. Inr (temp, temp))
                else Inr (long1, short)) (\<lambda>(long2, short2).
     jbind (if 3 < property_getInt env evs (baseband_property self) 3
            then jbind (append_act long2 act) (\<lambda>l. jbind (append_act short2 act) (\<lambda>s. Inr (l, s)))
            else Inr (long2, short2)) (\<lambda>(long3, short3).
     case stateToState env state of Some e \<Rightarrow> Inl e
     | None \<Rightarrow> Inr (\<lparr>operatorAlphaLong = long3, operatorAlphaShort = short3,
                      operatorNumeric = numeric, operatorState = state\<rparr>, lacIndex1)))))"

fun operator_entries :: "'p ril_env \<Rightarrow> mtk_ril \<Rightarrow> 'p revent list \<Rightarrow> bool \<Rightarrow> jstring
    \<Rightarrow> nat \<Rightarrow> jstring option list \<Rightarrow> operator_info list jresult" where
  "operator_entries env self evs lacValid lacStr lacIndex (a # b # c # d # e # strings) =
     jbind (operator_entry env self evs lacValid lacStr lacIndex a b c d e) (\<lambda>(info, lacIndex1).
       jbind (operator_entries env self evs lacValid lacStr lacIndex1 strings) (\<lambda>infos.
         Inr (info # infos)))"
| "operator_entries env self evs lacValid lacStr lacIndex strings = Inr []"

text \<open>
  \<open>responseOperatorInfos\<close>: the strings come from \<open>responseStrings\<close> of the superclass, which may
  return null. The property with the location codes is read and cleared on the way.
\<close>

definition responseOperatorInfos :: "'p ril_env \<Rightarrow> mtk_ril \<Rightarrow> 'p \<Rightarrow> 'p revent list
    \<Rightarrow> robject jresult \<times> 'p \<times> 'p revent list" where
  "responseOperatorInfos env self p evs =
     (let (r, p1) = super_response env R_Strings p in
      case r of Inl e \<Rightarrow> (Inl e, p1, evs)
      | Inr (O_strings strings) \<Rightarrow>
          if length strings mod 5 \<noteq> 0 then (Inl (Invalid_response (length strings)), p1, evs)
          else
            let lacStr = property_get env evs ''gsm.cops.lac'';
                lacValid = (length lacStr > 0 \<and> length lacStr mod 4 = 0
                            \<and> length lacStr div 4 = length strings div 5);
                evs1 = evs @ [Ev_property_set ''gsm.cops.lac'' []]
            in (jbind (operator_entries env self evs1 lacValid lacStr 0 strings)
                  (\<lambda>infos. Inr (O_operators infos)), p1, evs1)
      | Inr _ \<Rightarrow> (Inl Null_pointer, p1, evs))"

definition responseSignalStrength :: "'p ril_env \<Rightarrow> 'p \<Rightarrow> robject jresult \<times> 'p" where
  "responseSignalStrength env p =
     (let (r, p1) = signalFromParcel env p in
      (jbind r (\<lambda>s. Inr (O_signal \<lparr>gsmSignalStrength = gsmSignalStrength s,
         gsmBitErrorRate = gsmBitErrorRate s, cdmaDbm = cdmaDbm s, cdmaEcio = cdmaEcio s,
         evdoDbm = evdoDbm s, evdoEcio = evdoEcio s, evdoSnr = evdoSnr s, isGsm = True\<rparr>)), p1))"

definition responseCrssNotification :: "'p \<Rightarrow> robject jresult \<times> 'p" where
  "responseCrssNotification p = (Inr O_null, p)"

definition responseEtwsNotification :: "'p \<Rightarrow> robject jresult \<times> 'p" where
  "responseEtwsNotification p = (Inr O_null, p)"

text \<open>A call of a reader: those this class defines, and the superclass's.\<close>

definition call_reader :: "'p ril_env \<Rightarrow> mtk_ril \<Rightarrow> reader \<Rightarrow> 'p \<Rightarrow> 'p revent list
    \<Rightarrow> robject jresult \<times> 'p \<times> 'p revent list" where
  "call_reader env self rd p evs = (case rd of
      R_Operator \<Rightarrow> (let (r, p1) = responseOperator env p in (r, p1, evs))
    | R_OperatorInfos \<Rightarrow> responseOperatorInfos env self p evs
    | R_SignalStrength \<Rightarrow> (let (r, p1) = responseSignalStrength env p in (r, p1, evs))
    | R_CrssNotification \<Rightarrow> (let (r, p1) = responseCrssNotification p in (r, p1, evs))
    | R_EtwsNotification \<Rightarrow> (let (r, p1) = responseEtwsNotification p in (r, p1, evs))
    | _ \<Rightarrow> (let (r, p1) = super_response env rd p in (r, p1, evs)))"

section \<open>Answers to requests\<close>

text \<open>\<open>AsyncResult.forMessage(m, ...)\<close> and \<open>m.sendToTarget()\<close> for a message that may be null.\<close>

definition to_target :: "nat option \<Rightarrow> async_result \<Rightarrow> 'p revent list" where
  "to_target m r = (case m of None \<Rightarrow> [] | Some i \<Rightarrow> [Ev_to_target i r])"

text \<open>The request number of an old modem is converted back before the switch.\<close>

definition convert_request :: "'p ril_env \<Rightarrow> 'p revent list \<Rightarrow> 'p ril_request \<Rightarrow> 'p ril_request" where
  "convert_request env evs rr =
     (if take 3 (property_get env evs ''ro.cm.device'') = jstr ''e73'' \<and> mRequest rr = 220
      then rr\<lparr>mRequest := ril_const env ''RIL_REQUEST_BASEBAND_VERSION''\<rparr> else rr)"

definition read_solicited :: "'p ril_env \<Rightarrow> mtk_ril \<Rightarrow> 'p ril_request \<Rightarrow> 'p \<Rightarrow> 'p revent list
    \<Rightarrow> robject jresult \<times> 'p revent list" where
  "read_solicited env self rr p evs =
     (case switch_on env solicited_table (mRequest rr) of
        None \<Rightarrow> (Inl (Unrecognized_response (mRequest rr)), evs)
      | Some rd \<Rightarrow> (let (r, p1, evs1) = call_reader env self rd p evs in (r, evs1)))"

definition processSolicited :: "'p ril_env \<Rightarrow> mtk_ril \<Rightarrow> 'p \<Rightarrow> 'p revent list
    \<Rightarrow> 'p ril_request option \<times> 'p revent list" where
  "processSolicited env self p evs =
     (let (serial, p1) = readInt env p;
          (error, p2) = readInt env p1;
          evs1 = evs @ [Ev_remove_request serial]
      in case findAndRemove env evs serial of None \<Rightarrow> (None, evs1)
      | Some rr \<Rightarrow>
          let read = (error = 0 \<or> dataAvail env p2 > 0);
              rr1 = (if read then convert_request env evs1 rr else rr);
              (ret, evs2) = (if read then read_solicited env self rr1 p2 evs1 else (Inr O_null, evs1))
          in case ret of
               Inl tr \<Rightarrow> (Some rr1, evs2 @ to_target (mResult rr1) (Failure tr))
             | Inr obj \<Rightarrow>
                 if error \<noteq> 0 then (Some rr1, evs2 @ [Ev_on_error rr1 error obj])
                 else (Some rr1, evs2 @ to_target (mResult rr1) (Result obj)))"

section \<open>Requests\<close>

definition send_request :: "'p ril_env \<Rightarrow> int \<Rightarrow> nat option \<Rightarrow> ('p \<Rightarrow> 'p) \<Rightarrow> 'p revent list \<Rightarrow> 'p revent list" where
  "send_request env req result fill evs =
     (let rr = obtain_request env evs req result
      in evs @ [Ev_send (rr\<lparr>mParcel := fill (mParcel rr)\<rparr>)])"

definition setCallIndication :: "'p ril_env \<Rightarrow> jstring option list \<Rightarrow> 'p revent list \<Rightarrow> unit jresult \<times> 'p revent list" where
  "setCallIndication env info evs =
     (let parse = (\<lambda>i. jbind (array_get info i) (parseInt (char_digit env) 10)) in
      case jbind (parse 0) (\<lambda>callId. jbind (parse 3) (\<lambda>callMode. jbind (parse 4) (\<lambda>seqNumber.
             Inr (callId, seqNumber)))) of
        Inl e \<Rightarrow> (Inl e, evs)
      | Inr (callId, seqNumber) \<Rightarrow>
          (Inr (), send_request env (mtk_request ''RIL_REQUEST_SET_CALL_INDICATION'') None
             (\<lambda>p. writeInt env seqNumber (writeInt env callId (writeInt env 0 (writeInt env 3 p)))) evs))"

definition setupDataCall :: "'p ril_env \<Rightarrow> jstring option \<Rightarrow> jstring option \<Rightarrow> jstring option \<Rightarrow> jstring option
    \<Rightarrow> jstring option \<Rightarrow> jstring option \<Rightarrow> jstring option \<Rightarrow> nat option \<Rightarrow> 'p revent list \<Rightarrow> 'p revent list" where
  "setupDataCall env radioTechnology profile apn user password authType protocol result evs =
     send_request env (ril_const env ''RIL_REQUEST_SETUP_DATA_CALL'') result
       (\<lambda>p. fold (writeString env)
              [radioTechnology, profile, apn, user, password, authType, protocol, Some (jstr ''1'')]
              (writeInt env 8 p)) evs"

definition setRadioStateFromRILInt :: "'p ril_env \<Rightarrow> int \<Rightarrow> 'p revent list \<Rightarrow> 'p revent list" where
  "setRadioStateFromRILInt env stateCode evs =
     (if stateCode = 0 \<or> stateCode = 1 then evs
      else send_request env (mtk_request ''RIL_REQUEST_SET_GPRS_CONNECT_TYPE'') None
             (\<lambda>p. writeInt env 1 (writeInt env 1 p))
             (send_request env (mtk_request ''RIL_REQUEST_SET_GPRS_TRANSFER_TYPE'') None
               (\<lambda>p. writeInt env 1 (writeInt env 1 p)) evs))"

definition setRadioPower :: "'p ril_env \<Rightarrow> mtk_ril \<Rightarrow> bool \<Rightarrow> nat option \<Rightarrow> 'p revent list \<Rightarrow> 'p revent list" where
  "setRadioPower env self on result evs =
     (if \<not> property_getBoolean env evs ''persist.ril.enable'' True then evs
      else if mInstanceId self = Some 1 then evs
      else send_request env (mtk_request ''RIL_REQUEST_DUAL_SIM_MODE_SWITCH'') result
             (\<lambda>p. writeInt env (if on then 3 else -1) (writeInt env 1 p)) evs)"

text \<open>The three functions that answer at once; a null message is a null pointer.\<close>

definition answer_at_once :: "nat option \<Rightarrow> 'p revent list \<Rightarrow> unit jresult \<times> 'p revent list" where
  "answer_at_once response evs = (case response of None \<Rightarrow> (Inl Null_pointer, evs)
     | Some m \<Rightarrow> (Inr (), evs @ [Ev_to_target m (Result_int 0)]))"

definition setUiccSubscription :: "mtk_ril \<Rightarrow> int \<Rightarrow> int \<Rightarrow> int \<Rightarrow> int \<Rightarrow> nat option \<Rightarrow> 'p revent list
    \<Rightarrow> unit jresult \<times> 'p revent list" where
  "setUiccSubscription self slotId appIndex subId subStatus result evs =
     (let (r, evs1) = answer_at_once result evs in
      case r of Inl e \<Rightarrow> (Inl e, evs1)
      | Inr _ \<Rightarrow>
        (Inr (),
         if subStatus = 1
         then (if mSubscriptionStatusRegistrants self then evs1 @ [Ev_notify_registrants [1]] else evs1)
         else if subStatus = 0
         then (if mSubscriptionStatusRegistrants self then evs1 @ [Ev_notify_registrants [0]] else evs1)
         else evs1))"

definition setDataSubscription :: "nat option \<Rightarrow> 'p revent list \<Rightarrow> unit jresult \<times> 'p revent list" where
  "setDataSubscription response evs = answer_at_once response evs"

definition setDefaultVoiceSub :: "int \<Rightarrow> nat option \<Rightarrow> 'p revent list \<Rightarrow> unit jresult \<times> 'p revent list" where
  "setDefaultVoiceSub subIndex response evs = answer_at_once response evs"

section \<open>Messages of the modem\<close>

definition super_processUnsolicited :: "'p ril_env \<Rightarrow> 'p \<Rightarrow> 'p revent list \<Rightarrow> unit jresult \<times> 'p revent list" where
  "super_processUnsolicited env p evs =
     (case super_unsolicited env p of Some e \<Rightarrow> Inl e | None \<Rightarrow> Inr (), evs @ [Ev_super_unsolicited p])"

text \<open>
  The second switch of \<open>processUnsolicited\<close>: the code to put in place of the modem's, if any,
  after the work of the branch. \<open>ret\<close> is what the reader returned.
\<close>

definition unsolicited_action :: "'p ril_env \<Rightarrow> int \<Rightarrow> robject \<Rightarrow> 'p \<Rightarrow> 'p revent list
    \<Rightarrow> int option jresult \<times> 'p \<times> 'p revent list" where
  "unsolicited_action env response ret p evs =
     (if response = mtk_unsol ''RIL_UNSOL_CALL_PROGRESS_INFO''
      then (Inr (Some (ril_const env ''RIL_UNSOL_RESPONSE_CALL_STATE_CHANGED'')), p, evs)
      else if response = mtk_unsol ''RIL_UNSOL_INCOMING_CALL_INDICATION''
      then (let (r, evs1) = (case ret of O_strings info \<Rightarrow> setCallIndication env info evs
                             | _ \<Rightarrow> (Inl Null_pointer, evs))
            in (jbind r (\<lambda>_. Inr (Some (ril_const env ''RIL_UNSOL_RESPONSE_CALL_STATE_CHANGED''))), p, evs1))
      else if response = mtk_unsol ''RIL_UNSOL_RESPONSE_PS_NETWORK_STATE_CHANGED''
      then (Inr (Some (ril_const env ''RIL_UNSOL_RESPONSE_VOICE_NETWORK_STATE_CHANGED'')), p, evs)
      else if response = mtk_unsol ''RIL_UNSOL_SIM_INSERTED_STATUS''
           \<or> response = mtk_unsol ''RIL_UNSOL_SIM_MISSING''
           \<or> response = mtk_unsol ''RIL_UNSOL_SIM_PLUG_OUT''
           \<or> response = mtk_unsol ''RIL_UNSOL_SIM_PLUG_IN''
      then (Inr (Some (ril_const env ''RIL_UNSOL_RESPONSE_SIM_STATUS_CHANGED'')), p, evs)
      else if response = mtk_unsol ''RIL_UNSOL_SMS_READY_NOTIFICATION'' then (Inr None, p, evs)
      else if response = ril_const env ''RIL_UNSOL_RESPONSE_RADIO_STATE_CHANGED''
      then (let (stateCode, p1) = readInt env p
            in (Inr (Some (ril_const env ''RIL_UNSOL_RESPONSE_RADIO_STATE_CHANGED'')), p1,
                setRadioStateFromRILInt env stateCode evs))
      else (Inr None, p, evs))"

definition processUnsolicited :: "'p ril_env \<Rightarrow> mtk_ril \<Rightarrow> 'p \<Rightarrow> 'p revent list
    \<Rightarrow> unit jresult \<times> 'p revent list" where
  "processUnsolicited env self p evs =
     (let pos = dataPosition env p;
          (response, p1) = readInt env p
      in case switch_on env unsolicited_table response of
           None \<Rightarrow> super_processUnsolicited env (setDataPosition env pos p1) evs
         | Some rd \<Rightarrow>
             let (ret, p2, evs1) = call_reader env self rd p1 evs in
             case ret of Inl e \<Rightarrow> (Inl e, evs1)
             | Inr obj \<Rightarrow>
                 let (action, p3, evs2) = unsolicited_action env response obj p2 evs1 in
                 case action of Inl e \<Rightarrow> (Inl e, evs2)
                 | Inr None \<Rightarrow> (Inr (), evs2)
                 | Inr (Some newResponseCode) \<Rightarrow>
                     super_processUnsolicited env
                       (setDataPosition env pos (writeInt env newResponseCode (setDataPosition env pos p3)))
                       evs2)"

end
