(* ===== verification/RIL_Correct.thy ===== *)
theory RIL_Correct
  imports MTK_RIL
begin

text \<open>
  Properties of the radio interface layer: hexadecimal operator names are decoded exactly and
  everything else is rejected; a list of operators is read entry by entry; each answer of the modem
  reaches the message that waits for it once; the modem's own messages reach the framework under
  the framework's codes with their contents unchanged.
\<close>

section \<open>Hexadecimal text\<close>

lemma jbind_simps [simp]: "jbind (Inl e) f = Inl e" "jbind (Inr x) f = f x"
  by (simp_all add: jbind_def)

lemma jbind_Inr_iff: "jbind m f = Inr y \<longleftrightarrow> (\<exists>x. m = Inr x \<and> f x = Inr y)"
  by (cases m) simp_all

text \<open>Printing bytes in hexadecimal, with digits of either case.\<close>

definition hex_digit :: "bool \<Rightarrow> nat \<Rightarrow> jchar" where
  "hex_digit upper n =
     (if n < 10 then of_nat (0x30 + n) else of_nat ((if upper then 0x41 else 0x61) + n - 10))"

definition hex_text :: "bool \<Rightarrow> u8 list \<Rightarrow> jstring" where
  "hex_text upper bs =
     concat (map (\<lambda>b. [hex_digit upper (unat b div 16), hex_digit upper (unat b mod 16)]) bs)"

definition is_hex :: "jchar \<Rightarrow> bool" where
  "is_hex c \<longleftrightarrow> 0x30 \<le> c \<and> c \<le> 0x39 \<or> 0x41 \<le> c \<and> c \<le> 0x46 \<or> 0x61 \<le> c \<and> c \<le> 0x66"

lemma hexCharToInt_ok: "is_hex c \<longleftrightarrow> (\<exists>v. hexCharToInt c = Inr v)"
  by (auto simp: is_hex_def hexCharToInt_def)

lemma hex_digits_all:
  "list_all (\<lambda>n. hexCharToInt (hex_digit True n) = Inr (int n)
     \<and> hexCharToInt (hex_digit False n) = Inr (int n)) [0..<16]"
  by code_simp

lemma hexCharToInt_digit: "n < 16 \<Longrightarrow> hexCharToInt (hex_digit upper n) = Inr (int n)"
  using hex_digits_all by (cases upper) (simp_all add: list_all_iff)

lemma push_4_or:
  assumes "lo < 16"
  shows "push_bit 4 (int hi) OR int lo = 16 * int hi + int lo"
proof -
  have "take_bit 4 (int lo) = int lo" using assms by (simp add: take_bit_eq_mod)
  then have "push_bit 4 (int hi) OR int lo = concat_bit 4 (int lo) (int hi)"
    by (simp add: concat_bit_def or.commute)
  also have "\<dots> = take_bit 4 (int lo) + push_bit 4 (int hi)" by (rule concat_bit_eq)
  finally show ?thesis using \<open>take_bit 4 (int lo) = int lo\<close> by (simp add: push_bit_eq_mult)
qed

lemma byte_from_nibbles: "word_of_int (push_bit 4 (int (unat b div 16)) OR int (unat b mod 16)) = (b :: u8)"
proof -
  have "16 * int (unat b div 16) + int (unat b mod 16) = int (unat b)"
    by (metis mult_div_mod_eq of_nat_add of_nat_mult of_nat_numeral)
  then show ?thesis by (simp add: push_4_or)
qed

lemma hex_pairs_text: "hex_pairs (hex_text upper bs) = Inr bs"
proof (induction bs)
  case Nil
  show ?case by (simp add: hex_text_def)
next
  case (Cons b bs)
  have "unat b < 2 ^ LENGTH(8)" by (rule unsigned_less)
  then have "unat b div 16 < 16" "unat b mod 16 < 16" by simp_all
  then show ?case
    using Cons by (simp add: hex_text_def hexCharToInt_digit byte_from_nibbles del: of_nat_mod of_nat_div)
qed

lemma hex_pairs_iff:
  "(\<exists>bs. hex_pairs s = Inr bs \<and> length bs = length s div 2) \<longleftrightarrow> even (length s) \<and> list_all is_hex s"
  by (induction s rule: hex_pairs.induct) (auto simp: jbind_Inr_iff hexCharToInt_ok)

text \<open>
  C30: \<open>hexStringToBytes\<close> reads back every byte string printed in hexadecimal, in either case, and
  returns null for null. It returns normally exactly for texts of an even number of hexadecimal
  digits, then with half as many bytes; a text of odd length or with another character raises an
  exception.\<close>

theorem hex_string_roundtrip:
  "hexStringToBytes (Some (hex_text upper bs)) = Inr (Some bs)
   \<and> hexStringToBytes None = Inr None
   \<and> ((\<exists>bs'. hexStringToBytes (Some s) = Inr (Some bs') \<and> length bs' = length s div 2)
        \<longleftrightarrow> even (length s) \<and> list_all is_hex s)
   \<and> (odd (length s) \<or> \<not> list_all is_hex s \<longrightarrow> (\<exists>e. hexStringToBytes (Some s) = Inl e))"
proof -
  have "\<exists>e. hex_pairs s = Inl e" if "odd (length s) \<or> \<not> list_all is_hex s"
    using that by (induction s rule: hex_pairs.induct)
      (auto simp: jbind_def hexCharToInt_ok split: sum.splits)
  then show ?thesis
    using hex_pairs_iff [of s] by (auto simp: hexStringToBytes_def hex_pairs_text jbind_Inr_iff jbind_def split: sum.splits)
qed

theorem hex_string_roundtrip_witness:
  "\<exists>e. hexStringToBytes (Some (jstr ''4A6'')) = Inl e"
  using hex_string_roundtrip [of True "[]" "jstr ''4A6''"] by (simp add: jstr_def)

section \<open>Answers to requests\<close>

text \<open>The events that answer message \<open>m\<close>.\<close>

fun answers :: "nat \<Rightarrow> 'p revent \<Rightarrow> bool" where
  "answers m (Ev_to_target i r) \<longleftrightarrow> i = m"
| "answers m (Ev_on_error rr error ret) \<longleftrightarrow> mResult rr = Some m"
| "answers m _ \<longleftrightarrow> False"

definition clears_lac :: "'p revent list \<Rightarrow> bool" where
  "clears_lac evs \<longleftrightarrow> evs = [] \<or> evs = [Ev_property_set ''gsm.cops.lac'' []]"

lemma clears_lac_silent: "clears_lac evs \<Longrightarrow> list_all (\<lambda>e. \<not> answers m e) evs"
  by (auto simp: clears_lac_def)

lemma call_reader_events: "\<exists>mid. snd (snd (call_reader env self rd p evs)) = evs @ mid \<and> clears_lac mid"
  by (cases rd)
     (auto simp: call_reader_def responseOperatorInfos_def clears_lac_def Let_def case_prod_beta
        split: sum.split robject.split)

lemma read_solicited_events:
  "\<exists>mid. snd (read_solicited env self rr p evs) = evs @ mid \<and> clears_lac mid"
  using call_reader_events [of env self _ p evs]
  by (auto simp: read_solicited_def case_prod_beta clears_lac_def split: option.split)

lemma convert_request_result [simp]: "mResult (convert_request env evs rr) = mResult rr"
  by (simp add: convert_request_def)

text \<open>What a message gets for what a reader returned.\<close>

definition answer_event :: "nat \<Rightarrow> 'p ril_request \<Rightarrow> int \<Rightarrow> robject jresult \<Rightarrow> 'p revent" where
  "answer_event m rr error ret = (case ret of Inl e \<Rightarrow> Ev_to_target m (Failure e)
     | Inr obj \<Rightarrow> if error \<noteq> 0 then Ev_on_error rr error obj else Ev_to_target m (Result obj))"

lemma answers_answer_event: "mResult rr = Some m \<Longrightarrow> answers m (answer_event m rr error ret)"
  by (simp add: answer_event_def split: sum.split)

lemma processSolicited_found:
  assumes "readInt env p = (serial, p1)" and "readInt env p1 = (error, p2)"
    and "findAndRemove env evs serial = Some rr" and "mResult rr = Some m"
  defines "evs1 \<equiv> evs @ [Ev_remove_request serial]"
  defines "rr1 \<equiv> convert_request env evs1 rr"
  shows "processSolicited env self p evs =
     (if error \<noteq> 0 \<and> dataAvail env p2 \<le> 0 then (Some rr, evs1 @ [Ev_on_error rr error O_null])
      else (Some rr1, snd (read_solicited env self rr1 p2 evs1)
              @ [answer_event m rr1 error (fst (read_solicited env self rr1 p2 evs1))]))"
proof -
  have "mResult rr1 = Some m" using assms(4) by (simp add: rr1_def)
  then show ?thesis
    using assms(1-4)
    by (cases "fst (read_solicited env self rr1 p2 evs1)")
       (auto simp: processSolicited_def Let_def case_prod_beta to_target_def answer_event_def
          evs1_def [symmetric] rr1_def [symmetric])
qed

text \<open>
  C9: An answer of the modem to a request some message waits for: the request is taken off the
  list and the message gets exactly one answer. It is the error with no data, when the modem reports
  an error without data; else the exception the reader raised, the error with the data read, or the
  data read. Nothing a reader raises escapes. A serial number nobody waits for changes nothing else.\<close>

theorem solicited_answered_once:
  assumes "readInt env p = (serial, p1)" and "readInt env p1 = (error, p2)"
    and "evs1 = evs @ [Ev_remove_request serial]"
  shows "(findAndRemove env evs serial = None \<longrightarrow> processSolicited env self p evs = (None, evs1))
    \<and> (findAndRemove env evs serial = Some rr \<and> mResult rr = Some m \<longrightarrow>
        (\<exists>rr1 mid answer. processSolicited env self p evs = (Some rr1, evs1 @ mid @ [answer])
           \<and> list_all (\<lambda>e. \<not> answers m e) mid \<and> answers m answer
           \<and> answer = (if error \<noteq> 0 \<and> dataAvail env p2 \<le> 0 then Ev_on_error rr error O_null
                        else answer_event m rr1 error (fst (read_solicited env self rr1 p2 evs1)))))"
proof (intro conjI impI)
  assume "findAndRemove env evs serial = None"
  then show "processSolicited env self p evs = (None, evs1)"
    using assms by (simp add: processSolicited_def)
next
  assume "findAndRemove env evs serial = Some rr \<and> mResult rr = Some m"
  then have found: "findAndRemove env evs serial = Some rr" "mResult rr = Some m" by simp_all
  define rr1 where "rr1 = convert_request env evs1 rr"
  obtain mid where mid: "snd (read_solicited env self rr1 p2 evs1) = evs1 @ mid" "clears_lac mid"
    using read_solicited_events [of env self rr1 p2 evs1] by (elim exE conjE)
  have res: "mResult rr1 = Some m" using found by (simp add: rr1_def)
  note eq = processSolicited_found [OF assms(1-2) found, folded assms(3), folded rr1_def]
  show "\<exists>rr1 mid answer. processSolicited env self p evs = (Some rr1, evs1 @ mid @ [answer])
           \<and> list_all (\<lambda>e. \<not> answers m e) mid \<and> answers m answer
           \<and> answer = (if error \<noteq> 0 \<and> dataAvail env p2 \<le> 0 then Ev_on_error rr error O_null
                        else answer_event m rr1 error (fst (read_solicited env self rr1 p2 evs1)))"
  proof (cases "error \<noteq> 0 \<and> dataAvail env p2 \<le> 0")
    case True
    then show ?thesis
      using eq [of self] found by (intro exI [of _ rr] exI [of _ "[]"] exI) auto
  next
    case False
    show ?thesis
      unfolding eq [of self] if_not_P [OF False] mid(1)
      using clears_lac_silent [OF mid(2)] answers_answer_event [OF res]
      by (intro exI [of _ rr1] exI [of _ mid]
          exI [of _ "answer_event m rr1 error (fst (read_solicited env self rr1 p2 evs1))"]) simp
  qed
qed

text \<open>
  A framework to evaluate the code with: a parcel is a list of numbers with a position in it, and
  every reader of the superclass returns the same strings.
\<close>

fun utf16_be :: "u8 list \<Rightarrow> jstring" where
  "utf16_be (a # b # bs) = (push_bit 8 (ucast a) OR ucast b) # utf16_be bs"
| "utf16_be bs = []"

definition word_env :: "jstring option list \<Rightarrow> (int list \<times> nat) ril_env" where
  "word_env strings =
     \<lparr>readInt = (\<lambda>(ws, i). if i < length ws then (ws ! i, ws, Suc i) else (0, ws, i)),
      writeInt = (\<lambda>n (ws, i). (if i < length ws then ws[i := n] else ws @ [n], Suc i)),
      writeString = (\<lambda>s (ws, i). (ws @ [case s of None \<Rightarrow> -1 | Some t \<Rightarrow> int (length t)], Suc i)),
      dataAvail = (\<lambda>(ws, i). 4 * int (length ws - i)),
      dataPosition = (\<lambda>(ws, i). 4 * int i),
      setDataPosition = (\<lambda>k (ws, i). (ws, nat (k div 4))),
      readStringArray = (\<lambda>p. (Inr (Some strings), p)),
      ril_const = (\<lambda>n. if n = ''RIL_UNSOL_RESPONSE_RADIO_STATE_CHANGED'' then 1000
                       else if n = ''RIL_UNSOL_RESPONSE_CALL_STATE_CHANGED'' then 1001
                       else if n = ''RIL_UNSOL_RESPONSE_VOICE_NETWORK_STATE_CHANGED'' then 1002
                       else if n = ''RIL_UNSOL_RESPONSE_SIM_STATUS_CHANGED'' then 1019 else 27),
      super_response = (\<lambda>rd p. (Inr (O_strings strings), p)),
      super_unsolicited = (\<lambda>p. None),
      findAndRemove = (\<lambda>evs serial. if serial = 5
         then Some \<lparr>mSerial = 5, mRequest = 27, mResult = Some 0, mParcel = ([], 0)\<rparr> else None),
      obtain_request = (\<lambda>evs req res. \<lparr>mSerial = 9, mRequest = req, mResult = res, mParcel = ([req, 9], 2)\<rparr>),
      signalFromParcel = (\<lambda>p. (Inl Null_pointer, p)),
      property_get = (\<lambda>evs n. []), property_getInt = (\<lambda>evs n d. d), property_getBoolean = (\<lambda>evs n d. d),
      getIccRecords = (\<lambda>evs. None),
      operatorReplace = (\<lambda>n. Inr n), stateToState = (\<lambda>s. None),
      utf16_string = utf16_be,
      char_digit = (\<lambda>c. if 0x30 \<le> c \<and> c \<le> 0x39 then Some (unat c - 0x30) else None)\<rparr>"

definition demo_ril :: mtk_ril where
  "demo_ril = new_MediaTekRIL None True"

lemma word_env_fields [simp]:
  "readInt (word_env ss) (ws, i) = (if i < length ws then (ws ! i, ws, Suc i) else (0, ws, i))"
  "writeInt (word_env ss) n (ws, i) = (if i < length ws then ws[i := n] else ws @ [n], Suc i)"
  "dataPosition (word_env ss) (ws, i) = 4 * int i"
  "setDataPosition (word_env ss) k (ws, i) = (ws, nat (k div 4))"
  "super_response (word_env ss) rd p = (Inr (O_strings ss), p)"
  "super_unsolicited (word_env ss) p = None"
  "findAndRemove (word_env ss) evs 5 = Some \<lparr>mSerial = 5, mRequest = 27, mResult = Some 0, mParcel = ([], 0)\<rparr>"
  "mRequest (obtain_request (word_env ss) evs req res) = req"
  "ril_const (word_env ss) ''RIL_UNSOL_RESPONSE_RADIO_STATE_CHANGED'' = 1000"
  by (simp_all add: word_env_def)

theorem solicited_answered_once_witness:
  "\<exists>rr1 mid answer. processSolicited (word_env []) demo_ril ([5, 0], 0) []
     = (Some rr1, [Ev_remove_request 5] @ mid @ [answer]) \<and> answers 0 answer"
proof -
  have "readInt (word_env []) ([5, 0], 0) = (5, [5, 0], 1)" "readInt (word_env []) ([5, 0], 1) = (0, [5, 0], 2)"
    by simp_all
  from solicited_answered_once [OF this refl, THEN conjunct2, of "[]"
      "\<lparr>mSerial = 5, mRequest = 27, mResult = Some 0, mParcel = ([], 0)\<rparr>" 0 demo_ril]
  show ?thesis by auto
qed

section \<open>Messages of the modem\<close>

text \<open>
  What the code relies on of the framework's parcels: they are numbers with a position, reading
  moves the position and changes nothing, writing inside replaces one number. \<open>words\<close> gives the
  numbers of a parcel.
\<close>

definition cell :: "'p ril_env \<Rightarrow> 'p \<Rightarrow> nat" where
  "cell env p = nat (dataPosition env p div 4)"

definition parcel_ok :: "'p ril_env \<Rightarrow> ('p \<Rightarrow> int list) \<Rightarrow> bool" where
  "parcel_ok env words \<longleftrightarrow>
     (\<forall>p. cell env p < length (words p) \<longrightarrow> fst (readInt env p) = words p ! cell env p)
     \<and> (\<forall>p. words (snd (readInt env p)) = words p)
     \<and> (\<forall>p k. words (setDataPosition env k p) = words p)
     \<and> (\<forall>p q. dataPosition env (setDataPosition env (dataPosition env q) p) = dataPosition env q)
     \<and> (\<forall>p n. cell env p < length (words p) \<longrightarrow> words (writeInt env n p) = (words p)[cell env p := n])
     \<and> (\<forall>p rd. words (snd (super_response env rd p)) = words p)"

text \<open>A new request carries the number it was obtained for.\<close>

definition obtain_ok :: "'p ril_env \<Rightarrow> bool" where
  "obtain_ok env \<longleftrightarrow> (\<forall>evs req res. mRequest (obtain_request env evs req res) = req)"

text \<open>The labels of a Java switch have to be different.\<close>

definition labels_distinct :: "'p ril_env \<Rightarrow> (case_label \<times> 'a) list \<Rightarrow> bool" where
  "labels_distinct env cases \<longleftrightarrow> distinct (map (\<lambda>(l, x). label_value env l) cases)"

abbreviation radio_state_changed :: "'p ril_env \<Rightarrow> int" where
  "radio_state_changed env \<equiv> ril_const env ''RIL_UNSOL_RESPONSE_RADIO_STATE_CHANGED''"

text \<open>The modem's codes that stand for a code of the framework.\<close>

definition framework_code :: "'p ril_env \<Rightarrow> int \<Rightarrow> int option" where
  "framework_code env = map_of
     [(3004, ril_const env ''RIL_UNSOL_RESPONSE_CALL_STATE_CHANGED''),
      (3014, ril_const env ''RIL_UNSOL_RESPONSE_CALL_STATE_CHANGED''),
      (3022, ril_const env ''RIL_UNSOL_RESPONSE_VOICE_NETWORK_STATE_CHANGED''),
      (3007, ril_const env ''RIL_UNSOL_RESPONSE_SIM_STATUS_CHANGED''),
      (3015, ril_const env ''RIL_UNSOL_RESPONSE_SIM_STATUS_CHANGED''),
      (3027, ril_const env ''RIL_UNSOL_RESPONSE_SIM_STATUS_CHANGED''),
      (3028, ril_const env ''RIL_UNSOL_RESPONSE_SIM_STATUS_CHANGED''),
      (radio_state_changed env, radio_state_changed env)]"

lemma mtk_unsol_values [simp]:
  "mtk_unsol ''RIL_UNSOL_CALL_PROGRESS_INFO'' = 3004"
  "mtk_unsol ''RIL_UNSOL_INCOMING_CALL_INDICATION'' = 3014"
  "mtk_unsol ''RIL_UNSOL_RESPONSE_PS_NETWORK_STATE_CHANGED'' = 3022"
  "mtk_unsol ''RIL_UNSOL_SIM_INSERTED_STATUS'' = 3007"
  "mtk_unsol ''RIL_UNSOL_SIM_MISSING'' = 3015"
  "mtk_unsol ''RIL_UNSOL_SIM_PLUG_OUT'' = 3027"
  "mtk_unsol ''RIL_UNSOL_SIM_PLUG_IN'' = 3028"
  "mtk_unsol ''RIL_UNSOL_SMS_READY_NOTIFICATION'' = 3010"
  by code_simp+

lemma unsolicited_labels:
  "map (\<lambda>(l, x). (label_value env l, x)) unsolicited_table =
     [(3000, R_Strings), (3001, R_Strings), (3002, R_Ints), (3003, R_CrssNotification), (3004, R_Strings),
      (3005, R_Void), (3007, R_Ints), (3015, R_Ints), (3018, R_Ints), (3019, R_Ints), (3020, R_Ints),
      (3006, R_Ints), (3008, R_Ints), (3009, R_Void), (3010, R_Void), (3012, R_Ints), (3013, R_Void),
      (3011, R_Ints), (3016, R_Void), (3014, R_Strings), (3024, R_Ints), (3022, R_Void), (3021, R_Strings),
      (3023, R_Ints), (3025, R_Void), (3026, R_Ints), (3027, R_Ints), (3028, R_Ints),
      (3029, R_EtwsNotification), (3030, R_Strings), (3031, R_Ints), (radio_state_changed env, R_Void)]"
  by (simp add: unsolicited_table_def mtk_unsol_def mtk_unsols_def RIL_UNSOL_MTK_BASE_def)

lemmas switch_unsolicited = switch_on_def [of _ unsolicited_table, unfolded unsolicited_labels]

lemma radio_label_fresh:
  assumes "labels_distinct env unsolicited_table"
  shows "radio_state_changed env \<notin> {3003, 3004, 3007, 3010, 3014, 3015, 3022, 3027, 3028, 3029}"
proof -
  have "distinct (map fst (map (\<lambda>(l, x). (label_value env l, x)) unsolicited_table))"
    using assms by (simp add: labels_distinct_def comp_def case_prod_beta')
  then show ?thesis
    unfolding unsolicited_labels by auto
qed

definition requests :: "'p revent list \<Rightarrow> int list" where
  "requests evs = concat (map (\<lambda>e. case e of Ev_send rr \<Rightarrow> [mRequest rr] | _ \<Rightarrow> []) evs)"

lemma mtk_request_values [simp]:
  "mtk_request ''RIL_REQUEST_SET_GPRS_TRANSFER_TYPE'' = 2017"
  "mtk_request ''RIL_REQUEST_SET_GPRS_CONNECT_TYPE'' = 2016"
  "mtk_request ''RIL_REQUEST_SET_CALL_INDICATION'' = 2036"
  "mtk_request ''RIL_REQUEST_DUAL_SIM_MODE_SWITCH'' = 2012"
  by code_simp+

lemma radio_state_requests:
  assumes "obtain_ok env"
  shows "\<exists>sent. setRadioStateFromRILInt env st evs = evs @ sent
           \<and> requests sent = (if st = 0 \<or> st = 1 then [] else [2017, 2016])"
  using assms by (auto simp: setRadioStateFromRILInt_def send_request_def Let_def requests_def obtain_ok_def)

lemma action_rewrites:
  assumes "parcel_ok env words" and "obtain_ok env" and "labels_distinct env unsolicited_table"
    and "framework_code env code = Some new" and "code \<noteq> 3014"
  shows "\<exists>p3 sent. unsolicited_action env code obj p evs = (Inr (Some new), p3, evs @ sent)
     \<and> words p3 = words p
     \<and> requests sent = (if code = radio_state_changed env \<and> fst (readInt env p) \<notin> {0, 1} then [2017, 2016] else [])"
proof (cases "code = radio_state_changed env")
  case True
  with radio_label_fresh [OF assms(3)] have fresh: "code \<notin> {3003, 3004, 3007, 3010, 3014, 3015, 3022, 3027, 3028, 3029}" by simp
  with assms(4) True have "new = radio_state_changed env"
    by (auto simp: framework_code_def split: if_splits)
  moreover obtain sent where "setRadioStateFromRILInt env (fst (readInt env p)) evs = evs @ sent"
    "requests sent = (if fst (readInt env p) = 0 \<or> fst (readInt env p) = 1 then [] else [2017, 2016])"
    using radio_state_requests [OF assms(2)] by blast
  moreover have "words (snd (readInt env p)) = words p" using assms(1) by (simp add: parcel_ok_def)
  ultimately show ?thesis
    using True fresh by (auto simp: unsolicited_action_def case_prod_beta Let_def)
next
  case False
  then show ?thesis
    using assms(4,5)
    by (auto simp: framework_code_def unsolicited_action_def requests_def split: if_splits)
qed

lemma action_ignores: "framework_code env code = None \<Longrightarrow> unsolicited_action env code obj p evs = (Inr None, p, evs)"
  by (auto simp: framework_code_def unsolicited_action_def split: if_splits)

lemma unsolicited_readers:
  assumes "switch_on env unsolicited_table code = Some rd"
  shows "call_reader env self rd p evs = (if rd = R_CrssNotification \<or> rd = R_EtwsNotification then (Inr O_null, p, evs)
           else (fst (super_response env rd p), snd (super_response env rd p), evs))"
    and "labels_distinct env unsolicited_table \<Longrightarrow> framework_code env code = Some new
           \<Longrightarrow> rd \<noteq> R_CrssNotification \<and> rd \<noteq> R_EtwsNotification"
proof -
  have "rd \<in> {R_Strings, R_Ints, R_Void, R_CrssNotification, R_EtwsNotification}"
    using map_of_SomeD [OF assms [unfolded switch_unsolicited]] by auto
  then show "call_reader env self rd p evs = (if rd = R_CrssNotification \<or> rd = R_EtwsNotification then (Inr O_null, p, evs)
      else (fst (super_response env rd p), snd (super_response env rd p), evs))"
    by (auto simp: call_reader_def responseCrssNotification_def responseEtwsNotification_def case_prod_beta)
  show "rd \<noteq> R_CrssNotification \<and> rd \<noteq> R_EtwsNotification"
    if "labels_distinct env unsolicited_table" and "framework_code env code = Some new"
    using that(2) assms radio_label_fresh [OF that(1)] unfolding switch_unsolicited framework_code_def
    by (auto split: if_splits)
qed

lemma rewind_and_replace:
  assumes "parcel_ok env words" and "cell env p < length (words p)" and "words p3 = words p"
    and "q = setDataPosition env (dataPosition env p)
               (writeInt env n (setDataPosition env (dataPosition env p) p3))"
  shows "words q = (words p)[cell env p := n] \<and> dataPosition env q = dataPosition env p"
proof -
  let ?r = "setDataPosition env (dataPosition env p) p3"
  have "dataPosition env ?r = dataPosition env p" "words ?r = words p"
    using assms(1,3) by (simp_all add: parcel_ok_def)
  then have "words (writeInt env n ?r) = (words p)[cell env p := n]"
    using assms(1,2) by (simp add: parcel_ok_def cell_def)
  then show ?thesis
    using assms(1,4) by (simp add: parcel_ok_def)
qed

text \<open>
  C7: What becomes of a message of the modem. A code this class does not know reaches the
  superclass with the parcel as it came. A code that stands for one of the framework's reaches it
  once, at the same position, with the code replaced and every other number unchanged; a change of
  the radio state to anything but off or unavailable first sends the two requests for the GPRS
  transfer and connect types. The other known codes go nowhere.\<close>

theorem unsolicited_forwarded:
  assumes "parcel_ok env words" and "obtain_ok env" and "labels_distinct env unsolicited_table"
    and "cell env p < length (words p)" and "code = words p ! cell env p"
  shows "(switch_on env unsolicited_table code = None \<longrightarrow>
        (\<exists>q. snd (processUnsolicited env self p evs) = evs @ [Ev_super_unsolicited q]
           \<and> words q = words p \<and> dataPosition env q = dataPosition env p))
    \<and> (switch_on env unsolicited_table code = Some rd \<and> framework_code env code = Some new \<and> code \<noteq> 3014
          \<and> super_response env rd (snd (readInt env p)) = (Inr obj, p2) \<longrightarrow>
        (\<exists>sent q. snd (processUnsolicited env self p evs) = evs @ sent @ [Ev_super_unsolicited q]
           \<and> words q = (words p)[cell env p := new] \<and> dataPosition env q = dataPosition env p
           \<and> requests sent = (if code = radio_state_changed env \<and> fst (readInt env p2) \<notin> {0, 1}
                               then [2017, 2016] else [])))
    \<and> (switch_on env unsolicited_table code = Some rd \<and> framework_code env code = None \<longrightarrow>
        snd (processUnsolicited env self p evs) = evs)"
proof -
  obtain p1 where p1: "readInt env p = (code, p1)" "words p1 = words p"
    using assms(1,4,5) by (cases "readInt env p") (auto simp: parcel_ok_def dest!: spec [of _ p])
  show ?thesis
  proof (intro conjI impI, goal_cases)
    case 1
    then show ?case
      using p1 assms(1) by (auto simp: processUnsolicited_def super_processUnsolicited_def parcel_ok_def Let_def)
  next
    case 2
    then have rd: "switch_on env unsolicited_table code = Some rd"
      and fc: "framework_code env code = Some new" and ne: "code \<noteq> 3014"
      and sr: "super_response env rd p1 = (Inr obj, p2)" using p1 by simp_all
    have p2: "words p2 = words p"
      using assms(1) p1(2) sr unfolding parcel_ok_def by (metis snd_conv)
    obtain p3 sent where act: "unsolicited_action env code obj p2 evs = (Inr (Some new), p3, evs @ sent)"
      and p3: "words p3 = words p2"
      and req: "requests sent = (if code = radio_state_changed env \<and> fst (readInt env p2) \<notin> {0, 1} then [2017, 2016] else [])"
      using action_rewrites [OF assms(1-3) fc ne] by blast
    define q where "q = setDataPosition env (dataPosition env p)
        (writeInt env new (setDataPosition env (dataPosition env p) p3))"
    have "snd (processUnsolicited env self p evs) = evs @ sent @ [Ev_super_unsolicited q]"
      using unsolicited_readers(1) [OF rd, of self p1 evs] unsolicited_readers(2) [OF rd assms(3) fc]
      by (simp add: processUnsolicited_def p1(1) rd sr act super_processUnsolicited_def q_def Let_def)
    moreover have "words p3 = words p" using p3 p2 by simp
    from rewind_and_replace [OF assms(1,4) this q_def]
    have "words q = (words p)[cell env p := new] \<and> dataPosition env q = dataPosition env p" .
    ultimately show ?case using req by blast
  next
    case 3
    then show ?case
      using p1 unsolicited_readers(1) [of env code rd self p1 evs]
      by (auto simp: processUnsolicited_def action_ignores Let_def split: sum.split)
  qed
qed

definition demo_words :: "int list \<times> nat \<Rightarrow> int list" where
  "demo_words p = fst p"

lemma word_env_ok:
  "parcel_ok (word_env ss) demo_words" "obtain_ok (word_env ss)"
  "labels_distinct (word_env ss) unsolicited_table"
proof -
  show "parcel_ok (word_env ss) demo_words" "obtain_ok (word_env ss)"
    by (auto simp: parcel_ok_def cell_def demo_words_def obtain_ok_def)
  have "distinct (map fst (map (\<lambda>(l, x). (label_value (word_env ss) l, x)) unsolicited_table))"
    unfolding unsolicited_labels by simp
  then show "labels_distinct (word_env ss) unsolicited_table"
    by (simp add: labels_distinct_def comp_def case_prod_beta')
qed

theorem unsolicited_forwarded_witness:
  "\<exists>sent q. snd (processUnsolicited (word_env []) demo_ril ([1000, 10], 0) [])
       = sent @ [Ev_super_unsolicited q] \<and> demo_words q = [1000, 10] \<and> requests sent = [2017, 2016]"
proof -
  have "framework_code (word_env []) 1000 = Some 1000" "switch_on (word_env []) unsolicited_table 1000 = Some R_Void"
    by (simp_all add: framework_code_def switch_unsolicited)
  then show ?thesis
    using unsolicited_forwarded [OF word_env_ok [of "[]"], where p = "([1000, 10], 0)" and code = 1000
        and self = demo_ril and evs = "[]" and rd = R_Void and new = 1000 and obj = "O_strings []"
        and ?p2.0 = "([1000, 10], 1)"]
    by (auto simp: cell_def demo_words_def)
qed

section \<open>Incoming calls\<close>

text \<open>Decimal text as \<open>parseInt\<close> reads it.\<close>

lemma array_get_nth: "i < length xs \<Longrightarrow> array_get xs i = Inr (xs ! i)"
  by (simp add: array_get_def)

text \<open>
  C31: An incoming call. When the strings of the indication give the call, its mode and its sequence
  number, the class sends one request that accepts the call, with mode 0, the call and the
  sequence number, before the framework hears of a changed call state. With fewer than five
  strings, or with text that is no number among them, even as the mode that is not used, an
  exception leaves the handler: no request is sent and the framework is not told.\<close>

theorem incoming_call_indication:
  assumes "parcel_ok env words" and "labels_distinct env unsolicited_table"
    and "cell env p < length (words p)" and "words p ! cell env p = 3014"
    and "super_response env R_Strings (snd (readInt env p)) = (Inr (O_strings info), p2)"
    and "parse = (\<lambda>i. jbind (array_get info i) (parseInt (char_digit env) 10))"
    and "rr = obtain_request env evs 2036 None"
  shows "(parse 0 = Inr callId \<and> parse 3 = Inr callMode \<and> parse 4 = Inr seqNumber \<longrightarrow>
        (\<exists>q. snd (processUnsolicited env self p evs) = evs @
            [Ev_send (rr\<lparr>mParcel := fold (writeInt env) [3, 0, callId, seqNumber] (mParcel rr)\<rparr>),
             Ev_super_unsolicited q]
           \<and> words q = (words p)[cell env p := ril_const env ''RIL_UNSOL_RESPONSE_CALL_STATE_CHANGED'']))
    \<and> (length info < 5 \<or> (\<exists>i \<in> {0, 3, 4}. \<exists>e. parse i = Inl e) \<longrightarrow>
        (\<exists>e. processUnsolicited env self p evs = (Inl e, evs)))"
proof -
  obtain p1 where p1: "readInt env p = (3014, p1)" "words p1 = words p"
    using assms(1,3,4) by (cases "readInt env p") (auto simp: parcel_ok_def dest!: spec [of _ p])
  have sw: "switch_on env unsolicited_table 3014 = Some R_Strings"
    using radio_label_fresh [OF assms(2)] by (auto simp: switch_unsolicited)
  have p2: "words p2 = words p"
    using assms(1,5) p1 unfolding parcel_ok_def by (metis snd_conv)
  note unfold = processUnsolicited_def p1(1) sw assms(5) [unfolded p1(1) snd_conv] unsolicited_action_def
    setCallIndication_def assms(6) [symmetric] Let_def super_processUnsolicited_def
    unsolicited_readers(1) [OF sw] send_request_def assms(7) [symmetric]
  show ?thesis
  proof (intro conjI impI, goal_cases)
    case 1
    with rewind_and_replace [OF assms(1,3) p2 refl] show ?case by (simp add: unfold)
  next
    case 2
    then have "\<exists>e. jbind (parse 0) (\<lambda>callId. jbind (parse 3) (\<lambda>callMode. jbind (parse 4) (\<lambda>seqNumber.
        Inr (callId, seqNumber)))) = Inl e"
      by (cases "parse 0"; cases "parse 3"; cases "parse 4") (auto simp: assms(6) array_get_def split: if_splits)
    then show ?case by (auto simp: unfold)
  qed
qed

theorem incoming_call_indication_witness:
  "\<exists>q. snd (processUnsolicited (word_env (map (Some \<circ> jstr) [''1'', ''x'', ''y'', ''0'', ''7''])) demo_ril ([3014], 0) [])
      = [Ev_send \<lparr>mSerial = 9, mRequest = 2036, mResult = None, mParcel = ([2036, 9, 3, 0, 1, 7], 6)\<rparr>,
         Ev_super_unsolicited q] \<and> demo_words q = [1001]"
proof -
  let ?ss = "map (Some \<circ> jstr) [''1'', ''x'', ''y'', ''0'', ''7'']"
  have "parseInt (char_digit (word_env ?ss)) 10 (Some (jstr ''1'')) = Inr 1"
    "parseInt (char_digit (word_env ?ss)) 10 (Some (jstr ''0'')) = Inr 0"
    "parseInt (char_digit (word_env ?ss)) 10 (Some (jstr ''7'')) = Inr 7"
    by (simp_all add: word_env_def parseInt_def jstr_def Let_def)
  moreover have "obtain_request (word_env ?ss) [] 2036 None
      = \<lparr>mSerial = 9, mRequest = 2036, mResult = None, mParcel = ([2036, 9], 2)\<rparr>"
    "ril_const (word_env ?ss) ''RIL_UNSOL_RESPONSE_CALL_STATE_CHANGED'' = 1001"
    by (simp_all add: word_env_def)
  ultimately show ?thesis
    using incoming_call_indication [OF word_env_ok(1,3) [of ?ss] _ _ _ refl refl, where p = "([3014], 0)"
        and info = ?ss and ?p2.0 = "([3014], 1)" and evs = "[]" and callId = 1 and callMode = 0
        and seqNumber = 7 and self = demo_ril]
    by (auto simp: cell_def demo_words_def array_get_def)
qed

section \<open>Lists of operators\<close>

text \<open>The strings of a reply, five to an entry: long name, short name, number, state, access technology.\<close>

fun entries_of :: "'a list \<Rightarrow> 'a list list" where
  "entries_of (a # b # c # d # e # xs) = [a, b, c, d, e] # entries_of xs"
| "entries_of xs = []"

text \<open>
  The names an entry should have: the decoded name and the short name as they came, or what the
  table of operators has for the number when the name is empty or repeats the number; on a modem
  of a capability above 3 both with the access technology behind them. \<open>None\<close> where there are no
  such names: the name cannot be decoded, the table fails, or there is no name to put it behind.
\<close>

definition base_names :: "'p ril_env \<Rightarrow> jstring option list \<Rightarrow> (jstring option \<times> jstring option) option" where
  "base_names env entry =
     (case ucs2_name env (entry ! 0) of Inl e \<Rightarrow> None
      | Inr None \<Rightarrow> Some (None, entry ! 1)
      | Inr (Some n) \<Rightarrow>
          if n \<noteq> [] \<and> entry ! 2 \<noteq> Some n then Some (Some n, entry ! 1)
          else (case operatorReplace env (entry ! 2) of Inl e \<Rightarrow> None | Inr t \<Rightarrow> Some (t, t)))"

definition with_act :: "int \<Rightarrow> jstring option \<Rightarrow> jstring option \<times> jstring option \<Rightarrow>
    (jstring option \<times> jstring option) option" where
  "with_act cap act p =
     (if cap \<le> 3 then Some p
      else (case p of (Some x, Some y) \<Rightarrow>
          (let a = (case act of None \<Rightarrow> jstr '' null'' | Some a \<Rightarrow> jstr '' '' @ a) in
           Some (Some (x @ a), Some (y @ a))) | _ \<Rightarrow> None))"

definition shown_names :: "'p ril_env \<Rightarrow> int \<Rightarrow> jstring option list \<Rightarrow> (jstring option \<times> jstring option) option" where
  "shown_names env cap entry = Option.bind (base_names env entry) (with_act cap (entry ! 4))"

text \<open>The entry of the list returned, if the five strings can be read.\<close>

definition expected_info :: "'p ril_env \<Rightarrow> int \<Rightarrow> jstring option list \<Rightarrow> operator_info option" where
  "expected_info env cap entry =
     (case shown_names env cap entry of None \<Rightarrow> None
      | Some (l, s) \<Rightarrow>
          if stateToState env (entry ! 3) = None
          then Some \<lparr>operatorAlphaLong = l, operatorAlphaShort = s, operatorNumeric = entry ! 2,
                     operatorState = entry ! 3\<rparr>
          else None)"

text \<open>
  The location codes read on the way: as many as there are entries with a name, four hexadecimal
  digits each, and the lookup of the card's records must not fail.
\<close>

definition codes_ok :: "'p ril_env \<Rightarrow> 'p revent list \<Rightarrow> jstring \<Rightarrow> nat \<Rightarrow> jstring option list list \<Rightarrow> bool" where
  "codes_ok env evs lacStr k es \<longleftrightarrow>
     (let n = length (filter (\<lambda>e. e ! 0 \<noteq> None) es) in
      (0 < n \<longrightarrow> getIccRecords env evs = None)
      \<and> (\<forall>j < n. \<exists>v. parseInt (char_digit env) 16 (Some (take 4 (drop (k + 4 * j) lacStr))) = Inr v))"

lemma length_entries_of [simp]: "length (entries_of xs) = length xs div 5"
  by (induction xs rule: entries_of.induct) auto

lemma ucs2_name_None: "ucs2_name env a = Inr n \<Longrightarrow> n = None \<longleftrightarrow> a = None"
  by (cases a) (auto simp: ucs2_name_def jbind_Inr_iff split: if_splits option.splits)

lemma skip_lac_iff:
  "skip_lac env evs lacStr k = Inr k' \<longleftrightarrow> getIccRecords env evs = None \<and> k + 4 \<le> length lacStr
     \<and> (\<exists>v. parseInt (char_digit env) 16 (Some (take 4 (drop k lacStr))) = Inr v) \<and> k' = k + 4"
  by (auto simp: skip_lac_def substring_def jbind_Inr_iff split: option.split)

text \<open>The two steps of one turn of the loop that make the names.\<close>

lemma base_names_iff:
  assumes "ucs2_name env long = Inr n"
  shows "(case n of None \<Rightarrow> Inr (n, short)
            | Some m \<Rightarrow> if name_unknown m numeric
                then jbind (operatorReplace env numeric) (\<lambda>temp. Inr (temp, temp))
                else Inr (n, short)) = Inr p
     \<longleftrightarrow> base_names env [long, short, numeric, state, act] = Some p"
proof (cases n)
  case None
  then show ?thesis using assms by (simp add: base_names_def)
next
  case (Some m)
  then show ?thesis
    using assms by (cases "operatorReplace env numeric") (simp_all add: base_names_def name_unknown_def)
qed

lemma with_act_iff:
  "(if 3 < cap then jbind (append_act (fst p) act) (\<lambda>l. jbind (append_act (snd p) act) (\<lambda>s. Inr (l, s)))
    else Inr p) = Inr q \<longleftrightarrow> with_act cap act p = Some q"
  by (cases p; cases "fst p"; cases "snd p"; cases act) (auto simp: with_act_def append_act_def jstr_def Let_def)

lemma operator_entry_iff:
  assumes "cap = property_getInt env evs (baseband_property self) 3"
  shows "operator_entry env self evs lacValid lacStr k a b c d e = Inr (info, k') \<longleftrightarrow>
     expected_info env cap [a, b, c, d, e] = Some info
     \<and> (if lacValid \<and> a \<noteq> None then skip_lac env evs lacStr k = Inr k' else k' = k)"
proof (cases "ucs2_name env a")
  case (Inl x)
  then show ?thesis
    by (simp add: operator_entry_def jbind_def expected_info_def shown_names_def base_names_def)
next
  case (Inr n)
  have "operator_entry env self evs lacValid lacStr k a b c d e = Inr (info, k') \<longleftrightarrow>
     (if lacValid \<and> a \<noteq> None then skip_lac env evs lacStr k else Inr k) = Inr k'
     \<and> (\<exists>p q. base_names env [a, b, c, d, e] = Some p \<and> with_act cap e p = Some q
          \<and> stateToState env d = None
          \<and> info = \<lparr>operatorAlphaLong = fst q, operatorAlphaShort = snd q, operatorNumeric = c, operatorState = d\<rparr>)"
      unfolding operator_entry_def Inr jbind_simps assms [symmetric] jbind_Inr_iff case_prod_beta prod.collapse
      base_names_iff [OF Inr, where state = d and act = e] with_act_iff
    using ucs2_name_None [OF Inr]
    by (auto split: option.splits)
  then show ?thesis
    by (auto simp: expected_info_def shown_names_def bind_eq_Some_conv split: option.splits)
qed

lemma codes_ok_simps:
  "codes_ok env evs lacStr k []"
  "codes_ok env evs lacStr k ((None # xs) # es) = codes_ok env evs lacStr k es"
  "codes_ok env evs lacStr k ((Some a # xs) # es) \<longleftrightarrow> getIccRecords env evs = None
     \<and> (\<exists>v. parseInt (char_digit env) 16 (Some (take 4 (drop k lacStr))) = Inr v)
     \<and> codes_ok env evs lacStr (k + 4) es"
  by (auto simp: codes_ok_def Let_def All_less_Suc2 add.assoc)

text \<open>The whole loop, with enough location codes in front of it.\<close>

lemma operator_entries_iff:
  assumes "cap = property_getInt env evs (baseband_property self) 3"
    and "lacValid \<Longrightarrow> k + 4 * (length strings div 5) \<le> length lacStr"
  shows "operator_entries env self evs lacValid lacStr k strings = Inr infos \<longleftrightarrow>
     list_all2 (\<lambda>e i. expected_info env cap e = Some i) (entries_of strings) infos
     \<and> (lacValid \<longrightarrow> codes_ok env evs lacStr k (entries_of strings))"
  using assms
proof (induction env self evs lacValid lacStr k strings arbitrary: infos rule: operator_entries.induct)
  case (1 env self evs lacValid lacStr k a b c d e strings)
  have room: "lacValid \<Longrightarrow> k + 4 + 4 * (length strings div 5) \<le> length lacStr"
    using "1.prems"(2) by simp
  have IH: "operator_entries env self evs lacValid lacStr k' strings = Inr is \<longleftrightarrow>
      list_all2 (\<lambda>e i. expected_info env cap e = Some i) (entries_of strings) is
      \<and> (lacValid \<longrightarrow> codes_ok env evs lacStr k' (entries_of strings))" if "k' = k \<or> k' = k + 4" for k' "is"
    using that room by (intro "1.IH" "1.prems"(1)) auto
  have "operator_entries env self evs lacValid lacStr k (a # b # c # d # e # strings) = Inr infos \<longleftrightarrow>
      (\<exists>info k' is. operator_entry env self evs lacValid lacStr k a b c d e = Inr (info, k')
         \<and> operator_entries env self evs lacValid lacStr k' strings = Inr is \<and> infos = info # is)"
    by (auto simp: jbind_Inr_iff)
  also have "\<dots> \<longleftrightarrow> (\<exists>info k' is. expected_info env cap [a, b, c, d, e] = Some info
         \<and> (if lacValid \<and> a \<noteq> None then skip_lac env evs lacStr k = Inr k' else k' = k)
         \<and> operator_entries env self evs lacValid lacStr k' strings = Inr is \<and> infos = info # is)"
    unfolding operator_entry_iff [OF "1.prems"(1)] by blast
  also have "\<dots> \<longleftrightarrow> (\<exists>info k' is. expected_info env cap [a, b, c, d, e] = Some info
         \<and> (if lacValid \<and> a \<noteq> None then skip_lac env evs lacStr k = Inr k' else k' = k)
         \<and> list_all2 (\<lambda>e i. expected_info env cap e = Some i) (entries_of strings) is
         \<and> (lacValid \<longrightarrow> codes_ok env evs lacStr k' (entries_of strings)) \<and> infos = info # is)"
    using IH by (auto simp: skip_lac_iff split: if_splits)
  also have "\<dots> \<longleftrightarrow> list_all2 (\<lambda>e i. expected_info env cap e = Some i)
         (entries_of (a # b # c # d # e # strings)) infos
      \<and> (lacValid \<longrightarrow> codes_ok env evs lacStr k (entries_of (a # b # c # d # e # strings)))"
    using room by (cases lacValid; cases a) (auto simp: list_all2_Cons1 codes_ok_simps skip_lac_iff)
  finally show ?case .
qed (auto simp: codes_ok_simps)

text \<open>
  C29: A list of networks the modem found. A number of strings that is not a multiple of five is
  rejected before anything is touched. Otherwise the property with the location codes is cleared,
  and a list is returned exactly when every entry of five strings can be read and the location
  codes, if there are as many as entries, are numbers; it then has one entry for every five
  strings, in order, with the number and the state as they came and the decoded name or that of
  the table of operators, on a modem of a capability above 3 with the access technology behind it.
  In every other case an exception leaves the reader; on a modem of a capability above 3 one null
  name is enough for that.\<close>

theorem operator_infos_read:
  assumes "super_response env R_Strings p = (Inr (O_strings strings), p1)"
    and "evs1 = evs @ [Ev_property_set ''gsm.cops.lac'' []]"
    and "cap = property_getInt env evs1 (baseband_property self) 3"
    and "lacStr = property_get env evs ''gsm.cops.lac''"
  shows "(length strings mod 5 \<noteq> 0 \<longrightarrow>
        responseOperatorInfos env self p evs = (Inl (Invalid_response (length strings)), p1, evs))
    \<and> (length strings mod 5 = 0 \<longrightarrow> snd (responseOperatorInfos env self p evs) = (p1, evs1)
        \<and> (\<forall>infos. fst (responseOperatorInfos env self p evs) = Inr (O_operators infos) \<longleftrightarrow>
             list_all2 (\<lambda>entry info. expected_info env cap entry = Some info) (entries_of strings) infos
             \<and> (lacStr \<noteq> [] \<and> length lacStr = 4 * (length strings div 5) \<longrightarrow>
                  codes_ok env evs1 lacStr 0 (entries_of strings)))
        \<and> ((\<exists>infos. fst (responseOperatorInfos env self p evs) = Inr (O_operators infos))
           \<or> (\<exists>e. fst (responseOperatorInfos env self p evs) = Inl e))
        \<and> (3 < cap \<and> (\<exists>entry \<in> set (entries_of strings). entry ! 0 = None) \<longrightarrow>
             (\<exists>e. fst (responseOperatorInfos env self p evs) = Inl e)))"
proof (cases "length strings mod 5 = 0")
  case False
  then show ?thesis using assms(1) by (simp add: responseOperatorInfos_def)
next
  case True
  define lacValid where "lacValid = (length lacStr > 0 \<and> length lacStr mod 4 = 0
      \<and> length lacStr div 4 = length strings div 5)"
  define res where "res = operator_entries env self evs1 lacValid lacStr 0 strings"
  have eq: "responseOperatorInfos env self p evs = (jbind res (\<lambda>infos. Inr (O_operators infos)), p1, evs1)"
    using True assms(1,2,4)
    by (simp add: responseOperatorInfos_def res_def lacValid_def Let_def)
  have valid: "lacValid \<longleftrightarrow> lacStr \<noteq> [] \<and> length lacStr = 4 * (length strings div 5)"
    by (auto simp: lacValid_def)
  have res: "res = Inr infos \<longleftrightarrow>
      list_all2 (\<lambda>entry info. expected_info env cap entry = Some info) (entries_of strings) infos
      \<and> (lacValid \<longrightarrow> codes_ok env evs1 lacStr 0 (entries_of strings))" for infos
    unfolding res_def by (rule operator_entries_iff [OF assms(3)]) (simp add: valid)
  have "expected_info env cap entry = None" if "3 < cap" "entry ! 0 = None" for entry
    using that by (simp add: expected_info_def shown_names_def base_names_def with_act_def ucs2_name_def)
  then have none: "\<nexists>infos. res = Inr infos" if "3 < cap" "entry \<in> set (entries_of strings)" "entry ! 0 = None" for entry
    using that unfolding res by (auto simp: list_all2_conv_all_nth in_set_conv_nth)
  show ?thesis
    using True none res valid by (cases res) (auto simp: eq)
qed

text \<open>One network, with a name in UCS-2.\<close>

definition demo_network :: "jstring option list" where
  "demo_network = map (Some \<circ> jstr) [''uCs200480069'', ''Hi'', ''45204'', ''available'', ''3G'']"

theorem operator_infos_read_witness:
  "fst (responseOperatorInfos (word_env demo_network) demo_ril ([], 0) [])
     = Inr (O_operators [\<lparr>operatorAlphaLong = Some (jstr ''Hi''), operatorAlphaShort = Some (jstr ''Hi''),
          operatorNumeric = Some (jstr ''45204''), operatorState = Some (jstr ''available'')\<rparr>])
   \<and> snd (snd (responseOperatorInfos (word_env demo_network) demo_ril ([], 0) [])) = [Ev_property_set ''gsm.cops.lac'' []]"
proof -
  have "fst (responseOperatorInfos (word_env demo_network) demo_ril ([], 0) [])
     = Inr (O_operators [\<lparr>operatorAlphaLong = Some (jstr ''Hi''), operatorAlphaShort = Some (jstr ''Hi''),
          operatorNumeric = Some (jstr ''45204''), operatorState = Some (jstr ''available'')\<rparr>])"
    by code_simp
  moreover have "length demo_network mod 5 = 0" by (simp add: demo_network_def)
  ultimately show ?thesis
    using operator_infos_read [OF word_env_fields(5) refl refl refl, of demo_network demo_ril "([], 0)" "[]"] by simp
qed

section \<open>Requests of the framework\<close>

text \<open>
  The caller of \<open>setUiccSubscription\<close> is answered before anyone else hears of the change, as the
  comment in the source asks for; only activation and deactivation are announced.
\<close>

lemma subscription_answered_first:
  "setUiccSubscription self slot app sub status (Some m) evs =
     (Inr (), evs @ Ev_to_target m (Result_int 0)
        # (if mSubscriptionStatusRegistrants self \<and> status \<in> {0, 1} then [Ev_notify_registrants [status]] else []))"
  by (auto simp: setUiccSubscription_def answer_at_once_def)

text \<open>
  Switching the radio of the second SIM, or of a disabled one, makes no event at all: whoever waits
  for \<open>result\<close> is not answered.
\<close>

lemma radio_power_ignored:
  assumes "mInstanceId self = Some 1 \<or> \<not> property_getBoolean env evs ''persist.ril.enable'' True"
  shows "setRadioPower env self on result evs = evs"
  using assms by (auto simp: setRadioPower_def)

lemma radio_power_sends:
  assumes "obtain_ok env" and "mInstanceId self \<noteq> Some 1" and "property_getBoolean env evs ''persist.ril.enable'' True"
  shows "\<exists>rr. setRadioPower env self on result evs = evs @ [Ev_send rr] \<and> mRequest rr = 2012"
  using assms by (auto simp: setRadioPower_def send_request_def Let_def obtain_ok_def)

end
