(* ===== verification/RIL_Ledger.thy ===== *)
theory RIL_Ledger
  imports RIL_Correct "HOL-Library.Multiset"
begin

text \<open>
  The messages that wait for answers of the modem, over any sequence of calls of
  src/ril/telephony/java/com/android/internal/telephony/MediaTekRIL.java: requests of the
  framework, answers of the modem and messages the modem sends by itself, in any order. Most
  requests are sent by methods the class inherits, and their answers come back through its
  \<open>processSolicited\<close>; they are part of the sequences. The list of pending requests is the
  superclass's; what this class relies on of it is stated as two laws.
  Every message the class accepts is accounted for: it is answered at most once, and as long as
  the superclass forgets nothing it is either answered or still waiting.
\<close>

section \<open>Sequences of calls\<close>

datatype 'p ril_op =
    Op_solicited 'p
  | Op_unsolicited 'p
  | Op_setupDataCall "jstring option" "jstring option" "jstring option" "jstring option"
      "jstring option" "jstring option" "jstring option" "nat option"
  | Op_setRadioPower bool "nat option"
  | Op_setUiccSubscription int int int int "nat option"
  | Op_setDataSubscription "nat option"
  | Op_setDefaultVoiceSub int "nat option"
  | Op_inherited int "nat option" "'p \<Rightarrow> 'p"
      \<comment> \<open>a request of an inherited method: its number, who waits for it, and what it writes\<close>

fun ril_step :: "'p ril_env \<Rightarrow> mtk_ril \<Rightarrow> 'p ril_op \<Rightarrow> 'p revent list \<Rightarrow> 'p revent list" where
  "ril_step env self (Op_solicited p) evs = snd (processSolicited env self p evs)"
| "ril_step env self (Op_unsolicited p) evs = snd (processUnsolicited env self p evs)"
| "ril_step env self (Op_setupDataCall a b c d e f g m) evs = setupDataCall env a b c d e f g m evs"
| "ril_step env self (Op_setRadioPower on m) evs = setRadioPower env self on m evs"
| "ril_step env self (Op_setUiccSubscription a b c d m) evs
     = snd (setUiccSubscription self a b c d m evs)"
| "ril_step env self (Op_setDataSubscription m) evs = snd (setDataSubscription m evs)"
| "ril_step env self (Op_setDefaultVoiceSub a m) evs = snd (setDefaultVoiceSub a m evs)"
| "ril_step env self (Op_inherited req m fill) evs = send_request env req m fill evs"

text \<open>
  The message an operation takes charge of. A switch of the radio that is ignored, because it is
  disabled or for the second SIM, does not take charge of its message.
\<close>

definition opt_mset :: "'a option \<Rightarrow> 'a multiset" where
  "opt_mset x = (case x of None \<Rightarrow> {#} | Some a \<Rightarrow> {#a#})"

fun accepted :: "'p ril_env \<Rightarrow> mtk_ril \<Rightarrow> 'p ril_op \<Rightarrow> 'p revent list \<Rightarrow> nat multiset" where
  "accepted env self (Op_setupDataCall a b c d e f g m) evs = opt_mset m"
| "accepted env self (Op_setRadioPower on m) evs =
     (if property_getBoolean env evs ''persist.ril.enable'' True \<and> mInstanceId self \<noteq> Some 1
      then opt_mset m else {#})"
| "accepted env self (Op_setUiccSubscription a b c d m) evs = opt_mset m"
| "accepted env self (Op_setDataSubscription m) evs = opt_mset m"
| "accepted env self (Op_setDefaultVoiceSub a m) evs = opt_mset m"
| "accepted env self (Op_inherited req m fill) evs = opt_mset m"
| "accepted env self _ evs = {#}"

text \<open>A call together with the messages accepted so far.\<close>

definition ledger_step :: "'p ril_env \<Rightarrow> mtk_ril \<Rightarrow> 'p ril_op \<Rightarrow> 'p revent list \<times> nat multiset
    \<Rightarrow> 'p revent list \<times> nat multiset" where
  "ledger_step env self op s = (ril_step env self op (fst s), snd s + accepted env self op (fst s))"

section \<open>Answered and waiting messages\<close>

fun answered_by :: "'p revent \<Rightarrow> nat list" where
  "answered_by (Ev_to_target i r) = [i]"
| "answered_by (Ev_on_error rr error ret) = (case mResult rr of None \<Rightarrow> [] | Some m \<Rightarrow> [m])"
| "answered_by e = []"

definition answered :: "'p revent list \<Rightarrow> nat list" where
  "answered evs = concat (map answered_by evs)"

text \<open>The requests sent and not yet taken off the list again.\<close>

fun pend_step :: "'p revent \<Rightarrow> 'p ril_request list \<Rightarrow> 'p ril_request list" where
  "pend_step (Ev_send rr) ps = ps @ [rr]"
| "pend_step (Ev_remove_request serial) ps = filter (\<lambda>rr. mSerial rr \<noteq> serial) ps"
| "pend_step e ps = ps"

definition pending :: "'p revent list \<Rightarrow> 'p ril_request list" where
  "pending evs = fold pend_step evs []"

definition waiting :: "'p ril_request list \<Rightarrow> nat multiset" where
  "waiting ps = sum_list (map (\<lambda>rr. opt_mset (mResult rr)) ps)"

text \<open>
  What the superclass's list of requests promises: under a serial number it finds only a request
  that was put on it by a send, of this class or of an inherited method, and not taken off since,
  and a new request carries the message it is for. It may lose requests, as it does when the
  connection to the modem is reset.
\<close>

definition request_list_law :: "'p ril_env \<Rightarrow> bool" where
  "request_list_law env \<longleftrightarrow>
     (\<forall>evs serial rr. findAndRemove env evs serial = Some rr \<longrightarrow>
        rr \<in> set (pending evs) \<and> mSerial rr = serial)
     \<and> (\<forall>evs req res. mResult (obtain_request env evs req res) = res)"

text \<open>A list that loses nothing: it finds every pending request, and serial numbers are fresh.\<close>

definition nothing_lost :: "'p ril_env \<Rightarrow> bool" where
  "nothing_lost env \<longleftrightarrow>
     (\<forall>evs serial. findAndRemove env evs serial = None \<longrightarrow> serial \<notin> mSerial ` set (pending evs))
     \<and> (\<forall>evs req res. mSerial (obtain_request env evs req res) \<notin> mSerial ` set (pending evs))"

definition balanced :: "'p ril_env \<Rightarrow> 'p revent list \<times> nat multiset \<Rightarrow> bool" where
  "balanced env s \<longleftrightarrow> (case s of (evs, due) \<Rightarrow>
     mset (answered evs) + waiting (pending evs) \<subseteq># due
     \<and> (nothing_lost env \<longrightarrow> distinct (map mSerial (pending evs))
          \<and> mset (answered evs) + waiting (pending evs) = due))"

lemma answered_append [simp]: "answered (evs @ es) = answered evs @ answered es"
  by (simp add: answered_def)

lemma answered_Cons [simp]: "answered (e # es) = answered_by e @ answered es" "answered [] = []"
  by (simp_all add: answered_def)

lemma pending_append: "pending (evs @ es) = fold pend_step es (pending evs)"
  by (simp add: pending_def)

lemma waiting_append [simp]: "waiting (ps @ qs) = waiting ps + waiting qs"
  by (simp add: waiting_def)

lemma waiting_Cons [simp]: "waiting (rr # ps) = opt_mset (mResult rr) + waiting ps" "waiting [] = {#}"
  by (simp_all add: waiting_def)

section \<open>Events one at a time\<close>

lemma balanced_silent:
  assumes "balanced env (evs, due)"
  shows "balanced env (evs @ [Ev_super_unsolicited p], due)"
    and "balanced env (evs @ [Ev_property_set n v], due)"
    and "balanced env (evs @ [Ev_notify_registrants is], due)"
  using assms by (simp_all add: balanced_def pending_append)

lemma balanced_answer:
  "balanced env (evs, due) \<Longrightarrow> balanced env (evs @ [Ev_to_target m r], add_mset m due)"
  by (auto simp: balanced_def pending_append)

lemma balanced_send:
  assumes "request_list_law env" and "balanced env (evs, due)"
  shows "balanced env (send_request env req res fill evs, due + opt_mset res)"
proof -
  let ?rr = "obtain_request env evs req res"
  have "mResult ?rr = res" using assms(1) by (simp add: request_list_law_def)
  moreover have "nothing_lost env \<Longrightarrow> mSerial ?rr \<notin> mSerial ` set (pending evs)"
    by (simp add: nothing_lost_def)
  ultimately show ?thesis
    using assms(2)
    by (simp add: balanced_def send_request_def Let_def pending_append add.assoc [symmetric])
qed

section \<open>An answer of the modem\<close>

lemma waiting_filter: "waiting (filter P ps) \<subseteq># waiting ps"
  by (induction ps) (auto intro: subset_mset.add_mono subset_mset.order_trans)

lemma waiting_filter_le: "c + waiting ps \<subseteq># z \<Longrightarrow> c + waiting (filter P ps) \<subseteq># z"
  by (rule subset_mset.order_trans [OF subset_mset.add_left_mono [OF waiting_filter]])

lemma waiting_filter_other: "serial \<notin> mSerial ` set ps \<Longrightarrow> filter (\<lambda>rr. mSerial rr \<noteq> serial) ps = ps"
  by (auto simp: filter_id_conv)

lemma waiting_take:
  assumes "rr \<in> set ps"
  shows "opt_mset (mResult rr) + waiting (filter (\<lambda>r. mSerial r \<noteq> mSerial rr) ps) \<subseteq># waiting ps"
    and "distinct (map mSerial ps) \<Longrightarrow>
      opt_mset (mResult rr) + waiting (filter (\<lambda>r. mSerial r \<noteq> mSerial rr) ps) = waiting ps"
proof -
  obtain as bs where ps: "ps = as @ rr # bs" using assms by (auto dest: split_list)
  show "opt_mset (mResult rr) + waiting (filter (\<lambda>r. mSerial r \<noteq> mSerial rr) ps) \<subseteq># waiting ps"
    using subset_mset.add_mono [OF waiting_filter waiting_filter] by (auto simp: ps ac_simps)
  show "opt_mset (mResult rr) + waiting (filter (\<lambda>r. mSerial r \<noteq> mSerial rr) ps) = waiting ps"
    if "distinct (map mSerial ps)"
  proof -
    have "mSerial rr \<notin> mSerial ` set as" "mSerial rr \<notin> mSerial ` set bs"
      using that by (auto simp: ps)
    then show ?thesis by (simp add: ps waiting_filter_other)
  qed
qed

lemma solicited_events:
  obtains (unknown) serial where "findAndRemove env evs serial = None"
      "snd (processSolicited env self p evs) = evs @ [Ev_remove_request serial]"
  | (known) serial rr es where "findAndRemove env evs serial = Some rr"
      "snd (processSolicited env self p evs) = evs @ Ev_remove_request serial # es"
      "mset (answered es) = opt_mset (mResult rr)" "\<And>ps. fold pend_step es ps = ps"
proof -
  define serial p1 error p2 where d: "serial = fst (readInt env p)" "p1 = snd (readInt env p)"
    "error = fst (readInt env p1)" "p2 = snd (readInt env p1)"
  define evs1 where "evs1 = evs @ [Ev_remove_request serial]"
  show thesis
  proof (cases "findAndRemove env evs serial")
    case None
    then show thesis
      by (intro unknown [of serial]) (simp_all add: processSolicited_def d case_prod_beta)
  next
    case (Some rr)
    define rr1 where "rr1 = (if error = 0 \<or> dataAvail env p2 > 0 then convert_request env evs1 rr else rr)"
    define ret where "ret = (if error = 0 \<or> dataAvail env p2 > 0 then read_solicited env self rr1 p2 evs1
      else (Inr O_null, evs1))"
    obtain mid where mid: "snd ret = evs1 @ mid" "clears_lac mid"
      using read_solicited_events [of env self rr1 p2 evs1]
      by (cases "error = 0 \<or> dataAvail env p2 > 0") (auto simp: ret_def clears_lac_def)
    define ans where "ans = (case fst ret of Inl tr \<Rightarrow> to_target (mResult rr1) (Failure tr)
      | Inr obj \<Rightarrow> if error \<noteq> 0 then [Ev_on_error rr1 error obj] else to_target (mResult rr1) (Result obj))"
    have "snd (processSolicited env self p evs) = snd ret @ ans"
      unfolding processSolicited_def case_prod_beta Let_def d [symmetric] evs1_def [symmetric] Some
        option.case rr1_def [symmetric] ret_def [symmetric] ans_def
      by (simp split: sum.split)
    moreover have res: "mResult rr1 = mResult rr" by (simp add: rr1_def)
    ultimately show thesis
      using mid
      by (intro known [of serial rr "mid @ ans", OF Some])
        (auto simp: evs1_def ans_def to_target_def clears_lac_def opt_mset_def
          split: sum.splits option.splits)
  qed
qed

lemma balanced_solicited:
  assumes law: "request_list_law env" and bal: "balanced env (evs, due)"
  shows "balanced env (snd (processSolicited env self p evs), due)"
proof (cases rule: solicited_events [of env evs self p])
  case (unknown serial)
  have "nothing_lost env \<Longrightarrow> filter (\<lambda>rr. mSerial rr \<noteq> serial) (pending evs) = pending evs"
    using unknown(1) by (intro waiting_filter_other) (simp add: nothing_lost_def)
  then show ?thesis
    using bal by (simp add: unknown(2) balanced_def pending_append waiting_filter_le)
next
  case (known serial rr es)
  then have rr: "rr \<in> set (pending evs)" "serial = mSerial rr"
    using law by (auto simp: request_list_law_def)
  have pend: "pending (evs @ Ev_remove_request serial # es)
      = filter (\<lambda>r. mSerial r \<noteq> mSerial rr) (pending evs)"
    by (simp add: pending_append known(4) rr(2))
  have ans: "mset (answered (evs @ Ev_remove_request serial # es))
      = mset (answered evs) + opt_mset (mResult rr)"
    by (simp add: known(3))
  have "distinct (map mSerial (filter P (pending evs)))" if "nothing_lost env" for P
    using bal that by (auto simp: balanced_def intro: distinct_map_filter)
  then show ?thesis
    unfolding known(2) balanced_def prod.case ans pend add.assoc
    using bal waiting_take [OF rr(1)] subset_mset.order_trans [OF subset_mset.add_left_mono]
    by (auto simp: balanced_def)
qed

section \<open>A message of the modem\<close>

lemma balanced_clears_lac: "balanced env (evs, due) \<Longrightarrow> clears_lac mid \<Longrightarrow> balanced env (evs @ mid, due)"
  by (auto simp: clears_lac_def intro: balanced_silent)

lemma balanced_reader:
  "balanced env (evs, due) \<Longrightarrow> balanced env (snd (snd (call_reader env self rd p evs)), due)"
  using call_reader_events [of env self rd p evs] by (auto simp: balanced_clears_lac)

lemma balanced_request:
  "request_list_law env \<Longrightarrow> balanced env (evs, due) \<Longrightarrow> balanced env (send_request env req None fill evs, due)"
  using balanced_send [of env evs due req None fill] by (simp add: opt_mset_def)

lemma balanced_call_indication:
  assumes "request_list_law env" and "balanced env (evs, due)"
  shows "balanced env (snd (setCallIndication env info evs), due)"
proof -
  have "snd (setCallIndication env info evs) = evs
      \<or> (\<exists>req fill. snd (setCallIndication env info evs) = send_request env req None fill evs)"
    unfolding setCallIndication_def Let_def by (simp split: sum.split prod.split) blast
  then show ?thesis using assms balanced_request by fastforce
qed

lemma balanced_action:
  assumes "request_list_law env" and "balanced env (evs, due)"
  shows "balanced env (snd (snd (unsolicited_action env response ret p evs)), due)"
  using assms balanced_call_indication [OF assms] balanced_request [OF assms(1)]
  by (simp add: unsolicited_action_def setRadioStateFromRILInt_def Let_def case_prod_beta
      split: robject.split)

lemma balanced_super:
  "balanced env (evs, due) \<Longrightarrow> balanced env (snd (super_processUnsolicited env p evs), due)"
  by (simp add: super_processUnsolicited_def balanced_silent)

lemma balanced_unsolicited:
  assumes law: "request_list_law env" and bal: "balanced env (evs, due)"
  shows "balanced env (snd (processUnsolicited env self p evs), due)"
proof (cases "switch_on env unsolicited_table (fst (readInt env p))")
  case None
  then show ?thesis
    using bal by (simp add: processUnsolicited_def Let_def case_prod_beta balanced_super)
next
  case (Some rd)
  note reader = balanced_reader [OF bal, of self rd "snd (readInt env p)"]
  show ?thesis
    using Some reader balanced_action [OF law reader] balanced_super [OF balanced_action [OF law reader]]
    by (simp add: processUnsolicited_def Let_def case_prod_beta split: sum.split option.split)
qed

section \<open>Every call keeps the account\<close>

lemma balanced_answer_at_once:
  "balanced env (evs, due) \<Longrightarrow> balanced env (snd (answer_at_once m evs), due + opt_mset m)"
  using balanced_answer [of env evs due]
  by (simp add: answer_at_once_def opt_mset_def split: option.split)

lemma balanced_uicc:
  "balanced env (evs, due) \<Longrightarrow> balanced env (snd (setUiccSubscription self a b c d m evs), due + opt_mset m)"
  using balanced_answer_at_once [of env evs due m]
  by (simp add: setUiccSubscription_def case_prod_beta balanced_silent split: sum.split)

lemma ledger_step_balanced:
  assumes law: "request_list_law env" and bal: "balanced env s"
  shows "balanced env (ledger_step env self op s)"
proof -
  obtain evs due where s: "s = (evs, due)" by (cases s)
  note [simp] = s ledger_step_def
  note bal = bal [unfolded s]
  show ?thesis
    by (cases op)
      (simp_all add: balanced_solicited [OF law bal] balanced_unsolicited [OF law bal] bal
        setupDataCall_def balanced_send [OF law bal] setRadioPower_def balanced_uicc [OF bal]
        setDataSubscription_def setDefaultVoiceSub_def balanced_answer_at_once [OF bal])
qed

interpretation ledger: invariant_system "ledger_step env self"
    "\<lambda>s. request_list_law env \<longrightarrow> balanced env s" for env self
  by unfold_locales (simp add: ledger_step_balanced)

lemma ledger_events: "fst (run (ledger_step env self) ops s) = run (ril_step env self) ops (fst s)"
  by (induction ops arbitrary: s) (simp_all add: ledger_step_def)

lemma count_answered: "count (mset (answered evs)) m = length (filter (answers m) evs)"
proof (induction evs)
  case (Cons e evs)
  then show ?case by (cases e) (auto split: option.split)
qed simp

section \<open>Property\<close>

text \<open>
  C14: over any sequence of requests, of this class and of the methods it inherits, answers and
  messages of the modem, every message the class takes charge of is answered by it at most as often as it was accepted, so one
  that is used once is answered at most once; and as long as the superclass's list loses no request, the answered and
  the waiting messages together are exactly the accepted ones: none is forgotten, none is answered
  twice.\<close>

theorem ril_messages_accounted:
  assumes "request_list_law env"
  shows "let evs = run (ril_step env self) ops [];
             due = snd (run (ledger_step env self) ops ([], {#}))
         in (\<forall>m. length (filter (answers m) evs) \<le> count due m)
          \<and> (nothing_lost env \<longrightarrow> mset (answered evs) + waiting (pending evs) = due)"
proof -
  let ?s = "run (ledger_step env self) ops ([], {#})"
  have "balanced env ([], {#})" by (simp add: balanced_def pending_def)
  then have "balanced env ?s" using ledger.run_inv assms by blast
  then have bal: "mset (answered (fst ?s)) + waiting (pending (fst ?s)) \<subseteq># snd ?s"
    "nothing_lost env \<longrightarrow> mset (answered (fst ?s)) + waiting (pending (fst ?s)) = snd ?s"
    by (auto simp: balanced_def case_prod_beta)
  have "count (mset (answered (fst ?s))) m \<le> count (snd ?s) m" for m
    using subset_mset.order_trans [OF mset_subset_eq_add_left bal(1)] by (rule mset_subset_eq_count)
  with bal(2) show ?thesis
    unfolding Let_def by (simp add: count_answered ledger_events del: count_mset)
qed

text \<open>A list of requests that loses nothing.\<close>

definition list_env :: "(int list \<times> nat) ril_env" where
  "list_env = (word_env [])\<lparr>findAndRemove := \<lambda>evs serial. find (\<lambda>rr. mSerial rr = serial) (pending evs),
     obtain_request := \<lambda>evs req res.
       \<lparr>mSerial = foldr max (map mSerial (pending evs)) 0 + 1, mRequest = req, mResult = res, mParcel = ([req], 1)\<rparr>\<rparr>"

lemma foldr_max_upper: "x \<in> set xs \<Longrightarrow> (x :: int) \<le> foldr max xs a"
  by (induction xs) (auto simp: le_max_iff_disj)

lemma list_env_laws: "request_list_law list_env" "nothing_lost list_env"
proof -
  show "request_list_law list_env"
    by (auto simp: request_list_law_def list_env_def find_Some_iff)
  have "foldr max (map mSerial ps) 0 + 1 \<notin> mSerial ` set ps" for ps :: "(int list \<times> nat) ril_request list"
    using foldr_max_upper [of _ "map mSerial ps" 0] by fastforce
  then show "nothing_lost list_env"
    by (auto simp: nothing_lost_def list_env_def find_None_iff)
qed

theorem ril_messages_accounted_witness:
  "let evs = run (ril_step list_env demo_ril)
       [Op_setDataSubscription (Some 7), Op_inherited 10 (Some 9) id, Op_setRadioPower True (Some 8),
        Op_solicited ([1, 0], 0)] []
   in mset (answered evs) + waiting (pending evs) = {#7, 9, 8#}"
proof -
  let ?ops = "[Op_setDataSubscription (Some 7), Op_inherited 10 (Some 9) id, Op_setRadioPower True (Some 8),
        Op_solicited ([1, 0], 0)]"
  have "snd (run (ledger_step list_env demo_ril) ?ops ([], {#})) = {#7, 9, 8#}"
    by (simp add: ledger_step_def opt_mset_def list_env_def word_env_def demo_ril_def new_MediaTekRIL_def)
  then show ?thesis
    using ril_messages_accounted [OF list_env_laws(1), of demo_ril ?ops] list_env_laws(2)
    by (simp add: Let_def)
qed

end
