(* ===== verification/Audio_Shims.thy ===== *)
theory Audio_Shims
  imports C_Prelude
begin

text \<open>
  The two C++ shims of the audio stack. src/audio/audio.cpp is an audio HAL whose \<open>open\<close> loads
  MediaTek's libaudio.primary.default.so and hands the call on to the module found there.
  src/libxlog/mtkaudio.cpp defines the entry points of classes that prebuilt libraries link
  against (voice unlock, the analogue TV and FM service) and that do nothing.

  The dynamic linker and the loaded library are environment calls answered by a 32-bit word; what
  the loaded library's memory holds behind the symbol is a parameter of type \<open>audio_memory\<close>. The
  constants of the platform's headers are a parameter of type \<open>audio_abi\<close>.
\<close>

section \<open>The legacy audio module\<close>

record audio_abi =
  RTLD_NOW :: u32
  RTLD_LOCAL :: u32
  HAL_MODULE_INFO_SYM_AS_STR :: string
  HARDWARE_MODULE_TAG :: u32
  AUDIO_MODULE_API_VERSION_0_1 :: u16
  HARDWARE_HAL_API_VERSION :: u16
  AUDIO_HARDWARE_MODULE_ID :: string

text \<open>\<open>struct hw_module_t\<close>, with \<open>'f\<close> for what a method table can point to.\<close>

record 'f hw_module =
  mod_tag :: u32
  module_api_version :: u16
  hal_api_version :: u16
  mod_id :: string
  mod_name :: string
  mod_author :: string
  mod_methods :: 'f
  mod_dso :: u32
  mod_reserved :: "u32 list"

text \<open>
  The memory of the loaded library: the field \<open>methods\<close> of the module at an address, and the
  field \<open>open\<close> of the method table at an address, where such objects live.
\<close>

record audio_memory =
  methods_of :: "u32 \<Rightarrow> u32 option"
  open_of :: "u32 \<Rightarrow> u32 option"

datatype acall =
    A_dlopen string u32
  | A_dlsym u32 string
  | A_dlclose u32
  | A_dlerror
  | A_open u32 u32 string u32      \<comment> \<open>the function called, \<open>module\<close>, \<open>name\<close> and \<open>device\<close>\<close>

text \<open>An answer: a word, and for \<open>dlerror\<close> the message it points to.\<close>

type_synonym aresp = "u32 \<times> string"
type_synonym audio_env = "(acall, aresp) env"
type_synonym audio_trace = "(acall, aresp) trace"

definition load_field :: "(u32 \<Rightarrow> u32 option) \<Rightarrow> u32 \<Rightarrow> u32 result" where
  "load_field field p =
     (if p = 0 then Inl Null_Deref
      else case field p of None \<Rightarrow> Inl Dangling_Deref | Some v \<Rightarrow> Inr v)"

text \<open>
  \<open>legacy_adev_open\<close>: the return value, the messages given to \<open>ALOGE\<close> and the calls made.
\<close>

definition legacy_adev_open ::
    "audio_abi \<Rightarrow> audio_memory \<Rightarrow> audio_env \<Rightarrow> u32 \<Rightarrow> string \<Rightarrow> u32 \<Rightarrow> audio_trace
       \<Rightarrow> int result \<times> string list \<times> audio_trace" where
  "legacy_adev_open abi mem env hwmod name device tr =
     (let ((hdl, _), tr1) =
            ask env (A_dlopen ''libaudio.primary.default.so'' (RTLD_NOW abi OR RTLD_LOCAL abi)) tr in
      if hdl = 0
      then let ((_, msg), tr2) = ask env A_dlerror tr1
           in (Inr (-1), [''MTK Audio loadLibrary() failed to open '' @ msg], tr2)
      else
        let ((hmi, _), tr2) = ask env (A_dlsym hdl (HAL_MODULE_INFO_SYM_AS_STR abi)) tr1 in
        if hmi = 0
        then (Inr (-1),
              [''MTK Audio loadLibrary() could not find symbol '' @ HAL_MODULE_INFO_SYM_AS_STR abi], tr2)
        else case load_field (methods_of mem) hmi of Inl f \<Rightarrow> (Inl f, [], tr2)
          | Inr methods \<Rightarrow>
            (case load_field (open_of mem) methods of Inl f \<Rightarrow> (Inl f, [], tr2)
             | Inr fn \<Rightarrow>
               if fn = 0 then (Inl Null_Call, [], tr2)
               else let ((ret, _), tr3) = ask env (A_open fn hwmod name device) tr2
                    in (Inr (sint ret), [], tr3)))"

text \<open>The functions a method table of this file points to.\<close>

datatype audio_method = Legacy_adev_open

definition legacy_audio_module_methods :: audio_method where
  "legacy_audio_module_methods = Legacy_adev_open"

definition HAL_MODULE_INFO_SYM :: "audio_abi \<Rightarrow> audio_method hw_module" where
  "HAL_MODULE_INFO_SYM abi =
     \<lparr>mod_tag = HARDWARE_MODULE_TAG abi, module_api_version = AUDIO_MODULE_API_VERSION_0_1 abi,
      hal_api_version = HARDWARE_HAL_API_VERSION abi, mod_id = AUDIO_HARDWARE_MODULE_ID abi,
      mod_name = ''MTK Audio HW HAL'', mod_author = ''The Android Open Source Project'',
      mod_methods = legacy_audio_module_methods, mod_dso = 0, mod_reserved = [0]\<rparr>"

text \<open>A call through the module's method table, as the framework makes it.\<close>

fun call_audio_method ::
    "audio_abi \<Rightarrow> audio_memory \<Rightarrow> audio_env \<Rightarrow> audio_method \<Rightarrow> u32 \<Rightarrow> string \<Rightarrow> u32 \<Rightarrow> audio_trace
       \<Rightarrow> int result \<times> string list \<times> audio_trace" where
  "call_audio_method abi mem env Legacy_adev_open hwmod name device tr =
     legacy_adev_open abi mem env hwmod name device tr"

section \<open>Entry points that do nothing\<close>

text \<open>The value of a call: of type \<open>bool\<close>, \<open>int\<close> or \<open>void\<close>.\<close>

datatype cpp_value = V_bool bool | V_int s32 | V_void

datatype AudioSystem =
    getVoiceUnlockDLInstance
  | GetVoiceUnlockDLLatency
  | SetVoiceUnlockSRC u32 u32
  | stopVoiceUnlockDL
  | startVoiceUnlockDL
  | ReadRefFromRing u32 u32 u32
  | GetVoiceUnlockULTime u32
  | freeVoiceUnlockDLInstance

text \<open>The return types the class declares.\<close>

datatype cpp_type = T_bool | T_int | T_void

fun AudioSystem_type :: "AudioSystem \<Rightarrow> cpp_type" where
  "AudioSystem_type getVoiceUnlockDLInstance = T_bool"
| "AudioSystem_type GetVoiceUnlockDLLatency = T_int"
| "AudioSystem_type (SetVoiceUnlockSRC outSR outChannel) = T_int"
| "AudioSystem_type stopVoiceUnlockDL = T_bool"
| "AudioSystem_type startVoiceUnlockDL = T_bool"
| "AudioSystem_type (ReadRefFromRing buf datasz DLtime) = T_int"
| "AudioSystem_type (GetVoiceUnlockULTime DLtime) = T_int"
| "AudioSystem_type freeVoiceUnlockDLInstance = T_void"

text \<open>The definitions of the methods; a \<open>bool\<close> method that returns 0 returns false.\<close>

fun AudioSystem_call :: "AudioSystem \<Rightarrow> cpp_value" where
  "AudioSystem_call getVoiceUnlockDLInstance = V_bool False"
| "AudioSystem_call GetVoiceUnlockDLLatency = V_int 0"
| "AudioSystem_call (SetVoiceUnlockSRC outSR outChannel) = V_int 0"
| "AudioSystem_call stopVoiceUnlockDL = V_bool False"
| "AudioSystem_call startVoiceUnlockDL = V_bool False"
| "AudioSystem_call (ReadRefFromRing buf datasz DLtime) = V_int 0"
| "AudioSystem_call (GetVoiceUnlockULTime DLtime) = V_int 0"
| "AudioSystem_call freeVoiceUnlockDLInstance = V_void"

datatype BpATVCtrlService =
    ATVCS_matv_init
  | ATVCS_matv_ps_init s32
  | ATVCS_matv_set_parameterb s32
  | ATVCS_matv_suspend s32
  | ATVCS_matv_shutdown
  | ATVCS_matv_chscan s32
  | ATVCS_matv_chscan_stop
  | ATVCS_matv_get_chtable s32 u32 s32
  | ATVCS_matv_set_chtable s32 u32 s32
  | ATVCS_matv_clear_chtable
  | ATVCS_matv_change_channel s32
  | ATVCS_matv_set_country s32
  | ATVCS_matv_set_tparam s32
  | ATVCS_matv_audio_play
  | ATVCS_matv_audio_stop
  | ATVCS_matv_audio_get_format
  | ATVCS_matv_audio_set_format s32
  | ATVCS_matv_audio_get_sound_system
  | ATVCS_matv_adjust s32 s32
  | ATVCS_matv_get_chipdep s32
  | ATVCS_matv_set_chipdep s32 s32
  | ATVCS_matv_register_callback
  | registerClient u32
  | registerClient_FM u32
  | CLI u8
  | ATVCS_fm_powerup u32 s32
  | ATVCS_fm_powerdown
  | ATVCS_fm_getrssi
  | ATVCS_fm_tune u32 s32
  | ATVCS_fm_seek u32 s32
  | ATVCS_fm_scan u32 s32
  | ATVCS_fm_mute s32
  | ATVCS_fm_getchipid
  | ATVCS_fm_isFMPowerUp

fun BpATVCtrlService_call :: "BpATVCtrlService \<Rightarrow> cpp_value" where
  "BpATVCtrlService_call ATVCS_matv_init = V_int 0"
| "BpATVCtrlService_call (ATVCS_matv_ps_init on) = V_int 0"
| "BpATVCtrlService_call (ATVCS_matv_set_parameterb i) = V_int 0"
| "BpATVCtrlService_call (ATVCS_matv_suspend on) = V_int 0"
| "BpATVCtrlService_call ATVCS_matv_shutdown = V_int 0"
| "BpATVCtrlService_call (ATVCS_matv_chscan mode) = V_void"
| "BpATVCtrlService_call ATVCS_matv_chscan_stop = V_void"
| "BpATVCtrlService_call (ATVCS_matv_get_chtable ch entry len) = V_int 0"
| "BpATVCtrlService_call (ATVCS_matv_set_chtable ch entry len) = V_int 0"
| "BpATVCtrlService_call ATVCS_matv_clear_chtable = V_int 0"
| "BpATVCtrlService_call (ATVCS_matv_change_channel ch) = V_void"
| "BpATVCtrlService_call (ATVCS_matv_set_country country) = V_void"
| "BpATVCtrlService_call (ATVCS_matv_set_tparam mode) = V_void"
| "BpATVCtrlService_call ATVCS_matv_audio_play = V_void"
| "BpATVCtrlService_call ATVCS_matv_audio_stop = V_void"
| "BpATVCtrlService_call ATVCS_matv_audio_get_format = V_int 0"
| "BpATVCtrlService_call (ATVCS_matv_audio_set_format val) = V_void"
| "BpATVCtrlService_call ATVCS_matv_audio_get_sound_system = V_int 0"
| "BpATVCtrlService_call (ATVCS_matv_adjust item val) = V_int 0"
| "BpATVCtrlService_call (ATVCS_matv_get_chipdep item) = V_int 0"
| "BpATVCtrlService_call (ATVCS_matv_set_chipdep item val) = V_int 0"
| "BpATVCtrlService_call ATVCS_matv_register_callback = V_void"
| "BpATVCtrlService_call (registerClient client) = V_void"
| "BpATVCtrlService_call (registerClient_FM client) = V_void"
| "BpATVCtrlService_call (CLI input) = V_void"
| "BpATVCtrlService_call (ATVCS_fm_powerup parm len) = V_int 0"
| "BpATVCtrlService_call ATVCS_fm_powerdown = V_int 0"
| "BpATVCtrlService_call ATVCS_fm_getrssi = V_int 0"
| "BpATVCtrlService_call (ATVCS_fm_tune parm len) = V_int 0"
| "BpATVCtrlService_call (ATVCS_fm_seek parm len) = V_int 0"
| "BpATVCtrlService_call (ATVCS_fm_scan parm len) = V_int 0"
| "BpATVCtrlService_call (ATVCS_fm_mute val) = V_int 0"
| "BpATVCtrlService_call ATVCS_fm_getchipid = V_int 0"
| "BpATVCtrlService_call ATVCS_fm_isFMPowerUp = V_int 0"

text \<open>The interface descriptor given to \<open>IMPLEMENT_META_INTERFACE\<close>.\<close>

definition ATVCtrlService_descriptor :: string where
  "ATVCtrlService_descriptor = ''android.media.IATVCtrlService''"

fun value_type :: "cpp_value \<Rightarrow> cpp_type" where
  "value_type (V_bool b) = T_bool"
| "value_type (V_int i) = T_int"
| "value_type V_void = T_void"

text \<open>Every method of \<open>AudioSystem\<close> is defined with the return type its class declares.\<close>

lemma AudioSystem_typed: "value_type (AudioSystem_call c) = AudioSystem_type c"
  by (cases c) simp_all

section \<open>Opening the audio device\<close>

definition library_references :: "audio_trace \<Rightarrow> int" where
  "library_references tr =
     (\<Sum>(c, r) \<leftarrow> tr. case c of A_dlopen p flags \<Rightarrow> of_bool (fst r \<noteq> 0) | A_dlclose h \<Rightarrow> -1 | _ \<Rightarrow> 0)"

lemma library_references_append [simp]:
  "library_references (a @ b) = library_references a + library_references b"
  by (simp add: library_references_def)

lemmas open_simps = legacy_adev_open_def ask_def Let_def case_prod_beta load_field_def

definition audio_step :: "audio_abi \<Rightarrow> audio_memory \<Rightarrow> audio_env \<Rightarrow> u32 \<times> string \<times> u32 \<Rightarrow> audio_trace \<Rightarrow> audio_trace"
  where
  "audio_step abi mem env req tr =
     snd (snd (call_audio_method abi mem env (mod_methods (HAL_MODULE_INFO_SYM abi))
       (fst req) (fst (snd req)) (snd (snd req)) tr))"

lemmas audio_step_simps = audio_step_def HAL_MODULE_INFO_SYM_def legacy_audio_module_methods_def

interpretation aud: trace_recorder "audio_step abi mem env" "\<lambda>tr. tr" for abi mem env
  by unfold_locales (auto simp: audio_step_simps open_simps split: option.split)

text \<open>
  C37: Opening the audio device through the module's method table. With a working library the call
  is handed on with the same arguments and its result returned; a library that cannot be loaded
  and a symbol that is missing give -1 and one message, and nothing of the library is called.\<close>

theorem audio_open_forwards:
  assumes "hdl = fst (env tr (A_dlopen ''libaudio.primary.default.so'' (RTLD_NOW abi OR RTLD_LOCAL abi)))"
    and "tr1 = tr @ [(A_dlopen ''libaudio.primary.default.so'' (RTLD_NOW abi OR RTLD_LOCAL abi),
           env tr (A_dlopen ''libaudio.primary.default.so'' (RTLD_NOW abi OR RTLD_LOCAL abi)))]"
    and "lookup = A_dlsym hdl (HAL_MODULE_INFO_SYM_AS_STR abi)"
    and "r = call_audio_method abi mem env (mod_methods (HAL_MODULE_INFO_SYM abi)) hwmod name device tr"
  shows "(hdl = 0 \<longrightarrow> fst r = Inr (-1) \<and> length (fst (snd r)) = 1
            \<and> snd (snd r) = tr1 @ [(A_dlerror, env tr1 A_dlerror)])
    \<and> (hdl \<noteq> 0 \<and> fst (env tr1 lookup) = 0 \<longrightarrow> fst r = Inr (-1) \<and> length (fst (snd r)) = 1
            \<and> snd (snd r) = tr1 @ [(lookup, env tr1 lookup)])
    \<and> (hdl \<noteq> 0 \<and> fst (env tr1 lookup) \<noteq> 0 \<and> methods_of mem (fst (env tr1 lookup)) = Some ms \<and> ms \<noteq> 0
          \<and> open_of mem ms = Some fn \<and> fn \<noteq> 0 \<longrightarrow>
        (let tr2 = tr1 @ [(lookup, env tr1 lookup)]; c = A_open fn hwmod name device
         in r = (Inr (sint (fst (env tr2 c))), [], tr2 @ [(c, env tr2 c)])))"
  using assms by (auto simp: audio_step_simps open_simps)

definition demo_audio_abi :: audio_abi where
  "demo_audio_abi = \<lparr>RTLD_NOW = 2, RTLD_LOCAL = 0, HAL_MODULE_INFO_SYM_AS_STR = ''HMI'',
     HARDWARE_MODULE_TAG = 7, AUDIO_MODULE_API_VERSION_0_1 = 1, HARDWARE_HAL_API_VERSION = 0,
     AUDIO_HARDWARE_MODULE_ID = ''audio''\<rparr>"

definition demo_audio_mem :: audio_memory where
  "demo_audio_mem = \<lparr>methods_of = [16 \<mapsto> 32], open_of = [32 \<mapsto> 64]\<rparr>"

definition demo_audio_env :: "u32 \<Rightarrow> audio_env" where
  "demo_audio_env hmi tr c =
     (case c of A_dlopen p flags \<Rightarrow> (8, []) | A_dlsym h s \<Rightarrow> (hmi, []) | _ \<Rightarrow> (0, []))"

theorem audio_open_forwards_witness:
  "fst (legacy_adev_open demo_audio_abi demo_audio_mem (demo_audio_env 16) 1 ''audio_hw_if'' 2 []) = Inr 0"
  using audio_open_forwards [OF refl refl refl refl, of "demo_audio_env 16" "[]" demo_audio_abi
      demo_audio_mem 1 "''audio_hw_if''" 2 32 64]
  by (simp add: demo_audio_env_def demo_audio_mem_def audio_step_simps Let_def)

text \<open>
  A library that loads but lacks the module symbol stays loaded: each such call of
  \<open>legacy_adev_open\<close> leaves one more reference to it, which nothing can release.\<close>

theorem audio_open_leaks_handle:
  assumes "\<And>tr p flags. fst (env tr (A_dlopen p flags)) \<noteq> 0" and "\<And>tr h s. fst (env tr (A_dlsym h s)) = 0"
  shows "library_references (run (audio_step abi mem env) reqs tr)
           = library_references tr + int (length reqs)"
proof (induction reqs arbitrary: tr)
  case Nil
  show ?case by simp
next
  case (Cons req reqs)
  have "library_references (audio_step abi mem env req tr) = library_references tr + 1" for tr
    using assms by (simp add: audio_step_simps open_simps) (simp add: library_references_def)
  then show ?case using Cons.IH by simp
qed

theorem audio_open_leaks_handle_witness:
  "library_references (run (audio_step demo_audio_abi demo_audio_mem (demo_audio_env 0))
     [(1, ''a'', 2), (1, ''b'', 2), (1, ''c'', 2)] []) = 3"
  using audio_open_leaks_handle [of "demo_audio_env 0" demo_audio_abi demo_audio_mem
      "[(1, ''a'', 2), (1, ''b'', 2), (1, ''c'', 2)]" "[]"]
  by (simp add: demo_audio_env_def) (simp add: library_references_def)

end
