(* ===== verification/Boot_Image.thy ===== *)
theory Boot_Image
  imports C_Bytes
begin

text \<open>
  Packing of a boot image's ramdisk, src/pack.pl: a MediaTek header of 512 bytes is put in front
  of the file. The header is Perl's \<open>pack('a4 L a32 a472', ...)\<close>: a magic number, the length of
  the ramdisk as a 32-bit number in the byte order of the build host (little endian), the
  partition's signature padded or cut to 32 bytes, and 472 bytes of 0xFF.

  The recipes of src/bootimg.mk that build the two images around it are modelled as functions of
  the tools they call: the tools of the Android build (mkbootfs, minigzip, mkbootimg and the
  macro assert-max-image-size) are parameters, as are the variables \<open>INTERNAL_BOOTIMAGE_ARGS\<close> and
  \<open>INTERNAL_RECOVERYIMAGE_ARGS\<close> of the Android build, which name the kernel and the ramdisk among
  other options, and the two kernels.
\<close>

text \<open>Perl's \<open>a<n>\<close>: a string padded with NUL bytes, or cut, to \<open>n\<close> bytes.\<close>

definition pack_a :: "nat \<Rightarrow> u8 list \<Rightarrow> u8 list" where
  "pack_a n bs = take n bs @ replicate (n - length bs) 0"

text \<open>Perl's \<open>L\<close>: the low 32 bits of a number.\<close>

definition pack_L :: "nat \<Rightarrow> u8 list" where
  "pack_L n = le_bytes 4 (of_nat n :: u32)"

definition gen_header :: "u8 list \<Rightarrow> nat \<Rightarrow> u8 list" where
  "gen_header header_type len =
     pack_a 4 [0x88, 0x16, 0x88, 0x58] @ pack_L len @ pack_a 32 header_type
       @ pack_a 472 (replicate 472 0xFF)"

datatype repack_result =
    Died                    \<comment> \<open>the file cannot be read, or writing it fails\<close>
  | Repacked "u8 list"      \<comment> \<open>what the file holds afterwards\<close>

text \<open>
  \<open>repack_boot\<close>: the file's contents when it can be opened, and whether \<open>print\<close> succeeds.
\<close>

definition repack_boot :: "u8 list \<Rightarrow> u8 list option \<Rightarrow> bool \<Rightarrow> repack_result" where
  "repack_boot signature ramdiskfile print_ok =
     (case ramdiskfile of None \<Rightarrow> Died
      | Some ramdisk \<Rightarrow>
          let sizeramdisk = length ramdisk;
              header = gen_header signature sizeramdisk;
              newramdisk = header @ ramdisk
          in if print_ok then Repacked newramdisk else Died)"

section \<open>What a boot loader reads\<close>

text \<open>
  The reading the header is made for: after the magic number, the length and the signature, the
  image is what follows the 512 bytes.
\<close>

definition read_image :: "u8 list \<Rightarrow> (u8 list \<times> u8 list) option" where
  "read_image bs =
     (if take 4 bs = [0x88, 0x16, 0x88, 0x58]
      then Some (take 32 (drop 8 bs), take (nat (of_le_bytes (take 4 (drop 4 bs)))) (drop 512 bs))
      else None)"

lemma length_pack_a [simp]: "length (pack_a n bs) = n"
  by (simp add: pack_a_def)

lemma length_pack_L [simp]: "length (pack_L n) = 4"
  by (simp add: pack_L_def)

lemma length_gen_header [simp]: "length (gen_header ht n) = 512"
  by (simp add: gen_header_def)

lemma of_le_bytes_pack_L: "of_le_bytes (pack_L n) = int (n mod 2 ^ 32)"
  by (simp add: pack_L_def unsigned_of_nat take_bit_eq_mod zmod_int)

lemma gen_header_fields:
  "take 4 (gen_header ht n) = [0x88, 0x16, 0x88, 0x58]"
  "take 4 (drop 4 (gen_header ht n)) = pack_L n"
  "take 32 (drop 8 (gen_header ht n)) = pack_a 32 ht"
  "drop 40 (gen_header ht n) = replicate 472 0xFF"
proof -
  have "pack_a 4 [0x88, 0x16, 0x88, 0x58] = [0x88, 0x16, 0x88, 0x58 :: u8]" "pack_a 472 (replicate 472 0xFF) = replicate 472 (0xFF :: u8)"
    by (simp_all add: pack_a_def)
  then show "take 4 (gen_header ht n) = [0x88, 0x16, 0x88, 0x58]"
    "take 4 (drop 4 (gen_header ht n)) = pack_L n"
    "take 32 (drop 8 (gen_header ht n)) = pack_a 32 ht"
    "drop 40 (gen_header ht n) = replicate 472 0xFF"
    by (simp_all add: gen_header_def)
qed

lemma read_image_repacked:
  "read_image (gen_header ht n @ rd) = Some (pack_a 32 ht, take (n mod 2 ^ 32) rd)"
  by (simp add: read_image_def gen_header_fields of_le_bytes_pack_L del: power_numeral)

text \<open>
  Round trip of the packed image. Reading a repacked file gives back the signature padded or
  cut to 32 bytes and exactly the ramdisk, for every ramdisk shorter than 4 GiB; the file grows by
  512 bytes.\<close>

theorem repack_read_roundtrip:
  assumes "length ramdisk < 2 ^ 32"
  shows "\<exists>image. repack_boot signature (Some ramdisk) True = Repacked image
      \<and> length image = 512 + length ramdisk
      \<and> read_image image = Some (take 32 signature @ replicate (32 - length signature) 0, ramdisk)"
  using assms
  by (simp add: repack_boot_def Let_def read_image_repacked pack_a_def del: power_numeral)

theorem repack_read_roundtrip_witness:
  "\<exists>image. repack_boot [0x52, 0x4f, 0x4f, 0x54] (Some [1, 2, 3]) True = Repacked image
      \<and> read_image image = Some ([0x52, 0x4f, 0x4f, 0x54] @ replicate 28 0, [1, 2, 3])"
  using repack_read_roundtrip [of "[1, 2, 3]" "[0x52, 0x4f, 0x4f, 0x54]"] by auto

section \<open>The recipes of bootimg.mk\<close>

text \<open>
  A tool's run: what it wrote to its output, and whether it exited with status 0. The directory
  trees the file systems are made from have an arbitrary type.
\<close>

type_synonym tool_run = "u8 list \<times> bool"

record 'd boot_tools =
  MKBOOTFS :: "'d \<Rightarrow> tool_run"
  MINIGZIP :: "u8 list \<Rightarrow> tool_run"
  MKBOOTIMG :: "string \<Rightarrow> u8 list \<Rightarrow> u8 list \<Rightarrow> tool_run"
      \<comment> \<open>the arguments, and the kernel and the ramdisk file they name\<close>
  INTERNAL_BOOTIMAGE_ARGS :: string
  INTERNAL_RECOVERYIMAGE_ARGS :: string
  boot_kernel :: "u8 list"                              \<comment> \<open>the files the arguments name\<close>
  recovery_kernel :: "u8 list"
  assert_max_image_size :: "u8 list \<Rightarrow> nat \<Rightarrow> bool"
  pack_print_ok :: "u8 list \<Rightarrow> bool"                   \<comment> \<open>pack.pl can write the file back\<close>

definition BOARD_BOOTIMAGE_PARTITION_SIZE :: nat where
  "BOARD_BOOTIMAGE_PARTITION_SIZE = 16777216"
definition BOARD_RECOVERYIMAGE_PARTITION_SIZE :: nat where
  "BOARD_RECOVERYIMAGE_PARTITION_SIZE = 16777216"
definition BOARD_MKBOOTIMG_ARGS :: string where
  "BOARD_MKBOOTIMG_ARGS = ''--board 1432836589''"

text \<open>The calls of mkbootimg in the two recipes, on a ramdisk file.\<close>

definition mkbootimg_recovery :: "'d boot_tools \<Rightarrow> u8 list \<Rightarrow> tool_run" where
  "mkbootimg_recovery tools ramdisk =
     MKBOOTIMG tools (INTERNAL_RECOVERYIMAGE_ARGS tools @ '' '' @ BOARD_MKBOOTIMG_ARGS)
       (recovery_kernel tools) ramdisk"

definition mkbootimg_boot :: "'d boot_tools \<Rightarrow> u8 list \<Rightarrow> tool_run" where
  "mkbootimg_boot tools ramdisk =
     MKBOOTIMG tools (INTERNAL_BOOTIMAGE_ARGS tools @ '' '' @ BOARD_MKBOOTIMG_ARGS)
       (boot_kernel tools) ramdisk"

text \<open>A recipe gives \<open>None\<close> when one of its lines fails: make stops there.\<close>

definition pack_file :: "'d boot_tools \<Rightarrow> string \<Rightarrow> tool_run \<Rightarrow> u8 list option" where
  "pack_file tools signature zipped =
     (if snd zipped
      then case repack_boot (char_bytes signature) (Some (fst zipped)) (pack_print_ok tools (fst zipped)) of
          Died \<Rightarrow> None
        | Repacked file \<Rightarrow> Some file
      else None)"

definition recovery_uncompressed_ramdisk :: "'d boot_tools \<Rightarrow> 'd \<Rightarrow> u8 list option" where
  "recovery_uncompressed_ramdisk tools rootdir =
     (let (out, ok) = MKBOOTFS tools rootdir in if ok then Some out else None)"

definition recovery_ramdisk :: "'d boot_tools \<Rightarrow> 'd \<Rightarrow> u8 list option" where
  "recovery_ramdisk tools rootdir =
     (case recovery_uncompressed_ramdisk tools rootdir of
        None \<Rightarrow> None
      | Some ramdisk \<Rightarrow> pack_file tools ''RECOVERY'' (MINIGZIP tools ramdisk))"

definition INSTALLED_RECOVERYIMAGE_TARGET :: "'d boot_tools \<Rightarrow> 'd \<Rightarrow> u8 list option" where
  "INSTALLED_RECOVERYIMAGE_TARGET tools rootdir =
     (case recovery_ramdisk tools rootdir of
        None \<Rightarrow> None
      | Some ramdisk \<Rightarrow>
          let (image, ok) = mkbootimg_recovery tools ramdisk
          in if ok \<and> assert_max_image_size tools image BOARD_RECOVERYIMAGE_PARTITION_SIZE
             then Some image else None)"

text \<open>
  The boot ramdisk comes out of a pipe, whose status is that of its last command: whether
  mkbootfs succeeded is not looked at.
\<close>

definition INSTALLED_RAMDISK_TARGET :: "'d boot_tools \<Rightarrow> 'd \<Rightarrow> u8 list option" where
  "INSTALLED_RAMDISK_TARGET tools rootdir =
     pack_file tools ''ROOTFS'' (MINIGZIP tools (fst (MKBOOTFS tools rootdir)))"

text \<open>\<open>truncate -s n\<close>: cut to \<open>n\<close> bytes, or extended with zeros.\<close>

definition truncate_s :: "nat \<Rightarrow> u8 list \<Rightarrow> u8 list" where
  "truncate_s n bs = take n bs @ replicate (n - length bs) 0"

definition INSTALLED_BOOTIMAGE_TARGET :: "'d boot_tools \<Rightarrow> 'd \<Rightarrow> u8 list option" where
  "INSTALLED_BOOTIMAGE_TARGET tools rootdir =
     (case INSTALLED_RAMDISK_TARGET tools rootdir of
        None \<Rightarrow> None
      | Some ramdisk \<Rightarrow>
          let (image, ok) = mkbootimg_boot tools ramdisk
          in if ok \<and> assert_max_image_size tools image BOARD_BOOTIMAGE_PARTITION_SIZE
             then Some (truncate_s BOARD_BOOTIMAGE_PARTITION_SIZE image) else None)"

text \<open>
  What the recipes rely on: an image passes the size check only when it fits, and an image made
  by mkbootimg contains the kernel and the ramdisk, which a loader finds again whatever follows the
  image.
\<close>

definition size_check_law :: "'d boot_tools \<Rightarrow> bool" where
  "size_check_law tools \<longleftrightarrow>
     (\<forall>image limit. assert_max_image_size tools image limit \<longrightarrow> length image \<le> limit)"

definition mkbootimg_law ::
    "'d boot_tools \<Rightarrow> (u8 list \<Rightarrow> u8 list) \<Rightarrow> (u8 list \<Rightarrow> u8 list) \<Rightarrow> bool" where
  "mkbootimg_law tools kernel_of ramdisk_of \<longleftrightarrow>
     (\<forall>args kernel ramdisk image. MKBOOTIMG tools args kernel ramdisk = (image, True) \<longrightarrow>
        length ramdisk \<le> length image
        \<and> (\<forall>rest. kernel_of (image @ rest) = kernel \<and> ramdisk_of (image @ rest) = ramdisk))"

lemma pack_file_Some:
  assumes "pack_file tools signature zipped = Some file"
  shows "snd zipped" and "length file = 512 + length (fst zipped)"
    and "length file < 2 ^ 32 \<Longrightarrow>
      read_image file = Some (pack_a 32 (char_bytes signature), fst zipped)"
  using assms
  by (auto simp: pack_file_def repack_boot_def Let_def read_image_repacked
      split: if_splits simp del: power_numeral)

text \<open>What an image was made from, read the way a loader does.\<close>

lemma image_contents:
  assumes laws: "size_check_law tools" "mkbootimg_law tools kernel_of ramdisk_of"
    and pack: "pack_file tools signature zipped = Some file"
    and made: "MKBOOTIMG tools args kern file = (img, True)"
    and fits: "assert_max_image_size tools img limit"
    and limit: "limit < 2 ^ 32"
  shows "length img \<le> limit" and "kernel_of (img @ rest) = kern"
    and "read_image (ramdisk_of (img @ rest)) = Some (pack_a 32 (char_bytes signature), fst zipped)"
proof -
  show len: "length img \<le> limit"
    using laws(1) fits unfolding size_check_law_def by blast
  have img: "length file \<le> length img" "ramdisk_of (img @ rest) = file"
    using laws(2) made unfolding mkbootimg_law_def by blast+
  show "kernel_of (img @ rest) = kern"
    using laws(2) made unfolding mkbootimg_law_def by blast
  show "read_image (ramdisk_of (img @ rest)) = Some (pack_a 32 (char_bytes signature), fst zipped)"
    using pack_file_Some(3) [OF pack] img len limit by simp
qed

text \<open>When each image is produced, and what it is.\<close>

lemma boot_image_iff:
  "INSTALLED_BOOTIMAGE_TARGET tools rootdir = Some img \<longleftrightarrow>
     (\<exists>rd image. INSTALLED_RAMDISK_TARGET tools rootdir = Some rd
        \<and> mkbootimg_boot tools rd = (image, True)
        \<and> assert_max_image_size tools image BOARD_BOOTIMAGE_PARTITION_SIZE
        \<and> img = truncate_s BOARD_BOOTIMAGE_PARTITION_SIZE image)"
  unfolding INSTALLED_BOOTIMAGE_TARGET_def Let_def
  by (cases "INSTALLED_RAMDISK_TARGET tools rootdir") (auto split: if_splits prod.splits)

lemma recovery_image_iff:
  "INSTALLED_RECOVERYIMAGE_TARGET tools rootdir = Some img \<longleftrightarrow>
     snd (MKBOOTFS tools rootdir)
     \<and> (\<exists>rd. pack_file tools ''RECOVERY'' (MINIGZIP tools (fst (MKBOOTFS tools rootdir))) = Some rd
        \<and> mkbootimg_recovery tools rd = (img, True)
        \<and> assert_max_image_size tools img BOARD_RECOVERYIMAGE_PARTITION_SIZE)"
  unfolding INSTALLED_RECOVERYIMAGE_TARGET_def recovery_ramdisk_def
    recovery_uncompressed_ramdisk_def Let_def
  by (cases "MKBOOTFS tools rootdir";
      cases "pack_file tools ''RECOVERY'' (MINIGZIP tools (fst (MKBOOTFS tools rootdir)))")
    (auto split: if_splits prod.splits)

lemma partition_sizes:
  "BOARD_BOOTIMAGE_PARTITION_SIZE < 2 ^ 32" "BOARD_RECOVERYIMAGE_PARTITION_SIZE < 2 ^ 32"
  by (simp_all add: BOARD_BOOTIMAGE_PARTITION_SIZE_def BOARD_RECOVERYIMAGE_PARTITION_SIZE_def)

text \<open>
  C19: a boot image the recipes produce has exactly the size of the boot partition, and the
  loader finds in it the kernel, the ROOTFS header and exactly the compressed root file system; a
  recovery image is no larger than its partition and holds the recovery kernel, the RECOVERY header
  and the compressed recovery file system, and was only made when mkbootfs succeeded. An image is
  produced whenever the tools succeed and the size check passes.\<close>

theorem images_carry_ramdisk:
  assumes "size_check_law tools" and "mkbootimg_law tools kernel_of ramdisk_of"
  shows "(\<forall>image. INSTALLED_BOOTIMAGE_TARGET tools rootdir = Some image \<longrightarrow>
            length image = BOARD_BOOTIMAGE_PARTITION_SIZE \<and> kernel_of image = boot_kernel tools
            \<and> read_image (ramdisk_of image) = Some (char_bytes ''ROOTFS'' @ replicate 26 0,
                fst (MINIGZIP tools (fst (MKBOOTFS tools rootdir)))))
       \<and> (\<forall>image. INSTALLED_RECOVERYIMAGE_TARGET tools rootdir = Some image \<longrightarrow>
            length image \<le> BOARD_RECOVERYIMAGE_PARTITION_SIZE \<and> kernel_of image = recovery_kernel tools
            \<and> snd (MKBOOTFS tools rootdir)
            \<and> read_image (ramdisk_of image) = Some (char_bytes ''RECOVERY'' @ replicate 24 0,
                fst (MINIGZIP tools (fst (MKBOOTFS tools rootdir)))))
       \<and> (\<forall>ramdisk. INSTALLED_RAMDISK_TARGET tools rootdir = Some ramdisk
            \<and> snd (mkbootimg_boot tools ramdisk)
            \<and> assert_max_image_size tools (fst (mkbootimg_boot tools ramdisk)) BOARD_BOOTIMAGE_PARTITION_SIZE
            \<longrightarrow> (\<exists>image. INSTALLED_BOOTIMAGE_TARGET tools rootdir = Some image))"
proof (rule conjI, intro allI impI)
  fix image
  assume "INSTALLED_BOOTIMAGE_TARGET tools rootdir = Some image"
  then obtain rd img where rd: "pack_file tools ''ROOTFS'' (MINIGZIP tools (fst (MKBOOTFS tools rootdir))) = Some rd"
    and made: "mkbootimg_boot tools rd = (img, True)"
      "assert_max_image_size tools img BOARD_BOOTIMAGE_PARTITION_SIZE"
    and image: "image = truncate_s BOARD_BOOTIMAGE_PARTITION_SIZE img"
    unfolding boot_image_iff INSTALLED_RAMDISK_TARGET_def by blast
  note contents = image_contents [OF assms rd made(1) [unfolded mkbootimg_boot_def] made(2) partition_sizes(1)]
  have "image = img @ replicate (BOARD_BOOTIMAGE_PARTITION_SIZE - length img) 0"
    using image contents(1) by (simp add: truncate_s_def)
  with contents show "length image = BOARD_BOOTIMAGE_PARTITION_SIZE \<and> kernel_of image = boot_kernel tools
      \<and> read_image (ramdisk_of image) = Some (char_bytes ''ROOTFS'' @ replicate 26 0,
          fst (MINIGZIP tools (fst (MKBOOTFS tools rootdir))))"
    by (simp add: pack_a_def)
next
  have "length image \<le> BOARD_RECOVERYIMAGE_PARTITION_SIZE \<and> kernel_of image = recovery_kernel tools
      \<and> snd (MKBOOTFS tools rootdir)
      \<and> read_image (ramdisk_of image) = Some (char_bytes ''RECOVERY'' @ replicate 24 0,
          fst (MINIGZIP tools (fst (MKBOOTFS tools rootdir))))"
    if made: "INSTALLED_RECOVERYIMAGE_TARGET tools rootdir = Some image" for image
  proof -
    from made obtain rd where rd: "pack_file tools ''RECOVERY'' (MINIGZIP tools (fst (MKBOOTFS tools rootdir))) = Some rd"
      and made: "mkbootimg_recovery tools rd = (image, True)"
        "assert_max_image_size tools image BOARD_RECOVERYIMAGE_PARTITION_SIZE"
      and ok: "snd (MKBOOTFS tools rootdir)"
      unfolding recovery_image_iff by blast
    note contents = image_contents [OF assms rd made(1) [unfolded mkbootimg_recovery_def] made(2) partition_sizes(2)]
    from ok contents(1) contents(2,3) [of "[]"] show ?thesis by (simp add: pack_a_def)
  qed
  moreover have "\<exists>image. INSTALLED_BOOTIMAGE_TARGET tools rootdir = Some image"
    if "INSTALLED_RAMDISK_TARGET tools rootdir = Some ramdisk" "snd (mkbootimg_boot tools ramdisk)"
      "assert_max_image_size tools (fst (mkbootimg_boot tools ramdisk)) BOARD_BOOTIMAGE_PARTITION_SIZE" for ramdisk
    using that unfolding boot_image_iff by (metis prod.collapse)
  ultimately show "(\<forall>image. INSTALLED_RECOVERYIMAGE_TARGET tools rootdir = Some image \<longrightarrow>
            length image \<le> BOARD_RECOVERYIMAGE_PARTITION_SIZE \<and> kernel_of image = recovery_kernel tools
            \<and> snd (MKBOOTFS tools rootdir)
            \<and> read_image (ramdisk_of image) = Some (char_bytes ''RECOVERY'' @ replicate 24 0,
                fst (MINIGZIP tools (fst (MKBOOTFS tools rootdir)))))
       \<and> (\<forall>ramdisk. INSTALLED_RAMDISK_TARGET tools rootdir = Some ramdisk
            \<and> snd (mkbootimg_boot tools ramdisk)
            \<and> assert_max_image_size tools (fst (mkbootimg_boot tools ramdisk)) BOARD_BOOTIMAGE_PARTITION_SIZE
            \<longrightarrow> (\<exists>image. INSTALLED_BOOTIMAGE_TARGET tools rootdir = Some image))"
    by blast
qed

text \<open>
  Tools for which the laws hold: the file system is the list of its bytes, nothing is compressed,
  and an image is the lengths of the ramdisk and the kernel followed by both.
\<close>

definition demo_tools :: "u8 list boot_tools" where
  "demo_tools = \<lparr>MKBOOTFS = (\<lambda>d. (d, True)), MINIGZIP = (\<lambda>bs. (bs, True)),
     MKBOOTIMG = (\<lambda>args k rd. (le_bytes 4 (of_nat (length rd) :: u32) @ le_bytes 4 (of_nat (length k) :: u32) @ rd @ k,
        length rd < 2 ^ 32 \<and> length k < 2 ^ 32)),
     INTERNAL_BOOTIMAGE_ARGS = ''--kernel kernel --ramdisk ramdisk.img'',
     INTERNAL_RECOVERYIMAGE_ARGS = ''--kernel kernel --ramdisk ramdisk-recovery.img'',
     boot_kernel = [7, 7], recovery_kernel = [8],
     assert_max_image_size = (\<lambda>image limit. length image \<le> limit), pack_print_ok = (\<lambda>_. True)\<rparr>"

definition demo_size :: "nat \<Rightarrow> u8 list \<Rightarrow> nat" where
  "demo_size k bs = nat (of_le_bytes (take 4 (drop k bs)))"

definition demo_ramdisk_of :: "u8 list \<Rightarrow> u8 list" where
  "demo_ramdisk_of bs = take (demo_size 0 bs) (drop 8 bs)"

definition demo_kernel_of :: "u8 list \<Rightarrow> u8 list" where
  "demo_kernel_of bs = take (demo_size 4 bs) (drop (8 + demo_size 0 bs) bs)"

lemma demo_tools_laws: "size_check_law demo_tools" "mkbootimg_law demo_tools demo_kernel_of demo_ramdisk_of"
proof -
  have "nat (uint (of_nat n :: u32)) = n" if "n < 2 ^ 32" for n
    using that by (simp add: unsigned_of_nat take_bit_nat_eq_self)
  then show "mkbootimg_law demo_tools demo_kernel_of demo_ramdisk_of"
    by (auto simp: mkbootimg_law_def demo_tools_def demo_ramdisk_of_def demo_kernel_of_def demo_size_def
        simp del: power_numeral)
  show "size_check_law demo_tools"
    by (simp add: size_check_law_def demo_tools_def)
qed

theorem images_carry_ramdisk_witness:
  "\<exists>image. INSTALLED_BOOTIMAGE_TARGET demo_tools [1, 2, 3] = Some image
     \<and> length image = BOARD_BOOTIMAGE_PARTITION_SIZE \<and> demo_kernel_of image = [7, 7]
     \<and> read_image (demo_ramdisk_of image) = Some (char_bytes ''ROOTFS'' @ replicate 26 0, [1, 2, 3])"
proof -
  let ?rd = "gen_header (char_bytes ''ROOTFS'') (length [1, 2, 3 :: u8]) @ [1, 2, 3]"
  have "INSTALLED_RAMDISK_TARGET demo_tools [1, 2, 3] = Some ?rd"
    by (simp add: INSTALLED_RAMDISK_TARGET_def pack_file_def repack_boot_def demo_tools_def Let_def)
  moreover have "snd (mkbootimg_boot demo_tools ?rd)"
    by (simp add: demo_tools_def mkbootimg_boot_def)
  moreover have "assert_max_image_size demo_tools (fst (mkbootimg_boot demo_tools ?rd))
      BOARD_BOOTIMAGE_PARTITION_SIZE"
    by (simp add: demo_tools_def mkbootimg_boot_def BOARD_BOOTIMAGE_PARTITION_SIZE_def)
  ultimately obtain image where "INSTALLED_BOOTIMAGE_TARGET demo_tools [1, 2, 3] = Some image"
    using images_carry_ramdisk [OF demo_tools_laws, of "[1, 2, 3]"] by blast
  moreover have "fst (MINIGZIP demo_tools (fst (MKBOOTFS demo_tools [1, 2, 3]))) = [1, 2, 3]"
    "boot_kernel demo_tools = [7, 7]"
    by (simp_all add: demo_tools_def)
  ultimately show ?thesis
    using images_carry_ramdisk [OF demo_tools_laws, of "[1, 2, 3]"] by metis
qed

text \<open>
  The two file systems are not built alike: when mkbootfs fails, no recovery image is made, but
  the boot ramdisk is packed from whatever mkbootfs had written.
\<close>

theorem mkbootfs_failure_unnoticed:
  assumes "\<not> snd (MKBOOTFS tools rootdir)"
  shows "recovery_ramdisk tools rootdir = None
    \<and> INSTALLED_RAMDISK_TARGET tools rootdir
        = INSTALLED_RAMDISK_TARGET (tools\<lparr>MKBOOTFS := \<lambda>d. (fst (MKBOOTFS tools d), True)\<rparr>) rootdir"
  using assms
  by (simp add: recovery_ramdisk_def recovery_uncompressed_ramdisk_def case_prod_beta
      INSTALLED_RAMDISK_TARGET_def pack_file_def)

end
