(* ===== verification/Xlog.thy ===== *)
theory Xlog
  imports C_Prelude
begin

text \<open>
  src/libxlog/xlog.c: the logging entry point that prebuilt MediaTek libraries call, forwarded to
  the platform's logger, and the empty hooks around it. A variable argument list is the list of its
  machine words.
\<close>

record xlog_record =
  tag_str :: string
  fmt_str :: string
  prio :: int

datatype xcall = Log_pri_va int string string "u32 list"

type_synonym xlog_trace = "(xcall, int) trace"
type_synonym xlog_env = "(xcall, int) env"

definition xlog_buf_printf ::
    "xlog_env \<Rightarrow> int \<Rightarrow> xlog_record option \<Rightarrow> u32 list \<Rightarrow> xlog_trace \<Rightarrow> int result \<times> xlog_trace" where
  "xlog_buf_printf env bufid rec args tr =
     (case rec of None \<Rightarrow> (Inl Null_Deref, tr)
      | Some r \<Rightarrow> let (_, tr1) = ask env (Log_pri_va (prio r) (tag_str r) (fmt_str r) args) tr in (Inr 0, tr1))"

text \<open>
  The constructor and the two hooks of the dynamic linker: they do nothing. The hooks are declared
  \<open>void\<close> and their \<open>return 0\<close> gives the caller no value.
\<close>

definition xlog_init :: "xlog_trace \<Rightarrow> xlog_trace" where
  "xlog_init tr = tr"

definition dl_unregister_notify_function :: "xlog_trace \<Rightarrow> unit \<times> xlog_trace" where
  "dl_unregister_notify_function tr = ((), tr)"

definition dl_register_notify_function :: "u32 \<Rightarrow> u32 \<Rightarrow> xlog_trace \<Rightarrow> unit \<times> xlog_trace" where
  "dl_register_notify_function load_notify unload_notify tr = ((), tr)"

text \<open>A call with a record makes exactly one log call and returns 0 whatever the logger answers.\<close>

lemma xlog_buf_printf_forwards:
  assumes "c = Log_pri_va (prio r) (tag_str r) (fmt_str r) args"
  shows "xlog_buf_printf env bufid (Some r) args tr
     = (Inr 0, tr @ [(c, env tr c)])"
  using assms by (simp add: xlog_buf_printf_def ask_def)

interpretation xlog: trace_recorder
    "\<lambda>(b, r, args) tr. snd (xlog_buf_printf env b r args tr)" "\<lambda>tr. tr" for env
  by unfold_locales (auto simp: xlog_buf_printf_def ask_def split: option.split)

end
