(* ===== verification/Spec2Isabelle.thy ===== *)
theory Spec2Isabelle
  imports Lights_Threads_Correct Lights_Device BT_Correct Driver_Reports RIL_Ledger Audio_Shims Boot_Image Xlog
begin

text \<open>
  Verification of the code of the Gionee P4 / Wiko Rainbow device tree (MediaTek MT6582,
  32-bit ARM, Android). The repository holds hardware libraries that Android's services load, a class
  of the telephony framework and a build script; they share no state with each other, and each talks to
  the kernel, to a prebuilt vendor library or to the framework:

  \<^item> src/liblight/lights.c, the light HAL: three lights share one RGB LED, two more are plain;
  \<^item> src/libbt-vendor-mtk/libbt-vendor-mtk.c, the Bluetooth vendor library: loads the driver library
    and hands its file descriptor to the Bluetooth stack;
  \<^item> src/wpa_supplicant_8_lib/mediatek_driver_cmd_nl80211.c with mediatek_driver_nl80211.h, the
    private driver commands of the Wi-Fi supplicant: a netlink test-mode channel, two reports and a
    command interpreter;
  \<^item> src/ril/telephony/java/com/android/internal/telephony/MediaTekRIL.java, the radio interface layer:
    reads the modem's answers and messages out of parcels and translates them for the framework;
  \<^item> src/audio/audio.cpp, an audio HAL that loads the vendor's and hands calls on, and
    src/libxlog/mtkaudio.cpp, empty entry points for prebuilt libraries;
  \<^item> src/libxlog/xlog.c, a shim that forwards log calls of prebuilt libraries;
  \<^item> src/pack.pl, which puts the header of a MediaTek boot image in front of a ramdisk, and src/bootimg.mk,
    the recipes that build the boot and the recovery image with it.

  \<^bold>\<open>How the code is modelled.\<close> A structure is a record, static variables are a record passed
  through the operations, machine integers are words of their width where they wrap. Every call that
  leaves the repository (system calls, the allocator, the dynamic linker, libnl, the supplicant's own
  functions) is answered by an environment, an arbitrary function of the whole history of calls, and is
  recorded in a trace with its answer; theorems without a hypothesis on the environment hold for every
  behaviour of the outside. Undefined behaviour is a value: a null, uninitialised or dangling pointer, a
  write or read past an array, a text printed into a buffer shorter than the size passed with it, or a
  structure of the wrong type yields a fault of the type \<open>fault\<close>, and the theorems say when that can
  happen. The one exception is the read of \<open>reserved[32]\<close>, described under Parameters. An array of a
  fixed size that is written as a whole has its size in its type (\<open>macaddr\<close>), and the one floating-point
  field has the values of a \<open>double\<close>, infinities and not-a-number included. Logging is not modelled,
  except where a caller reads \<open>errno\<close> after it: the error message of a failed open in lights.c is a call
  of the environment.

  \<^bold>\<open>Theories.\<close>

  \<^item> C_Prelude: integer types, faults, environment calls, and the interfaces as locales:
    \<open>guarded_system\<close> and \<open>invariant_system\<close> (an invariant over sequences of operations), \<open>simulation\<close>
    (refinement of an abstract step function), \<open>trace_recorder\<close> (the history only grows),
    \<open>step_system\<close> and \<open>ending_system\<close> (an invariant of a step relation, and that its runs end and can be
    completed).
  \<^item> C_Text: the parts of the C string library the sources use (\<open>snprintf\<close> with its conversions and its
    bound, \<open>strtol\<close>, \<open>atoi\<close>, comparison, \<open>strchr\<close>), with the round trips of printed numbers and the
    contents of a buffer after a chain of guarded \<open>snprintf\<close> calls. C_Bytes: numbers as little-endian
    bytes and back.
  \<^item> Lights: every function of lights.c under its own name; Lights_Spec: the abstract priority
    multiplexer, the replay of the sysfs writes and the mutex automaton; Lights_Correct: the refinement,
    the state of the LED's files, locking, brightness, errors.
  \<^item> Lights_Threads: the same functions cut into single instructions (\<open>set_light_instrs\<close>, \<open>exec_instr\<close>:
    taking or releasing the mutex, one access to a static variable or one system call each) and the
    relation \<open>lstep\<close> of any number of threads that call them; a thread waits only at its own \<open>I_lock\<close>
    instruction. Lights_Threads_Correct: every access to what the threads share is made by the holder of
    the mutex, linearizability (the interleaved calls do and return what the sequential functions do in
    the order the mutex is taken), termination of every schedule, and the LED after concurrent calls.
  \<^item> Lights_Device: sessions in which the framework opens lights by name, sets them through their handles
    and closes them (\<open>session_step\<close> composes \<open>open_lights\<close>, the five entry points and \<open>close_lights\<close>):
    refinement of an abstract session, the mutex initialised once and before its first use, and every
    allocated device freed once.
  \<^item> BT_Vendor: the static variables and the functions \<open>mtk_init\<close>, \<open>mtk_op\<close>, \<open>mtk_open\<close>, \<open>mtk_close\<close>,
    \<open>mtk_cleanup\<close>; BT_Correct: sessions never fault on a usable driver library, descriptor and handle
    discipline, and where the code does not report or undo failures.
  \<^item> Wireless_Ext: the structures of the wireless extensions in mediatek_driver_nl80211.h, their layout
    in memory, and the request for a country code.
  \<^item> Testmode: lines 26 to 576 and 743 to 865 of mediatek_driver_cmd_nl80211.c, the driver's data with its
    pointer to what all its interfaces share (\<open>drv_global\<close>, null included), the request structures, the
    three reply handlers, \<open>wpa_driver_nl80211_testmode\<close> and the functions that build requests;
    Testmode_Correct: order of the calls and error paths, type safety of the dispatch (the locale
    \<open>testmode_request\<close>, interpreted for each of the six requests), the handlers as direct readings of
    the attributes, the WAPI key limits.
  \<^item> Testmode_Layout: the request structures as bytes on 32-bit ARM, and what the kernel finds at each
    offset of the attribute it receives.
  \<^item> Sta_Stats: \<open>print_sta_statistics\<close> and the two report commands down to the bytes of the buffer (a
    chain of guarded \<open>snprintf\<close> calls that faults when one would leave the array);
    Sta_Stats_Correct: the text, the bounds, truncation, a sufficient buffer size.
  \<^item> Driver_Cmd: \<open>wpa_driver_nl80211_driver_cmd\<close> with one definition \<open>dc_...\<close> per branch, the country code,
    the Wi-Fi Direct test commands and the \<open>mcc\<close> walk over the linked list of interfaces in a heap of
    the supplicant's objects; Driver_Correct: what holds of every branch holds of the dispatch (the
    locale \<open>command_contract\<close>, interpreted once for the bounds of the buffer and once for the absence of
    faults), the effect and the termination of \<open>mcc\<close>, and the commands one by one. Driver_Reports: the
    command \<open>GET_STA_STATISTICS\<close> from the command's text to the report in the caller's buffer, over all
    the layers above.
  \<^item> MTK_RIL: the operations of MediaTekRIL under their own names, the two switches of the message
    dispatch as tables in the order of the source; RIL_Correct: hexadecimal names, network lists,
    answers delivered exactly once, messages forwarded under the right code, incoming calls.
    RIL_Ledger: any sequence of calls, those of inherited methods included (\<open>Op_inherited\<close>: a request put
    on the superclass's list), and that every message the class accepts is answered once or still waits;
    the list is used through the laws \<open>request_list_law\<close> and \<open>nothing_lost\<close>.
  \<^item> Audio_Shims: \<open>legacy_adev_open\<close> behind the module's method table, and the empty entry points with
    their declared types; Boot_Image: \<open>gen_header\<close> and \<open>repack_boot\<close> of pack.pl with the reading of a
    packed image, and the five recipes of bootimg.mk as functions of the tools, their arguments and the
    two kernels; Xlog: the forwarding log call and the empty hooks.

  \<^bold>\<open>Bounds and termination.\<close> All operations are total functions except the \<open>mcc\<close> loop, which is a
  \<open>partial_function\<close> over the list of interfaces: it is proved to end, with its exact effect, on every
  list that ends in a null pointer, and \<open>mcc_loop_self\<close> shows that it does not end on a cycle. The threads
  of the light HAL are a relation; each step makes \<open>machine_work\<close> smaller, the number of instructions
  that can still follow. No fuel is used anywhere.

  \<^bold>\<open>Parameters.\<close> libnl is the record \<open>libnl\<close> of the functions the handlers call (the only law used is that
  \<open>nla_memcpy\<close> respects the given size), constants and structure sizes of headers outside the repository
  are the record \<open>wifi_abi\<close> (with \<open>hwaddr_aton\<close>) and \<open>bt_abi\<close>, and the build switches are \<open>wifi_cfg\<close>.
  The examples use \<open>tlv_libnl\<close>, a library that reads little-endian attribute lists. The framework
  of the radio layer is the record \<open>ril_env\<close>; what is used of its parcels is \<open>parcel_ok\<close> (numbers with a
  position, writing replaces one of them), and the examples use \<open>word_env\<close>, whose parcels are lists of
  numbers. The tools of the Android build, their arguments and the two kernels are the record
  \<open>boot_tools\<close>, with the laws \<open>size_check_law\<close> and \<open>mkbootimg_law\<close>. What the memory of the loaded audio
  library holds is \<open>audio_memory\<close>. The value of \<open>wpa_config_parse_string\<close> is only logged and therefore left out. One argument of
  \<open>print_sta_statistics\<close> is read past its array but never used; the model records the index it reads
  and goes on, as the compiled code does.

  \<^bold>\<open>Not modelled.\<close> Logging; make files, init scripts, policies, properties and resource overlays, which
  hold no program logic (bootimg.mk apart); the tools of the Android build; the platform's binder interface from
  which the empty service class of mtkaudio.cpp derives.
\<close>

end
